(* ===== verification/Prelude.thy ===== *)
theory Prelude
  imports Main "HOL-Library.Word" "HOL-Library.Sublist"
begin

text \<open>
  Shared vocabulary of the development: the machine integers of the program, their
  big-endian byte encodings (\<open>u16::from_be_bytes\<close>, \<open>u32::to_be_bytes\<close>, ...), decimal
  rendering as done by \<open>format!\<close>, and the outcome type of code that can return, fail with
  an error value, panic, or stay pending forever. The lemma collections declared here are
  filled by the component theories:
  \<^item> \<open>exact_intros\<close>: rules that derive the contract of a composed decoder;
  \<^item> \<open>wire_defs\<close>: the definitions of the wire formats of message parts and bodies;
  \<^item> \<open>exec_simps\<close>: inversion equations of the operations that run in the outcome monad.
\<close>

named_theorems exact_intros
named_theorems wire_defs
named_theorems exec_simps

section \<open>Machine integers and big-endian bytes\<close>

unbundle bit_operations_syntax

type_synonym u8 = "8 word"
type_synonym u16 = "16 word"
type_synonym u32 = "32 word"

definition u16_from_be_bytes :: "u8 \<Rightarrow> u8 \<Rightarrow> u16" where
  "u16_from_be_bytes a b = push_bit 8 (ucast a) OR ucast b"

definition u16_to_be_bytes :: "u16 \<Rightarrow> u8 list" where
  "u16_to_be_bytes w = [ucast (drop_bit 8 w), ucast w]"

definition u32_from_be_bytes :: "u8 \<Rightarrow> u8 \<Rightarrow> u8 \<Rightarrow> u8 \<Rightarrow> u32" where
  "u32_from_be_bytes a b c d =
     push_bit 24 (ucast a) OR push_bit 16 (ucast b) OR push_bit 8 (ucast c) OR ucast d"

definition u32_to_be_bytes :: "u32 \<Rightarrow> u8 list" where
  "u32_to_be_bytes w =
     [ucast (drop_bit 24 w), ucast (drop_bit 16 w), ucast (drop_bit 8 w), ucast w]"

lemma length_u16_to_be_bytes [simp]: "length (u16_to_be_bytes w) = 2"
  by (simp add: u16_to_be_bytes_def)

lemma length_u32_to_be_bytes [simp]: "length (u32_to_be_bytes w) = 4"
  by (simp add: u32_to_be_bytes_def)

lemma u8_no_high_bit [simp]: "8 \<le> n \<Longrightarrow> \<not> bit (b :: u8) n"
  using bit_imp_le_length [of b n] by auto

lemma u16_from_to_be_bytes:
  "u16_from_be_bytes (u16_to_be_bytes w ! 0) (u16_to_be_bytes w ! 1) = w"
  unfolding u16_from_be_bytes_def u16_to_be_bytes_def
  by (rule bit_word_eqI) (auto simp: bit_simps)

lemma u16_to_from_be_bytes: "u16_to_be_bytes (u16_from_be_bytes a b) = [a, b]"
  unfolding u16_from_be_bytes_def u16_to_be_bytes_def
  by (auto intro!: bit_word_eqI simp: bit_simps)

lemma u32_from_to_be_bytes:
  "u32_from_be_bytes (u32_to_be_bytes w ! 0) (u32_to_be_bytes w ! 1)
     (u32_to_be_bytes w ! 2) (u32_to_be_bytes w ! 3) = w"
proof (rule bit_word_eqI)
  fix n
  assume "n < LENGTH(32)"
  then consider "n < 8" | "8 \<le> n" "n < 16" | "16 \<le> n" "n < 24" | "24 \<le> n" "n < 32"
    by force
  then show "bit (u32_from_be_bytes (u32_to_be_bytes w ! 0) (u32_to_be_bytes w ! 1)
      (u32_to_be_bytes w ! 2) (u32_to_be_bytes w ! 3)) n \<longleftrightarrow> bit w n"
    by cases (auto simp: u32_from_be_bytes_def u32_to_be_bytes_def bit_simps)
qed

lemma u32_to_from_be_bytes: "u32_to_be_bytes (u32_from_be_bytes a b c d) = [a, b, c, d]"
  unfolding u32_from_be_bytes_def u32_to_be_bytes_def
  by (auto intro!: bit_word_eqI simp: bit_simps)

lemma u16_to_be_bytes_inject [simp]: "u16_to_be_bytes v = u16_to_be_bytes w \<longleftrightarrow> v = w"
  by (metis u16_from_to_be_bytes)

lemma u32_to_be_bytes_inject [simp]: "u32_to_be_bytes v = u32_to_be_bytes w \<longleftrightarrow> v = w"
  by (metis u32_from_to_be_bytes)

lemma list_of_length_2: "length xs = 2 \<longleftrightarrow> (\<exists>a b. xs = [a, b])"
  by (auto simp: numeral_2_eq_2 length_Suc_conv)

lemma list_of_length_4: "length xs = 4 \<longleftrightarrow> (\<exists>a b c d. xs = [a, b, c, d])"
  by (auto simp: numeral_eq_Suc length_Suc_conv)

lemma foldl_snoc: "foldl (\<lambda>xs x. xs @ [x]) acc ys = acc @ ys"
  by (induction ys arbitrary: acc) simp_all

text \<open>Two bytes of a slice are the big-endian bytes of the value read from them, and
  likewise four bytes: the inversion used wherever a fixed-width integer is taken.\<close>

lemma be_u16_iff:
  "length xs = 2 \<Longrightarrow> u16_from_be_bytes (xs ! 0) (xs ! 1) = w \<longleftrightarrow> xs = u16_to_be_bytes w"
  using u16_from_to_be_bytes [of w] by (auto simp: list_of_length_2 u16_to_from_be_bytes)

lemma be_u32_iff:
  "length xs = 4 \<Longrightarrow>
    u32_from_be_bytes (xs ! 0) (xs ! 1) (xs ! 2) (xs ! 3) = w \<longleftrightarrow> xs = u32_to_be_bytes w"
  using u32_from_to_be_bytes [of w] by (auto simp: list_of_length_4 u32_to_from_be_bytes)

text \<open>Lengths and counts: an unsigned or signed field has the value \<open>n\<close> exactly when it is
  the encoding of \<open>n\<close> and \<open>n\<close> is in range.\<close>

lemma unat_eq_iff: "unat (c :: 'a::len word) = n \<longleftrightarrow> n < 2 ^ LENGTH('a) \<and> c = word_of_nat n"
  by (auto simp: word_unat_eq_iff unat_of_nat)

lemma unat_u32_minus_1 [simp]: "unat (- 1 :: u32) = 4294967295"
proof -
  have "(- 1 :: u32) = 4294967295" by simp
  moreover have "unat (4294967295 :: u32) = 4294967295" by simp
  ultimately show ?thesis by (simp only:)
qed

lemma unat_u32_bound: "unat (w :: u32) < 4294967296"
proof -
  have "unat w < 2 ^ LENGTH(32)" by (rule unsigned_less)
  then show ?thesis by simp
qed

lemma sint_u32_eq_minus_1: "sint (v :: u32) = - 1 \<longleftrightarrow> v = - 1"
  by (auto intro: signed_word_eqI)

lemma sint_u32_of_nat: "n < 2 ^ 31 \<Longrightarrow> sint (word_of_nat n :: u32) = int n"
  by (simp add: signed_of_nat signed_take_bit_int_eq_self)

lemma sint_u32_nonneg_iff:
  "0 \<le> sint (v :: u32) \<and> nat (sint v) = n \<longleftrightarrow> n < 2 ^ 31 \<and> v = word_of_nat n"
proof
  assume a: "0 \<le> sint v \<and> nat (sint v) = n"
  have "sint v < 2 ^ 31" using sint_lt [of v] by simp
  with a have n: "n < 2 ^ 31" by (auto simp: nat_less_iff)
  have "sint v = sint (word_of_nat n :: u32)"
    unfolding sint_u32_of_nat [OF n] using a by linarith
  with n show "n < 2 ^ 31 \<and> v = word_of_nat n" by (blast intro: signed_word_eqI)
qed (auto simp: sint_u32_of_nat)

section \<open>Decimal rendering\<close>

text \<open>What \<open>format!("{}", x)\<close> writes for an unsigned and for a signed integer.\<close>

fun show_nat :: "nat \<Rightarrow> string" where
  "show_nat n =
     (if n < 10 then [char_of (48 + n)] else show_nat (n div 10) @ [char_of (48 + n mod 10)])"

declare show_nat.simps [simp del]

definition show_int :: "int \<Rightarrow> string" where
  "show_int i = (if i < 0 then CHR ''-'' # show_nat (nat (- i)) else show_nat (nat i))"

section \<open>Outcomes of effectful code\<close>

text \<open>
  An \<open>async fn\<close> of the program ends in one of three ways or does not end: it returns a
  value, returns an error (\<open>Err\<close>, propagated by \<open>?\<close>), panics, or its future stays
  pending for the rest of the run. \<open>prog\<close> threads the state the code mutates; the state is
  observable after every outcome.
\<close>

datatype ('e, 'a) outcome = Return 'a | Throw 'e | Panic string | Blocked

type_synonym ('s, 'e, 'a) prog = "'s \<Rightarrow> ('e, 'a) outcome \<times> 's"

definition return :: "'a \<Rightarrow> ('s, 'e, 'a) prog" where
  "return x s = (Return x, s)"

definition throw :: "'e \<Rightarrow> ('s, 'e, 'a) prog" where
  "throw e s = (Throw e, s)"

definition bind_prog :: "('s, 'e, 'a) prog \<Rightarrow> ('a \<Rightarrow> ('s, 'e, 'b) prog) \<Rightarrow> ('s, 'e, 'b) prog" where
  "bind_prog m k s =
     (case m s of
        (Return x, s') \<Rightarrow> k x s'
      | (Throw e, s') \<Rightarrow> (Throw e, s')
      | (Panic p, s') \<Rightarrow> (Panic p, s')
      | (Blocked, s') \<Rightarrow> (Blocked, s'))"

text \<open>\<open>map_err f m\<close> is \<open>m.map_err(f)\<close>.\<close>

definition map_err :: "('e \<Rightarrow> 'f) \<Rightarrow> ('s, 'e, 'a) prog \<Rightarrow> ('s, 'f, 'a) prog" where
  "map_err f m s =
     (case m s of
        (Return x, s') \<Rightarrow> (Return x, s')
      | (Throw e, s') \<Rightarrow> (Throw (f e), s')
      | (Panic p, s') \<Rightarrow> (Panic p, s')
      | (Blocked, s') \<Rightarrow> (Blocked, s'))"

lemma return_simps [simp]: "return x s = (Return x, s)"
  by (simp add: return_def)

lemma throw_simps [simp]: "throw e s = (Throw e, s)"
  by (simp add: throw_def)

lemma bind_prog_Return [exec_simps]:
  "bind_prog m k s = (Return y, s'') \<longleftrightarrow>
     (\<exists>x s'. m s = (Return x, s') \<and> k x s' = (Return y, s''))"
  by (auto simp: bind_prog_def split: outcome.splits prod.splits)

lemma map_err_Return [exec_simps]: "map_err f m s = (Return x, s') \<longleftrightarrow> m s = (Return x, s')"
  by (auto simp: map_err_def split: outcome.splits prod.splits)

lemma map_err_Throw [exec_simps]:
  "map_err f m s = (Throw e, s') \<longleftrightarrow> (\<exists>e'. m s = (Throw e', s') \<and> e = f e')"
  by (auto simp: map_err_def split: outcome.splits prod.splits)

lemma map_err_state [simp]: "snd (map_err f m s) = snd (m s)"
  by (auto simp: map_err_def split: outcome.splits prod.splits)

text \<open>A step of a sequence either ends the sequence with its own outcome and state, or
  returns and hands its state to the rest.\<close>

lemma bind_prog_cases:
  assumes "bind_prog m k s = (r, s'')"
  obtains (stop) r' where "m s = (r', s'')" "\<And>x. r' \<noteq> Return x" "\<And>x. r \<noteq> Return x"
  | (go) x s' where "m s = (Return x, s')" "k x s' = (r, s'')"
  using assms by (auto simp: bind_prog_def split: outcome.splits prod.splits)

text \<open>Laws of sequencing.\<close>

lemma bind_prog_assoc: "bind_prog (bind_prog m f) g = bind_prog m (\<lambda>x. bind_prog (f x) g)"
  by (auto simp: bind_prog_def fun_eq_iff split: prod.splits outcome.splits)

lemma bind_return: "bind_prog (return x) k = k x"
  by (simp add: bind_prog_def fun_eq_iff)

lemma bind_option_case:
  "bind_prog (case x of None \<Rightarrow> throw e | Some y \<Rightarrow> f y) k =
     (case x of None \<Rightarrow> throw e | Some y \<Rightarrow> bind_prog (f y) k)"
  by (cases x) (simp_all add: bind_prog_def fun_eq_iff)

end
