(* ===== verification/Type_Byte.thy ===== *)
theory Type_Byte
  imports Prelude
begin

text \<open>
  Message type bytes, \<open>src/src/msg/type_byte.rs\<close>: the enumeration and its two derived
  conversions, \<open>IntoPrimitive\<close> (\<open>type_byte.into()\<close>) and \<open>TryFromPrimitive\<close>
  (\<open>TypeByte::try_from\<close>, an error on a byte that is no discriminant).
\<close>

datatype TypeByte =
    Authentication
  | BackendKeyData
  | Bind
  | BindComplete
  | CommandComplete
  | DataRow
  | EmptyQueryResponse
  | Execute_or_ErrorResponse
  | NoticeResponse
  | GssResponse_or_Password_or_SaslResponses
  | NegotiateProtocolVersion
  | ParameterStatus_or_Sync
  | Parse
  | ParseComplete
  | PortalSuspended
  | Query
  | ReadyForQuery
  | RowDescription
  | Terminate

text \<open>A byte literal \<open>b'R'\<close> is the character's code.\<close>

definition byte_char :: "char \<Rightarrow> u8" where
  "byte_char c = word_of_nat (of_char c)"

primrec TypeByte_into :: "TypeByte \<Rightarrow> u8" where
  "TypeByte_into TypeByte.Authentication = byte_char CHR ''R''"
| "TypeByte_into TypeByte.BackendKeyData = byte_char CHR ''K''"
| "TypeByte_into TypeByte.Bind = byte_char CHR ''B''"
| "TypeByte_into TypeByte.BindComplete = byte_char CHR ''2''"
| "TypeByte_into TypeByte.CommandComplete = byte_char CHR ''C''"
| "TypeByte_into TypeByte.DataRow = byte_char CHR ''D''"
| "TypeByte_into TypeByte.EmptyQueryResponse = byte_char CHR ''I''"
| "TypeByte_into TypeByte.Execute_or_ErrorResponse = byte_char CHR ''E''"
| "TypeByte_into TypeByte.NoticeResponse = byte_char CHR ''N''"
| "TypeByte_into TypeByte.GssResponse_or_Password_or_SaslResponses = byte_char CHR ''p''"
| "TypeByte_into TypeByte.NegotiateProtocolVersion = byte_char CHR ''v''"
| "TypeByte_into TypeByte.ParameterStatus_or_Sync = byte_char CHR ''S''"
| "TypeByte_into TypeByte.Parse = byte_char CHR ''P''"
| "TypeByte_into TypeByte.ParseComplete = byte_char CHR ''1''"
| "TypeByte_into TypeByte.PortalSuspended = byte_char CHR ''s''"
| "TypeByte_into TypeByte.Query = byte_char CHR ''Q''"
| "TypeByte_into TypeByte.ReadyForQuery = byte_char CHR ''Z''"
| "TypeByte_into TypeByte.RowDescription = byte_char CHR ''T''"
| "TypeByte_into TypeByte.Terminate = byte_char CHR ''X''"

definition all_type_bytes :: "TypeByte list" where
  "all_type_bytes =
     [TypeByte.Authentication, TypeByte.BackendKeyData, TypeByte.Bind, TypeByte.BindComplete,
      TypeByte.CommandComplete, TypeByte.DataRow, TypeByte.EmptyQueryResponse,
      TypeByte.Execute_or_ErrorResponse, TypeByte.NoticeResponse,
      TypeByte.GssResponse_or_Password_or_SaslResponses, TypeByte.NegotiateProtocolVersion,
      TypeByte.ParameterStatus_or_Sync, TypeByte.Parse, TypeByte.ParseComplete,
      TypeByte.PortalSuspended, TypeByte.Query, TypeByte.ReadyForQuery, TypeByte.RowDescription,
      TypeByte.Terminate]"

definition TypeByte_try_from :: "u8 \<Rightarrow> TypeByte option" where
  "TypeByte_try_from b = List.find (\<lambda>t. TypeByte_into t = b) all_type_bytes"

lemma set_all_type_bytes: "set all_type_bytes = UNIV"
proof -
  have "t \<in> set all_type_bytes" for t
    by (cases t) (simp_all add: all_type_bytes_def)
  then show ?thesis by blast
qed

lemma distinct_type_bytes: "distinct (map TypeByte_into all_type_bytes)"
  by (simp add: all_type_bytes_def byte_char_def)

lemma TypeByte_into_inject [simp]: "TypeByte_into s = TypeByte_into t \<longleftrightarrow> s = t"
  using distinct_type_bytes by (simp add: distinct_map set_all_type_bytes inj_eq)

lemma TypeByte_try_from_Some [simp]: "TypeByte_try_from b = Some t \<longleftrightarrow> b = TypeByte_into t"
proof
  assume "TypeByte_try_from b = Some t"
  then show "b = TypeByte_into t"
    by (auto simp: TypeByte_try_from_def find_Some_iff)
next
  assume b: "b = TypeByte_into t"
  show "TypeByte_try_from b = Some t"
  proof (cases "TypeByte_try_from b")
    case None
    then show ?thesis
      by (simp add: TypeByte_try_from_def find_None_iff set_all_type_bytes b)
  next
    case (Some s)
    then have "TypeByte_into s = b"
      by (auto simp: TypeByte_try_from_def find_Some_iff)
    with b Some show ?thesis by simp
  qed
qed

lemma TypeByte_try_from_None: "TypeByte_try_from b = None \<longleftrightarrow> b \<notin> range TypeByte_into"
  by (auto simp: TypeByte_try_from_def find_None_iff set_all_type_bytes)

lemma TypeByte_try_from_into [simp]: "TypeByte_try_from (TypeByte_into t) = Some t"
  by simp

end
