(* ===== verification/Decode.thy ===== *)
theory Decode
  imports Type_Byte
begin

text \<open>
  The byte reader of \<open>src/src/msg/util/decode.rs\<close>: \<open>BytesSource\<close> and its \<open>take_*\<close>
  methods, the error type \<open>Problem\<close>, and the contracts a decoder built from them can have.
  A decoder maps a source to a result and the source it leaves behind, on success and on
  failure alike. Three interfaces, each a locale:
  \<^item> \<open>decoder\<close>: never touches the slice, never moves backwards, never runs past the end;
  \<^item> \<open>exact_decoder\<close>: succeeds with a value exactly when the input continues with a wire
    representation of it, and consumes just that;
  \<^item> \<open>body_decoder\<close>: the same for a whole message body, for decoders whose last field
    takes everything that is left;
  \<^item> \<open>terminated_loop\<close>: a \<open>loop\<close> that decodes items until a zero byte, given one round.
\<close>

section \<open>Problems and the source\<close>

datatype Problem = NeedMoreBytes nat | NoNullByte | Incorrect string | Unknown string

type_synonym 'a DecodeResult = "Problem + 'a"

record BytesSource =
  bs_slice :: "u8 list"
  bs_pos :: nat

type_synonym 'a decode = "BytesSource \<Rightarrow> 'a DecodeResult \<times> BytesSource"

text \<open>The trait \<open>MsgDecode\<close>: what an implementation provides for its message type.\<close>

record 'm MsgDecode =
  TYPE_BYTE_OPT :: "TypeByte option"
  decode_body :: "'m decode"

text \<open>Sequencing with \<open>?\<close>: the first error ends the decoding.\<close>

definition bind_dec :: "'a decode \<Rightarrow> ('a \<Rightarrow> 'b decode) \<Rightarrow> 'b decode" where
  "bind_dec m k bs = (case m bs of (Inl e, bs') \<Rightarrow> (Inl e, bs') | (Inr x, bs') \<Rightarrow> k x bs')"

definition ok_dec :: "'a \<Rightarrow> 'a decode" where
  "ok_dec x bs = (Inr x, bs)"

definition err_dec :: "Problem \<Rightarrow> 'a decode" where
  "err_dec e bs = (Inl e, bs)"

section \<open>Operations of BytesSource\<close>

definition BytesSource_new :: "u8 list \<Rightarrow> BytesSource" where
  "BytesSource_new sl = \<lparr>bs_slice = sl, bs_pos = 0\<rparr>"

definition left :: "BytesSource \<Rightarrow> nat" where
  "left self = length (bs_slice self) - bs_pos self"

definition take_bounded :: "nat \<Rightarrow> (u8 list \<Rightarrow> 'r) \<Rightarrow> 'r decode" where
  "take_bounded needed decode self =
     (if bs_pos self + needed \<le> length (bs_slice self)
      then (let sub_slice = take needed (drop (bs_pos self) (bs_slice self))
            in (Inr (decode sub_slice), self\<lparr>bs_pos := bs_pos self + needed\<rparr>))
      else (let lft = length (bs_slice self) - bs_pos self
            in (Inl (NeedMoreBytes (needed - lft)), self\<lparr>bs_pos := length (bs_slice self)\<rparr>)))"

definition take_u8 :: "u8 decode" where
  "take_u8 = take_bounded 1 (\<lambda>s. s ! 0)"

definition take_u16 :: "u16 decode" where
  "take_u16 = take_bounded 2 (\<lambda>s. u16_from_be_bytes (s ! 0) (s ! 1))"

definition take_u32 :: "u32 decode" where
  "take_u32 = take_bounded 4 (\<lambda>s. u32_from_be_bytes (s ! 0) (s ! 1) (s ! 2) (s ! 3))"

text \<open>\<open>take_slice\<close> fills the caller's buffer, whose length says how much to take; the
  filled buffer is the result here.\<close>

definition take_slice :: "u8 list \<Rightarrow> u8 list decode" where
  "take_slice result = take_bounded (length result) (\<lambda>s. s)"

definition take_vec :: "nat \<Rightarrow> u8 list decode" where
  "take_vec len = take_bounded len (\<lambda>s. s)"

text \<open>The loop of \<open>take_until_null\<close> over \<open>self.pos .. self.slice.len()\<close>.\<close>

function find_null :: "u8 list \<Rightarrow> nat \<Rightarrow> nat option" where
  "find_null sl null_pos =
     (if null_pos < length sl
      then (if sl ! null_pos = 0 then Some null_pos else find_null sl (Suc null_pos))
      else None)"
  by pat_completeness auto
termination
  by (relation "measure (\<lambda>(sl, null_pos). length sl - null_pos)") auto

declare find_null.simps [simp del]

definition take_until_null :: "u8 list decode" where
  "take_until_null self =
     (case find_null (bs_slice self) (bs_pos self) of
        Some null_pos \<Rightarrow>
          (Inr (take (null_pos - bs_pos self) (drop (bs_pos self) (bs_slice self))),
           self\<lparr>bs_pos := null_pos + 1\<rparr>)
      | None \<Rightarrow> (Inl NoNullByte, self\<lparr>bs_pos := length (bs_slice self)\<rparr>))"

section \<open>Well-formed sources, consumed input\<close>

text \<open>The position never passes the end: the private invariant of \<open>BytesSource\<close>, under
  which none of its subtractions underflows and none of its slice indexings panics.\<close>

definition source_wf :: "BytesSource \<Rightarrow> bool" where
  "source_wf bs \<longleftrightarrow> bs_pos bs \<le> length (bs_slice bs)"

definition rest :: "BytesSource \<Rightarrow> u8 list" where
  "rest bs = drop (bs_pos bs) (bs_slice bs)"

text \<open>\<open>advanced bs bs'\<close>: same slice, position moved forward and still inside.\<close>

definition advanced :: "BytesSource \<Rightarrow> BytesSource \<Rightarrow> bool" where
  "advanced bs bs' \<longleftrightarrow>
     bs_slice bs' = bs_slice bs \<and> bs_pos bs \<le> bs_pos bs' \<and> source_wf bs'"

text \<open>\<open>consumed bs w bs'\<close>: the input continues with \<open>w\<close>, and \<open>bs'\<close> stands behind it.\<close>

definition consumed :: "BytesSource \<Rightarrow> u8 list \<Rightarrow> BytesSource \<Rightarrow> bool" where
  "consumed bs w bs' \<longleftrightarrow>
     source_wf bs \<and> rest bs = w @ rest bs' \<and> bs' = bs\<lparr>bs_pos := bs_pos bs + length w\<rparr>"

lemma source_wf_new [simp]: "source_wf (BytesSource_new body)"
  by (simp add: source_wf_def BytesSource_new_def)

lemma rest_new [simp]: "rest (BytesSource_new body) = body"
  by (simp add: rest_def BytesSource_new_def)

lemma length_rest [simp]: "length (rest bs) = left bs"
  by (simp add: rest_def left_def)

lemma left_eq_0_iff: "left bs = 0 \<longleftrightarrow> rest bs = []"
  by (metis length_0_conv length_rest)

lemma consumed_wf: "consumed bs w bs' \<Longrightarrow> source_wf bs'"
  by (auto simp: consumed_def source_wf_def rest_def dest: arg_cong [where f = length])

lemma consumed_advanced: "consumed bs w bs' \<Longrightarrow> advanced bs bs'"
  by (frule consumed_wf) (auto simp: consumed_def advanced_def)

lemma consumed_left: "consumed bs w bs' \<Longrightarrow> left bs = length w + left bs'"
  by (metis consumed_def length_append length_rest)

lemma consumed_Nil [simp]: "consumed bs [] bs' \<longleftrightarrow> source_wf bs \<and> bs' = bs"
  by (auto simp: consumed_def)

lemma consumed_append:
  "consumed bs (v @ u) bs'' \<longleftrightarrow> (\<exists>bs'. consumed bs v bs' \<and> consumed bs' u bs'')"
proof
  assume c: "consumed bs (v @ u) bs''"
  let ?m = "bs\<lparr>bs_pos := bs_pos bs + length v\<rparr>"
  have "rest ?m = drop (length v) (rest bs)"
    by (simp add: rest_def add.commute)
  with c have r: "rest ?m = u @ rest bs''"
    by (simp add: consumed_def)
  with c have "consumed bs v ?m"
    by (simp add: consumed_def)
  moreover from c r consumed_wf [OF this] have "consumed ?m u bs''"
    by (simp add: consumed_def add.assoc)
  ultimately show "\<exists>bs'. consumed bs v bs' \<and> consumed bs' u bs''" by blast
qed (auto simp: consumed_def)

lemma consumed_prefix:
  assumes "source_wf bs" and "rest bs = w @ r"
  shows "consumed bs w (bs\<lparr>bs_pos := bs_pos bs + length w\<rparr>)"
proof -
  have "rest (bs\<lparr>bs_pos := bs_pos bs + length w\<rparr>) = drop (length w) (rest bs)"
    by (simp add: rest_def add.commute)
  with assms show ?thesis by (simp add: consumed_def)
qed

lemma advanced_refl: "source_wf bs \<Longrightarrow> advanced bs bs"
  by (simp add: advanced_def)

lemma advanced_trans: "advanced bs bs' \<Longrightarrow> advanced bs' bs'' \<Longrightarrow> advanced bs bs''"
  by (auto simp: advanced_def)

lemma advanced_wf: "advanced bs bs' \<Longrightarrow> source_wf bs'"
  by (simp add: advanced_def)

lemma advanced_left: "advanced bs bs' \<Longrightarrow> left bs' \<le> left bs"
  by (auto simp: advanced_def left_def)

lemma bind_dec_Inr:
  "bind_dec m k bs = (Inr y, bs'') \<longleftrightarrow>
     (\<exists>x bs'. m bs = (Inr x, bs') \<and> k x bs' = (Inr y, bs''))"
  by (auto simp: bind_dec_def split: prod.splits sum.splits)

lemma bind_dec_Inl:
  "bind_dec m k bs = (Inl e, bs'') \<longleftrightarrow>
     m bs = (Inl e, bs'') \<or> (\<exists>x bs'. m bs = (Inr x, bs') \<and> k x bs' = (Inl e, bs''))"
  by (auto simp: bind_dec_def split: prod.splits sum.splits)

section \<open>The contract every decoder keeps\<close>

locale decoder =
  fixes dec :: "'a decode"
  assumes advances: "source_wf bs \<Longrightarrow> advanced bs (snd (dec bs))"
begin

lemma keeps_wf: "source_wf bs \<Longrightarrow> source_wf (snd (dec bs))"
  by (rule advanced_wf [OF advances])

lemma left_decreases: "source_wf bs \<Longrightarrow> left (snd (dec bs)) \<le> left bs"
  by (rule advanced_left [OF advances])

end

locale exact_decoder = decoder dec for dec :: "'a decode" +
  fixes wire :: "'a \<Rightarrow> u8 list \<Rightarrow> bool"
  assumes exact:
    "source_wf bs \<Longrightarrow> dec bs = (Inr x, bs') \<longleftrightarrow> (\<exists>w. wire x w \<and> consumed bs w bs')"
begin

lemma decodes:
  assumes "wire x w" and "source_wf bs" and "rest bs = w @ r"
  shows "dec bs = (Inr x, bs\<lparr>bs_pos := bs_pos bs + length w\<rparr>)"
  using assms exact consumed_prefix by blast

lemma wire_prefix_free:
  assumes "wire x v" and "wire y u" and "v @ a = u @ b"
  shows "x = y \<and> v = u"
proof -
  let ?bs = "BytesSource_new (v @ a)"
  have "dec ?bs = (Inr x, ?bs\<lparr>bs_pos := bs_pos ?bs + length v\<rparr>)"
    using assms(1) by (rule decodes) simp_all
  moreover have "dec ?bs = (Inr y, ?bs\<lparr>bs_pos := bs_pos ?bs + length u\<rparr>)"
    using assms(2) by (rule decodes) (simp_all add: assms(3))
  ultimately have "x = y" and "length v = length u"
    by (auto simp: BytesSource_new_def)
  with assms(3) show ?thesis by simp
qed

end

locale body_decoder = decoder dec for dec :: "'a decode" +
  fixes wire :: "'a \<Rightarrow> u8 list \<Rightarrow> bool"
  assumes body_exact:
    "source_wf bs \<Longrightarrow>
       dec bs = (Inr x, bs') \<and> left bs' = 0 \<longleftrightarrow>
       (\<exists>w. wire x w \<and> consumed bs w bs') \<and> left bs' = 0"
begin

lemma body_iff:
  "(\<exists>bs'. dec (BytesSource_new body) = (Inr x, bs') \<and> left bs' = 0) \<longleftrightarrow> wire x body"
proof
  assume "\<exists>bs'. dec (BytesSource_new body) = (Inr x, bs') \<and> left bs' = 0"
  then obtain w bs' where "wire x w" "consumed (BytesSource_new body) w bs'" "left bs' = 0"
    using body_exact [OF source_wf_new] by blast
  moreover from this have "body = w"
    by (metis append_Nil2 consumed_def left_eq_0_iff rest_new)
  ultimately show "wire x body" by simp
next
  assume x: "wire x body"
  let ?fin = "(BytesSource_new body)\<lparr>bs_pos := bs_pos (BytesSource_new body) + length body\<rparr>"
  have "consumed (BytesSource_new body) body ?fin"
    by (rule consumed_prefix [where r = "[]"]) simp_all
  moreover from this have "left ?fin = 0"
    by (auto dest: consumed_left simp: BytesSource_new_def left_def)
  ultimately show "\<exists>bs'. dec (BytesSource_new body) = (Inr x, bs') \<and> left bs' = 0"
    using x body_exact [OF source_wf_new] by blast
qed

lemma wire_unambiguous: "wire x body \<Longrightarrow> wire y body \<Longrightarrow> x = y"
  using body_iff [of body x] body_iff [of body y] by auto

end

sublocale exact_decoder \<subseteq> body_decoder dec wire
  by unfold_locales (simp add: exact)

section \<open>Contracts of composed decoders\<close>

lemma decoder_ok [exact_intros]: "decoder (ok_dec x)"
  by unfold_locales (simp add: ok_dec_def advanced_refl)

lemma decoder_err [exact_intros]: "decoder (err_dec e)"
  by unfold_locales (simp add: err_dec_def advanced_refl)

lemma decoder_bind [exact_intros]:
  assumes "decoder m" and "\<And>x. decoder (k x)"
  shows "decoder (bind_dec m k)"
proof
  fix bs :: BytesSource
  assume wf: "source_wf bs"
  show "advanced bs (snd (bind_dec m k bs))"
  proof (cases "m bs")
    case (Pair r bs')
    then have a: "advanced bs bs'"
      using decoder.advances [OF assms(1) wf] by simp
    have "advanced bs' (snd (k x bs'))" for x
      by (rule decoder.advances [OF assms(2) advanced_wf [OF a]])
    with Pair a show ?thesis
      by (cases r) (auto simp: bind_dec_def intro: advanced_trans)
  qed
qed

lemma exact_ok [exact_intros]: "exact_decoder (ok_dec x) (\<lambda>y w. y = x \<and> w = [])"
  by (intro exact_decoder.intro exact_decoder_axioms.intro decoder_ok) (auto simp: ok_dec_def)

lemma exact_err [exact_intros]: "exact_decoder (err_dec e) (\<lambda>_ _. False)"
  by (intro exact_decoder.intro exact_decoder_axioms.intro decoder_err) (auto simp: err_dec_def)

lemma exact_bind [exact_intros]:
  assumes m: "exact_decoder m V" and k: "\<And>x. exact_decoder (k x) (U x)"
  shows "exact_decoder (bind_dec m k) (\<lambda>y w. \<exists>x v u. V x v \<and> U x y u \<and> w = v @ u)"
proof (intro exact_decoder.intro exact_decoder_axioms.intro decoder_bind)
  fix bs y bs''
  assume wf: "source_wf bs"
  have "bind_dec m k bs = (Inr y, bs'') \<longleftrightarrow>
      (\<exists>x bs'. (\<exists>v. V x v \<and> consumed bs v bs') \<and> k x bs' = (Inr y, bs''))"
    by (simp add: bind_dec_Inr exact_decoder.exact [OF m wf])
  also have "\<dots> \<longleftrightarrow>
      (\<exists>x bs' v u. V x v \<and> consumed bs v bs' \<and> U x y u \<and> consumed bs' u bs'')"
    using exact_decoder.exact [OF k] consumed_wf by blast
  also have "\<dots> \<longleftrightarrow> (\<exists>w. (\<exists>x v u. V x v \<and> U x y u \<and> w = v @ u) \<and> consumed bs w bs'')"
    using consumed_append by blast
  finally show "bind_dec m k bs = (Inr y, bs'') \<longleftrightarrow>
      (\<exists>w. (\<exists>x v u. V x v \<and> U x y u \<and> w = v @ u) \<and> consumed bs w bs'')" .
qed (use m k in \<open>auto simp: exact_decoder_def\<close>)

lemma exact_cong:
  assumes "exact_decoder d V" and "\<And>x w. W x w \<longleftrightarrow> V x w"
  shows "exact_decoder d W"
proof -
  have "W = V" using assms(2) by blast
  with assms(1) show ?thesis by simp
qed

lemma body_of_exact: "exact_decoder d W \<Longrightarrow> body_decoder d W"
  by (intro body_decoder.intro body_decoder_axioms.intro)
     (auto simp: exact_decoder.exact exact_decoder.axioms)

lemma body_bind:
  assumes m: "exact_decoder m V" and k: "\<And>x. body_decoder (k x) (U x)"
  shows "body_decoder (bind_dec m k) (\<lambda>y w. \<exists>x v u. V x v \<and> U x y u \<and> w = v @ u)"
proof (intro body_decoder.intro body_decoder_axioms.intro decoder_bind)
  fix bs y bs''
  assume wf: "source_wf bs"
  have "bind_dec m k bs = (Inr y, bs'') \<and> left bs'' = 0 \<longleftrightarrow>
      (\<exists>x bs' v. V x v \<and> consumed bs v bs' \<and> k x bs' = (Inr y, bs'') \<and> left bs'' = 0)"
    by (auto simp: bind_dec_Inr exact_decoder.exact [OF m wf])
  also have "\<dots> \<longleftrightarrow>
      (\<exists>x bs' v u. V x v \<and> consumed bs v bs' \<and> U x y u \<and> consumed bs' u bs'') \<and> left bs'' = 0"
    using body_decoder.body_exact [OF k] consumed_wf by blast
  also have "\<dots> \<longleftrightarrow> (\<exists>w. (\<exists>x v u. V x v \<and> U x y u \<and> w = v @ u) \<and> consumed bs w bs'')
      \<and> left bs'' = 0"
    using consumed_append by blast
  finally show "bind_dec m k bs = (Inr y, bs'') \<and> left bs'' = 0 \<longleftrightarrow>
      (\<exists>w. (\<exists>x v u. V x v \<and> U x y u \<and> w = v @ u) \<and> consumed bs w bs'') \<and> left bs'' = 0" .
qed (use m k in \<open>auto simp: exact_decoder_def body_decoder_def\<close>)

text \<open>A final take whose value is only wrapped: \<open>take_vec(left())?\<close> followed by \<open>Ok\<close>.\<close>

lemma body_then_ok:
  assumes m: "body_decoder m V"
  shows "body_decoder (bind_dec m (\<lambda>x. ok_dec (g x))) (\<lambda>y w. \<exists>x. V x w \<and> y = g x)"
proof (intro body_decoder.intro body_decoder_axioms.intro decoder_bind decoder_ok)
  fix bs y bs'
  assume wf: "source_wf bs"
  have "bind_dec m (\<lambda>x. ok_dec (g x)) bs = (Inr y, bs') \<and> left bs' = 0 \<longleftrightarrow>
      (\<exists>x. (m bs = (Inr x, bs') \<and> left bs' = 0) \<and> y = g x)"
    by (auto simp: bind_dec_Inr ok_dec_def)
  also have "\<dots> \<longleftrightarrow> (\<exists>w. (\<exists>x. V x w \<and> y = g x) \<and> consumed bs w bs') \<and> left bs' = 0"
    using body_decoder.body_exact [OF m wf] by blast
  finally show "bind_dec m (\<lambda>x. ok_dec (g x)) bs = (Inr y, bs') \<and> left bs' = 0 \<longleftrightarrow>
      (\<exists>w. (\<exists>x. V x w \<and> y = g x) \<and> consumed bs w bs') \<and> left bs' = 0" .
qed (use m in \<open>simp add: body_decoder_def\<close>)

lemma body_cong:
  assumes "body_decoder d V" and "\<And>x w. W x w \<longleftrightarrow> V x w"
  shows "body_decoder d W"
proof -
  have "W = V" using assms(2) by blast
  with assms(1) show ?thesis by simp
qed

section \<open>Contracts of the take operations\<close>

lemma take_bounded_short:
  assumes "source_wf bs" and "left bs < n"
  shows "take_bounded n f bs =
    (Inl (NeedMoreBytes (n - left bs)), bs\<lparr>bs_pos := length (bs_slice bs)\<rparr>)"
  using assms by (auto simp: take_bounded_def left_def source_wf_def Let_def)

lemma take_bounded_enough:
  assumes "source_wf bs" and "n \<le> left bs"
  shows "take_bounded n f bs = (Inr (f (take n (rest bs))), bs\<lparr>bs_pos := bs_pos bs + n\<rparr>)"
  using assms by (auto simp: take_bounded_def left_def source_wf_def rest_def Let_def)

lemma take_bounded_advances: "decoder (take_bounded n f)"
  by unfold_locales (auto simp: take_bounded_def advanced_def source_wf_def Let_def)

text \<open>The shape of every fixed-width take: if \<open>f\<close> decodes \<open>n\<close>-byte strings and \<open>enc\<close>
  inverts it, the take is exact for \<open>enc\<close>.\<close>

lemma take_bounded_exact:
  assumes "\<And>xs x. length xs = n \<Longrightarrow> f xs = x \<longleftrightarrow> W x xs" and "\<And>x w. W x w \<Longrightarrow> length w = n"
  shows "exact_decoder (take_bounded n f) W"
proof (intro exact_decoder.intro exact_decoder_axioms.intro take_bounded_advances)
  fix bs x bs'
  assume wf: "source_wf bs"
  show "take_bounded n f bs = (Inr x, bs') \<longleftrightarrow> (\<exists>w. W x w \<and> consumed bs w bs')" (is "?l \<longleftrightarrow> ?r")
  proof (cases "n \<le> left bs")
    case True
    then have len: "length (take n (rest bs)) = n" by simp
    have "consumed bs (take n (rest bs)) (bs\<lparr>bs_pos := bs_pos bs + length (take n (rest bs))\<rparr>)"
      by (rule consumed_prefix [OF wf, where r = "drop n (rest bs)"]) simp
    then have c: "consumed bs (take n (rest bs)) (bs\<lparr>bs_pos := bs_pos bs + n\<rparr>)"
      using len by simp
    have "w = take n (rest bs) \<and> bs' = bs\<lparr>bs_pos := bs_pos bs + n\<rparr>"
      if "W x w" "consumed bs w bs'" for w
      using that assms(2) [of x w] by (simp add: consumed_def)
    with c show ?thesis
      using assms(1) [OF len] by (auto simp: take_bounded_enough [OF wf True])
  next
    case False
    then have "\<not> ?l" by (simp add: take_bounded_short [OF wf] not_le)
    moreover have "\<not> ?r" using False assms(2) consumed_left by fastforce
    ultimately show ?thesis by blast
  qed
qed

interpretation take_u8: exact_decoder take_u8 "\<lambda>x w. w = [x]"
  unfolding take_u8_def by (rule take_bounded_exact) (auto simp: length_Suc_conv)

interpretation take_u16: exact_decoder take_u16 "\<lambda>x w. w = u16_to_be_bytes x"
  unfolding take_u16_def by (rule take_bounded_exact) (erule be_u16_iff, simp)

interpretation take_u32: exact_decoder take_u32 "\<lambda>x w. w = u32_to_be_bytes x"
  unfolding take_u32_def by (rule take_bounded_exact) (erule be_u32_iff, simp)

interpretation take_vec: exact_decoder "take_vec n" "\<lambda>x w. w = x \<and> length x = n" for n
  unfolding take_vec_def by (rule take_bounded_exact) auto

interpretation take_slice:
  exact_decoder "take_slice buf" "\<lambda>x w. w = x \<and> length x = length buf" for buf
  unfolding take_slice_def by (rule take_bounded_exact) auto

text \<open>The scan finds the first zero byte at or after the position, if there is one.\<close>

lemma find_null_Some:
  "find_null sl p = Some q \<longleftrightarrow>
     p \<le> q \<and> q < length sl \<and> sl ! q = 0 \<and> (\<forall>i. p \<le> i \<and> i < q \<longrightarrow> sl ! i \<noteq> 0)"
proof (induction sl p rule: find_null.induct)
  case (1 sl p)
  show ?case
  proof (cases "p < length sl \<and> sl ! p \<noteq> 0")
    case True
    then have "find_null sl p = find_null sl (Suc p)"
      by (simp add: find_null.simps [of sl p])
    with True "1.IH" show ?thesis
      by (auto simp: Suc_le_eq) (metis le_neq_implies_less)+
  next
    case False
    then show ?thesis
      by (auto simp: find_null.simps [of sl p])
  qed
qed

lemma find_null_None: "find_null sl p = None \<longleftrightarrow> 0 \<notin> set (drop p sl)"
proof (induction sl p rule: find_null.induct)
  case (1 sl p)
  show ?case
  proof (cases "p < length sl")
    case True
    then have "drop p sl = sl ! p # drop (Suc p) sl" by (simp add: Cons_nth_drop_Suc)
    with True "1.IH" show ?thesis by (auto simp: find_null.simps [of sl p])
  next
    case False
    then show ?thesis by (simp add: find_null.simps [of sl p])
  qed
qed

lemma find_null_append: "0 \<notin> set x \<Longrightarrow> drop p sl = x @ 0 # r \<Longrightarrow> find_null sl p = Some (p + length x)"
proof (induction x arbitrary: p)
  case Nil
  then have "p < length sl" by (metis drop_all list.distinct(1) not_le append_Nil)
  with Nil show ?case by (simp add: find_null.simps [of sl p] nth_via_drop)
next
  case (Cons a x)
  then have p: "p < length sl" by (metis append_Cons drop_all list.distinct(1) not_le)
  with Cons.prems have "sl ! p = a" and "drop (Suc p) sl = x @ 0 # r"
    by (auto simp: nth_via_drop drop_Suc simp flip: tl_drop)
  with p Cons show ?case by (simp add: find_null.simps [of sl p])
qed

text \<open>\<open>take_until_null\<close> is exact for zero-terminated strings.\<close>

lemma take_until_null_exact: "exact_decoder take_until_null (\<lambda>x w. 0 \<notin> set x \<and> w = x @ [0])"
proof
  fix bs assume "source_wf bs"
  then show "advanced bs (snd (take_until_null bs))"
    by (auto simp: take_until_null_def advanced_def source_wf_def find_null_Some split: option.splits)
next
  fix bs x bs'
  assume wf: "source_wf bs"
  have fw: "take_until_null bs = (Inr x, bs')" if "0 \<notin> set x" and c: "consumed bs (x @ [0]) bs'"
    using that find_null_append [of x "bs_pos bs" "bs_slice bs" "rest bs'"]
    by (auto simp: take_until_null_def consumed_def rest_def)
  have bw: "0 \<notin> set x \<and> consumed bs (x @ [0]) bs'" if "take_until_null bs = (Inr x, bs')"
  proof -
    from that obtain q where q: "find_null (bs_slice bs) (bs_pos bs) = Some q"
      and x: "x = take (q - bs_pos bs) (rest bs)" and bs': "bs' = bs\<lparr>bs_pos := q + 1\<rparr>"
      by (auto simp: take_until_null_def rest_def split: option.splits)
    have len: "length x = q - bs_pos bs" "bs_pos bs \<le> q" "q - bs_pos bs < length (rest bs)"
      using q by (auto simp: x find_null_Some left_def)
    have "rest bs ! (q - bs_pos bs) = 0"
      using q by (auto simp: rest_def find_null_Some)
    then have "rest bs = (x @ [0]) @ drop (Suc (q - bs_pos bs)) (rest bs)"
      using len x by (metis append.assoc append_Cons append_Nil id_take_nth_drop)
    from consumed_prefix [OF wf this] len bs' have "consumed bs (x @ [0]) bs'" by simp
    moreover have "0 \<notin> set x"
      using q by (auto simp: x rest_def find_null_Some in_set_conv_nth)
    ultimately show ?thesis by simp
  qed
  from fw bw show "take_until_null bs = (Inr x, bs') \<longleftrightarrow>
      (\<exists>w. (0 \<notin> set x \<and> w = x @ [0]) \<and> consumed bs w bs')" by blast
qed

interpretation take_until_null: exact_decoder take_until_null "\<lambda>x w. 0 \<notin> set x \<and> w = x @ [0]"
  by (rule take_until_null_exact)

text \<open>\<open>bytes.take_vec(bytes.left())\<close>: the rest of the body as it is.\<close>

definition take_left :: "u8 list decode" where
  "take_left bs = take_vec (left bs) bs"

lemma take_left_body: "body_decoder take_left (\<lambda>x w. w = x)"
proof
  fix bs :: BytesSource assume "source_wf bs"
  then show "advanced bs (snd (take_left bs))"
    unfolding take_left_def by (rule take_vec.advances)
next
  fix bs x bs' assume "source_wf bs"
  then show "take_left bs = (Inr x, bs') \<and> left bs' = 0 \<longleftrightarrow>
      (\<exists>w. w = x \<and> consumed bs w bs') \<and> left bs' = 0"
    by (auto simp: take_left_def take_vec.exact dest: consumed_left)
qed

lemmas take_exact [exact_intros] =
  take_u8.exact_decoder_axioms take_u16.exact_decoder_axioms take_u32.exact_decoder_axioms
  take_vec.exact_decoder_axioms take_slice.exact_decoder_axioms
  take_until_null.exact_decoder_axioms

section \<open>Loops that end at a zero byte\<close>

text \<open>
  Three decoders of the program run a Rust \<open>loop\<close> that collects items until a terminator.
  One round either breaks with the result (\<open>Inl\<close>) or goes on with a new accumulator
  (\<open>Inr\<close>). Given an exact round, the loop is exact for the items in order, followed by
  the terminating zero.
\<close>

locale terminated_loop =
  fixes run :: "'acc \<Rightarrow> 'y decode"
    and round :: "'acc \<Rightarrow> ('y + 'acc) decode"
    and upd :: "'acc \<Rightarrow> 'item \<Rightarrow> 'acc"
    and fin :: "'acc \<Rightarrow> 'y"
    and valid :: "'item \<Rightarrow> bool"
    and enc :: "'item \<Rightarrow> u8 list"
  assumes run_unfold:
    "run acc bs =
       (case round acc bs of
          (Inl e, bs') \<Rightarrow> (Inl e, bs')
        | (Inr (Inl y), bs') \<Rightarrow> (Inr y, bs')
        | (Inr (Inr acc'), bs') \<Rightarrow> run acc' bs')"
    and round_exact:
    "exact_decoder (round acc)
       (\<lambda>r w. case r of
                Inl y \<Rightarrow> y = fin acc \<and> w = [0]
              | Inr acc' \<Rightarrow> \<exists>item. valid item \<and> w = enc item \<and> acc' = upd acc item)"
    and enc_nonempty: "enc item \<noteq> []"
begin

lemma round_break:
  "source_wf bs \<Longrightarrow> round acc bs = (Inr (Inl y), bs') \<longleftrightarrow> y = fin acc \<and> consumed bs [0] bs'"
  using exact_decoder.exact [OF round_exact] by auto

lemma round_next:
  "source_wf bs \<Longrightarrow> round acc bs = (Inr (Inr acc'), bs') \<longleftrightarrow>
     (\<exists>item. valid item \<and> consumed bs (enc item) bs' \<and> acc' = upd acc item)"
  using exact_decoder.exact [OF round_exact] by auto

lemma round_next_left:
  assumes "source_wf bs" and "round acc bs = (Inr (Inr acc'), bs')"
  shows "source_wf bs' \<and> left bs' < left bs"
proof -
  from assms obtain item where c: "consumed bs (enc item) bs'"
    by (auto simp: round_next)
  moreover have "0 < length (enc item)" using enc_nonempty by simp
  ultimately show ?thesis using consumed_left [OF c] consumed_wf [OF c] by linarith
qed

lemma run_advances: "source_wf bs \<Longrightarrow> advanced bs (snd (run acc bs))"
proof (induction "left bs" arbitrary: bs acc rule: less_induct)
  case less
  then have a: "advanced bs (snd (round acc bs))"
    using round_exact by (simp add: exact_decoder_def decoder.advances)
  show ?case
  proof (cases "round acc bs")
    case (Pair r bs')
    with a less show ?thesis
      by (subst run_unfold)
         (auto split: sum.splits intro: advanced_trans dest!: round_next_left [OF less.prems])
  qed
qed

lemma run_iff:
  "source_wf bs \<Longrightarrow> run acc bs = (Inr y, bs') \<longleftrightarrow>
     (\<exists>items. list_all valid items \<and> y = fin (foldl upd acc items)
        \<and> consumed bs (concat (map enc items) @ [0]) bs')"
proof (induction "left bs" arbitrary: bs acc rule: less_induct)
  case less
  let ?items = "\<lambda>acc bs items. list_all valid items \<and> y = fin (foldl upd acc items)
        \<and> consumed bs (concat (map enc items) @ [0]) bs'"
  have IH: "run (upd acc item) m = (Inr y, bs') \<longleftrightarrow> (\<exists>items. ?items (upd acc item) m items)"
    if "valid item" "consumed bs (enc item) m" for item m
  proof -
    have "round acc bs = (Inr (Inr (upd acc item)), m)"
      using that by (auto simp: round_next [OF less.prems])
    with less show ?thesis using round_next_left [OF less.prems] by blast
  qed
  have "run acc bs = (Inr y, bs') \<longleftrightarrow>
      round acc bs = (Inr (Inl y), bs') \<or>
      (\<exists>acc' m. round acc bs = (Inr (Inr acc'), m) \<and> run acc' m = (Inr y, bs'))"
    by (subst run_unfold) (auto split: prod.splits sum.splits)
  also have "\<dots> \<longleftrightarrow> ?items acc bs [] \<or>
      (\<exists>item m. valid item \<and> consumed bs (enc item) m \<and> run (upd acc item) m = (Inr y, bs'))"
    by (auto simp: round_break [OF less.prems] round_next [OF less.prems])
  also have "\<dots> \<longleftrightarrow> ?items acc bs [] \<or>
      (\<exists>item m. valid item \<and> consumed bs (enc item) m \<and> (\<exists>items. ?items (upd acc item) m items))"
    using IH by blast
  also have "\<dots> \<longleftrightarrow> ?items acc bs [] \<or> (\<exists>item items. ?items acc bs (item # items))"
    using consumed_append by fastforce
  also have "\<dots> \<longleftrightarrow> (\<exists>items. ?items acc bs items)"
    by (metis neq_Nil_conv)
  finally show ?case .
qed

lemma run_exact:
  "exact_decoder (run acc)
     (\<lambda>y w. \<exists>items. list_all valid items \<and> y = fin (foldl upd acc items)
        \<and> w = concat (map enc items) @ [0])"
  by (intro exact_decoder.intro decoder.intro exact_decoder_axioms.intro run_advances)
     (auto simp: run_iff)

end

text \<open>Each successful scan for a zero byte shortens what is left: the measure of the loops.\<close>

lemma take_until_null_left: "take_until_null bs = (Inr x, bs') \<Longrightarrow> left bs' < left bs"
  by (auto simp: take_until_null_def left_def find_null_Some split: option.splits)

lemma take_u8_left: "take_u8 bs = (Inr x, bs') \<Longrightarrow> left bs' < left bs"
  by (auto simp: take_u8_def take_bounded_def left_def Let_def split: if_splits)

end
