(* ===== verification/Async_IO.thy ===== *)
theory Async_IO
  imports Decode
begin

text \<open>
  Byte streams and the helpers of \<open>src/src/msg/util/async_io.rs\<close>. The stream itself
  (\<open>AsyncReadExt::read_exact\<close>, \<open>AsyncWriteExt::write_all\<close> on a socket or a TLS session) is
  foreign code: a record of its two operations is an argument of every definition that does
  I/O. What the program relies on is the locale \<open>byte_stream\<close>, stated over two observers of
  a stream: the bytes the peer is going to deliver, and the bytes written so far.
\<close>

section \<open>I/O errors and streams\<close>

datatype ErrorKind = UnexpectedEof | NotConnected | Other | UnlistedKind nat

datatype IoError = IoError (error_kind: ErrorKind) (error_text: string)

record 's StreamOps =
  read_exact :: "nat \<Rightarrow> ('s, IoError, u8 list) prog"
  write_all :: "u8 list \<Rightarrow> ('s, IoError, unit) prog"

definition error_other :: "string \<Rightarrow> IoError" where
  "error_other txt = IoError Other txt"

definition accept_eof :: "IoError + 'a \<Rightarrow> IoError + 'a option" where
  "accept_eof result =
     (case result of
        Inr dat \<Rightarrow> Inr (Some dat)
      | Inl e \<Rightarrow> (if error_kind e = UnexpectedEof then Inr None else Inl e))"

definition read_u8 :: "'s StreamOps \<Rightarrow> ('s, IoError, u8) prog" where
  "read_u8 ops = bind_prog (read_exact ops 1) (\<lambda>buf. return (buf ! 0))"

definition read_vec :: "'s StreamOps \<Rightarrow> nat \<Rightarrow> ('s, IoError, u8 list) prog" where
  "read_vec ops len = bind_prog (read_exact ops len) (\<lambda>buf. return buf)"

definition read_u32 :: "'s StreamOps \<Rightarrow> ('s, IoError, u32) prog" where
  "read_u32 ops =
     bind_prog (read_exact ops 4) (\<lambda>buf.
     return (u32_from_be_bytes (buf ! 0) (buf ! 1) (buf ! 2) (buf ! 3)))"

definition BATCH :: nat where
  "BATCH = 64 * 1024"

function read_and_drop_loop :: "'s StreamOps \<Rightarrow> nat \<Rightarrow> ('s, IoError, unit) prog" where
  "read_and_drop_loop ops lft =
     (if BATCH \<le> lft
      then bind_prog (read_exact ops BATCH) (\<lambda>_. read_and_drop_loop ops (lft - BATCH))
      else bind_prog (read_exact ops lft) (\<lambda>_. return ()))"
  by pat_completeness auto
termination
  by (relation "measure (\<lambda>(ops, lft). lft)") (auto simp: BATCH_def)

declare read_and_drop_loop.simps [simp del]

definition read_and_drop :: "'s StreamOps \<Rightarrow> u32 \<Rightarrow> ('s, IoError, unit) prog" where
  "read_and_drop ops num = read_and_drop_loop ops (unat num)"

section \<open>What the program relies on\<close>

text \<open>
  Documented behaviour of \<open>read_exact\<close> and \<open>write_all\<close>: a read that returns has filled the
  buffer with the next bytes of the stream, and no read writes; a write that returns has
  written everything, a write that fails may have written a part, and no write consumes input.
\<close>

locale byte_stream =
  fixes ops :: "'s StreamOps"
    and incoming :: "'s \<Rightarrow> u8 list"
    and sent :: "'s \<Rightarrow> u8 list"
  assumes read_returns:
    "read_exact ops n s = (Return bs, s') \<Longrightarrow> length bs = n \<and> incoming s = bs @ incoming s'"
    and read_frame:
    "read_exact ops n s = (r, s') \<Longrightarrow> sent s' = sent s \<and> suffix (incoming s') (incoming s)"
    and write_returns:
    "write_all ops bs s = (Return u, s') \<Longrightarrow> sent s' = sent s @ bs"
    and write_frame:
    "write_all ops bs s = (q, s') \<Longrightarrow>
       incoming s' = incoming s \<and> (\<exists>p. prefix p bs \<and> sent s' = sent s @ p)"
begin

lemma read_u8_returns:
  assumes "read_u8 ops s = (Return b, s')"
  shows "incoming s = b # incoming s'" and "sent s' = sent s"
proof -
  from assms obtain buf where r: "read_exact ops 1 s = (Return buf, s')" "b = buf ! 0"
    by (auto simp: read_u8_def exec_simps)
  from read_returns [OF r(1)] r(2) show "incoming s = b # incoming s'"
    by (auto simp: length_Suc_conv)
  from read_frame [OF r(1)] show "sent s' = sent s" by simp
qed

lemma read_u32_returns:
  assumes "read_u32 ops s = (Return w, s')"
  shows "incoming s = u32_to_be_bytes w @ incoming s'" and "sent s' = sent s"
proof -
  from assms obtain buf where r: "read_exact ops 4 s = (Return buf, s')"
    and w: "u32_from_be_bytes (buf ! 0) (buf ! 1) (buf ! 2) (buf ! 3) = w"
    by (auto simp: read_u32_def exec_simps)
  from read_returns [OF r] w show "incoming s = u32_to_be_bytes w @ incoming s'"
    by (metis be_u32_iff)
  from read_frame [OF r] show "sent s' = sent s" by simp
qed

lemma read_u8_frame: "read_u8 ops s = (r, s') \<Longrightarrow> sent s' = sent s \<and> suffix (incoming s') (incoming s)"
  by (auto simp: read_u8_def elim!: bind_prog_cases dest: read_frame)

lemma read_u32_frame: "read_u32 ops s = (r, s') \<Longrightarrow> sent s' = sent s \<and> suffix (incoming s') (incoming s)"
  by (auto simp: read_u32_def elim!: bind_prog_cases dest: read_frame)

text \<open>\<open>read_and_drop\<close> skips exactly the requested number of bytes, however many batches
  that takes.\<close>

lemma read_and_drop_loop_returns:
  "read_and_drop_loop ops n s = (Return x, s') \<Longrightarrow>
     (\<exists>dropped. length dropped = n \<and> incoming s = dropped @ incoming s') \<and> sent s' = sent s"
proof (induction n arbitrary: s rule: less_induct)
  case (less n)
  show ?case
  proof (cases "BATCH \<le> n")
    case True
    with less.prems obtain b s1 where r: "read_exact ops BATCH s = (Return b, s1)"
      and rec: "read_and_drop_loop ops (n - BATCH) s1 = (Return x, s')"
      by (subst (asm) read_and_drop_loop.simps) (auto simp: exec_simps)
    have "n - BATCH < n" using True by (simp add: BATCH_def)
    from less.IH [OF this rec] obtain d where d: "length d = n - BATCH" "incoming s1 = d @ incoming s'"
      and "sent s' = sent s1" by blast
    moreover have "length (b @ d) = n \<and> incoming s = (b @ d) @ incoming s'"
      using read_returns [OF r] d True by simp
    ultimately show ?thesis using read_frame [OF r] by metis
  next
    case False
    with less.prems obtain b where "read_exact ops n s = (Return b, s')"
      by (subst (asm) read_and_drop_loop.simps) (auto simp: exec_simps)
    then show ?thesis using read_returns read_frame by blast
  qed
qed

end

text \<open>A stream whose peer delivers everything and then closes: reads succeed while there is
  enough input, and end with \<open>UnexpectedEof\<close> when there is not; writes succeed.\<close>

locale reliable_stream = byte_stream +
  assumes read_enough:
    "n \<le> length (incoming s) \<Longrightarrow> \<exists>s'. read_exact ops n s = (Return (take n (incoming s)), s')"
    and read_short:
    "length (incoming s) < n \<Longrightarrow>
       \<exists>t s'. read_exact ops n s = (Throw (IoError UnexpectedEof t), s')"
    and write_succeeds: "\<exists>s'. write_all ops bs s = (Return (), s')"
begin

lemma reads_n:
  assumes "n \<le> length (incoming s)"
  obtains s' where "read_exact ops n s = (Return (take n (incoming s)), s')"
    "incoming s' = drop n (incoming s)" "sent s' = sent s"
proof -
  from read_enough [OF assms] obtain s' where r: "read_exact ops n s = (Return (take n (incoming s)), s')"
    by blast
  from read_returns [OF r] have "incoming s' = drop n (incoming s)"
    by (metis append_eq_conv_conj)
  with read_frame [OF r] that [OF r] show ?thesis by simp
qed

lemma reads:
  assumes "incoming s = bs @ r"
  obtains s' where "read_exact ops (length bs) s = (Return bs, s')" "incoming s' = r" "sent s' = sent s"
  using reads_n [of "length bs" s] assms that by auto

lemma reads_u32:
  assumes "incoming s = u32_to_be_bytes w @ r"
  obtains s' where "read_u32 ops s = (Return w, s')" "incoming s' = r" "sent s' = sent s"
proof -
  from reads [OF assms] obtain s' where "read_exact ops 4 s = (Return (u32_to_be_bytes w), s')"
    "incoming s' = r" "sent s' = sent s" by auto
  then show ?thesis
    using that by (simp add: read_u32_def bind_prog_def u32_from_to_be_bytes [unfolded One_nat_def])
qed

lemma reads_u8:
  assumes "incoming s = b # r"
  obtains s' where "read_u8 ops s = (Return b, s')" "incoming s' = r" "sent s' = sent s"
proof -
  from reads [of s "[b]" r] assms obtain s' where "read_exact ops 1 s = (Return [b], s')"
    "incoming s' = r" "sent s' = sent s" by auto
  then show ?thesis using that by (simp add: read_u8_def bind_prog_def)
qed

lemma read_and_drop_loop_skips:
  "n \<le> length (incoming s) \<Longrightarrow>
     \<exists>s'. read_and_drop_loop ops n s = (Return (), s') \<and> incoming s' = drop n (incoming s)"
proof (induction n arbitrary: s rule: less_induct)
  case (less n)
  show ?case
  proof (cases "BATCH \<le> n")
    case True
    with less.prems have "BATCH \<le> length (incoming s)" by simp
    from reads_n [OF this] obtain s1 where
      s1: "read_exact ops BATCH s = (Return (take BATCH (incoming s)), s1)"
        "incoming s1 = drop BATCH (incoming s)" by blast
    have "n - BATCH < n" "n - BATCH \<le> length (incoming s1)"
      using True less.prems s1(2) by (auto simp: BATCH_def)
    from less.IH [OF this] s1 True show ?thesis
      by (subst read_and_drop_loop.simps) (auto simp: bind_prog_def)
  next
    case False
    from reads_n [OF less.prems] obtain s1 where
      "read_exact ops n s = (Return (take n (incoming s)), s1)" "incoming s1 = drop n (incoming s)"
      by blast
    with False show ?thesis
      by (subst read_and_drop_loop.simps) (auto simp: bind_prog_def)
  qed
qed

end

section \<open>An in-memory stream\<close>

text \<open>A stream over two byte lists, like the \<open>&[u8]\<close> readers the repository's tests read
  from: the instance on which the stream contracts are shown to be satisfiable.\<close>

record Pipe =
  pipe_in :: "u8 list"
  pipe_out :: "u8 list"

definition pipe_ops :: "Pipe StreamOps" where
  "pipe_ops =
     \<lparr>read_exact = (\<lambda>n s.
        if n \<le> length (pipe_in s)
        then (Return (take n (pipe_in s)), s\<lparr>pipe_in := drop n (pipe_in s)\<rparr>)
        else (Throw (IoError UnexpectedEof ''early eof''), s\<lparr>pipe_in := []\<rparr>)),
      write_all = (\<lambda>bs s. (Return (), s\<lparr>pipe_out := pipe_out s @ bs\<rparr>))\<rparr>"

interpretation pipe: reliable_stream pipe_ops pipe_in pipe_out
  by unfold_locales (auto simp: pipe_ops_def suffix_drop split: if_splits)

end
