(* ===== verification/Encode.thy ===== *)
theory Encode
  imports Prelude
begin

text \<open>
  The byte writer of \<open>src/src/msg/util/encode.rs\<close>: \<open>BytesTarget\<close>, a cursor over a
  mutable slice of fixed length. Every write either fits and moves the cursor, or fails with
  the number of missing bytes and leaves the cursor at the end.
\<close>

datatype EncodeProblem = OutOfSpace nat

record BytesTarget =
  bt_slice :: "u8 list"
  bt_pos :: nat

definition BytesTarget_new :: "u8 list \<Rightarrow> BytesTarget" where
  "BytesTarget_new sl = \<lparr>bt_slice = sl, bt_pos = 0\<rparr>"

definition BytesTarget_left :: "BytesTarget \<Rightarrow> nat" where
  "BytesTarget_left self = length (bt_slice self) - bt_pos self"

definition BytesTarget_rest :: "BytesTarget \<Rightarrow> u8 list" where
  "BytesTarget_rest self = drop (bt_pos self) (bt_slice self)"

text \<open>The macro \<open>put_bounded!\<close>, with \<open>$value.to_be_bytes()\<close> as its argument: the loop
  stores the bytes one index at a time.\<close>

definition put_bounded :: "u8 list \<Rightarrow> BytesTarget \<Rightarrow> (EncodeProblem + unit) \<times> BytesTarget" where
  "put_bounded bytes self =
     (let LEN = length bytes in
      if bt_pos self + LEN \<le> length (bt_slice self)
      then (Inr (),
            self\<lparr>bt_slice := fold (\<lambda>i sl. sl[bt_pos self + i := bytes ! i]) [0..<LEN] (bt_slice self),
                 bt_pos := bt_pos self + LEN\<rparr>)
      else (let lft = length (bt_slice self) - bt_pos self
            in (Inl (OutOfSpace (LEN - lft)), self\<lparr>bt_pos := length (bt_slice self)\<rparr>)))"

definition put_u8 :: "u8 \<Rightarrow> BytesTarget \<Rightarrow> (EncodeProblem + unit) \<times> BytesTarget" where
  "put_u8 value = put_bounded [value]"

definition put_u32 :: "u32 \<Rightarrow> BytesTarget \<Rightarrow> (EncodeProblem + unit) \<times> BytesTarget" where
  "put_u32 value = put_bounded (u32_to_be_bytes value)"

section \<open>What the writes do to the slice\<close>

definition target_wf :: "BytesTarget \<Rightarrow> bool" where
  "target_wf bt \<longleftrightarrow> bt_pos bt \<le> length (bt_slice bt)"

lemma target_wf_new [simp]: "target_wf (BytesTarget_new sl)"
  by (simp add: target_wf_def BytesTarget_new_def)

text \<open>The store loop overwrites a window of the slice with the bytes.\<close>

lemma store_loop:
  "n \<le> length bytes \<Longrightarrow> p + n \<le> length sl \<Longrightarrow>
   fold (\<lambda>i s. s[p + i := bytes ! i]) [0..<n] sl = take p sl @ take n bytes @ drop (p + n) sl"
proof (induction n)
  case 0
  then show ?case by simp
next
  case (Suc n)
  then have "fold (\<lambda>i s. s[p + i := bytes ! i]) [0..<Suc n] sl
      = (take p sl @ take n bytes @ drop (p + n) sl)[p + n := bytes ! n]"
    by simp
  also have "drop (p + n) sl = sl ! (p + n) # drop (p + Suc n) sl"
    using Suc.prems by (simp add: Cons_nth_drop_Suc)
  also have "(take p sl @ take n bytes @ sl ! (p + n) # drop (p + Suc n) sl)[p + n := bytes ! n]
      = take p sl @ (take n bytes @ [bytes ! n]) @ drop (p + Suc n) sl"
    using Suc.prems by (simp add: list_update_append)
  also have "take n bytes @ [bytes ! n] = take (Suc n) bytes"
    using Suc.prems by (simp add: take_Suc_conv_app_nth)
  finally show ?case .
qed

lemma put_bounded_fits:
  assumes "bt_pos bt + length bytes \<le> length (bt_slice bt)"
  shows "put_bounded bytes bt =
    (Inr (), \<lparr>bt_slice = take (bt_pos bt) (bt_slice bt) @ bytes
                 @ drop (bt_pos bt + length bytes) (bt_slice bt),
              bt_pos = bt_pos bt + length bytes\<rparr>)"
  using assms by (cases bt) (simp add: put_bounded_def Let_def store_loop)

lemma put_bounded_short:
  assumes "target_wf bt" and "length (bt_slice bt) < bt_pos bt + length bytes"
  shows "put_bounded bytes bt =
    (Inl (OutOfSpace (length bytes - BytesTarget_left bt)), bt\<lparr>bt_pos := length (bt_slice bt)\<rparr>)"
  using assms by (simp add: put_bounded_def Let_def BytesTarget_left_def)

lemma put_bounded_keeps:
  assumes "target_wf bt" and "put_bounded bytes bt = (r, bt')"
  shows "target_wf bt' \<and> length (bt_slice bt') = length (bt_slice bt)"
proof (cases "bt_pos bt + length bytes \<le> length (bt_slice bt)")
  case True
  with assms show ?thesis by (auto simp: put_bounded_fits target_wf_def)
next
  case False
  with assms show ?thesis by (auto simp: put_bounded_short not_le target_wf_def)
qed

end
