(* ===== verification/Read.thy ===== *)
theory Read
  imports Async_IO Encode
begin

text \<open>
  Reading one message from a stream, \<open>src/src/msg/util/read.rs\<close>. The type byte, if the
  message has one, was read before; \<open>read_msg\<close> reads the length field and the body,
  rebuilds the bytes of the whole message and decodes the body. \<open>overflow_checks\<close> says
  whether the build traps arithmetic overflow (debug profile) or wraps (release profile).
\<close>

section \<open>read_msg\<close>

datatype ReadError = IoError Async_IO.IoError | EncodeError EncodeProblem

datatype MsgError = DecodeError Problem | LeftUndecoded nat

record 'm ReadData =
  rd_bytes :: "u8 list"
  rd_msg_result :: "MsgError + 'm"

text \<open>\<open>u32\<close> addition as the build profile defines it.\<close>

definition add_u32 :: "bool \<Rightarrow> u32 \<Rightarrow> u32 \<Rightarrow> ('s, 'e, u32) prog" where
  "add_u32 overflow_checks a b s =
     (if overflow_checks \<and> 2 ^ 32 \<le> uint a + uint b
      then (Panic ''attempt to add with overflow'', s)
      else (Return (a + b), s))"

definition alloc_vec :: "bool \<Rightarrow> 'm MsgDecode \<Rightarrow> u32 \<Rightarrow> ('s, 'e, u8 list) prog" where
  "alloc_vec overflow_checks D specified_len =
     (let type_len = (if TYPE_BYTE_OPT D \<noteq> None then 1 else 0)
      in bind_prog (add_u32 overflow_checks type_len specified_len) (\<lambda>full_len.
         return (replicate (unat full_len) 0)))"

definition put_header ::
  "'m MsgDecode \<Rightarrow> u32 \<Rightarrow> BytesTarget \<Rightarrow> (EncodeProblem + unit) \<times> BytesTarget" where
  "put_header D specified_len bytes_target =
     (case TYPE_BYTE_OPT D of
        Some type_byte \<Rightarrow>
          (case put_u8 (TypeByte_into type_byte) bytes_target of
             (Inl e, bt) \<Rightarrow> (Inl e, bt)
           | (Inr _, bt) \<Rightarrow> put_u32 specified_len bt)
      | None \<Rightarrow> put_u32 specified_len bytes_target)"

definition decode_whole :: "'m MsgDecode \<Rightarrow> u8 list \<Rightarrow> MsgError + 'm" where
  "decode_whole D body_bytes =
     (case decode_body D (BytesSource_new body_bytes) of
        (Inl e, _) \<Rightarrow> Inl (MsgError.DecodeError e)
      | (Inr msg, bytes_source) \<Rightarrow>
          (case left bytes_source of 0 \<Rightarrow> Inr msg | n \<Rightarrow> Inl (MsgError.LeftUndecoded n)))"

text \<open>\<open>stream.read_exact(bytes_target.rest())\<close> fills the tail of \<open>bytes\<close> in place.\<close>

definition read_msg ::
  "bool \<Rightarrow> 's StreamOps \<Rightarrow> 'm MsgDecode \<Rightarrow> ('s, ReadError, 'm ReadData) prog" where
  "read_msg overflow_checks ops D =
     bind_prog (map_err ReadError.IoError (read_u32 ops)) (\<lambda>specified_len.
     bind_prog (alloc_vec overflow_checks D specified_len) (\<lambda>bytes.
     case put_header D specified_len (BytesTarget_new bytes) of
       (Inl e, _) \<Rightarrow> throw (ReadError.EncodeError e)
     | (Inr _, bytes_target) \<Rightarrow>
         bind_prog
           (map_err ReadError.IoError
             (read_exact ops (length (BytesTarget_rest bytes_target)))) (\<lambda>body_bytes.
         return
           \<lparr>rd_bytes = take (bt_pos bytes_target) (bt_slice bytes_target) @ body_bytes,
            rd_msg_result = decode_whole D body_bytes\<rparr>)))"

section \<open>The frame of a message\<close>

definition type_prefix :: "'m MsgDecode \<Rightarrow> u8 list" where
  "type_prefix D = (case TYPE_BYTE_OPT D of None \<Rightarrow> [] | Some t \<Rightarrow> [TypeByte_into t])"

text \<open>The length field counts itself and the body, not the type byte.\<close>

definition frame :: "u8 list \<Rightarrow> u8 list" where
  "frame body = u32_to_be_bytes (word_of_nat (4 + length body)) @ body"

lemma length_type_prefix: "length (type_prefix D) = (if TYPE_BYTE_OPT D \<noteq> None then 1 else 0)"
  by (auto simp: type_prefix_def split: option.splits)

text \<open>The header fits exactly when the length field is at least four.\<close>

lemma put_header_fits:
  assumes "4 \<le> unat len"
  shows "put_header D len (BytesTarget_new (replicate (length (type_prefix D) + unat len) 0)) =
    (Inr (), \<lparr>bt_slice = type_prefix D @ u32_to_be_bytes len @ replicate (unat len - 4) 0,
              bt_pos = length (type_prefix D) + 4\<rparr>)"
  using assms
  by (cases "TYPE_BYTE_OPT D")
     (simp_all add: put_header_def type_prefix_def put_u8_def put_u32_def put_bounded_fits
        BytesTarget_new_def replicate_Suc)

lemma put_header_short:
  assumes "unat len < 4"
  shows "\<exists>bt. put_header D len (BytesTarget_new (replicate (length (type_prefix D) + unat len) 0)) =
    (Inl (OutOfSpace (4 - unat len)), bt)"
  using assms
  by (cases "TYPE_BYTE_OPT D")
     (simp_all add: put_header_def type_prefix_def put_u8_def put_u32_def put_bounded_fits
        put_bounded_short BytesTarget_new_def BytesTarget_left_def target_wf_def)

text \<open>The one length that does not fit in \<open>u32\<close> once the type byte is counted.\<close>

definition len_overflows :: "'m MsgDecode \<Rightarrow> u32 \<Rightarrow> bool" where
  "len_overflows D len \<longleftrightarrow> TYPE_BYTE_OPT D \<noteq> None \<and> len = - 1"

lemma u32_max_iff: "2 ^ 32 \<le> Suc (unat (len :: u32)) \<longleftrightarrow> len = - 1"
  using unat_u32_bound [of len] by (auto simp: word_unat_eq_iff)

lemma add_u32_unat:
  "add_u32 ovf a b s =
     (if ovf \<and> 2 ^ 32 \<le> unat a + unat b then (Panic ''attempt to add with overflow'', s)
      else (Return (a + b), s))"
proof -
  have "uint a + uint b = int (unat a + unat b)" by simp
  then have "2 ^ 32 \<le> uint a + uint b \<longleftrightarrow> int (2 ^ 32) \<le> int (unat a + unat b)" by simp
  then have "2 ^ 32 \<le> uint a + uint b \<longleftrightarrow> 2 ^ 32 \<le> unat a + unat b"
    unfolding of_nat_le_iff .
  then show ?thesis by (simp add: add_u32_def)
qed

lemma alloc_vec_fits:
  assumes "\<not> len_overflows D len"
  shows "alloc_vec ovf D len s = (Return (replicate (length (type_prefix D) + unat len) 0), s)"
proof (cases "TYPE_BYTE_OPT D")
  case None
  then show ?thesis using unat_u32_bound [of len]
    by (simp add: alloc_vec_def add_u32_unat bind_prog_def type_prefix_def)
next
  case (Some t)
  with assms have "Suc (unat len) < 2 ^ 32"
    using u32_max_iff [of len] by (simp add: len_overflows_def)
  with Some show ?thesis
    by (simp add: alloc_vec_def add_u32_unat bind_prog_def type_prefix_def unat_word_ariths)
qed

lemma alloc_vec_overflows:
  assumes "len_overflows D len"
  shows "alloc_vec ovf D len s =
    (if ovf then (Panic ''attempt to add with overflow'', s) else (Return [], s))"
  using assms by (auto simp: len_overflows_def alloc_vec_def add_u32_unat bind_prog_def)

lemma put_header_overflows:
  assumes "len_overflows D len"
  shows "\<exists>bt. put_header D len (BytesTarget_new []) = (Inl (OutOfSpace 1), bt)"
  using assms
  by (auto simp: len_overflows_def put_header_def put_u8_def put_bounded_def BytesTarget_new_def Let_def)

section \<open>What read_msg does\<close>

lemma frame_of_len:
  "4 \<le> unat len \<Longrightarrow> length body = unat len - 4 \<Longrightarrow> frame body = u32_to_be_bytes len @ body"
  by (simp add: frame_def)

lemma decode_whole_Inr:
  assumes "body_decoder (decode_body D) wire"
  shows "decode_whole D body = Inr m \<longleftrightarrow> wire m body"
  unfolding body_decoder.body_iff [OF assms, symmetric]
  by (auto simp: decode_whole_def split: prod.splits sum.splits nat.splits)

text \<open>Once the length is known and fits, what remains is one exact read.\<close>

definition read_body :: "'s StreamOps \<Rightarrow> 'm MsgDecode \<Rightarrow> u32 \<Rightarrow> ('s, ReadError, 'm ReadData) prog" where
  "read_body ops D len =
     bind_prog (map_err ReadError.IoError (read_exact ops (unat len - 4))) (\<lambda>body.
     return \<lparr>rd_bytes = type_prefix D @ u32_to_be_bytes len @ body,
             rd_msg_result = decode_whole D body\<rparr>)"

lemma read_msg_cases:
  "read_msg ovf ops D =
     bind_prog (map_err ReadError.IoError (read_u32 ops)) (\<lambda>len.
       if len_overflows D len
       then (if ovf then (\<lambda>s. (Panic ''attempt to add with overflow'', s))
             else throw (ReadError.EncodeError (OutOfSpace 1)))
       else if unat len < 4 then throw (ReadError.EncodeError (OutOfSpace (4 - unat len)))
       else read_body ops D len)"
proof -
  have *: "bind_prog (alloc_vec ovf D len) (\<lambda>bytes.
     case put_header D len (BytesTarget_new bytes) of
       (Inl e, _) \<Rightarrow> throw (ReadError.EncodeError e)
     | (Inr _, bytes_target) \<Rightarrow>
         bind_prog (map_err ReadError.IoError (read_exact ops (length (BytesTarget_rest bytes_target))))
           (\<lambda>body_bytes. return
             \<lparr>rd_bytes = take (bt_pos bytes_target) (bt_slice bytes_target) @ body_bytes,
              rd_msg_result = decode_whole D body_bytes\<rparr>)) s =
      (if len_overflows D len
       then (if ovf then (\<lambda>s. (Panic ''attempt to add with overflow'', s))
             else throw (ReadError.EncodeError (OutOfSpace 1)))
       else if unat len < 4 then throw (ReadError.EncodeError (OutOfSpace (4 - unat len)))
       else read_body ops D len) s" (is "?lhs s = ?rhs s") for len s
  proof (cases "len_overflows D len")
    case True
    with put_header_overflows [OF True] show ?thesis
      by (auto simp: bind_prog_def alloc_vec_overflows)
  next
    case fits: False
    show ?thesis
    proof (cases "unat len < 4")
      case True
      from put_header_short [OF True, of D] fits True show ?thesis
        by (auto simp: bind_prog_def alloc_vec_fits)
    next
      case False
      then show ?thesis
        using fits put_header_fits [of len D]
        by (simp add: bind_prog_def alloc_vec_fits read_body_def BytesTarget_rest_def)
    qed
  qed
  show ?thesis
    unfolding read_msg_def by (simp only: ext [OF *])
qed

context byte_stream
begin

lemma read_body_returns:
  assumes "read_body ops D len s = (Return d, s')" and "4 \<le> unat len"
  obtains body where "length body = unat len - 4" and "incoming s = body @ incoming s'"
    and "d = \<lparr>rd_bytes = type_prefix D @ frame body, rd_msg_result = decode_whole D body\<rparr>"
    and "sent s' = sent s"
proof -
  from assms(1) obtain body where r: "read_exact ops (unat len - 4) s = (Return body, s')"
    and d: "d = \<lparr>rd_bytes = type_prefix D @ u32_to_be_bytes len @ body, rd_msg_result = decode_whole D body\<rparr>"
    by (auto simp: read_body_def exec_simps)
  from read_returns [OF r] read_frame [OF r] d assms(2) show ?thesis
    by (intro that [of body]) (auto simp: frame_of_len)
qed

text \<open>A message that was read is the next frame of the stream; its reconstructed bytes are
  the type byte of its kind followed by exactly that frame.\<close>

lemma read_msg_returns:
  assumes "read_msg ovf ops D s = (Return d, s')"
  obtains body where "4 + length body < 2 ^ 32" and "incoming s = frame body @ incoming s'"
    and "d = \<lparr>rd_bytes = type_prefix D @ frame body, rd_msg_result = decode_whole D body\<rparr>"
    and "sent s' = sent s"
proof -
  from assms obtain len s1 where l: "read_u32 ops s = (Return len, s1)"
    and ok: "\<not> len_overflows D len" "4 \<le> unat len" and b: "read_body ops D len s1 = (Return d, s')"
    by (auto simp: read_msg_cases exec_simps split: if_splits)
  from read_body_returns [OF b ok(2)] obtain body where body: "length body = unat len - 4"
    "incoming s1 = body @ incoming s'"
    "d = \<lparr>rd_bytes = type_prefix D @ frame body, rd_msg_result = decode_whole D body\<rparr>"
    "sent s' = sent s1" .
  show ?thesis
  proof (rule that)
    show "4 + length body < 2 ^ 32" using body(1) ok(2) unat_u32_bound [of len] by simp
    show "incoming s = frame body @ incoming s'"
      using read_u32_returns [OF l] body ok by (simp add: frame_of_len)
  qed (use body read_u32_returns [OF l] in simp_all)
qed

lemma read_msg_frame:
  "read_msg ovf ops D s = (r, s') \<Longrightarrow> sent s' = sent s \<and> suffix (incoming s') (incoming s)"
proof -
  assume r: "read_msg ovf ops D s = (r, s')"
  have err: "sent t' = sent t \<and> suffix (incoming t') (incoming t)"
    if "map_err f (read_u32 ops) t = (q, t')" for f :: "Async_IO.IoError \<Rightarrow> ReadError" and q t t'
    using that read_u32_frame [of t "fst (read_u32 ops t)" t'] map_err_state [of f "read_u32 ops" t]
    by (cases "read_u32 ops t") simp
  have body: "sent t' = sent t \<and> suffix (incoming t') (incoming t)"
    if "read_body ops D len t = (q, t')" for len q t t'
    using that
    by (auto simp: read_body_def map_err_def bind_prog_def split: prod.splits outcome.splits
             dest: read_frame)
  from r show ?thesis
    unfolding read_msg_cases
    by (elim bind_prog_cases) (auto split: if_splits dest!: err body intro: suffix_order.trans)
qed

end

context reliable_stream
begin

text \<open>Conversely, every well-framed message is read, whatever follows it.\<close>

lemma read_msg_complete:
  assumes "incoming s = frame body @ r" and "4 + length body < 2 ^ 32"
    and "TYPE_BYTE_OPT D \<noteq> None \<longrightarrow> 4 + length body < 2 ^ 32 - 1"
  obtains s' where
    "read_msg ovf ops D s =
      (Return \<lparr>rd_bytes = type_prefix D @ frame body, rd_msg_result = decode_whole D body\<rparr>, s')"
    and "incoming s' = r" and "sent s' = sent s"
proof -
  let ?len = "word_of_nat (4 + length body) :: u32"
  have len: "unat ?len = 4 + length body"
    using assms(2) by (simp add: unat_of_nat del: of_nat_add)
  have noovf: "\<not> len_overflows D ?len"
    using assms(3) arg_cong [of ?len "- 1" unat] unfolding len_overflows_def len by auto
  from assms(1) have "incoming s = u32_to_be_bytes ?len @ body @ r" by (simp add: frame_def)
  from reads_u32 [OF this] obtain s1 where s1: "read_u32 ops s = (Return ?len, s1)"
    "incoming s1 = body @ r" "sent s1 = sent s" .
  from reads [OF s1(2)] obtain s2 where s2: "read_exact ops (length body) s1 = (Return body, s2)"
    "incoming s2 = r" "sent s2 = sent s1" .
  have "read_msg ovf ops D s =
      (Return \<lparr>rd_bytes = type_prefix D @ frame body, rd_msg_result = decode_whole D body\<rparr>, s2)"
    using s1 s2 noovf len
    by (simp add: read_msg_cases read_body_def bind_prog_def map_err_def frame_def)
  with s1 s2 that show ?thesis by simp
qed

lemma read_msg_bad_len:
  assumes "incoming s = u32_to_be_bytes len @ r" and "unat len < 4"
  shows "\<exists>s'. read_msg ovf ops D s = (Throw (ReadError.EncodeError (OutOfSpace (4 - unat len))), s')
    \<and> incoming s' = r \<and> sent s' = sent s"
proof -
  from reads_u32 [OF assms(1)] obtain s1 where "read_u32 ops s = (Return len, s1)"
    "incoming s1 = r" "sent s1 = sent s" .
  moreover have "\<not> len_overflows D len" using assms(2) by (auto simp: len_overflows_def)
  ultimately show ?thesis
    using assms(2) by (simp add: read_msg_cases bind_prog_def map_err_def)
qed

lemma read_msg_overflow:
  assumes "incoming s = u32_to_be_bytes (- 1) @ r" and "TYPE_BYTE_OPT D \<noteq> None"
  shows "\<exists>s'. read_msg ovf ops D s =
    (if ovf then Panic ''attempt to add with overflow''
     else Throw (ReadError.EncodeError (OutOfSpace 1)), s') \<and> incoming s' = r \<and> sent s' = sent s"
proof -
  from reads_u32 [OF assms(1)] obtain s1 where "read_u32 ops s = (Return (- 1), s1)"
    "incoming s1 = r" "sent s1 = sent s" .
  with assms(2) show ?thesis
    by (auto simp: read_msg_cases bind_prog_def map_err_def len_overflows_def)
qed

lemma read_msg_eof:
  assumes "incoming s = u32_to_be_bytes len @ r" and "4 \<le> unat len" and "\<not> len_overflows D len"
    and "length r < unat len - 4"
  shows "\<exists>t s'. read_msg ovf ops D s =
    (Throw (ReadError.IoError (Async_IO.IoError UnexpectedEof t)), s') \<and> sent s' = sent s"
proof -
  from reads_u32 [OF assms(1)] obtain s1 where s1: "read_u32 ops s = (Return len, s1)"
    "incoming s1 = r" "sent s1 = sent s" .
  from read_short [of s1 "unat len - 4"] s1 assms(4) obtain t s2 where
    s2: "read_exact ops (unat len - 4) s1 = (Throw (Async_IO.IoError UnexpectedEof t), s2)" by auto
  with s1 assms read_frame [OF s2] show ?thesis
    by (simp add: read_msg_cases read_body_def bind_prog_def map_err_def)
qed

end

end
