(* ===== verification/Parts.thy ===== *)
theory Parts
  imports Decode
begin

text \<open>
  The message parts of \<open>src/src/msg/parts.rs\<close>: \<open>Text\<close>, \<open>Format\<close>, \<open>Value\<close>, their
  \<open>PartDecode\<close> implementations and \<open>decode_vec\<close>. Each part decoder is shown exact for the
  wire format of the part, and \<open>decode_vec\<close> for the concatenation of its elements.
\<close>

section \<open>Parts\<close>

datatype Bytes = Bytes "u8 list"

datatype Format = Text | Binary

datatype Text = Text "u8 list"

datatype Value = Null | Bytes Bytes

definition Format_decode :: "Format decode" where
  "Format_decode =
     bind_dec take_u16 (\<lambda>x.
       if x = 0 then ok_dec Format.Text
       else if x = 1 then ok_dec Format.Binary
       else err_dec (Unknown (''Unknown format '' @ show_nat (unat x))))"

definition Text_decode :: "Text decode" where
  "Text_decode = bind_dec take_until_null (\<lambda>t. ok_dec (Text.Text t))"

text \<open>\<open>bytes.take_u32()? as i32\<close> is the two's complement reading of the four bytes.\<close>

definition Value_decode :: "Value decode" where
  "Value_decode =
     bind_dec take_u32 (\<lambda>v.
       if sint v = -1 then ok_dec Value.Null
       else if 0 \<le> sint v
         then bind_dec (take_vec (nat (sint v))) (\<lambda>value. ok_dec (Value.Bytes (Bytes.Bytes value)))
       else err_dec (Incorrect
         (''length of value should be >= -1 but is '' @ show_int (sint v))))"

definition u32_decode :: "u32 decode" where
  "u32_decode = take_u32"

text \<open>\<open>decode_vec\<close> pushes one decoded item per round; the capacity it reserves beforehand is
  not observable.\<close>

primrec decode_vec_loop :: "'p decode \<Rightarrow> nat \<Rightarrow> 'p list \<Rightarrow> 'p list decode" where
  "decode_vec_loop part_decode 0 items = ok_dec items"
| "decode_vec_loop part_decode (Suc n) items =
     bind_dec part_decode (\<lambda>x. decode_vec_loop part_decode n (items @ [x]))"

definition decode_vec :: "'p decode \<Rightarrow> nat \<Rightarrow> 'p list decode" where
  "decode_vec part_decode count = decode_vec_loop part_decode count []"

text \<open>The two ways the bodies call it: with a count read from the body,
  \<open>decode_vec(bytes.take_u16()? as usize, bytes)?\<close>, or from a \<open>u32\<close> field.\<close>

definition decode_vec_u16 :: "'p decode \<Rightarrow> 'p list decode" where
  "decode_vec_u16 part_decode =
     bind_dec take_u16 (\<lambda>count. decode_vec part_decode (unat count))"

definition decode_vec_u32 :: "'p decode \<Rightarrow> 'p list decode" where
  "decode_vec_u32 part_decode =
     bind_dec take_u32 (\<lambda>count. decode_vec part_decode (unat count))"

section \<open>Wire formats of the parts\<close>

primrec Format_wire :: "Format \<Rightarrow> u8 list" where
  "Format_wire Format.Text = u16_to_be_bytes 0"
| "Format_wire Format.Binary = u16_to_be_bytes 1"

primrec Text_valid :: "Text \<Rightarrow> bool" where
  "Text_valid (Text.Text t) \<longleftrightarrow> 0 \<notin> set t"

primrec Text_wire :: "Text \<Rightarrow> u8 list" where
  "Text_wire (Text.Text t) = t @ [0]"

primrec bytes_of :: "Bytes \<Rightarrow> u8 list" where
  "bytes_of (Bytes.Bytes b) = b"

primrec Value_valid :: "Value \<Rightarrow> bool" where
  "Value_valid Value.Null \<longleftrightarrow> True"
| "Value_valid (Value.Bytes b) \<longleftrightarrow> length (bytes_of b) < 2 ^ 31"

primrec Value_wire :: "Value \<Rightarrow> u8 list" where
  "Value_wire Value.Null = u32_to_be_bytes (- 1)"
| "Value_wire (Value.Bytes b) = u32_to_be_bytes (word_of_nat (length (bytes_of b))) @ bytes_of b"

text \<open>A vector whose element count was read from an unsigned field of the same width.\<close>

definition vec16_wire :: "('p \<Rightarrow> u8 list) \<Rightarrow> 'p list \<Rightarrow> u8 list" where
  "vec16_wire enc xs = u16_to_be_bytes (word_of_nat (length xs)) @ concat (map enc xs)"

definition vec16_valid :: "('p \<Rightarrow> bool) \<Rightarrow> 'p list \<Rightarrow> bool" where
  "vec16_valid valid xs \<longleftrightarrow> length xs < 2 ^ 16 \<and> list_all valid xs"

definition vec32_wire :: "('p \<Rightarrow> u8 list) \<Rightarrow> 'p list \<Rightarrow> u8 list" where
  "vec32_wire enc xs = u32_to_be_bytes (word_of_nat (length xs)) @ concat (map enc xs)"

definition vec32_valid :: "('p \<Rightarrow> bool) \<Rightarrow> 'p list \<Rightarrow> bool" where
  "vec32_valid valid xs \<longleftrightarrow> length xs < 2 ^ 32 \<and> list_all valid xs"

section \<open>Exactness\<close>

lemma exact_if [exact_intros]:
  assumes "c \<Longrightarrow> exact_decoder d V" and "\<not> c \<Longrightarrow> exact_decoder e W"
  shows "exact_decoder (if c then d else e) (\<lambda>x w. c \<and> V x w \<or> \<not> c \<and> W x w)"
  using assms by (cases c) simp_all

lemma exact_u32_decode [exact_intros]: "exact_decoder u32_decode (\<lambda>x w. True \<and> w = u32_to_be_bytes x)"
  by (rule exact_cong, unfold u32_decode_def, rule take_u32.exact_decoder_axioms) simp

lemma exact_Format_decode [exact_intros]:
  "exact_decoder Format_decode (\<lambda>f w. True \<and> w = Format_wire f)"
  unfolding Format_decode_def
proof (rule exact_cong, (rule exact_intros)+)
  fix f w
  show "(True \<and> w = Format_wire f) \<longleftrightarrow>
      (\<exists>x v u. v = u16_to_be_bytes x \<and>
        (x = 0 \<and> f = Format.Text \<and> u = [] \<or>
         x \<noteq> 0 \<and> (x = 1 \<and> f = Format.Binary \<and> u = [] \<or> x \<noteq> 1 \<and> False)) \<and> w = v @ u)"
    by (cases f) auto
qed

lemma exact_Text_decode [exact_intros]:
  "exact_decoder Text_decode (\<lambda>t w. Text_valid t \<and> w = Text_wire t)"
  unfolding Text_decode_def
proof (rule exact_cong, (rule exact_intros)+)
  fix t w
  show "(Text_valid t \<and> w = Text_wire t) \<longleftrightarrow>
      (\<exists>x v u. (0 \<notin> set x \<and> v = x @ [0]) \<and> (t = Text.Text x \<and> u = []) \<and> w = v @ u)"
    by (cases t) auto
qed

lemma exact_Value_decode [exact_intros]:
  "exact_decoder Value_decode (\<lambda>x w. Value_valid x \<and> w = Value_wire x)"
  unfolding Value_decode_def
proof (rule exact_cong, (rule exact_intros)+)
  fix x w
  show "(Value_valid x \<and> w = Value_wire x) \<longleftrightarrow>
      (\<exists>v a u. a = u32_to_be_bytes v \<and>
         (sint v = - 1 \<and> x = Value.Null \<and> u = [] \<or>
          sint v \<noteq> - 1 \<and>
            (0 \<le> sint v \<and>
               (\<exists>y b c. (b = y \<and> length y = nat (sint v)) \<and>
                    (x = Value.Bytes (Bytes.Bytes y) \<and> c = []) \<and> u = b @ c) \<or>
             \<not> 0 \<le> sint v \<and> False)) \<and> w = a @ u)"
  proof (cases x)
    case Null
    then show ?thesis by (auto simp: sint_u32_eq_minus_1)
  next
    case (Bytes b)
    then obtain y where y: "x = Value.Bytes (Bytes.Bytes y)" by (cases b) simp
    have "sint v \<noteq> - 1 \<and> 0 \<le> sint v \<and> length y = nat (sint v) \<longleftrightarrow>
        length y < 2 ^ 31 \<and> v = word_of_nat (length y)" for v :: u32
      using sint_u32_nonneg_iff [of v "length y"] by auto
    then show ?thesis
      unfolding y by simp metis
  qed
qed

text \<open>A vector of \<open>count\<close> parts is the concatenation of their wire formats.\<close>

lemma exact_decode_vec_loop:
  assumes "exact_decoder d (\<lambda>x w. P x \<and> w = enc x)"
  shows "exact_decoder (decode_vec_loop d n items)
    (\<lambda>ys w. \<exists>xs. ys = items @ xs \<and> length xs = n \<and> list_all P xs \<and> w = concat (map enc xs))"
proof (induction n arbitrary: items)
  case 0
  show ?case
    by (rule exact_cong, unfold decode_vec_loop.simps, rule exact_ok) auto
next
  case (Suc n)
  show ?case
    unfolding decode_vec_loop.simps
    by (rule exact_cong, rule exact_bind [OF assms Suc.IH]) (fastforce simp: length_Suc_conv)
qed

lemma exact_decode_vec:
  assumes "exact_decoder d (\<lambda>x w. P x \<and> w = enc x)"
  shows "exact_decoder (decode_vec d n)
    (\<lambda>xs w. length xs = n \<and> list_all P xs \<and> w = concat (map enc xs))"
  unfolding decode_vec_def
  by (rule exact_cong, rule exact_decode_vec_loop [OF assms]) simp

lemma exact_vec16 [exact_intros]:
  assumes "exact_decoder d (\<lambda>x w. P x \<and> w = enc x)"
  shows "exact_decoder (decode_vec_u16 d)
    (\<lambda>xs w. vec16_valid P xs \<and> w = vec16_wire enc xs)"
  unfolding decode_vec_u16_def
  by (rule exact_cong, rule exact_bind [OF take_u16.exact_decoder_axioms exact_decode_vec [OF assms]])
     (auto simp: vec16_valid_def vec16_wire_def unat_eq_iff [symmetric] eq_commute [of "length _"] unat_eq_iff)

lemma exact_vec32 [exact_intros]:
  assumes "exact_decoder d (\<lambda>x w. P x \<and> w = enc x)"
  shows "exact_decoder (decode_vec_u32 d)
    (\<lambda>xs w. vec32_valid P xs \<and> w = vec32_wire enc xs)"
  unfolding decode_vec_u32_def
  by (rule exact_cong, rule exact_bind [OF take_u32.exact_decoder_axioms exact_decode_vec [OF assms]])
     (auto simp: vec32_valid_def vec32_wire_def eq_commute [of "length _"] unat_eq_iff)

end
