(* ===== verification/Frontend_Bodies.thy ===== *)
theory Frontend_Bodies
  imports Parts
begin

text \<open>
  The bodies of the messages a frontend sends (\<open>src/src/msg/body/\<close>): \<open>Initial\<close>,
  \<open>Password\<close>, \<open>GssResponse\<close>, \<open>SaslInitialResponse\<close>, \<open>SaslResponse\<close>, \<open>Query\<close>,
  \<open>Parse\<close>, \<open>Bind\<close>, \<open>Execute\<close>, \<open>Sync\<close>, \<open>Terminate\<close>. For each: the struct, its
  \<open>decode_body\<close>, the \<open>MsgDecode\<close> dictionary, the wire format as a specification
  (\<open>_valid\<close> says which values have one), and the interpretation of the decoder contract.
\<close>

section \<open>Initial\<close>

record Version =
  major :: u16
  minor :: u16

record Cancel =
  cancel_process_id :: u32
  cancel_secret_key :: u32

record StartupParam =
  param_name :: "u8 list"
  param_value :: "u8 list"

record Startup =
  startup_version :: Version
  startup_params :: "StartupParam list"

datatype Initial = Cancel Cancel | TLS | Startup Startup

definition Version_decode :: "Version decode" where
  "Version_decode =
     bind_dec take_u16 (\<lambda>mj.
     bind_dec take_u16 (\<lambda>mn.
     ok_dec \<lparr>major = mj, minor = mn\<rparr>))"

text \<open>One round of the loop in \<open>StartupParam::decode_many\<close>.\<close>

definition decode_many_round ::
  "StartupParam list \<Rightarrow> (StartupParam list + StartupParam list) decode" where
  "decode_many_round params =
     bind_dec take_until_null (\<lambda>name.
       if name = [] then ok_dec (Inl params)
       else bind_dec take_until_null (\<lambda>val.
         ok_dec (Inr (params @ [\<lparr>param_name = name, param_value = val\<rparr>]))))"

lemma decode_many_round_left:
  "decode_many_round params bs = (Inr (Inr params'), bs') \<Longrightarrow> left bs' < left bs"
  by (auto simp: decode_many_round_def bind_dec_Inr ok_dec_def split: if_splits
           dest!: take_until_null_left)

function decode_many_loop :: "StartupParam list \<Rightarrow> StartupParam list decode" where
  "decode_many_loop params bs =
     (case decode_many_round params bs of
        (Inl e, bs') \<Rightarrow> (Inl e, bs')
      | (Inr (Inl ps), bs') \<Rightarrow> (Inr ps, bs')
      | (Inr (Inr params'), bs') \<Rightarrow> decode_many_loop params' bs')"
  by pat_completeness auto
termination
  by (relation "measure (\<lambda>(params, bs). left bs)") (auto dest: decode_many_round_left [OF sym])

declare decode_many_loop.simps [simp del]

definition StartupParam_decode_many :: "StartupParam list decode" where
  "StartupParam_decode_many = decode_many_loop []"

definition Initial_decode_body :: "Initial decode" where
  "Initial_decode_body =
     bind_dec Version_decode (\<lambda>version.
       if version = \<lparr>major = 1234, minor = 5678\<rparr> then
         bind_dec take_u32 (\<lambda>process_id.
         bind_dec take_u32 (\<lambda>secret_key.
         ok_dec (Initial.Cancel \<lparr>cancel_process_id = process_id, cancel_secret_key = secret_key\<rparr>)))
       else if version = \<lparr>major = 1234, minor = 5679\<rparr> then ok_dec Initial.TLS
       else
         bind_dec StartupParam_decode_many (\<lambda>params.
         ok_dec (Initial.Startup \<lparr>startup_version = version, startup_params = params\<rparr>)))"

definition Initial_msg :: "Initial MsgDecode" where
  "Initial_msg = \<lparr>TYPE_BYTE_OPT = None, decode_body = Initial_decode_body\<rparr>"

text \<open>Wire format.\<close>

definition Version_wire :: "Version \<Rightarrow> u8 list" where
  "Version_wire v = u16_to_be_bytes (major v) @ u16_to_be_bytes (minor v)"

definition StartupParam_valid :: "StartupParam \<Rightarrow> bool" where
  "StartupParam_valid p \<longleftrightarrow> param_name p \<noteq> [] \<and> 0 \<notin> set (param_name p) \<and> 0 \<notin> set (param_value p)"

definition StartupParam_wire :: "StartupParam \<Rightarrow> u8 list" where
  "StartupParam_wire p = param_name p @ [0] @ param_value p @ [0]"

definition request_version :: "u16 \<Rightarrow> Version" where
  "request_version mn = \<lparr>major = 1234, minor = mn\<rparr>"

fun Initial_valid :: "Initial \<Rightarrow> bool" where
  "Initial_valid (Initial.Startup s) \<longleftrightarrow>
     startup_version s \<notin> {request_version 5678, request_version 5679}
     \<and> list_all StartupParam_valid (startup_params s)"
| "Initial_valid _ \<longleftrightarrow> True"

fun Initial_wire :: "Initial \<Rightarrow> u8 list" where
  "Initial_wire (Initial.Cancel c) =
     Version_wire (request_version 5678) @ u32_to_be_bytes (cancel_process_id c)
       @ u32_to_be_bytes (cancel_secret_key c)"
| "Initial_wire Initial.TLS = Version_wire (request_version 5679)"
| "Initial_wire (Initial.Startup s) =
     Version_wire (startup_version s) @ concat (map StartupParam_wire (startup_params s)) @ [0]"

lemma exact_Version_decode [exact_intros]:
  "exact_decoder Version_decode (\<lambda>v w. True \<and> w = Version_wire v)"
  unfolding Version_decode_def
proof (rule exact_cong, (rule exact_intros)+)
  fix v w
  show "(True \<and> w = Version_wire v) \<longleftrightarrow> (\<exists>x va u. va = u16_to_be_bytes x \<and>
     (\<exists>xa v' u'. v' = u16_to_be_bytes xa \<and> (v = \<lparr>major = x, minor = xa\<rparr> \<and> u' = []) \<and> u = v' @ u')
     \<and> w = va @ u)"
    by (cases v) (auto simp: Version_wire_def)
qed

lemma exact_decode_many_round:
  "exact_decoder (decode_many_round params)
     (\<lambda>r w. case r of
              Inl y \<Rightarrow> y = id params \<and> w = [0]
            | Inr params' \<Rightarrow> \<exists>p. StartupParam_valid p \<and> w = StartupParam_wire p \<and> params' = params @ [p])"
  unfolding decode_many_round_def
proof (rule exact_cong, (rule exact_intros)+)
  fix r w
  show "(case r of
            Inl y \<Rightarrow> y = id params \<and> w = [0]
          | Inr params' \<Rightarrow> \<exists>p. StartupParam_valid p \<and> w = StartupParam_wire p \<and> params' = params @ [p])
    \<longleftrightarrow> (\<exists>x v u. (0 \<notin> set x \<and> v = x @ [0]) \<and>
       (x = [] \<and> r = Inl params \<and> u = [] \<or>
        x \<noteq> [] \<and> (\<exists>xa va ua. (0 \<notin> set xa \<and> va = xa @ [0]) \<and>
            (r = Inr (params @ [\<lparr>param_name = x, param_value = xa\<rparr>]) \<and> ua = []) \<and> u = va @ ua))
       \<and> w = v @ u)"
  proof (cases r)
    case (Inl a)
    then show ?thesis by auto
  next
    case (Inr b)
    have "(\<exists>p. StartupParam_valid p \<and> w = StartupParam_wire p \<and> b = params @ [p]) \<longleftrightarrow>
        (\<exists>x xa. StartupParam_valid \<lparr>param_name = x, param_value = xa\<rparr> \<and>
           w = StartupParam_wire \<lparr>param_name = x, param_value = xa\<rparr> \<and>
           b = params @ [\<lparr>param_name = x, param_value = xa\<rparr>])"
      by (metis StartupParam.surjective unit.exhaust)
    with Inr show ?thesis by (auto simp: StartupParam_valid_def StartupParam_wire_def)
  qed
qed

interpretation decode_many: terminated_loop decode_many_loop decode_many_round
  "\<lambda>params p. params @ [p]" id StartupParam_valid StartupParam_wire
  by (rule terminated_loop.intro)
     (rule decode_many_loop.simps, rule exact_decode_many_round, simp add: StartupParam_wire_def)

lemma exact_StartupParam_decode_many [exact_intros]:
  "exact_decoder StartupParam_decode_many
     (\<lambda>ps w. list_all StartupParam_valid ps \<and> w = concat (map StartupParam_wire ps) @ [0])"
  unfolding StartupParam_decode_many_def
  by (rule exact_cong, rule decode_many.run_exact) (simp add: foldl_snoc)

lemma exact_Initial_decode_body:
  "exact_decoder Initial_decode_body (\<lambda>m w. Initial_valid m \<and> w = Initial_wire m)"
  unfolding Initial_decode_body_def
proof (rule exact_cong, (rule exact_intros)+, goal_cases)
  case (1 m w)
  show ?case
  proof (cases m)
    case (Cancel c)
    then show ?thesis by (cases c) (auto simp: request_version_def)
  next
    case TLS
    then show ?thesis by (auto simp: request_version_def)
  next
    case (Startup s)
    then show ?thesis by (cases s) (auto simp: request_version_def)
  qed
qed

interpretation Initial: exact_decoder Initial_decode_body "\<lambda>m w. Initial_valid m \<and> w = Initial_wire m"
  by (rule exact_Initial_decode_body)

section \<open>Authentication responses\<close>

datatype Password = Password "u8 list"

definition Password_decode_body :: "Password decode" where
  "Password_decode_body =
     bind_dec take_until_null (\<lambda>password. ok_dec (Password.Password password))"

definition Password_TYPE_BYTE :: u8 where
  "Password_TYPE_BYTE = byte_char CHR ''p''"

definition Password_msg :: "Password MsgDecode" where
  "Password_msg =
     \<lparr>TYPE_BYTE_OPT = Some TypeByte.GssResponse_or_Password_or_SaslResponses,
      decode_body = Password_decode_body\<rparr>"

datatype GssResponse = GssResponse "u8 list"

definition GssResponse_decode_body :: "GssResponse decode" where
  "GssResponse_decode_body = bind_dec take_left (\<lambda>dat. ok_dec (GssResponse.GssResponse dat))"

definition GssResponse_TYPE_BYTE :: u8 where
  "GssResponse_TYPE_BYTE = byte_char CHR ''p''"

definition GssResponse_msg :: "GssResponse MsgDecode" where
  "GssResponse_msg =
     \<lparr>TYPE_BYTE_OPT = Some TypeByte.GssResponse_or_Password_or_SaslResponses,
      decode_body = GssResponse_decode_body\<rparr>"

record SaslInitialResponse =
  selected_mechanism :: "u8 list"
  initial_mechanism_data :: "u8 list option"

definition SaslInitialResponse_decode_body :: "SaslInitialResponse decode" where
  "SaslInitialResponse_decode_body =
     bind_dec take_until_null (\<lambda>mech.
     bind_dec
       (bind_dec take_u32 (\<lambda>len.
          if sint len = -1 then ok_dec None
          else if 0 \<le> sint len
            then bind_dec (take_vec (nat (sint len))) (\<lambda>dat. ok_dec (Some dat))
          else err_dec (Incorrect
            (''mechanism data len should be >= -1 but is '' @ show_int (sint len)))))
       (\<lambda>dat.
     ok_dec \<lparr>selected_mechanism = mech, initial_mechanism_data = dat\<rparr>))"

definition SaslInitialResponse_msg :: "SaslInitialResponse MsgDecode" where
  "SaslInitialResponse_msg =
     \<lparr>TYPE_BYTE_OPT = Some TypeByte.GssResponse_or_Password_or_SaslResponses,
      decode_body = SaslInitialResponse_decode_body\<rparr>"

record SaslResponse =
  mechanism_data :: "u8 list"

definition SaslResponse_decode_body :: "SaslResponse decode" where
  "SaslResponse_decode_body = bind_dec take_left (\<lambda>dat. ok_dec \<lparr>mechanism_data = dat\<rparr>)"

definition SaslResponse_msg :: "SaslResponse MsgDecode" where
  "SaslResponse_msg =
     \<lparr>TYPE_BYTE_OPT = Some TypeByte.GssResponse_or_Password_or_SaslResponses,
      decode_body = SaslResponse_decode_body\<rparr>"

text \<open>Wire formats.\<close>

primrec Password_valid :: "Password \<Rightarrow> bool" where
  "Password_valid (Password.Password p) \<longleftrightarrow> 0 \<notin> set p"

primrec Password_wire :: "Password \<Rightarrow> u8 list" where
  "Password_wire (Password.Password p) = p @ [0]"

primrec GssResponse_wire :: "GssResponse \<Rightarrow> u8 list" where
  "GssResponse_wire (GssResponse.GssResponse d) = d"

definition opt_bytes_valid :: "u8 list option \<Rightarrow> bool" where
  "opt_bytes_valid d \<longleftrightarrow> (case d of None \<Rightarrow> True | Some b \<Rightarrow> length b < 2 ^ 31)"

definition opt_bytes_wire :: "u8 list option \<Rightarrow> u8 list" where
  "opt_bytes_wire d =
     (case d of None \<Rightarrow> u32_to_be_bytes (- 1)
      | Some b \<Rightarrow> u32_to_be_bytes (word_of_nat (length b)) @ b)"

definition SaslInitialResponse_valid :: "SaslInitialResponse \<Rightarrow> bool" where
  "SaslInitialResponse_valid m \<longleftrightarrow>
     0 \<notin> set (selected_mechanism m) \<and> opt_bytes_valid (initial_mechanism_data m)"

definition SaslInitialResponse_wire :: "SaslInitialResponse \<Rightarrow> u8 list" where
  "SaslInitialResponse_wire m =
     (selected_mechanism m @ [0]) @ opt_bytes_wire (initial_mechanism_data m)"

definition SaslResponse_wire :: "SaslResponse \<Rightarrow> u8 list" where
  "SaslResponse_wire m = mechanism_data m"

interpretation Password: exact_decoder Password_decode_body "\<lambda>m w. Password_valid m \<and> w = Password_wire m"
  unfolding Password_decode_body_def
proof (rule exact_cong, (rule exact_intros)+, goal_cases)
  case (1 m w)
  then show ?case by (cases m) auto
qed

interpretation GssResponse: body_decoder GssResponse_decode_body "\<lambda>m w. True \<and> w = GssResponse_wire m"
  unfolding GssResponse_decode_body_def
proof (rule body_cong, rule body_then_ok [OF take_left_body], goal_cases)
  case (1 m w)
  then show ?case by (cases m) auto
qed

interpretation SaslResponse: body_decoder SaslResponse_decode_body "\<lambda>m w. True \<and> w = SaslResponse_wire m"
  unfolding SaslResponse_decode_body_def
proof (rule body_cong, rule body_then_ok [OF take_left_body], goal_cases)
  case (1 m w)
  then show ?case by (cases m) (auto simp: SaslResponse_wire_def)
qed

lemma exact_opt_bytes [exact_intros]:
  "exact_decoder
     (bind_dec take_u32 (\<lambda>len.
        if sint len = -1 then ok_dec None
        else if 0 \<le> sint len then bind_dec (take_vec (nat (sint len))) (\<lambda>dat. ok_dec (Some dat))
        else err_dec (Incorrect (msg len))))
     (\<lambda>d w. opt_bytes_valid d \<and> w = opt_bytes_wire d)"
proof (rule exact_cong, (rule exact_intros)+, goal_cases)
  case (1 d w)
  show ?case
  proof (cases d)
    case None
    then show ?thesis by (auto simp: opt_bytes_valid_def opt_bytes_wire_def sint_u32_eq_minus_1)
  next
    case (Some y)
    have "sint v \<noteq> - 1 \<and> 0 \<le> sint v \<and> length y = nat (sint v) \<longleftrightarrow>
        length y < 2 ^ 31 \<and> v = word_of_nat (length y)" for v :: u32
      using sint_u32_nonneg_iff [of v "length y"] by auto
    with Some show ?thesis by (simp add: opt_bytes_valid_def opt_bytes_wire_def) metis
  qed
qed

interpretation SaslInitialResponse: exact_decoder SaslInitialResponse_decode_body
  "\<lambda>m w. SaslInitialResponse_valid m \<and> w = SaslInitialResponse_wire m"
  unfolding SaslInitialResponse_decode_body_def
proof (rule exact_cong, rule exact_bind, rule exact_intros, rule exact_bind, rule exact_opt_bytes,
    rule exact_intros, goal_cases)
  case (1 m w)
  then show ?case
    by (cases m) (auto simp: SaslInitialResponse_valid_def SaslInitialResponse_wire_def)
qed

section \<open>Queries\<close>

datatype Query = Query "u8 list"

definition Query_decode_body :: "Query decode" where
  "Query_decode_body = bind_dec take_until_null (\<lambda>query. ok_dec (Query.Query query))"

definition Query_TYPE_BYTE :: u8 where
  "Query_TYPE_BYTE = byte_char CHR ''Q''"

definition Query_msg :: "Query MsgDecode" where
  "Query_msg = \<lparr>TYPE_BYTE_OPT = Some TypeByte.Query, decode_body = Query_decode_body\<rparr>"

record Parse =
  parse_prepared_statement_name :: Text
  parse_query :: Text
  parse_parameters_types :: "u32 list"

definition Parse_decode_body :: "Parse decode" where
  "Parse_decode_body =
     bind_dec Text_decode (\<lambda>prepared_statement_name.
     bind_dec Text_decode (\<lambda>query.
     bind_dec (decode_vec_u16 u32_decode) (\<lambda>parameters_types.
     ok_dec \<lparr>parse_prepared_statement_name = prepared_statement_name, parse_query = query,
             parse_parameters_types = parameters_types\<rparr>)))"

definition Parse_msg :: "Parse MsgDecode" where
  "Parse_msg = \<lparr>TYPE_BYTE_OPT = Some TypeByte.Parse, decode_body = Parse_decode_body\<rparr>"

record Bind =
  bind_prepared_statement_name :: Text
  bind_portal_name :: Text
  parameters_formats :: "Format list"
  parameters_values :: "Value list"
  results_formats :: "Format list"

definition Bind_decode_body :: "Bind decode" where
  "Bind_decode_body =
     bind_dec Text_decode (\<lambda>prepared_statement_name.
     bind_dec Text_decode (\<lambda>portal_name.
     bind_dec (decode_vec_u16 Format_decode) (\<lambda>p_formats.
     bind_dec (decode_vec_u16 Value_decode) (\<lambda>p_values.
     bind_dec (decode_vec_u16 Format_decode) (\<lambda>r_formats.
     ok_dec \<lparr>bind_prepared_statement_name = prepared_statement_name,
             bind_portal_name = portal_name, parameters_formats = p_formats,
             parameters_values = p_values, results_formats = r_formats\<rparr>)))))"

definition Bind_msg :: "Bind MsgDecode" where
  "Bind_msg = \<lparr>TYPE_BYTE_OPT = Some TypeByte.Bind, decode_body = Bind_decode_body\<rparr>"

record Execute =
  execute_portal_name :: Text
  rows_limit :: u32

definition Execute_decode_body :: "Execute decode" where
  "Execute_decode_body =
     bind_dec Text_decode (\<lambda>portal_name.
     bind_dec take_u32 (\<lambda>limit.
     ok_dec \<lparr>execute_portal_name = portal_name, rows_limit = limit\<rparr>))"

definition Execute_msg :: "Execute MsgDecode" where
  "Execute_msg =
     \<lparr>TYPE_BYTE_OPT = Some TypeByte.Execute_or_ErrorResponse, decode_body = Execute_decode_body\<rparr>"

datatype Sync = Sync

definition Sync_decode_body :: "Sync decode" where
  "Sync_decode_body = ok_dec Sync.Sync"

definition Sync_msg :: "Sync MsgDecode" where
  "Sync_msg =
     \<lparr>TYPE_BYTE_OPT = Some TypeByte.ParameterStatus_or_Sync, decode_body = Sync_decode_body\<rparr>"

datatype Terminate = Terminate

definition Terminate_decode_body :: "Terminate decode" where
  "Terminate_decode_body = ok_dec Terminate.Terminate"

definition Terminate_TYPE_BYTE :: u8 where
  "Terminate_TYPE_BYTE = byte_char CHR ''X''"

definition Terminate_msg :: "Terminate MsgDecode" where
  "Terminate_msg = \<lparr>TYPE_BYTE_OPT = Some TypeByte.Terminate, decode_body = Terminate_decode_body\<rparr>"

text \<open>Wire formats.\<close>

primrec Query_valid :: "Query \<Rightarrow> bool" where
  "Query_valid (Query.Query q) \<longleftrightarrow> 0 \<notin> set q"

primrec Query_wire :: "Query \<Rightarrow> u8 list" where
  "Query_wire (Query.Query q) = q @ [0]"

definition Parse_valid :: "Parse \<Rightarrow> bool" where
  "Parse_valid m \<longleftrightarrow>
     Text_valid (parse_prepared_statement_name m) \<and> Text_valid (parse_query m)
     \<and> vec16_valid (\<lambda>_. True) (parse_parameters_types m)"

definition Parse_wire :: "Parse \<Rightarrow> u8 list" where
  "Parse_wire m =
     Text_wire (parse_prepared_statement_name m) @ Text_wire (parse_query m)
       @ vec16_wire u32_to_be_bytes (parse_parameters_types m)"

definition Bind_valid :: "Bind \<Rightarrow> bool" where
  "Bind_valid m \<longleftrightarrow>
     Text_valid (bind_prepared_statement_name m) \<and> Text_valid (bind_portal_name m)
     \<and> vec16_valid (\<lambda>_. True) (parameters_formats m)
     \<and> vec16_valid Value_valid (parameters_values m)
     \<and> vec16_valid (\<lambda>_. True) (results_formats m)"

definition Bind_wire :: "Bind \<Rightarrow> u8 list" where
  "Bind_wire m =
     Text_wire (bind_prepared_statement_name m) @ Text_wire (bind_portal_name m)
       @ vec16_wire Format_wire (parameters_formats m)
       @ vec16_wire Value_wire (parameters_values m)
       @ vec16_wire Format_wire (results_formats m)"

definition Execute_valid :: "Execute \<Rightarrow> bool" where
  "Execute_valid m \<longleftrightarrow> Text_valid (execute_portal_name m)"

definition Execute_wire :: "Execute \<Rightarrow> u8 list" where
  "Execute_wire m = Text_wire (execute_portal_name m) @ u32_to_be_bytes (rows_limit m)"

definition Sync_wire :: "Sync \<Rightarrow> u8 list" where
  "Sync_wire m = []"

definition Terminate_wire :: "Terminate \<Rightarrow> u8 list" where
  "Terminate_wire m = []"

interpretation Query: exact_decoder Query_decode_body "\<lambda>m w. Query_valid m \<and> w = Query_wire m"
  unfolding Query_decode_body_def
proof (rule exact_cong, (rule exact_intros)+, goal_cases)
  case (1 m w)
  then show ?case by (cases m) auto
qed

interpretation Parse: exact_decoder Parse_decode_body "\<lambda>m w. Parse_valid m \<and> w = Parse_wire m"
  unfolding Parse_decode_body_def
proof (rule exact_cong, (rule exact_intros)+, goal_cases)
  case (1 m w)
  then show ?case by (cases m) (auto simp: Parse_valid_def Parse_wire_def)
qed

interpretation Bind: exact_decoder Bind_decode_body "\<lambda>m w. Bind_valid m \<and> w = Bind_wire m"
  unfolding Bind_decode_body_def
proof (rule exact_cong, (rule exact_intros)+, goal_cases)
  case (1 m w)
  then show ?case by (cases m) (auto simp: Bind_valid_def Bind_wire_def)
qed

interpretation Execute: exact_decoder Execute_decode_body "\<lambda>m w. Execute_valid m \<and> w = Execute_wire m"
  unfolding Execute_decode_body_def
proof (rule exact_cong, (rule exact_intros)+, goal_cases)
  case (1 m w)
  then show ?case by (cases m) (auto simp: Execute_valid_def Execute_wire_def)
qed

interpretation Sync: exact_decoder Sync_decode_body "\<lambda>m w. True \<and> w = Sync_wire m"
  unfolding Sync_decode_body_def
proof (rule exact_cong, rule exact_ok, goal_cases)
  case (1 m w)
  then show ?case by (cases m) (simp add: Sync_wire_def)
qed

interpretation Terminate: exact_decoder Terminate_decode_body "\<lambda>m w. True \<and> w = Terminate_wire m"
  unfolding Terminate_decode_body_def
proof (rule exact_cong, rule exact_ok, goal_cases)
  case (1 m w)
  then show ?case by (cases m) (simp add: Terminate_wire_def)
qed

end
