(* ===== verification/Backend_Bodies.thy ===== *)
theory Backend_Bodies
  imports Parts
begin

text \<open>
  The bodies of the messages a backend sends (\<open>src/src/msg/body/\<close>): \<open>Authentication\<close>,
  \<open>BackendKeyData\<close>, \<open>BindComplete\<close>, \<open>CommandComplete\<close>, \<open>DataRow\<close>,
  \<open>EmptyQueryResponse\<close>, \<open>ErrorResponse\<close>, \<open>NegotiateProtocolVersion\<close>,
  \<open>NoticeResponse\<close>, \<open>ParameterStatus\<close>, \<open>ParseComplete\<close>, \<open>PortalSuspended\<close>,
  \<open>ReadyForQuery\<close>, \<open>RowDescription\<close>; laid out as in \<open>Frontend_Bodies\<close>.
\<close>

section \<open>Authentication\<close>

datatype Authentication =
    CleartextPassword
  | Gss
  | GssContinue "u8 list"
  | KerberosV5
  | Md5Password "u8 list"
  | Ok
  | Sasl "u8 list list"
  | SaslContinue "u8 list"
  | SaslFinal "u8 list"
  | ScmCredential
  | Sspi

definition decode_gss_continue :: "Authentication decode" where
  "decode_gss_continue = bind_dec take_left (\<lambda>auth_data. ok_dec (Authentication.GssContinue auth_data))"

definition decode_md5_password :: "Authentication decode" where
  "decode_md5_password =
     bind_dec (take_slice [0, 0, 0, 0]) (\<lambda>salt. ok_dec (Authentication.Md5Password salt))"

text \<open>One round of the loop in \<open>decode_sasl\<close>.\<close>

definition decode_sasl_round :: "u8 list list \<Rightarrow> (u8 list list + u8 list list) decode" where
  "decode_sasl_round auth_mechanisms =
     bind_dec take_until_null (\<lambda>mech.
       if mech = [] then ok_dec (Inl auth_mechanisms)
       else ok_dec (Inr (auth_mechanisms @ [mech])))"

lemma decode_sasl_round_left:
  "decode_sasl_round ms bs = (Inr (Inr ms'), bs') \<Longrightarrow> left bs' < left bs"
  by (auto simp: decode_sasl_round_def bind_dec_Inr ok_dec_def split: if_splits
           dest!: take_until_null_left)

function decode_sasl_loop :: "u8 list list \<Rightarrow> u8 list list decode" where
  "decode_sasl_loop auth_mechanisms bs =
     (case decode_sasl_round auth_mechanisms bs of
        (Inl e, bs') \<Rightarrow> (Inl e, bs')
      | (Inr (Inl ms), bs') \<Rightarrow> (Inr ms, bs')
      | (Inr (Inr ms), bs') \<Rightarrow> decode_sasl_loop ms bs')"
  by pat_completeness auto
termination
  by (relation "measure (\<lambda>(ms, bs). left bs)") (auto dest: decode_sasl_round_left [OF sym])

declare decode_sasl_loop.simps [simp del]

definition decode_sasl :: "Authentication decode" where
  "decode_sasl =
     bind_dec (decode_sasl_loop []) (\<lambda>auth_mechanisms. ok_dec (Authentication.Sasl auth_mechanisms))"

definition decode_sasl_continue :: "Authentication decode" where
  "decode_sasl_continue = bind_dec take_left (\<lambda>dat. ok_dec (Authentication.SaslContinue dat))"

definition decode_sasl_final :: "Authentication decode" where
  "decode_sasl_final =
     bind_dec take_left (\<lambda>additional_data. ok_dec (Authentication.SaslFinal additional_data))"

definition Authentication_decode_body :: "Authentication decode" where
  "Authentication_decode_body =
     bind_dec take_u32 (\<lambda>auth_type.
       if auth_type = 0 then ok_dec Authentication.Ok
       else if auth_type = 2 then ok_dec Authentication.KerberosV5
       else if auth_type = 3 then ok_dec Authentication.CleartextPassword
       else if auth_type = 5 then decode_md5_password
       else if auth_type = 6 then ok_dec Authentication.ScmCredential
       else if auth_type = 7 then ok_dec Authentication.Gss
       else if auth_type = 8 then decode_gss_continue
       else if auth_type = 9 then ok_dec Authentication.Sspi
       else if auth_type = 10 then decode_sasl
       else if auth_type = 11 then decode_sasl_continue
       else if auth_type = 12 then decode_sasl_final
       else err_dec (Unknown (''has unknown sub-type '' @ show_nat (unat auth_type))))"

definition Authentication_TYPE_BYTE :: u8 where
  "Authentication_TYPE_BYTE = byte_char CHR ''R''"

definition Authentication_msg :: "Authentication MsgDecode" where
  "Authentication_msg =
     \<lparr>TYPE_BYTE_OPT = Some TypeByte.Authentication, decode_body = Authentication_decode_body\<rparr>"

text \<open>Wire format.\<close>

definition mechanism_valid :: "u8 list \<Rightarrow> bool" where
  "mechanism_valid m \<longleftrightarrow> m \<noteq> [] \<and> 0 \<notin> set m"

definition mechanism_wire :: "u8 list \<Rightarrow> u8 list" where
  "mechanism_wire m = m @ [0]"

fun Authentication_valid :: "Authentication \<Rightarrow> bool" where
  "Authentication_valid (Authentication.Md5Password salt) \<longleftrightarrow> length salt = 4"
| "Authentication_valid (Authentication.Sasl ms) \<longleftrightarrow> list_all mechanism_valid ms"
| "Authentication_valid _ \<longleftrightarrow> True"

fun Authentication_wire :: "Authentication \<Rightarrow> u8 list" where
  "Authentication_wire Authentication.Ok = u32_to_be_bytes 0"
| "Authentication_wire Authentication.KerberosV5 = u32_to_be_bytes 2"
| "Authentication_wire Authentication.CleartextPassword = u32_to_be_bytes 3"
| "Authentication_wire (Authentication.Md5Password salt) = u32_to_be_bytes 5 @ salt"
| "Authentication_wire Authentication.ScmCredential = u32_to_be_bytes 6"
| "Authentication_wire Authentication.Gss = u32_to_be_bytes 7"
| "Authentication_wire (Authentication.GssContinue d) = u32_to_be_bytes 8 @ d"
| "Authentication_wire Authentication.Sspi = u32_to_be_bytes 9"
| "Authentication_wire (Authentication.Sasl ms) =
     u32_to_be_bytes 10 @ concat (map mechanism_wire ms) @ [0]"
| "Authentication_wire (Authentication.SaslContinue d) = u32_to_be_bytes 11 @ d"
| "Authentication_wire (Authentication.SaslFinal d) = u32_to_be_bytes 12 @ d"

lemma exact_decode_sasl_round:
  "exact_decoder (decode_sasl_round ms)
     (\<lambda>r w. case r of
              Inl y \<Rightarrow> y = id ms \<and> w = [0]
            | Inr ms' \<Rightarrow> \<exists>m. mechanism_valid m \<and> w = mechanism_wire m \<and> ms' = ms @ [m])"
  unfolding decode_sasl_round_def
proof (rule exact_cong, (rule exact_intros)+, goal_cases)
  case (1 r w)
  then show ?case
    by (cases r) (auto simp: mechanism_valid_def mechanism_wire_def)
qed

interpretation decode_sasl: terminated_loop decode_sasl_loop decode_sasl_round
  "\<lambda>ms m. ms @ [m]" id mechanism_valid mechanism_wire
  by (rule terminated_loop.intro)
     (rule decode_sasl_loop.simps, rule exact_decode_sasl_round, simp add: mechanism_wire_def)

lemma exact_decode_sasl:
  "exact_decoder decode_sasl
     (\<lambda>a w. \<exists>ms. a = Authentication.Sasl ms \<and> list_all mechanism_valid ms
        \<and> w = concat (map mechanism_wire ms) @ [0])"
  unfolding decode_sasl_def
proof (rule exact_cong, rule exact_bind, rule decode_sasl.run_exact, rule exact_ok, goal_cases)
  case (1 a w)
  then show ?case by (auto simp: foldl_snoc)
qed

lemmas body_take_left = body_then_ok [OF take_left_body]

lemma body_if:
  assumes "c \<Longrightarrow> body_decoder d V" and "\<not> c \<Longrightarrow> body_decoder e W"
  shows "body_decoder (if c then d else e) (\<lambda>x w. c \<and> V x w \<or> \<not> c \<and> W x w)"
  using assms by (cases c) simp_all

interpretation Authentication: body_decoder Authentication_decode_body
  "\<lambda>m w. Authentication_valid m \<and> w = Authentication_wire m"
  unfolding Authentication_decode_body_def decode_gss_continue_def decode_md5_password_def
    decode_sasl_continue_def decode_sasl_final_def
proof (rule body_cong, rule body_bind, rule exact_intros,
    ((rule body_if body_take_left body_of_exact [OF exact_decode_sasl]
        body_of_exact [OF exact_ok] body_of_exact [OF exact_err]
        body_of_exact [OF exact_bind [OF take_slice.exact_decoder_axioms exact_ok]])+), goal_cases)
  case (1 m w)
  then show ?case
    by (cases m) auto
qed

section \<open>Errors and notices\<close>

record ErrorOrNoticeFields =
  localized_severity :: "u8 list option"
  severity :: "u8 list option"
  code :: "u8 list option"
  message :: "u8 list option"
  detail :: "u8 list option"
  hint :: "u8 list option"
  position :: "u8 list option"
  internal_position :: "u8 list option"
  internal_query :: "u8 list option"
  where_field :: "u8 list option"
  schema :: "u8 list option"
  table :: "u8 list option"
  column :: "u8 list option"
  data_type :: "u8 list option"
  constraint :: "u8 list option"
  file_field :: "u8 list option"
  line :: "u8 list option"
  routine :: "u8 list option"

datatype ErrorResponse = ErrorResponse ErrorOrNoticeFields

datatype NoticeResponse = NoticeResponse ErrorOrNoticeFields

definition ErrorOrNoticeFields_default :: ErrorOrNoticeFields where
  "ErrorOrNoticeFields_default =
     \<lparr>localized_severity = None, severity = None, code = None, message = None, detail = None,
      hint = None, position = None, internal_position = None, internal_query = None,
      where_field = None, schema = None, table = None, column = None, data_type = None,
      constraint = None, file_field = None, line = None, routine = None\<rparr>"

text \<open>The table of \<open>read_struct_of_opt_fields!\<close>: which field a type byte sets.\<close>

definition field_setter ::
  "u8 \<Rightarrow> (u8 list \<Rightarrow> ErrorOrNoticeFields \<Rightarrow> ErrorOrNoticeFields) option" where
  "field_setter b =
     (if b = byte_char CHR ''S'' then Some (\<lambda>v r. r\<lparr>localized_severity := Some v\<rparr>)
      else if b = byte_char CHR ''V'' then Some (\<lambda>v r. r\<lparr>severity := Some v\<rparr>)
      else if b = byte_char CHR ''C'' then Some (\<lambda>v r. r\<lparr>code := Some v\<rparr>)
      else if b = byte_char CHR ''M'' then Some (\<lambda>v r. r\<lparr>message := Some v\<rparr>)
      else if b = byte_char CHR ''D'' then Some (\<lambda>v r. r\<lparr>detail := Some v\<rparr>)
      else if b = byte_char CHR ''H'' then Some (\<lambda>v r. r\<lparr>hint := Some v\<rparr>)
      else if b = byte_char CHR ''P'' then Some (\<lambda>v r. r\<lparr>position := Some v\<rparr>)
      else if b = byte_char CHR ''p'' then Some (\<lambda>v r. r\<lparr>internal_position := Some v\<rparr>)
      else if b = byte_char CHR ''q'' then Some (\<lambda>v r. r\<lparr>internal_query := Some v\<rparr>)
      else if b = byte_char CHR ''W'' then Some (\<lambda>v r. r\<lparr>where_field := Some v\<rparr>)
      else if b = byte_char CHR ''s'' then Some (\<lambda>v r. r\<lparr>schema := Some v\<rparr>)
      else if b = byte_char CHR ''t'' then Some (\<lambda>v r. r\<lparr>table := Some v\<rparr>)
      else if b = byte_char CHR ''c'' then Some (\<lambda>v r. r\<lparr>column := Some v\<rparr>)
      else if b = byte_char CHR ''d'' then Some (\<lambda>v r. r\<lparr>data_type := Some v\<rparr>)
      else if b = byte_char CHR ''n'' then Some (\<lambda>v r. r\<lparr>constraint := Some v\<rparr>)
      else if b = byte_char CHR ''F'' then Some (\<lambda>v r. r\<lparr>file_field := Some v\<rparr>)
      else if b = byte_char CHR ''L'' then Some (\<lambda>v r. r\<lparr>line := Some v\<rparr>)
      else if b = byte_char CHR ''R'' then Some (\<lambda>v r. r\<lparr>routine := Some v\<rparr>)
      else None)"

text \<open>One round of its loop; the accumulator is the running \<open>index\<close> and the result so far.\<close>

definition fields_round ::
  "nat \<times> ErrorOrNoticeFields \<Rightarrow> (ErrorOrNoticeFields + nat \<times> ErrorOrNoticeFields) decode" where
  "fields_round acc =
     bind_dec take_u8 (\<lambda>b.
       if b = 0 then ok_dec (Inl (snd acc))
       else case field_setter b of
         Some set_field \<Rightarrow>
           bind_dec take_until_null (\<lambda>val. ok_dec (Inr (fst acc + 1, set_field val (snd acc))))
       | None \<Rightarrow>
           err_dec (Unknown (''field['' @ show_nat (fst acc) @ ''] has unknown type '' @ show_nat (unat b))))"

lemma fields_round_left:
  "fields_round acc bs = (Inr (Inr acc'), bs') \<Longrightarrow> left bs' < left bs"
  by (auto simp: fields_round_def bind_dec_Inr ok_dec_def err_dec_def split: if_splits option.splits
           dest!: take_until_null_left take_u8_left)

function fields_loop :: "nat \<times> ErrorOrNoticeFields \<Rightarrow> ErrorOrNoticeFields decode" where
  "fields_loop acc bs =
     (case fields_round acc bs of
        (Inl e, bs') \<Rightarrow> (Inl e, bs')
      | (Inr (Inl r), bs') \<Rightarrow> (Inr r, bs')
      | (Inr (Inr acc'), bs') \<Rightarrow> fields_loop acc' bs')"
  by pat_completeness auto
termination
  by (relation "measure (\<lambda>(acc, bs). left bs)") (auto dest: fields_round_left [OF sym])

declare fields_loop.simps [simp del]

definition ErrorOrNoticeFields_decode :: "ErrorOrNoticeFields decode" where
  "ErrorOrNoticeFields_decode = fields_loop (0, ErrorOrNoticeFields_default)"

definition ErrorResponse_decode_body :: "ErrorResponse decode" where
  "ErrorResponse_decode_body =
     bind_dec ErrorOrNoticeFields_decode (\<lambda>f. ok_dec (ErrorResponse.ErrorResponse f))"

definition ErrorResponse_TYPE_BYTE :: u8 where
  "ErrorResponse_TYPE_BYTE = byte_char CHR ''E''"

definition ErrorResponse_msg :: "ErrorResponse MsgDecode" where
  "ErrorResponse_msg =
     \<lparr>TYPE_BYTE_OPT = Some TypeByte.Execute_or_ErrorResponse, decode_body = ErrorResponse_decode_body\<rparr>"

definition NoticeResponse_decode_body :: "NoticeResponse decode" where
  "NoticeResponse_decode_body =
     bind_dec ErrorOrNoticeFields_decode (\<lambda>f. ok_dec (NoticeResponse.NoticeResponse f))"

definition NoticeResponse_TYPE_BYTE :: u8 where
  "NoticeResponse_TYPE_BYTE = byte_char CHR ''N''"

definition NoticeResponse_msg :: "NoticeResponse MsgDecode" where
  "NoticeResponse_msg =
     \<lparr>TYPE_BYTE_OPT = Some TypeByte.NoticeResponse, decode_body = NoticeResponse_decode_body\<rparr>"

text \<open>Wire format: a sequence of typed fields and a zero. A type may repeat, and then the last
  occurrence is what the struct holds, so one struct has many representations.\<close>

definition field_valid :: "u8 \<times> u8 list \<Rightarrow> bool" where
  "field_valid f \<longleftrightarrow> fst f \<noteq> 0 \<and> field_setter (fst f) \<noteq> None \<and> 0 \<notin> set (snd f)"

definition field_wire :: "u8 \<times> u8 list \<Rightarrow> u8 list" where
  "field_wire f = fst f # snd f @ [0]"

definition set_field :: "ErrorOrNoticeFields \<Rightarrow> u8 \<times> u8 list \<Rightarrow> ErrorOrNoticeFields" where
  "set_field r f = (case field_setter (fst f) of Some g \<Rightarrow> g (snd f) r | None \<Rightarrow> r)"

definition fields_wire :: "ErrorOrNoticeFields \<Rightarrow> u8 list \<Rightarrow> bool" where
  "fields_wire r w \<longleftrightarrow>
     (\<exists>fs. list_all field_valid fs \<and> r = foldl set_field ErrorOrNoticeFields_default fs
        \<and> w = concat (map field_wire fs) @ [0])"

primrec ErrorResponse_fields :: "ErrorResponse \<Rightarrow> ErrorOrNoticeFields" where
  "ErrorResponse_fields (ErrorResponse.ErrorResponse f) = f"

primrec NoticeResponse_fields :: "NoticeResponse \<Rightarrow> ErrorOrNoticeFields" where
  "NoticeResponse_fields (NoticeResponse.NoticeResponse f) = f"

lemma exact_case_option [exact_intros]:
  assumes "\<And>y. x = Some y \<Longrightarrow> exact_decoder (f y) (W y)" and "x = None \<Longrightarrow> exact_decoder d V"
  shows "exact_decoder (case x of Some y \<Rightarrow> f y | None \<Rightarrow> d)
    (\<lambda>z w. (\<exists>y. x = Some y \<and> W y z w) \<or> x = None \<and> V z w)"
  using assms by (cases x) simp_all

lemma exact_fields_round:
  "exact_decoder (fields_round acc)
     (\<lambda>r w. case r of
              Inl y \<Rightarrow> y = snd acc \<and> w = [0]
            | Inr acc' \<Rightarrow> \<exists>f. field_valid f \<and> w = field_wire f
                             \<and> acc' = (fst acc + 1, set_field (snd acc) f))"
  unfolding fields_round_def
proof (rule exact_cong, (rule exact_intros)+, goal_cases)
  case (1 r w)
  then show ?case
    by (cases r) (auto simp: field_valid_def field_wire_def set_field_def)
qed

interpretation fields: terminated_loop fields_loop fields_round
  "\<lambda>acc f. (fst acc + 1, set_field (snd acc) f)" snd field_valid field_wire
  by (rule terminated_loop.intro)
     (rule fields_loop.simps, rule exact_fields_round, simp add: field_wire_def)

lemma foldl_indexed:
  "snd (foldl (\<lambda>acc f. (Suc (fst acc), set_field (snd acc) f)) acc fs) = foldl set_field (snd acc) fs"
  by (induction fs arbitrary: acc) simp_all

lemma exact_ErrorOrNoticeFields_decode [exact_intros]:
  "exact_decoder ErrorOrNoticeFields_decode fields_wire"
  unfolding ErrorOrNoticeFields_decode_def
  by (rule exact_cong, rule fields.run_exact) (simp add: foldl_indexed fields_wire_def)

interpretation ErrorResponse:
  exact_decoder ErrorResponse_decode_body "\<lambda>m w. fields_wire (ErrorResponse_fields m) w"
  unfolding ErrorResponse_decode_body_def
proof (rule exact_cong, (rule exact_intros)+, goal_cases)
  case (1 m w)
  then show ?case by (cases m) auto
qed

interpretation NoticeResponse:
  exact_decoder NoticeResponse_decode_body "\<lambda>m w. fields_wire (NoticeResponse_fields m) w"
  unfolding NoticeResponse_decode_body_def
proof (rule exact_cong, (rule exact_intros)+, goal_cases)
  case (1 m w)
  then show ?case by (cases m) auto
qed

section \<open>Start-up answers\<close>

record BackendKeyData =
  process_id :: u32
  secret_key :: u32

definition BackendKeyData_decode_body :: "BackendKeyData decode" where
  "BackendKeyData_decode_body =
     bind_dec take_u32 (\<lambda>pid.
     bind_dec take_u32 (\<lambda>key.
     ok_dec \<lparr>process_id = pid, secret_key = key\<rparr>))"

definition BackendKeyData_TYPE_BYTE :: u8 where
  "BackendKeyData_TYPE_BYTE = byte_char CHR ''K''"

definition BackendKeyData_msg :: "BackendKeyData MsgDecode" where
  "BackendKeyData_msg =
     \<lparr>TYPE_BYTE_OPT = Some TypeByte.BackendKeyData, decode_body = BackendKeyData_decode_body\<rparr>"

record NegotiateProtocolVersion =
  newest_backend_minor :: u32
  unrecognized_options :: "Text list"

definition NegotiateProtocolVersion_decode_body :: "NegotiateProtocolVersion decode" where
  "NegotiateProtocolVersion_decode_body =
     bind_dec take_u32 (\<lambda>newest.
     bind_dec (decode_vec_u32 Text_decode) (\<lambda>options.
     ok_dec \<lparr>newest_backend_minor = newest, unrecognized_options = options\<rparr>))"

definition NegotiateProtocolVersion_TYPE_BYTE :: u8 where
  "NegotiateProtocolVersion_TYPE_BYTE = byte_char CHR ''v''"

definition NegotiateProtocolVersion_msg :: "NegotiateProtocolVersion MsgDecode" where
  "NegotiateProtocolVersion_msg =
     \<lparr>TYPE_BYTE_OPT = Some TypeByte.NegotiateProtocolVersion,
      decode_body = NegotiateProtocolVersion_decode_body\<rparr>"

record ParameterStatus =
  status_name :: "u8 list"
  status_value :: "u8 list"

definition ParameterStatus_decode_body :: "ParameterStatus decode" where
  "ParameterStatus_decode_body =
     bind_dec take_until_null (\<lambda>name.
     bind_dec take_until_null (\<lambda>val.
     ok_dec \<lparr>status_name = name, status_value = val\<rparr>))"

definition ParameterStatus_TYPE_BYTE :: u8 where
  "ParameterStatus_TYPE_BYTE = byte_char CHR ''S''"

definition ParameterStatus_msg :: "ParameterStatus MsgDecode" where
  "ParameterStatus_msg =
     \<lparr>TYPE_BYTE_OPT = Some TypeByte.ParameterStatus_or_Sync,
      decode_body = ParameterStatus_decode_body\<rparr>"

datatype Status = Idle | Transaction | Error

record ReadyForQuery =
  status :: Status

definition ReadyForQuery_decode_body :: "ReadyForQuery decode" where
  "ReadyForQuery_decode_body =
     bind_dec
       (bind_dec take_u8 (\<lambda>byte.
          if byte = byte_char CHR ''I'' then ok_dec Status.Idle
          else if byte = byte_char CHR ''T'' then ok_dec Status.Transaction
          else if byte = byte_char CHR ''E'' then ok_dec Status.Error
          else err_dec (Unknown (''status is unknown: '' @ show_nat (unat byte)))))
       (\<lambda>st. ok_dec \<lparr>status = st\<rparr>)"

definition ReadyForQuery_TYPE_BYTE :: u8 where
  "ReadyForQuery_TYPE_BYTE = byte_char CHR ''Z''"

definition ReadyForQuery_msg :: "ReadyForQuery MsgDecode" where
  "ReadyForQuery_msg =
     \<lparr>TYPE_BYTE_OPT = Some TypeByte.ReadyForQuery, decode_body = ReadyForQuery_decode_body\<rparr>"

text \<open>Wire formats.\<close>

definition BackendKeyData_wire :: "BackendKeyData \<Rightarrow> u8 list" where
  "BackendKeyData_wire m = u32_to_be_bytes (process_id m) @ u32_to_be_bytes (secret_key m)"

definition NegotiateProtocolVersion_valid :: "NegotiateProtocolVersion \<Rightarrow> bool" where
  "NegotiateProtocolVersion_valid m \<longleftrightarrow> vec32_valid Text_valid (unrecognized_options m)"

definition NegotiateProtocolVersion_wire :: "NegotiateProtocolVersion \<Rightarrow> u8 list" where
  "NegotiateProtocolVersion_wire m =
     u32_to_be_bytes (newest_backend_minor m) @ vec32_wire Text_wire (unrecognized_options m)"

definition ParameterStatus_valid :: "ParameterStatus \<Rightarrow> bool" where
  "ParameterStatus_valid m \<longleftrightarrow> 0 \<notin> set (status_name m) \<and> 0 \<notin> set (status_value m)"

definition ParameterStatus_wire :: "ParameterStatus \<Rightarrow> u8 list" where
  "ParameterStatus_wire m = (status_name m @ [0]) @ status_value m @ [0]"

primrec Status_byte :: "Status \<Rightarrow> u8" where
  "Status_byte Status.Idle = byte_char CHR ''I''"
| "Status_byte Status.Transaction = byte_char CHR ''T''"
| "Status_byte Status.Error = byte_char CHR ''E''"

definition ReadyForQuery_wire :: "ReadyForQuery \<Rightarrow> u8 list" where
  "ReadyForQuery_wire m = [Status_byte (status m)]"

interpretation BackendKeyData:
  exact_decoder BackendKeyData_decode_body "\<lambda>m w. True \<and> w = BackendKeyData_wire m"
  unfolding BackendKeyData_decode_body_def
proof (rule exact_cong, (rule exact_intros)+, goal_cases)
  case (1 m w)
  then show ?case by (cases m) (auto simp: BackendKeyData_wire_def)
qed

interpretation NegotiateProtocolVersion:
  exact_decoder NegotiateProtocolVersion_decode_body
    "\<lambda>m w. NegotiateProtocolVersion_valid m \<and> w = NegotiateProtocolVersion_wire m"
  unfolding NegotiateProtocolVersion_decode_body_def
proof (rule exact_cong, (rule exact_intros)+, goal_cases)
  case (1 m w)
  then show ?case
    by (cases m) (auto simp: NegotiateProtocolVersion_valid_def NegotiateProtocolVersion_wire_def)
qed

interpretation ParameterStatus:
  exact_decoder ParameterStatus_decode_body "\<lambda>m w. ParameterStatus_valid m \<and> w = ParameterStatus_wire m"
  unfolding ParameterStatus_decode_body_def
proof (rule exact_cong, (rule exact_intros)+, goal_cases)
  case (1 m w)
  then show ?case by (cases m) (auto simp: ParameterStatus_valid_def ParameterStatus_wire_def)
qed

interpretation ReadyForQuery:
  exact_decoder ReadyForQuery_decode_body "\<lambda>m w. True \<and> w = ReadyForQuery_wire m"
  unfolding ReadyForQuery_decode_body_def
proof (rule exact_cong, (rule exact_intros)+, goal_cases)
  case (1 m w)
  obtain st where "m = \<lparr>status = st\<rparr>" by (cases m) simp
  then show ?case by (cases st) (auto simp: ReadyForQuery_wire_def byte_char_def)
qed

section \<open>Query answers\<close>

datatype BindComplete = BindComplete

definition BindComplete_decode_body :: "BindComplete decode" where
  "BindComplete_decode_body = ok_dec BindComplete.BindComplete"

definition BindComplete_msg :: "BindComplete MsgDecode" where
  "BindComplete_msg =
     \<lparr>TYPE_BYTE_OPT = Some TypeByte.BindComplete, decode_body = BindComplete_decode_body\<rparr>"

record CommandComplete =
  tag :: "u8 list"

definition CommandComplete_decode_body :: "CommandComplete decode" where
  "CommandComplete_decode_body = bind_dec take_until_null (\<lambda>t. ok_dec \<lparr>tag = t\<rparr>)"

definition CommandComplete_TYPE_BYTE :: u8 where
  "CommandComplete_TYPE_BYTE = byte_char CHR ''C''"

definition CommandComplete_msg :: "CommandComplete MsgDecode" where
  "CommandComplete_msg =
     \<lparr>TYPE_BYTE_OPT = Some TypeByte.CommandComplete, decode_body = CommandComplete_decode_body\<rparr>"

record DataRow =
  columns :: "Value list"

definition DataRow_decode_body :: "DataRow decode" where
  "DataRow_decode_body = bind_dec (decode_vec_u16 Value_decode) (\<lambda>cs. ok_dec \<lparr>columns = cs\<rparr>)"

definition DataRow_TYPE_BYTE :: u8 where
  "DataRow_TYPE_BYTE = byte_char CHR ''D''"

definition DataRow_msg :: "DataRow MsgDecode" where
  "DataRow_msg = \<lparr>TYPE_BYTE_OPT = Some TypeByte.DataRow, decode_body = DataRow_decode_body\<rparr>"

datatype EmptyQueryResponse = EmptyQueryResponse

definition EmptyQueryResponse_decode_body :: "EmptyQueryResponse decode" where
  "EmptyQueryResponse_decode_body = ok_dec EmptyQueryResponse.EmptyQueryResponse"

definition EmptyQueryResponse_TYPE_BYTE :: u8 where
  "EmptyQueryResponse_TYPE_BYTE = byte_char CHR ''I''"

definition EmptyQueryResponse_msg :: "EmptyQueryResponse MsgDecode" where
  "EmptyQueryResponse_msg =
     \<lparr>TYPE_BYTE_OPT = Some TypeByte.EmptyQueryResponse, decode_body = EmptyQueryResponse_decode_body\<rparr>"

datatype ParseComplete = ParseComplete

definition ParseComplete_decode_body :: "ParseComplete decode" where
  "ParseComplete_decode_body = ok_dec ParseComplete.ParseComplete"

definition ParseComplete_msg :: "ParseComplete MsgDecode" where
  "ParseComplete_msg =
     \<lparr>TYPE_BYTE_OPT = Some TypeByte.ParseComplete, decode_body = ParseComplete_decode_body\<rparr>"

datatype PortalSuspended = PortalSuspended

definition PortalSuspended_decode_body :: "PortalSuspended decode" where
  "PortalSuspended_decode_body = ok_dec PortalSuspended.PortalSuspended"

definition PortalSuspended_msg :: "PortalSuspended MsgDecode" where
  "PortalSuspended_msg =
     \<lparr>TYPE_BYTE_OPT = Some TypeByte.PortalSuspended, decode_body = PortalSuspended_decode_body\<rparr>"

text \<open>\<open>type_size\<close> is an \<open>i16\<close> and \<open>type_modifier\<close> an \<open>i32\<close>: the fields hold the word
  the cast \<open>as i16\<close>, \<open>as i32\<close> keeps, whose signed value is \<open>sint\<close>.\<close>

record Field =
  name :: "u8 list"
  column_oid :: u32
  column_attr_num :: u16
  type_oid :: u32
  type_size :: u16
  type_modifier :: u32
  field_format :: Format

record RowDescription =
  row_fields :: "Field list"

definition Field_decode :: "Field decode" where
  "Field_decode =
     bind_dec take_until_null (\<lambda>nm.
     bind_dec take_u32 (\<lambda>c_oid.
     bind_dec take_u16 (\<lambda>c_attr_num.
     bind_dec take_u32 (\<lambda>t_oid.
     bind_dec take_u16 (\<lambda>t_size.
     bind_dec take_u32 (\<lambda>t_modifier.
     bind_dec Format_decode (\<lambda>format.
     ok_dec \<lparr>name = nm, column_oid = c_oid, column_attr_num = c_attr_num, type_oid = t_oid,
             type_size = t_size, type_modifier = t_modifier, field_format = format\<rparr>)))))))"

definition RowDescription_decode_body :: "RowDescription decode" where
  "RowDescription_decode_body =
     bind_dec (decode_vec_u16 Field_decode) (\<lambda>fields. ok_dec \<lparr>row_fields = fields\<rparr>)"

definition RowDescription_TYPE_BYTE :: u8 where
  "RowDescription_TYPE_BYTE = byte_char CHR ''T''"

definition RowDescription_msg :: "RowDescription MsgDecode" where
  "RowDescription_msg =
     \<lparr>TYPE_BYTE_OPT = Some TypeByte.RowDescription, decode_body = RowDescription_decode_body\<rparr>"

text \<open>Wire formats.\<close>

definition BindComplete_wire :: "BindComplete \<Rightarrow> u8 list" where
  "BindComplete_wire m = []"

definition CommandComplete_valid :: "CommandComplete \<Rightarrow> bool" where
  "CommandComplete_valid m \<longleftrightarrow> 0 \<notin> set (tag m)"

definition CommandComplete_wire :: "CommandComplete \<Rightarrow> u8 list" where
  "CommandComplete_wire m = tag m @ [0]"

definition DataRow_valid :: "DataRow \<Rightarrow> bool" where
  "DataRow_valid m \<longleftrightarrow> vec16_valid Value_valid (columns m)"

definition DataRow_wire :: "DataRow \<Rightarrow> u8 list" where
  "DataRow_wire m = vec16_wire Value_wire (columns m)"

definition EmptyQueryResponse_wire :: "EmptyQueryResponse \<Rightarrow> u8 list" where
  "EmptyQueryResponse_wire m = []"

definition ParseComplete_wire :: "ParseComplete \<Rightarrow> u8 list" where
  "ParseComplete_wire m = []"

definition PortalSuspended_wire :: "PortalSuspended \<Rightarrow> u8 list" where
  "PortalSuspended_wire m = []"

definition Field_valid :: "Field \<Rightarrow> bool" where
  "Field_valid f \<longleftrightarrow> 0 \<notin> set (name f)"

definition Field_wire :: "Field \<Rightarrow> u8 list" where
  "Field_wire f =
     (name f @ [0]) @ u32_to_be_bytes (column_oid f) @ u16_to_be_bytes (column_attr_num f)
       @ u32_to_be_bytes (type_oid f) @ u16_to_be_bytes (type_size f)
       @ u32_to_be_bytes (type_modifier f) @ Format_wire (field_format f)"

definition RowDescription_valid :: "RowDescription \<Rightarrow> bool" where
  "RowDescription_valid m \<longleftrightarrow> vec16_valid Field_valid (row_fields m)"

definition RowDescription_wire :: "RowDescription \<Rightarrow> u8 list" where
  "RowDescription_wire m = vec16_wire Field_wire (row_fields m)"

interpretation BindComplete: exact_decoder BindComplete_decode_body "\<lambda>m w. True \<and> w = BindComplete_wire m"
  unfolding BindComplete_decode_body_def
  by (rule exact_cong, rule exact_ok) (auto simp: BindComplete_wire_def intro: BindComplete.exhaust)

interpretation CommandComplete:
  exact_decoder CommandComplete_decode_body "\<lambda>m w. CommandComplete_valid m \<and> w = CommandComplete_wire m"
  unfolding CommandComplete_decode_body_def
proof (rule exact_cong, (rule exact_intros)+, goal_cases)
  case (1 m w)
  then show ?case by (cases m) (auto simp: CommandComplete_valid_def CommandComplete_wire_def)
qed

interpretation DataRow: exact_decoder DataRow_decode_body "\<lambda>m w. DataRow_valid m \<and> w = DataRow_wire m"
  unfolding DataRow_decode_body_def
proof (rule exact_cong, (rule exact_intros)+, goal_cases)
  case (1 m w)
  then show ?case by (cases m) (auto simp: DataRow_valid_def DataRow_wire_def)
qed

interpretation EmptyQueryResponse:
  exact_decoder EmptyQueryResponse_decode_body "\<lambda>m w. True \<and> w = EmptyQueryResponse_wire m"
  unfolding EmptyQueryResponse_decode_body_def
  by (rule exact_cong, rule exact_ok)
     (auto simp: EmptyQueryResponse_wire_def intro: EmptyQueryResponse.exhaust)

interpretation ParseComplete:
  exact_decoder ParseComplete_decode_body "\<lambda>m w. True \<and> w = ParseComplete_wire m"
  unfolding ParseComplete_decode_body_def
  by (rule exact_cong, rule exact_ok) (auto simp: ParseComplete_wire_def intro: ParseComplete.exhaust)

interpretation PortalSuspended:
  exact_decoder PortalSuspended_decode_body "\<lambda>m w. True \<and> w = PortalSuspended_wire m"
  unfolding PortalSuspended_decode_body_def
  by (rule exact_cong, rule exact_ok) (auto simp: PortalSuspended_wire_def intro: PortalSuspended.exhaust)

lemma exact_Field_decode [exact_intros]:
  "exact_decoder Field_decode (\<lambda>f w. Field_valid f \<and> w = Field_wire f)"
  unfolding Field_decode_def
proof (rule exact_cong, (rule exact_intros)+, goal_cases)
  case (1 f w)
  then show ?case by (cases f) (auto simp: Field_valid_def Field_wire_def)
qed

interpretation RowDescription:
  exact_decoder RowDescription_decode_body "\<lambda>m w. RowDescription_valid m \<and> w = RowDescription_wire m"
  unfolding RowDescription_decode_body_def
proof (rule exact_cong, (rule exact_intros)+, goal_cases)
  case (1 m w)
  then show ?case by (cases m) (auto simp: RowDescription_valid_def RowDescription_wire_def)
qed

end
