(* ===== verification/Convey.thy ===== *)
theory Convey
  imports Read Frontend_Bodies Backend_Bodies
begin

text \<open>
  The conveyor of \<open>src/src/convey.rs\<close>: the session automaton that reads a message from one
  side, reports it to a callback and writes its bytes to the other side, including the
  switch of both sides to TLS at the start of a session. The socket and TLS streams, the TLS
  provider and the scheduler behind \<open>future::select\<close> are foreign: the environment record
  carries the streams' operations and the two handshakes, and the side that \<open>select\<close> chooses
  in each round of the loop is an argument. The callback is an observer: the model records
  the messages it was called with.
\<close>

section \<open>Data\<close>

datatype Side = Backend | Frontend

datatype State =
    AbortedExtendedQuery
  | AbortedParsingOrBinding
  | AbortedSimpleQuery
  | AnsweringToExtendedQuery
  | AnsweringToSimpleQuery
  | AskedCleartextPassword
  | AskedGssResponse
  | AskedMd5Password
  | AskedSaslInitialResponse
  | AskedSaslResponse
  | Authenticated
  | Bound
  | CompletedExtendedQuery
  | CompletedSimpleCommand
  | ExecutingExtendedQuery
  | FinishedSasl
  | GotAnySaslResponse
  | GotBinding
  | GotCleartextPassword
  | GotGssResponse
  | GotMd5Password
  | GotPreparedStatement
  | GotSimpleQuery
  | GotStartup
  | GotSync
  | ReadyForQuery
  | SeenEmptyExtendedQuery
  | SeenEmptySimpleQuery
  | SentAllBackendParams
  | SuspendedExtendedQuery

datatype BackendMsg =
    Authentication Authentication
  | BackendKeyData BackendKeyData
  | BindComplete BindComplete
  | CommandComplete CommandComplete
  | DataRow DataRow
  | EmptyQueryResponse EmptyQueryResponse
  | ErrorResponse ErrorResponse
  | NegotiateProtocolVersion NegotiateProtocolVersion
  | NoticeResponse NoticeResponse
  | ParameterStatus ParameterStatus
  | ParseComplete ParseComplete
  | PortalSuspended PortalSuspended
  | ReadyForQuery ReadyForQuery
  | RowDescription RowDescription

datatype FrontendMsg =
    Bind Bind
  | Execute Execute
  | GssResponse GssResponse
  | Initial Initial
  | Parse Parse
  | Password Password
  | Query Query
  | SaslInitialResponse SaslInitialResponse
  | SaslResponse SaslResponse
  | Sync Sync
  | Terminate Terminate

datatype Message = Backend BackendMsg | Frontend FrontendMsg

datatype TlsError = HandshakeDisrupted | TlsRequestedInsideTls

datatype ConveyError =
    DecodeError Problem
  | EncodeError EncodeProblem
  | IoError Async_IO.IoError
  | TlsError TlsError
  | LeftUndecoded nat
  | Todo string
  | UnexpectedType State Side TypeByte
  | UnknownType Side u8
  | Unsupported string

datatype ('plain, 'tls) StreamWrap = Plain 'plain | TlsHandshake | Tls 'tls

definition TLS_SUPPORTED :: u8 where
  "TLS_SUPPORTED = byte_char CHR ''S''"

definition TLS_NOT_SUPPORTED :: u8 where
  "TLS_NOT_SUPPORTED = byte_char CHR ''N''"

text \<open>
  \<open>accept\<close> and \<open>connect\<close> consume the plain stream and give a TLS stream or an error, whose
  \<open>Debug\<close> rendering is the string.
\<close>

record ('fp, 'ft, 'bp, 'bt) ConveyEnv =
  overflow_checks :: bool
  front_plain :: "'fp StreamOps"
  front_tls :: "'ft StreamOps"
  back_plain :: "'bp StreamOps"
  back_tls :: "'bt StreamOps"
  frontend_tls_server :: "'fp \<Rightarrow> (string, 'ft) outcome"
  backend_tls_client :: "'bp \<Rightarrow> (string, 'bt) outcome"

record ('fp, 'ft, 'bp, 'bt) Conveyor =
  frontend :: "('fp, 'ft) StreamWrap"
  backend :: "('bp, 'bt) StreamWrap"
  conveyed :: "Message list"

definition Conveyor_new :: "'fp \<Rightarrow> 'bp \<Rightarrow> ('fp, 'ft, 'bp, 'bt) Conveyor" where
  "Conveyor_new front back =
     \<lparr>frontend = StreamWrap.Plain front, backend = StreamWrap.Plain back, conveyed = []\<rparr>"

section \<open>Wrapped streams\<close>

definition unwrap_stream ::
  "('p, ConveyError, 'a) prog \<Rightarrow> ('t, ConveyError, 'a) prog
    \<Rightarrow> (('p, 't) StreamWrap, ConveyError, 'a) prog" where
  "unwrap_stream fn_plain fn_tls wrap =
     (case wrap of
        Plain plain \<Rightarrow> (case fn_plain plain of (r, plain') \<Rightarrow> (r, Plain plain'))
      | TlsHandshake \<Rightarrow> (Throw (ConveyError.TlsError HandshakeDisrupted), TlsHandshake)
      | Tls tls \<Rightarrow> (case fn_tls tls of (r, tls') \<Rightarrow> (r, Tls tls')))"

definition replace_plain_with ::
  "('p, 't) StreamWrap \<Rightarrow> ('p, 't) StreamWrap \<Rightarrow> 'p option \<times> ('p, 't) StreamWrap" where
  "replace_plain_with val self =
     (case self of
        Plain plain \<Rightarrow> (Some plain, val)
      | _ \<Rightarrow> (None, self))"

text \<open>\<open>Result::unwrap\<close> panics on \<open>Err\<close>; the wrap is then still in \<open>TlsHandshake\<close>.\<close>

definition unwrap_panic :: "string \<Rightarrow> string" where
  "unwrap_panic e = ''called `Result::unwrap()` on an `Err` value: '' @ e"

definition switch_to_tls ::
  "('p \<Rightarrow> (string, 't) outcome) \<Rightarrow> (('p, 't) StreamWrap, ConveyError, unit) prog" where
  "switch_to_tls fn_handshake wrap =
     (case replace_plain_with TlsHandshake wrap of
        (Some plain_stream, wrap1) \<Rightarrow>
          (case fn_handshake plain_stream of
             Return tls_stream \<Rightarrow>
               (case wrap1 of
                  TlsHandshake \<Rightarrow> (Return (), Tls tls_stream)
                | _ \<Rightarrow> (Throw (ConveyError.TlsError HandshakeDisrupted), Tls tls_stream))
           | Throw e \<Rightarrow> (Panic (unwrap_panic e), wrap1)
           | Panic p \<Rightarrow> (Panic p, wrap1)
           | Blocked \<Rightarrow> (Blocked, wrap1))
      | (None, wrap1) \<Rightarrow> (Throw (ConveyError.TlsError HandshakeDisrupted), wrap1))"

text \<open>Running an operation on \<open>&mut self.frontend\<close> or \<open>&mut self.backend\<close>.\<close>

definition on_frontend ::
  "(('fp, 'ft) StreamWrap, 'e, 'a) prog \<Rightarrow> (('fp, 'ft, 'bp, 'bt) Conveyor, 'e, 'a) prog" where
  "on_frontend m self = (case m (frontend self) of (r, w) \<Rightarrow> (r, self\<lparr>frontend := w\<rparr>))"

definition on_backend ::
  "(('bp, 'bt) StreamWrap, 'e, 'a) prog \<Rightarrow> (('fp, 'ft, 'bp, 'bt) Conveyor, 'e, 'a) prog" where
  "on_backend m self = (case m (backend self) of (r, w) \<Rightarrow> (r, self\<lparr>backend := w\<rparr>))"

definition switch_server_to_tls ::
  "('fp, 'ft, 'bp, 'bt) ConveyEnv \<Rightarrow> (('fp, 'ft, 'bp, 'bt) Conveyor, ConveyError, unit) prog" where
  "switch_server_to_tls env = on_frontend (switch_to_tls (frontend_tls_server env))"

definition switch_client_to_tls ::
  "('fp, 'ft, 'bp, 'bt) ConveyEnv \<Rightarrow> (('fp, 'ft, 'bp, 'bt) Conveyor, ConveyError, unit) prog" where
  "switch_client_to_tls env = on_backend (switch_to_tls (backend_tls_client env))"

section \<open>Reading, reporting, writing\<close>

primrec ReadError_to_ConveyError :: "ReadError \<Rightarrow> ConveyError" where
  "ReadError_to_ConveyError (ReadError.IoError io_error) = ConveyError.IoError io_error"
| "ReadError_to_ConveyError (ReadError.EncodeError encode_error) = ConveyError.EncodeError encode_error"

primrec MsgError_to_ConveyError :: "MsgError \<Rightarrow> ConveyError" where
  "MsgError_to_ConveyError (MsgError.DecodeError decode_error) = ConveyError.DecodeError decode_error"
| "MsgError_to_ConveyError (MsgError.LeftUndecoded n) = ConveyError.LeftUndecoded n"

text \<open>The traits \<open>ConveyReader\<close> and \<open>ConveyWriter\<close> have one implementation, for every
  asynchronous stream.\<close>

definition ConveyReader_read_msg ::
  "bool \<Rightarrow> 's StreamOps \<Rightarrow> 'm MsgDecode \<Rightarrow> ('s, ReadError, 'm ReadData) prog" where
  [simp]: "ConveyReader_read_msg ovf self D = read_msg ovf self D"

definition ConveyReader_read_type_byte :: "'s StreamOps \<Rightarrow> ('s, IoError, u8) prog" where
  [simp]: "ConveyReader_read_type_byte self = read_u8 self"

definition ConveyWriter_write_bytes :: "'s StreamOps \<Rightarrow> u8 list \<Rightarrow> ('s, IoError, unit) prog" where
  [simp]: "ConveyWriter_write_bytes self bytes = write_all self bytes"

definition read_msg_mapping_err ::
  "bool \<Rightarrow> 's StreamOps \<Rightarrow> 'm MsgDecode \<Rightarrow> ('s, ConveyError, u8 list \<times> 'm) prog" where
  "read_msg_mapping_err ovf reader D =
     bind_prog (map_err ReadError_to_ConveyError (ConveyReader_read_msg ovf reader D)) (\<lambda>dat.
     case rd_msg_result dat of
       Inl msg_error \<Rightarrow> throw (MsgError_to_ConveyError msg_error)
     | Inr msg \<Rightarrow> return (rd_bytes dat, msg))"

definition read_type_byte :: "'s StreamOps \<Rightarrow> ('s, ConveyError, u8) prog" where
  "read_type_byte reader = map_err ConveyError.IoError (ConveyReader_read_type_byte reader)"

definition write_bytes :: "'s StreamOps \<Rightarrow> u8 list \<Rightarrow> ('s, ConveyError, unit) prog" where
  "write_bytes writer bytes = map_err ConveyError.IoError (ConveyWriter_write_bytes writer bytes)"

definition read_backend ::
  "('fp, 'ft, 'bp, 'bt) ConveyEnv \<Rightarrow> 'm MsgDecode
    \<Rightarrow> (('fp, 'ft, 'bp, 'bt) Conveyor, ConveyError, u8 list \<times> 'm) prog" where
  "read_backend env D =
     on_backend (unwrap_stream
       (read_msg_mapping_err (overflow_checks env) (back_plain env) D)
       (read_msg_mapping_err (overflow_checks env) (back_tls env) D))"

definition read_frontend ::
  "('fp, 'ft, 'bp, 'bt) ConveyEnv \<Rightarrow> 'm MsgDecode
    \<Rightarrow> (('fp, 'ft, 'bp, 'bt) Conveyor, ConveyError, u8 list \<times> 'm) prog" where
  "read_frontend env D =
     on_frontend (unwrap_stream
       (read_msg_mapping_err (overflow_checks env) (front_plain env) D)
       (read_msg_mapping_err (overflow_checks env) (front_tls env) D))"

definition write_backend ::
  "('fp, 'ft, 'bp, 'bt) ConveyEnv \<Rightarrow> u8 list
    \<Rightarrow> (('fp, 'ft, 'bp, 'bt) Conveyor, ConveyError, unit) prog" where
  "write_backend env bytes =
     on_backend (unwrap_stream (write_bytes (back_plain env) bytes) (write_bytes (back_tls env) bytes))"

definition write_frontend ::
  "('fp, 'ft, 'bp, 'bt) ConveyEnv \<Rightarrow> u8 list
    \<Rightarrow> (('fp, 'ft, 'bp, 'bt) Conveyor, ConveyError, unit) prog" where
  "write_frontend env bytes =
     on_frontend (unwrap_stream (write_bytes (front_plain env) bytes) (write_bytes (front_tls env) bytes))"

definition callback_backend ::
  "BackendMsg \<Rightarrow> (('fp, 'ft, 'bp, 'bt) Conveyor, ConveyError, unit) prog" where
  "callback_backend wrap self =
     (Return (), self\<lparr>conveyed := conveyed self @ [Message.Backend wrap]\<rparr>)"

definition callback_frontend ::
  "FrontendMsg \<Rightarrow> (('fp, 'ft, 'bp, 'bt) Conveyor, ConveyError, unit) prog" where
  "callback_frontend wrap self =
     (Return (), self\<lparr>conveyed := conveyed self @ [Message.Frontend wrap]\<rparr>)"

definition read_through ::
  "('c, ConveyError, u8 list \<times> 'm) prog \<Rightarrow> ('m \<Rightarrow> ('c, ConveyError, unit) prog)
    \<Rightarrow> (u8 list \<Rightarrow> ('c, ConveyError, unit) prog) \<Rightarrow> ('c, ConveyError, 'm) prog" where
  "read_through rd callback wr =
     bind_prog rd (\<lambda>(bytes, msg).
     bind_prog (callback msg) (\<lambda>_.
     bind_prog (wr bytes) (\<lambda>_.
     return msg)))"

definition read_backend_through ::
  "('fp, 'ft, 'bp, 'bt) ConveyEnv \<Rightarrow> 'm MsgDecode \<Rightarrow> ('m \<Rightarrow> BackendMsg)
    \<Rightarrow> (('fp, 'ft, 'bp, 'bt) Conveyor, ConveyError, 'm) prog" where
  "read_backend_through env D cb_wrap =
     read_through (read_backend env D) (\<lambda>msg. callback_backend (cb_wrap msg)) (write_frontend env)"

definition read_frontend_through ::
  "('fp, 'ft, 'bp, 'bt) ConveyEnv \<Rightarrow> 'm MsgDecode \<Rightarrow> ('m \<Rightarrow> FrontendMsg)
    \<Rightarrow> (('fp, 'ft, 'bp, 'bt) Conveyor, ConveyError, 'm) prog" where
  "read_frontend_through env D cb_wrap =
     read_through (read_frontend env D) (\<lambda>msg. callback_frontend (cb_wrap msg)) (write_backend env)"

definition read_backend_type_byte ::
  "('fp, 'ft, 'bp, 'bt) ConveyEnv \<Rightarrow> (('fp, 'ft, 'bp, 'bt) Conveyor, ConveyError, u8) prog" where
  "read_backend_type_byte env =
     on_backend (unwrap_stream (read_type_byte (back_plain env)) (read_type_byte (back_tls env)))"

text \<open>
  \<open>future::select\<close> polls both one-byte reads and completes with the side that is ready
  (\<open>chosen\<close>); the other read is pending and its future is dropped before it took a byte.
\<close>

definition read_type_byte_from_both ::
  "('fp, 'ft, 'bp, 'bt) ConveyEnv \<Rightarrow> Side
    \<Rightarrow> (('fp, 'ft, 'bp, 'bt) Conveyor, ConveyError, Side \<times> TypeByte) prog" where
  "read_type_byte_from_both env chosen =
     bind_prog
       (case chosen of
          Side.Backend \<Rightarrow>
            bind_prog
              (on_backend (unwrap_stream (read_type_byte (back_plain env)) (read_type_byte (back_tls env))))
              (\<lambda>byte. return (Side.Backend, byte))
        | Side.Frontend \<Rightarrow>
            bind_prog
              (on_frontend (unwrap_stream (read_type_byte (front_plain env)) (read_type_byte (front_tls env))))
              (\<lambda>byte. return (Side.Frontend, byte)))
       (\<lambda>(side, byte).
          case TypeByte_try_from byte of
            None \<Rightarrow> throw (ConveyError.UnknownType side byte)
          | Some type_byte \<Rightarrow> return (side, type_byte))"

section \<open>The session automaton\<close>

text \<open>The texts of the errors.\<close>

definition kerberos_unsupported :: string where
  "kerberos_unsupported =
     ''AuthenticationKerberosV5 is unsupported after PostgreSQL 9.3 which in turn is unsupported by PostgreSQL maintainers''"

definition scm_unsupported :: string where
  "scm_unsupported =
     ''This message type is only issued by pre-9.1 servers. It may eventually be removed from the protocol specification.''"

definition authentication_todo :: string where
  "authentication_todo = ''Authentication::* is not fully implemented yet''"

definition process_backend_authentication ::
  "('fp, 'ft, 'bp, 'bt) ConveyEnv \<Rightarrow> TypeByte \<Rightarrow> State
    \<Rightarrow> (('fp, 'ft, 'bp, 'bt) Conveyor, ConveyError, State) prog" where
  "process_backend_authentication env type_byte state =
     bind_prog (read_backend_through env Authentication_msg BackendMsg.Authentication) (\<lambda>authentication.
     case authentication of
       CleartextPassword \<Rightarrow>
         if state = State.GotStartup then return State.AskedCleartextPassword
         else throw (ConveyError.UnexpectedType state Side.Backend type_byte)
     | Gss \<Rightarrow>
         if state = State.GotStartup then return State.AskedGssResponse
         else throw (ConveyError.UnexpectedType state Side.Backend type_byte)
     | Sspi \<Rightarrow>
         if state = State.GotStartup then return State.AskedGssResponse
         else throw (ConveyError.UnexpectedType state Side.Backend type_byte)
     | GssContinue _ \<Rightarrow>
         if state = State.GotGssResponse then return State.AskedGssResponse
         else if state = State.GotStartup then throw (ConveyError.Todo authentication_todo)
         else throw (ConveyError.UnexpectedType state Side.Backend type_byte)
     | Md5Password _ \<Rightarrow>
         if state = State.GotStartup then return State.AskedMd5Password
         else throw (ConveyError.UnexpectedType state Side.Backend type_byte)
     | Authentication.Ok \<Rightarrow>
         if state \<in> {State.FinishedSasl, State.GotCleartextPassword, State.GotGssResponse,
                     State.GotMd5Password, State.GotStartup}
         then return State.Authenticated
         else throw (ConveyError.UnexpectedType state Side.Backend type_byte)
     | KerberosV5 \<Rightarrow>
         if state = State.GotStartup then throw (ConveyError.Unsupported kerberos_unsupported)
         else throw (ConveyError.UnexpectedType state Side.Backend type_byte)
     | Sasl _ \<Rightarrow>
         if state = State.GotStartup then return State.AskedSaslInitialResponse
         else throw (ConveyError.UnexpectedType state Side.Backend type_byte)
     | SaslContinue _ \<Rightarrow>
         if state = State.GotAnySaslResponse then return State.AskedSaslResponse
         else if state = State.GotStartup then throw (ConveyError.Todo authentication_todo)
         else throw (ConveyError.UnexpectedType state Side.Backend type_byte)
     | SaslFinal _ \<Rightarrow>
         if state = State.GotAnySaslResponse then return State.FinishedSasl
         else if state = State.GotStartup then throw (ConveyError.Todo authentication_todo)
         else throw (ConveyError.UnexpectedType state Side.Backend type_byte)
     | ScmCredential \<Rightarrow>
         if state = State.GotStartup then throw (ConveyError.Unsupported scm_unsupported)
         else throw (ConveyError.UnexpectedType state Side.Backend type_byte))"

text \<open>One round of the loop ends with the next state, or the session ends
  (\<open>return Ok(())\<close>).\<close>

datatype flow = Next State | Stop

definition dispatch ::
  "('fp, 'ft, 'bp, 'bt) ConveyEnv \<Rightarrow> Side \<Rightarrow> TypeByte \<Rightarrow> State
    \<Rightarrow> (('fp, 'ft, 'bp, 'bt) Conveyor, ConveyError, flow) prog" where
  "dispatch env side type_byte state =
     (case side of
        Side.Backend \<Rightarrow>
          (case type_byte of
             TypeByte.Authentication \<Rightarrow>
             bind_prog (process_backend_authentication env type_byte state) (\<lambda>next. return (Next next))
           | TypeByte.BackendKeyData \<Rightarrow>
             (if state = State.Authenticated
              then bind_prog (read_backend_through env BackendKeyData_msg BackendMsg.BackendKeyData)
                (\<lambda>_. return (Next State.SentAllBackendParams))
              else throw (ConveyError.UnexpectedType state side type_byte))
           | TypeByte.BindComplete \<Rightarrow>
             (if state = State.GotBinding
              then bind_prog (read_backend_through env BindComplete_msg BackendMsg.BindComplete)
                (\<lambda>_. return (Next State.ReadyForQuery))
              else throw (ConveyError.UnexpectedType state side type_byte))
           | TypeByte.CommandComplete \<Rightarrow>
             (if state \<in> {State.AnsweringToSimpleQuery, State.CompletedSimpleCommand,
                 State.GotSimpleQuery}
              then bind_prog (read_backend_through env CommandComplete_msg BackendMsg.CommandComplete)
                (\<lambda>_. return (Next State.CompletedSimpleCommand))
              else if state \<in> {State.AnsweringToExtendedQuery, State.ExecutingExtendedQuery}
              then bind_prog (read_backend_through env CommandComplete_msg BackendMsg.CommandComplete)
                (\<lambda>_. return (Next State.CompletedExtendedQuery))
              else throw (ConveyError.UnexpectedType state side type_byte))
           | TypeByte.DataRow \<Rightarrow>
             (if state = State.AnsweringToSimpleQuery
              then bind_prog (read_backend_through env DataRow_msg BackendMsg.DataRow)
                (\<lambda>_. return (Next State.AnsweringToSimpleQuery))
              else if state \<in> {State.AnsweringToExtendedQuery, State.ExecutingExtendedQuery}
              then bind_prog (read_backend_through env DataRow_msg BackendMsg.DataRow)
                (\<lambda>_. return (Next State.AnsweringToExtendedQuery))
              else throw (ConveyError.UnexpectedType state side type_byte))
           | TypeByte.EmptyQueryResponse \<Rightarrow>
             (if state = State.ExecutingExtendedQuery
              then bind_prog (read_backend_through env EmptyQueryResponse_msg BackendMsg.EmptyQueryResponse)
                (\<lambda>_. return (Next State.SeenEmptyExtendedQuery))
              else if state = State.GotSimpleQuery
              then bind_prog (read_backend_through env EmptyQueryResponse_msg BackendMsg.EmptyQueryResponse)
                (\<lambda>_. return (Next State.SeenEmptySimpleQuery))
              else throw (ConveyError.UnexpectedType state side type_byte))
           | TypeByte.Execute_or_ErrorResponse \<Rightarrow>
             (if state \<in> {State.AbortedSimpleQuery, State.AnsweringToSimpleQuery, State.CompletedSimpleCommand,
                 State.GotSimpleQuery, State.SeenEmptySimpleQuery}
              then bind_prog (read_backend_through env ErrorResponse_msg BackendMsg.ErrorResponse)
                (\<lambda>_. return (Next State.AbortedSimpleQuery))
              else if state \<in> {State.GotBinding, State.GotPreparedStatement}
              then bind_prog (read_backend_through env ErrorResponse_msg BackendMsg.ErrorResponse)
                (\<lambda>_. return (Next State.AbortedParsingOrBinding))
              else if state \<in> {State.AbortedExtendedQuery, State.AnsweringToExtendedQuery, State.CompletedExtendedQuery,
                 State.ExecutingExtendedQuery, State.SeenEmptyExtendedQuery}
              then bind_prog (read_backend_through env ErrorResponse_msg BackendMsg.ErrorResponse)
                (\<lambda>_. return (Next State.AbortedExtendedQuery))
              else bind_prog (read_backend_through env ErrorResponse_msg BackendMsg.ErrorResponse)
                (\<lambda>_. return Stop))
           | TypeByte.NegotiateProtocolVersion \<Rightarrow>
             (if state \<in> {State.GotStartup, State.Authenticated}
              then bind_prog (read_backend_through env NegotiateProtocolVersion_msg BackendMsg.NegotiateProtocolVersion)
                (\<lambda>_. return (Next state))
              else throw (ConveyError.UnexpectedType state side type_byte))
           | TypeByte.NoticeResponse \<Rightarrow>
             bind_prog (read_backend_through env NoticeResponse_msg BackendMsg.NoticeResponse)
                (\<lambda>_. return (Next state))
           | TypeByte.ParameterStatus_or_Sync \<Rightarrow>
             (if state = State.Authenticated
              then bind_prog (read_backend_through env ParameterStatus_msg BackendMsg.ParameterStatus)
                (\<lambda>_. return (Next State.Authenticated))
              else throw (ConveyError.UnexpectedType state side type_byte))
           | TypeByte.ParseComplete \<Rightarrow>
             (if state = State.GotPreparedStatement
              then bind_prog (read_backend_through env ParseComplete_msg BackendMsg.ParseComplete)
                (\<lambda>_. return (Next State.ReadyForQuery))
              else throw (ConveyError.UnexpectedType state side type_byte))
           | TypeByte.PortalSuspended \<Rightarrow>
             (if state = State.AnsweringToExtendedQuery
              then bind_prog (read_backend_through env PortalSuspended_msg BackendMsg.PortalSuspended)
                (\<lambda>_. return (Next State.SuspendedExtendedQuery))
              else throw (ConveyError.UnexpectedType state side type_byte))
           | TypeByte.ReadyForQuery \<Rightarrow>
             (if state \<in> {State.AbortedParsingOrBinding, State.AbortedSimpleQuery, State.CompletedSimpleCommand, State.SentAllBackendParams,
                 State.GotSync, State.SeenEmptySimpleQuery}
              then bind_prog (read_backend_through env ReadyForQuery_msg BackendMsg.ReadyForQuery)
                (\<lambda>_. return (Next State.ReadyForQuery))
              else throw (ConveyError.UnexpectedType state side type_byte))
           | TypeByte.RowDescription \<Rightarrow>
             (if state \<in> {State.GotSimpleQuery, State.CompletedSimpleCommand}
              then bind_prog (read_backend_through env RowDescription_msg BackendMsg.RowDescription)
                (\<lambda>_. return (Next State.AnsweringToSimpleQuery))
              else throw (ConveyError.UnexpectedType state side type_byte))
           | _ \<Rightarrow> throw (ConveyError.UnexpectedType state side type_byte))
      | Side.Frontend \<Rightarrow>
          (case type_byte of
             TypeByte.Bind \<Rightarrow>
             (if state = State.ReadyForQuery
              then bind_prog (read_frontend_through env Bind_msg FrontendMsg.Bind)
                (\<lambda>_. return (Next State.GotBinding))
              else throw (ConveyError.UnexpectedType state side type_byte))
           | TypeByte.Execute_or_ErrorResponse \<Rightarrow>
             (if state \<in> {State.ReadyForQuery, State.SuspendedExtendedQuery}
              then bind_prog (read_frontend_through env Execute_msg FrontendMsg.Execute)
                (\<lambda>_. return (Next State.ExecutingExtendedQuery))
              else throw (ConveyError.UnexpectedType state side type_byte))
           | TypeByte.GssResponse_or_Password_or_SaslResponses \<Rightarrow>
             (if state = State.AskedCleartextPassword
              then bind_prog (read_frontend_through env Password_msg FrontendMsg.Password)
                (\<lambda>_. return (Next State.GotCleartextPassword))
              else if state = State.AskedGssResponse
              then bind_prog (read_frontend_through env GssResponse_msg FrontendMsg.GssResponse)
                (\<lambda>_. return (Next State.GotGssResponse))
              else if state = State.AskedMd5Password
              then bind_prog (read_frontend_through env Password_msg FrontendMsg.Password)
                (\<lambda>_. return (Next State.GotMd5Password))
              else if state = State.AskedSaslInitialResponse
              then bind_prog (read_frontend_through env SaslInitialResponse_msg FrontendMsg.SaslInitialResponse)
                (\<lambda>_. return (Next State.GotAnySaslResponse))
              else if state = State.AskedSaslResponse
              then bind_prog (read_frontend_through env SaslResponse_msg FrontendMsg.SaslResponse)
                (\<lambda>_. return (Next State.GotAnySaslResponse))
              else throw (ConveyError.UnexpectedType state side type_byte))
           | TypeByte.ParameterStatus_or_Sync \<Rightarrow>
             (if state \<in> {State.AbortedExtendedQuery, State.CompletedExtendedQuery, State.SeenEmptyExtendedQuery,
                 State.SuspendedExtendedQuery}
              then bind_prog (read_frontend_through env Sync_msg FrontendMsg.Sync)
                (\<lambda>_. return (Next State.GotSync))
              else throw (ConveyError.UnexpectedType state side type_byte))
           | TypeByte.Parse \<Rightarrow>
             (if state = State.ReadyForQuery
              then bind_prog (read_frontend_through env Parse_msg FrontendMsg.Parse)
                (\<lambda>_. return (Next State.GotPreparedStatement))
              else throw (ConveyError.UnexpectedType state side type_byte))
           | TypeByte.Query \<Rightarrow>
             (if state = State.ReadyForQuery
              then bind_prog (read_frontend_through env Query_msg FrontendMsg.Query)
                (\<lambda>_. return (Next State.GotSimpleQuery))
              else throw (ConveyError.UnexpectedType state side type_byte))
           | TypeByte.Terminate \<Rightarrow>
             (if state = State.ReadyForQuery
              then bind_prog (read_frontend_through env Terminate_msg FrontendMsg.Terminate)
                (\<lambda>_. return Stop)
              else throw (ConveyError.UnexpectedType state side type_byte))
           | _ \<Rightarrow> throw (ConveyError.UnexpectedType state side type_byte)))"

text \<open>
  The \<open>loop\<close> of \<open>go\<close>. The list gives the side that \<open>select\<close> chooses in each round; when
  it is exhausted the conveyor waits for input that never comes. Every finite behaviour of
  the endless loop is the behaviour for some list.
\<close>

primrec go_loop ::
  "('fp, 'ft, 'bp, 'bt) ConveyEnv \<Rightarrow> Side list \<Rightarrow> State
    \<Rightarrow> (('fp, 'ft, 'bp, 'bt) Conveyor, ConveyError, unit) prog" where
  "go_loop env [] state = (\<lambda>self. (Blocked, self))"
| "go_loop env (chosen # choices) state =
     bind_prog (read_type_byte_from_both env chosen) (\<lambda>(side, type_byte).
     bind_prog (dispatch env side type_byte state) (\<lambda>flow.
     case flow of
       Next state' \<Rightarrow> go_loop env choices state'
     | Stop \<Rightarrow> return ()))"

text \<open>The arm \<open>Initial::TLS\<close> of \<open>go\<close>: the backend is asked first; whatever it answers
  short of an error, the frontend is told yes.\<close>

definition go_tls_frontend ::
  "('fp, 'ft, 'bp, 'bt) ConveyEnv \<Rightarrow> (('fp, 'ft, 'bp, 'bt) Conveyor, ConveyError, flow) prog" where
  "go_tls_frontend env =
     bind_prog (write_frontend env [TLS_SUPPORTED]) (\<lambda>_.
     bind_prog (switch_server_to_tls env) (\<lambda>_.
     bind_prog (read_frontend_through env Initial_msg FrontendMsg.Initial) (\<lambda>initial.
     case initial of
       Initial.Startup _ \<Rightarrow> return (Next State.GotStartup)
     | Initial.Cancel _ \<Rightarrow> return Stop
     | _ \<Rightarrow> throw (ConveyError.TlsError TlsRequestedInsideTls))))"

definition go_tls_answer ::
  "('fp, 'ft, 'bp, 'bt) ConveyEnv \<Rightarrow> u8
    \<Rightarrow> (('fp, 'ft, 'bp, 'bt) Conveyor, ConveyError, flow) prog" where
  "go_tls_answer env tls_response =
     (if tls_response = TLS_NOT_SUPPORTED then go_tls_frontend env
      else if tls_response = TLS_SUPPORTED
      then bind_prog (switch_client_to_tls env) (\<lambda>_. go_tls_frontend env)
      else if tls_response = ErrorResponse_TYPE_BYTE
      then bind_prog (read_backend_through env ErrorResponse_msg BackendMsg.ErrorResponse)
             (\<lambda>_. return Stop)
      else throw (ConveyError.UnknownType Side.Backend tls_response))"

definition go_tls ::
  "('fp, 'ft, 'bp, 'bt) ConveyEnv \<Rightarrow> (('fp, 'ft, 'bp, 'bt) Conveyor, ConveyError, flow) prog" where
  "go_tls env = bind_prog (read_backend_type_byte env) (go_tls_answer env)"

definition go ::
  "('fp, 'ft, 'bp, 'bt) ConveyEnv \<Rightarrow> Side list
    \<Rightarrow> (('fp, 'ft, 'bp, 'bt) Conveyor, ConveyError, unit) prog" where
  "go env choices =
     bind_prog (read_frontend_through env Initial_msg FrontendMsg.Initial) (\<lambda>initial.
     bind_prog
       (case initial of
          Initial.Startup _ \<Rightarrow> return (Next State.GotStartup)
        | Initial.Cancel _ \<Rightarrow> return Stop
        | Initial.TLS \<Rightarrow> go_tls env) (\<lambda>flow.
     case flow of
       Next state \<Rightarrow> go_loop env choices state
     | Stop \<Rightarrow> return ()))"

definition convey ::
  "('fp, 'ft, 'bp, 'bt) ConveyEnv \<Rightarrow> Side list \<Rightarrow> 'fp \<Rightarrow> 'bp
    \<Rightarrow> (ConveyError, unit) outcome \<times> ('fp, 'ft, 'bp, 'bt) Conveyor" where
  "convey env choices front back = go env choices (Conveyor_new front back)"

end
