(* ===== verification/Protocol.thy ===== *)
theory Protocol
  imports Convey
begin

text \<open>
  What the conveyor promises, in the vocabulary of messages: which message a type byte
  announces in a state (\<open>expected\<close>), where an accepted message leads (\<open>next_state\<close>), which
  message sequences form a session (\<open>session\<close>), and which bytes represent a message on the
  wire (\<open>message_wire\<close>). The detailed automaton of \<open>Convey\<close> is shown to implement it.
\<close>

section \<open>Messages on the wire\<close>

primrec message_side :: "Message \<Rightarrow> Side" where
  "message_side (Message.Backend x) = Side.Backend"
| "message_side (Message.Frontend x) = Side.Frontend"

primrec other :: "Side \<Rightarrow> Side" where
  "other Side.Backend = Side.Frontend"
| "other Side.Frontend = Side.Backend"

fun message_type :: "Message \<Rightarrow> TypeByte option" where
  "message_type (Message.Backend (BackendMsg.Authentication x)) = Some TypeByte.Authentication"
| "message_type (Message.Backend (BackendMsg.BackendKeyData x)) = Some TypeByte.BackendKeyData"
| "message_type (Message.Backend (BackendMsg.BindComplete x)) = Some TypeByte.BindComplete"
| "message_type (Message.Backend (BackendMsg.CommandComplete x)) = Some TypeByte.CommandComplete"
| "message_type (Message.Backend (BackendMsg.DataRow x)) = Some TypeByte.DataRow"
| "message_type (Message.Backend (BackendMsg.EmptyQueryResponse x)) = Some TypeByte.EmptyQueryResponse"
| "message_type (Message.Backend (BackendMsg.ErrorResponse x)) = Some TypeByte.Execute_or_ErrorResponse"
| "message_type (Message.Backend (BackendMsg.NegotiateProtocolVersion x)) = Some TypeByte.NegotiateProtocolVersion"
| "message_type (Message.Backend (BackendMsg.NoticeResponse x)) = Some TypeByte.NoticeResponse"
| "message_type (Message.Backend (BackendMsg.ParameterStatus x)) = Some TypeByte.ParameterStatus_or_Sync"
| "message_type (Message.Backend (BackendMsg.ParseComplete x)) = Some TypeByte.ParseComplete"
| "message_type (Message.Backend (BackendMsg.PortalSuspended x)) = Some TypeByte.PortalSuspended"
| "message_type (Message.Backend (BackendMsg.ReadyForQuery x)) = Some TypeByte.ReadyForQuery"
| "message_type (Message.Backend (BackendMsg.RowDescription x)) = Some TypeByte.RowDescription"
| "message_type (Message.Frontend (FrontendMsg.Bind x)) = Some TypeByte.Bind"
| "message_type (Message.Frontend (FrontendMsg.Execute x)) = Some TypeByte.Execute_or_ErrorResponse"
| "message_type (Message.Frontend (FrontendMsg.Password x)) = Some TypeByte.GssResponse_or_Password_or_SaslResponses"
| "message_type (Message.Frontend (FrontendMsg.GssResponse x)) = Some TypeByte.GssResponse_or_Password_or_SaslResponses"
| "message_type (Message.Frontend (FrontendMsg.SaslInitialResponse x)) = Some TypeByte.GssResponse_or_Password_or_SaslResponses"
| "message_type (Message.Frontend (FrontendMsg.SaslResponse x)) = Some TypeByte.GssResponse_or_Password_or_SaslResponses"
| "message_type (Message.Frontend (FrontendMsg.Sync x)) = Some TypeByte.ParameterStatus_or_Sync"
| "message_type (Message.Frontend (FrontendMsg.Parse x)) = Some TypeByte.Parse"
| "message_type (Message.Frontend (FrontendMsg.Query x)) = Some TypeByte.Query"
| "message_type (Message.Frontend (FrontendMsg.Terminate x)) = Some TypeByte.Terminate"
| "message_type (Message.Frontend (FrontendMsg.Initial x)) = None"

fun message_body :: "Message \<Rightarrow> u8 list \<Rightarrow> bool" where
  "message_body (Message.Backend (BackendMsg.Authentication x)) w \<longleftrightarrow> Authentication_valid x \<and> w = Authentication_wire x"
| "message_body (Message.Backend (BackendMsg.BackendKeyData x)) w \<longleftrightarrow> w = BackendKeyData_wire x"
| "message_body (Message.Backend (BackendMsg.BindComplete x)) w \<longleftrightarrow> w = BindComplete_wire x"
| "message_body (Message.Backend (BackendMsg.CommandComplete x)) w \<longleftrightarrow> CommandComplete_valid x \<and> w = CommandComplete_wire x"
| "message_body (Message.Backend (BackendMsg.DataRow x)) w \<longleftrightarrow> DataRow_valid x \<and> w = DataRow_wire x"
| "message_body (Message.Backend (BackendMsg.EmptyQueryResponse x)) w \<longleftrightarrow> w = EmptyQueryResponse_wire x"
| "message_body (Message.Backend (BackendMsg.ErrorResponse x)) w \<longleftrightarrow> fields_wire (ErrorResponse_fields x) w"
| "message_body (Message.Backend (BackendMsg.NegotiateProtocolVersion x)) w \<longleftrightarrow> NegotiateProtocolVersion_valid x \<and> w = NegotiateProtocolVersion_wire x"
| "message_body (Message.Backend (BackendMsg.NoticeResponse x)) w \<longleftrightarrow> fields_wire (NoticeResponse_fields x) w"
| "message_body (Message.Backend (BackendMsg.ParameterStatus x)) w \<longleftrightarrow> ParameterStatus_valid x \<and> w = ParameterStatus_wire x"
| "message_body (Message.Backend (BackendMsg.ParseComplete x)) w \<longleftrightarrow> w = ParseComplete_wire x"
| "message_body (Message.Backend (BackendMsg.PortalSuspended x)) w \<longleftrightarrow> w = PortalSuspended_wire x"
| "message_body (Message.Backend (BackendMsg.ReadyForQuery x)) w \<longleftrightarrow> w = ReadyForQuery_wire x"
| "message_body (Message.Backend (BackendMsg.RowDescription x)) w \<longleftrightarrow> RowDescription_valid x \<and> w = RowDescription_wire x"
| "message_body (Message.Frontend (FrontendMsg.Bind x)) w \<longleftrightarrow> Bind_valid x \<and> w = Bind_wire x"
| "message_body (Message.Frontend (FrontendMsg.Execute x)) w \<longleftrightarrow> Execute_valid x \<and> w = Execute_wire x"
| "message_body (Message.Frontend (FrontendMsg.Password x)) w \<longleftrightarrow> Password_valid x \<and> w = Password_wire x"
| "message_body (Message.Frontend (FrontendMsg.GssResponse x)) w \<longleftrightarrow> w = GssResponse_wire x"
| "message_body (Message.Frontend (FrontendMsg.SaslInitialResponse x)) w \<longleftrightarrow> SaslInitialResponse_valid x \<and> w = SaslInitialResponse_wire x"
| "message_body (Message.Frontend (FrontendMsg.SaslResponse x)) w \<longleftrightarrow> w = SaslResponse_wire x"
| "message_body (Message.Frontend (FrontendMsg.Sync x)) w \<longleftrightarrow> w = Sync_wire x"
| "message_body (Message.Frontend (FrontendMsg.Parse x)) w \<longleftrightarrow> Parse_valid x \<and> w = Parse_wire x"
| "message_body (Message.Frontend (FrontendMsg.Query x)) w \<longleftrightarrow> Query_valid x \<and> w = Query_wire x"
| "message_body (Message.Frontend (FrontendMsg.Terminate x)) w \<longleftrightarrow> w = Terminate_wire x"
| "message_body (Message.Frontend (FrontendMsg.Initial x)) w \<longleftrightarrow> Initial_valid x \<and> w = Initial_wire x"

definition message_wire :: "Message \<Rightarrow> u8 list \<Rightarrow> bool" where
  "message_wire m w \<longleftrightarrow>
     (\<exists>body. message_body m body \<and> 4 + length body < 2 ^ 32
       \<and> w = (case message_type m of None \<Rightarrow> [] | Some t \<Rightarrow> [TypeByte_into t]) @ frame body)"

section \<open>The session protocol\<close>

definition auth_next :: "State \<Rightarrow> Authentication \<Rightarrow> State option" where
  "auth_next st a =
     (if st = State.GotStartup
      then (case a of
              Authentication.Ok \<Rightarrow> Some State.Authenticated
            | CleartextPassword \<Rightarrow> Some State.AskedCleartextPassword
            | Md5Password _ \<Rightarrow> Some State.AskedMd5Password
            | Gss \<Rightarrow> Some State.AskedGssResponse
            | Sspi \<Rightarrow> Some State.AskedGssResponse
            | Sasl _ \<Rightarrow> Some State.AskedSaslInitialResponse
            | _ \<Rightarrow> None)
      else if st \<in> {State.GotCleartextPassword, State.GotMd5Password, State.FinishedSasl}
      then (if a = Authentication.Ok then Some State.Authenticated else None)
      else if st = State.GotGssResponse
      then (case a of
              Authentication.Ok \<Rightarrow> Some State.Authenticated
            | GssContinue _ \<Rightarrow> Some State.AskedGssResponse
            | _ \<Rightarrow> None)
      else if st = State.GotAnySaslResponse
      then (case a of
              SaslContinue _ \<Rightarrow> Some State.AskedSaslResponse
            | SaslFinal _ \<Rightarrow> Some State.FinishedSasl
            | _ \<Rightarrow> None)
      else None)"

fun next_state :: "State \<Rightarrow> Message \<Rightarrow> flow option" where
  "next_state st (Message.Backend (BackendMsg.Authentication a)) = map_option Next (auth_next st a)"
| "next_state st (Message.Backend (BackendMsg.BackendKeyData x)) =
     (if st = State.Authenticated
      then Some (Next State.SentAllBackendParams)
      else None)"
| "next_state st (Message.Backend (BackendMsg.BindComplete x)) =
     (if st = State.GotBinding
      then Some (Next State.ReadyForQuery)
      else None)"
| "next_state st (Message.Backend (BackendMsg.CommandComplete x)) =
     (if st \<in> {State.AnsweringToSimpleQuery, State.CompletedSimpleCommand,
          State.GotSimpleQuery}
      then Some (Next State.CompletedSimpleCommand)
      else if st \<in> {State.AnsweringToExtendedQuery, State.ExecutingExtendedQuery}
      then Some (Next State.CompletedExtendedQuery)
      else None)"
| "next_state st (Message.Backend (BackendMsg.DataRow x)) =
     (if st = State.AnsweringToSimpleQuery
      then Some (Next State.AnsweringToSimpleQuery)
      else if st \<in> {State.AnsweringToExtendedQuery, State.ExecutingExtendedQuery}
      then Some (Next State.AnsweringToExtendedQuery)
      else None)"
| "next_state st (Message.Backend (BackendMsg.EmptyQueryResponse x)) =
     (if st = State.ExecutingExtendedQuery
      then Some (Next State.SeenEmptyExtendedQuery)
      else if st = State.GotSimpleQuery
      then Some (Next State.SeenEmptySimpleQuery)
      else None)"
| "next_state st (Message.Backend (BackendMsg.ErrorResponse x)) =
     (if st \<in> {State.AbortedSimpleQuery, State.AnsweringToSimpleQuery,
          State.CompletedSimpleCommand, State.GotSimpleQuery,
          State.SeenEmptySimpleQuery}
      then Some (Next State.AbortedSimpleQuery)
      else if st \<in> {State.GotBinding, State.GotPreparedStatement}
      then Some (Next State.AbortedParsingOrBinding)
      else if st \<in> {State.AbortedExtendedQuery, State.AnsweringToExtendedQuery,
          State.CompletedExtendedQuery, State.ExecutingExtendedQuery,
          State.SeenEmptyExtendedQuery}
      then Some (Next State.AbortedExtendedQuery)
      else Some Stop)"
| "next_state st (Message.Backend (BackendMsg.NegotiateProtocolVersion x)) =
     (if st \<in> {State.GotStartup, State.Authenticated}
      then Some (Next st)
      else None)"
| "next_state st (Message.Backend (BackendMsg.NoticeResponse x)) =
     (Some (Next st))"
| "next_state st (Message.Backend (BackendMsg.ParameterStatus x)) =
     (if st = State.Authenticated
      then Some (Next State.Authenticated)
      else None)"
| "next_state st (Message.Backend (BackendMsg.ParseComplete x)) =
     (if st = State.GotPreparedStatement
      then Some (Next State.ReadyForQuery)
      else None)"
| "next_state st (Message.Backend (BackendMsg.PortalSuspended x)) =
     (if st = State.AnsweringToExtendedQuery
      then Some (Next State.SuspendedExtendedQuery)
      else None)"
| "next_state st (Message.Backend (BackendMsg.ReadyForQuery x)) =
     (if st \<in> {State.AbortedParsingOrBinding, State.AbortedSimpleQuery,
          State.CompletedSimpleCommand, State.SentAllBackendParams,
          State.GotSync, State.SeenEmptySimpleQuery}
      then Some (Next State.ReadyForQuery)
      else None)"
| "next_state st (Message.Backend (BackendMsg.RowDescription x)) =
     (if st \<in> {State.GotSimpleQuery, State.CompletedSimpleCommand}
      then Some (Next State.AnsweringToSimpleQuery)
      else None)"
| "next_state st (Message.Frontend (FrontendMsg.Bind x)) =
     (if st = State.ReadyForQuery
      then Some (Next State.GotBinding)
      else None)"
| "next_state st (Message.Frontend (FrontendMsg.Execute x)) =
     (if st \<in> {State.ReadyForQuery, State.SuspendedExtendedQuery}
      then Some (Next State.ExecutingExtendedQuery)
      else None)"
| "next_state st (Message.Frontend (FrontendMsg.Password x)) =
     (if st = State.AskedCleartextPassword
      then Some (Next State.GotCleartextPassword)
      else if st = State.AskedMd5Password
      then Some (Next State.GotMd5Password)
      else None)"
| "next_state st (Message.Frontend (FrontendMsg.GssResponse x)) =
     (if st = State.AskedGssResponse
      then Some (Next State.GotGssResponse)
      else None)"
| "next_state st (Message.Frontend (FrontendMsg.SaslInitialResponse x)) =
     (if st = State.AskedSaslInitialResponse
      then Some (Next State.GotAnySaslResponse)
      else None)"
| "next_state st (Message.Frontend (FrontendMsg.SaslResponse x)) =
     (if st = State.AskedSaslResponse
      then Some (Next State.GotAnySaslResponse)
      else None)"
| "next_state st (Message.Frontend (FrontendMsg.Sync x)) =
     (if st \<in> {State.AbortedExtendedQuery, State.CompletedExtendedQuery,
          State.SeenEmptyExtendedQuery, State.SuspendedExtendedQuery}
      then Some (Next State.GotSync)
      else None)"
| "next_state st (Message.Frontend (FrontendMsg.Parse x)) =
     (if st = State.ReadyForQuery
      then Some (Next State.GotPreparedStatement)
      else None)"
| "next_state st (Message.Frontend (FrontendMsg.Query x)) =
     (if st = State.ReadyForQuery
      then Some (Next State.GotSimpleQuery)
      else None)"
| "next_state st (Message.Frontend (FrontendMsg.Terminate x)) =
     (if st = State.ReadyForQuery
      then Some Stop
      else None)"
| "next_state st (Message.Frontend (FrontendMsg.Initial x)) = None"

text \<open>The error for an authentication request that is out of place.\<close>

definition auth_rejection :: "State \<Rightarrow> Message \<Rightarrow> ConveyError" where
  "auth_rejection st m =
     (if st = State.GotStartup
      then (case m of
              Message.Backend (BackendMsg.Authentication KerberosV5) \<Rightarrow>
                ConveyError.Unsupported kerberos_unsupported
            | Message.Backend (BackendMsg.Authentication ScmCredential) \<Rightarrow>
                ConveyError.Unsupported scm_unsupported
            | _ \<Rightarrow> ConveyError.Todo authentication_todo)
      else ConveyError.UnexpectedType st Side.Backend TypeByte.Authentication)"

definition as_message :: "('m \<Rightarrow> Message) \<Rightarrow> 'm MsgDecode \<Rightarrow> Message MsgDecode" where
  "as_message W D =
     \<lparr>TYPE_BYTE_OPT = TYPE_BYTE_OPT D,
      decode_body = (\<lambda>bs. case decode_body D bs of (Inl e, bs') \<Rightarrow> (Inl e, bs') | (Inr x, bs') \<Rightarrow> (Inr (W x), bs'))\<rparr>"

text \<open>The kind of message a type byte announces; \<open>None\<close> when the state does not admit it.\<close>

definition expected_backend :: "TypeByte \<Rightarrow> State \<Rightarrow> Message MsgDecode option" where
  "expected_backend type_byte st = (case type_byte of
     TypeByte.Authentication \<Rightarrow>
     Some (as_message (\<lambda>x. Message.Backend (BackendMsg.Authentication x)) Authentication_msg)
   | TypeByte.BackendKeyData \<Rightarrow>
     (if st = State.Authenticated
      then Some (as_message (\<lambda>x. Message.Backend (BackendMsg.BackendKeyData x)) BackendKeyData_msg)
      else None)
   | TypeByte.BindComplete \<Rightarrow>
     (if st = State.GotBinding
      then Some (as_message (\<lambda>x. Message.Backend (BackendMsg.BindComplete x)) BindComplete_msg)
      else None)
   | TypeByte.CommandComplete \<Rightarrow>
     (if st \<in> {State.AnsweringToSimpleQuery, State.CompletedSimpleCommand,
          State.GotSimpleQuery, State.AnsweringToExtendedQuery,
          State.ExecutingExtendedQuery}
      then Some (as_message (\<lambda>x. Message.Backend (BackendMsg.CommandComplete x)) CommandComplete_msg)
      else None)
   | TypeByte.DataRow \<Rightarrow>
     (if st \<in> {State.AnsweringToSimpleQuery, State.AnsweringToExtendedQuery,
          State.ExecutingExtendedQuery}
      then Some (as_message (\<lambda>x. Message.Backend (BackendMsg.DataRow x)) DataRow_msg)
      else None)
   | TypeByte.EmptyQueryResponse \<Rightarrow>
     (if st \<in> {State.ExecutingExtendedQuery, State.GotSimpleQuery}
      then Some (as_message (\<lambda>x. Message.Backend (BackendMsg.EmptyQueryResponse x)) EmptyQueryResponse_msg)
      else None)
   | TypeByte.Execute_or_ErrorResponse \<Rightarrow>
     (Some (as_message (\<lambda>x. Message.Backend (BackendMsg.ErrorResponse x)) ErrorResponse_msg))
   | TypeByte.NegotiateProtocolVersion \<Rightarrow>
     (if st \<in> {State.GotStartup, State.Authenticated}
      then Some (as_message (\<lambda>x. Message.Backend (BackendMsg.NegotiateProtocolVersion x)) NegotiateProtocolVersion_msg)
      else None)
   | TypeByte.NoticeResponse \<Rightarrow>
     (Some (as_message (\<lambda>x. Message.Backend (BackendMsg.NoticeResponse x)) NoticeResponse_msg))
   | TypeByte.ParameterStatus_or_Sync \<Rightarrow>
     (if st = State.Authenticated
      then Some (as_message (\<lambda>x. Message.Backend (BackendMsg.ParameterStatus x)) ParameterStatus_msg)
      else None)
   | TypeByte.ParseComplete \<Rightarrow>
     (if st = State.GotPreparedStatement
      then Some (as_message (\<lambda>x. Message.Backend (BackendMsg.ParseComplete x)) ParseComplete_msg)
      else None)
   | TypeByte.PortalSuspended \<Rightarrow>
     (if st = State.AnsweringToExtendedQuery
      then Some (as_message (\<lambda>x. Message.Backend (BackendMsg.PortalSuspended x)) PortalSuspended_msg)
      else None)
   | TypeByte.ReadyForQuery \<Rightarrow>
     (if st \<in> {State.AbortedParsingOrBinding, State.AbortedSimpleQuery,
          State.CompletedSimpleCommand, State.SentAllBackendParams,
          State.GotSync, State.SeenEmptySimpleQuery}
      then Some (as_message (\<lambda>x. Message.Backend (BackendMsg.ReadyForQuery x)) ReadyForQuery_msg)
      else None)
   | TypeByte.RowDescription \<Rightarrow>
     (if st \<in> {State.GotSimpleQuery, State.CompletedSimpleCommand}
      then Some (as_message (\<lambda>x. Message.Backend (BackendMsg.RowDescription x)) RowDescription_msg)
      else None)
   | _ \<Rightarrow> None)"

definition expected_frontend :: "TypeByte \<Rightarrow> State \<Rightarrow> Message MsgDecode option" where
  "expected_frontend type_byte st = (case type_byte of
     TypeByte.Bind \<Rightarrow>
     (if st = State.ReadyForQuery
      then Some (as_message (\<lambda>x. Message.Frontend (FrontendMsg.Bind x)) Bind_msg)
      else None)
   | TypeByte.Execute_or_ErrorResponse \<Rightarrow>
     (if st \<in> {State.ReadyForQuery, State.SuspendedExtendedQuery}
      then Some (as_message (\<lambda>x. Message.Frontend (FrontendMsg.Execute x)) Execute_msg)
      else None)
   | TypeByte.GssResponse_or_Password_or_SaslResponses \<Rightarrow>
     (if st \<in> {State.AskedCleartextPassword, State.AskedMd5Password}
      then Some (as_message (\<lambda>x. Message.Frontend (FrontendMsg.Password x)) Password_msg)
      else if st = State.AskedGssResponse
      then Some (as_message (\<lambda>x. Message.Frontend (FrontendMsg.GssResponse x)) GssResponse_msg)
      else if st = State.AskedSaslInitialResponse
      then Some (as_message (\<lambda>x. Message.Frontend (FrontendMsg.SaslInitialResponse x)) SaslInitialResponse_msg)
      else if st = State.AskedSaslResponse
      then Some (as_message (\<lambda>x. Message.Frontend (FrontendMsg.SaslResponse x)) SaslResponse_msg)
      else None)
   | TypeByte.ParameterStatus_or_Sync \<Rightarrow>
     (if st \<in> {State.AbortedExtendedQuery, State.CompletedExtendedQuery,
          State.SeenEmptyExtendedQuery, State.SuspendedExtendedQuery}
      then Some (as_message (\<lambda>x. Message.Frontend (FrontendMsg.Sync x)) Sync_msg)
      else None)
   | TypeByte.Parse \<Rightarrow>
     (if st = State.ReadyForQuery
      then Some (as_message (\<lambda>x. Message.Frontend (FrontendMsg.Parse x)) Parse_msg)
      else None)
   | TypeByte.Query \<Rightarrow>
     (if st = State.ReadyForQuery
      then Some (as_message (\<lambda>x. Message.Frontend (FrontendMsg.Query x)) Query_msg)
      else None)
   | TypeByte.Terminate \<Rightarrow>
     (if st = State.ReadyForQuery
      then Some (as_message (\<lambda>x. Message.Frontend (FrontendMsg.Terminate x)) Terminate_msg)
      else None)
   | _ \<Rightarrow> None)"

definition expected :: "Side \<Rightarrow> TypeByte \<Rightarrow> State \<Rightarrow> Message MsgDecode option" where
  "expected side type_byte st =
     (case side of
        Side.Backend \<Rightarrow> expected_backend type_byte st
      | Side.Frontend \<Rightarrow> expected_frontend type_byte st)"

text \<open>A session: the messages a conveyor relays from a state on, and how that ends.\<close>

inductive session :: "State \<Rightarrow> Message list \<Rightarrow> flow \<Rightarrow> bool" where
  session_here: "session st [] (Next st)"
| session_step: "next_state st m = Some (Next st') \<Longrightarrow> session st' ms f \<Longrightarrow> session st (m # ms) f"
| session_stop: "next_state st m = Some Stop \<Longrightarrow> session st [m] Stop"

inductive_simps session_Nil: "session st [] f"

inductive_simps session_Cons: "session st (m # ms) f"

section \<open>Relaying one message\<close>

definition relay ::
  "('fp, 'ft, 'bp, 'bt) ConveyEnv \<Rightarrow> Side \<Rightarrow> Message MsgDecode
    \<Rightarrow> (('fp, 'ft, 'bp, 'bt) Conveyor, ConveyError, Message) prog" where
  "relay env side D =
     (let report = (\<lambda>m self. (Return (), self\<lparr>conveyed := conveyed self @ [m]\<rparr>))
      in case side of
           Side.Backend \<Rightarrow> read_through (read_backend env D) report (write_frontend env)
         | Side.Frontend \<Rightarrow> read_through (read_frontend env D) report (write_backend env))"

definition settle :: "State \<Rightarrow> Message \<Rightarrow> ('c, ConveyError, flow) prog" where
  "settle st m =
     (case next_state st m of
        Some f \<Rightarrow> return f
      | None \<Rightarrow> throw (auth_rejection st m))"

section \<open>The automaton implements the protocol\<close>

lemma decode_whole_as_message:
  "decode_whole (as_message W D) body =
     (case decode_whole D body of Inl e \<Rightarrow> Inl e | Inr x \<Rightarrow> Inr (W x))"
  by (auto simp: decode_whole_def as_message_def split: prod.splits sum.splits nat.splits)

lemma TYPE_BYTE_as_message [simp]: "TYPE_BYTE_OPT (as_message W D) = TYPE_BYTE_OPT D"
  by (simp add: as_message_def)

lemma type_prefix_as_message [simp]: "type_prefix (as_message W D) = type_prefix D"
  by (simp add: type_prefix_def)

text \<open>Reading a message through a wrapped dictionary reads the same bytes.\<close>

lemma read_msg_as_message:
  "read_msg_mapping_err ovf ops (as_message W D) =
     bind_prog (read_msg_mapping_err ovf ops D) (\<lambda>(bytes, x). return (bytes, W x))"
proof
  fix s
  have "read_body ops (as_message W D) len t =
      (case read_body ops D len t of
         (Return d, t') \<Rightarrow> (Return \<lparr>rd_bytes = rd_bytes d, rd_msg_result = map_sum id W (rd_msg_result d)\<rparr>, t')
       | (Throw e, t') \<Rightarrow> (Throw e, t') | (Panic p, t') \<Rightarrow> (Panic p, t') | (Blocked, t') \<Rightarrow> (Blocked, t'))" for len t
    by (auto simp: read_body_def bind_prog_def decode_whole_as_message map_err_def
             split: prod.splits outcome.splits sum.splits)
  then show "read_msg_mapping_err ovf ops (as_message W D) s =
     bind_prog (read_msg_mapping_err ovf ops D) (\<lambda>(bytes, x). return (bytes, W x)) s"
    by (auto simp: read_msg_mapping_err_def read_msg_cases bind_prog_def map_err_def len_overflows_def
             split: prod.splits outcome.splits sum.splits)
qed

lemma unwrap_stream_bind:
  "unwrap_stream (bind_prog f (\<lambda>x. return (h x))) (bind_prog g (\<lambda>x. return (h x))) =
     bind_prog (unwrap_stream f g) (\<lambda>x. return (h x))"
  by (auto simp: unwrap_stream_def bind_prog_def fun_eq_iff split: StreamWrap.splits prod.splits outcome.splits)

lemma on_side_bind:
  "on_backend (bind_prog m (\<lambda>x. return (h x))) = bind_prog (on_backend m) (\<lambda>x. return (h x))"
  "on_frontend (bind_prog m (\<lambda>x. return (h x))) = bind_prog (on_frontend m) (\<lambda>x. return (h x))"
  by (auto simp: on_backend_def on_frontend_def bind_prog_def fun_eq_iff split: prod.splits outcome.splits)

lemma read_side_as_message:
  "read_backend env (as_message W D) = bind_prog (read_backend env D) (\<lambda>(bytes, x). return (bytes, W x))"
  "read_frontend env (as_message W D) = bind_prog (read_frontend env D) (\<lambda>(bytes, x). return (bytes, W x))"
  using on_side_bind [where h = "\<lambda>(bytes, x). (bytes, W x)"]
  unfolding read_backend_def read_frontend_def read_msg_as_message
  by (simp_all add: case_prod_unfold unwrap_stream_bind)

lemma bind_through_relay:
  "(\<And>x. k x = g (Message.Backend (W x))) \<Longrightarrow>
    bind_prog (read_backend_through env D W) k =
    bind_prog (relay env Side.Backend (as_message (\<lambda>x. Message.Backend (W x)) D)) g"
  "(\<And>x. k x = g (Message.Frontend (V x))) \<Longrightarrow>
    bind_prog (read_frontend_through env D V) k =
    bind_prog (relay env Side.Frontend (as_message (\<lambda>x. Message.Frontend (V x)) D)) g"
  by (auto simp: read_backend_through_def read_frontend_through_def relay_def read_through_def
        read_side_as_message callback_backend_def callback_frontend_def bind_prog_def fun_eq_iff
      split: prod.splits outcome.splits)

lemma authentication_settles:
  "bind_prog (process_backend_authentication env TypeByte.Authentication state) (\<lambda>next. return (Next next)) =
   bind_prog (relay env Side.Backend (as_message (\<lambda>x. Message.Backend (BackendMsg.Authentication x)) Authentication_msg))
     (settle state)"
  unfolding process_backend_authentication_def bind_prog_assoc
  by (intro bind_through_relay ext, simp add: settle_def auth_next_def auth_rejection_def bind_prog_def
        split: Authentication.split)

lemma dispatch_settles:
  "dispatch env side type_byte state =
     (case expected side type_byte state of
        None \<Rightarrow> throw (ConveyError.UnexpectedType state side type_byte)
      | Some D \<Rightarrow> bind_prog (relay env side D) (settle state))"
proof (cases side)
  case Backend
  then show ?thesis
    by (cases type_byte)
       (auto simp: dispatch_def expected_def expected_backend_def authentication_settles settle_def
             intro!: bind_through_relay)
next
  case Frontend
  then show ?thesis
    by (cases type_byte)
       (auto simp: dispatch_def expected_def expected_frontend_def settle_def
             intro!: bind_through_relay)
qed

text \<open>A body is decoded to the end exactly when it is the wire form of the message.\<close>

lemma whole_iff:
  assumes "body_decoder dec wire" and "decode_body D = dec"
  shows "decode_whole D body = Inr m \<longleftrightarrow> wire m body"
  using decode_whole_Inr [of D wire] assms by simp

lemmas msg_defs =
  Authentication_msg_def BackendKeyData_msg_def BindComplete_msg_def CommandComplete_msg_def
  DataRow_msg_def EmptyQueryResponse_msg_def ErrorResponse_msg_def NegotiateProtocolVersion_msg_def
  NoticeResponse_msg_def ParameterStatus_msg_def ParseComplete_msg_def PortalSuspended_msg_def
  ReadyForQuery_msg_def RowDescription_msg_def Bind_msg_def Execute_msg_def
  GssResponse_msg_def Initial_msg_def Parse_msg_def Password_msg_def
  Query_msg_def SaslInitialResponse_msg_def SaslResponse_msg_def Sync_msg_def
  Terminate_msg_def

lemmas whole_iffs =
  whole_iff [OF Authentication.body_decoder_axioms]
  whole_iff [OF BackendKeyData.body_decoder_axioms]
  whole_iff [OF BindComplete.body_decoder_axioms]
  whole_iff [OF CommandComplete.body_decoder_axioms]
  whole_iff [OF DataRow.body_decoder_axioms]
  whole_iff [OF EmptyQueryResponse.body_decoder_axioms]
  whole_iff [OF ErrorResponse.body_decoder_axioms]
  whole_iff [OF NegotiateProtocolVersion.body_decoder_axioms]
  whole_iff [OF NoticeResponse.body_decoder_axioms]
  whole_iff [OF ParameterStatus.body_decoder_axioms]
  whole_iff [OF ParseComplete.body_decoder_axioms]
  whole_iff [OF PortalSuspended.body_decoder_axioms]
  whole_iff [OF ReadyForQuery.body_decoder_axioms]
  whole_iff [OF RowDescription.body_decoder_axioms]
  whole_iff [OF Bind.body_decoder_axioms]
  whole_iff [OF Execute.body_decoder_axioms]
  whole_iff [OF GssResponse.body_decoder_axioms]
  whole_iff [OF Initial.body_decoder_axioms]
  whole_iff [OF Parse.body_decoder_axioms]
  whole_iff [OF Password.body_decoder_axioms]
  whole_iff [OF Query.body_decoder_axioms]
  whole_iff [OF SaslInitialResponse.body_decoder_axioms]
  whole_iff [OF SaslResponse.body_decoder_axioms]
  whole_iff [OF Sync.body_decoder_axioms]
  whole_iff [OF Terminate.body_decoder_axioms]

lemma as_message_whole:
  "decode_whole (as_message W D) body = Inr m \<longleftrightarrow> (\<exists>x. decode_whole D body = Inr x \<and> m = W x)"
  by (auto simp: decode_whole_as_message split: sum.splits)

lemma expected_type: "expected side tb st = Some D \<Longrightarrow> TYPE_BYTE_OPT D = Some tb"
  by (cases side; cases tb)
     (auto simp: expected_def expected_backend_def expected_frontend_def msg_defs split: if_splits)

lemma expected_decodes:
  assumes "expected side tb st = Some D" and "decode_whole D body = Inr m"
  shows "message_side m = side" and "message_type m = Some tb" and "message_body m body"
    and "tb \<noteq> TypeByte.Authentication \<Longrightarrow> next_state st m \<noteq> None"
  using assms
  by (cases side; cases tb;
      auto simp: expected_def expected_backend_def expected_frontend_def as_message_whole msg_defs whole_iffs
           split: if_splits)+

lemma expected_accepts:
  assumes "next_state st m = Some f"
  obtains tb D where "message_type m = Some tb" "expected (message_side m) tb st = Some D"
    "\<And>body. message_body m body \<Longrightarrow> decode_whole D body = Inr m"
  using assms
  by (cases "(st, m)" rule: next_state.cases)
     (auto simp: expected_def expected_backend_def expected_frontend_def as_message_whole msg_defs whole_iffs
           split: if_splits)

end
