(* ===== verification/Relay.thy ===== *)
theory Relay
  imports Protocol
begin

text \<open>
  What the conveyor does to the bytes: relaying one message, a round of the loop and the whole
  loop, over streams that satisfy the contract \<open>byte_stream\<close>. A wrapped stream is observed
  through two functions, the bytes its peer is going to deliver and the bytes written to it.
\<close>

section \<open>Wrapped streams\<close>

lemma read_msg_mapping_err_Return:
  "read_msg_mapping_err ovf ops D s = (Return (bytes, m), s') \<longleftrightarrow>
     (\<exists>d. read_msg ovf ops D s = (Return d, s') \<and> rd_msg_result d = Inr m \<and> rd_bytes d = bytes)"
  by (auto simp: read_msg_mapping_err_def exec_simps split: sum.split_asm)

lemma read_msg_mapping_err_state:
  "snd (read_msg_mapping_err ovf ops D s) = snd (read_msg ovf ops D s)"
  by (auto simp: read_msg_mapping_err_def bind_prog_def map_err_def split: prod.splits outcome.splits sum.splits)

text \<open>Both a plain and a TLS stream satisfy the contract; the observers see the one inside.\<close>

locale wrapped_stream =
  fixes plain :: "'p StreamOps" and tls :: "'t StreamOps"
    and incoming :: "('p, 't) StreamWrap \<Rightarrow> u8 list"
    and sent :: "('p, 't) StreamWrap \<Rightarrow> u8 list"
  assumes plain_stream:
    "byte_stream plain (\<lambda>p. incoming (StreamWrap.Plain p)) (\<lambda>p. sent (StreamWrap.Plain p))"
    and tls_stream:
    "byte_stream tls (\<lambda>t. incoming (StreamWrap.Tls t)) (\<lambda>t. sent (StreamWrap.Tls t))"
begin

text \<open>Whatever holds of an operation on both kinds of streams holds of the wrap.\<close>

lemma unwrap_stream_cases:
  assumes "unwrap_stream f g w = (r, w')"
  obtains (plain) p p' where "w = StreamWrap.Plain p" "w' = StreamWrap.Plain p'" "f p = (r, p')"
  | (disrupted) "w = TlsHandshake" "w' = TlsHandshake" "r = Throw (ConveyError.TlsError HandshakeDisrupted)"
  | (tls) t t' where "w = StreamWrap.Tls t" "w' = StreamWrap.Tls t'" "g t = (r, t')"
  using assms by (auto simp: unwrap_stream_def split: StreamWrap.splits prod.splits)

lemma wrap_read_returns:
  assumes "unwrap_stream (read_msg_mapping_err ovf plain D) (read_msg_mapping_err ovf tls D) w
      = (Return (bytes, m), w')"
  obtains body where "4 + length body < 2 ^ 32" "decode_whole D body = Inr m"
    "bytes = type_prefix D @ frame body" "incoming w = frame body @ incoming w'" "sent w' = sent w"
  using assms
proof (cases rule: unwrap_stream_cases)
  case (plain p p')
  then obtain d where "read_msg ovf plain D p = (Return d, p')" "rd_msg_result d = Inr m" "rd_bytes d = bytes"
    by (auto simp: read_msg_mapping_err_Return)
  with plain that show ?thesis
    by (auto elim!: byte_stream.read_msg_returns [OF plain_stream])
next
  case (tls t t')
  then obtain d where "read_msg ovf tls D t = (Return d, t')" "rd_msg_result d = Inr m" "rd_bytes d = bytes"
    by (auto simp: read_msg_mapping_err_Return)
  with tls that show ?thesis
    by (auto elim!: byte_stream.read_msg_returns [OF tls_stream])
qed simp

lemma wrap_read_frame:
  assumes "unwrap_stream (read_msg_mapping_err ovf plain D) (read_msg_mapping_err ovf tls D) w = (r, w')"
  shows "sent w' = sent w" and "suffix (incoming w') (incoming w)"
proof -
  have step: "read_msg ovf ops D s = (fst (read_msg ovf ops D s), s')"
    if "read_msg_mapping_err ovf ops D s = (r, s')" for ops :: "'x StreamOps" and s s'
    using that read_msg_mapping_err_state [of ovf ops D s] by (auto simp: prod_eq_iff)
  have "sent w' = sent w \<and> suffix (incoming w') (incoming w)"
    using assms
    by (cases rule: unwrap_stream_cases)
       (auto dest!: step byte_stream.read_msg_frame [OF plain_stream] byte_stream.read_msg_frame [OF tls_stream])
  then show "sent w' = sent w" and "suffix (incoming w') (incoming w)" by simp_all
qed

lemma wrap_write_returns:
  assumes "unwrap_stream (write_bytes plain bs) (write_bytes tls bs) w = (Return u, w')"
  shows "sent w' = sent w @ bs" and "incoming w' = incoming w"
  using assms
  by (cases rule: unwrap_stream_cases,
      auto simp: write_bytes_def exec_simps
           dest: byte_stream.write_returns [OF plain_stream] byte_stream.write_returns [OF tls_stream]
             byte_stream.write_frame [OF plain_stream] byte_stream.write_frame [OF tls_stream])+

lemma wrap_write_frame:
  assumes "unwrap_stream (write_bytes plain bs) (write_bytes tls bs) w = (r, w')"
  shows "incoming w' = incoming w" and "\<exists>p. prefix p bs \<and> sent w' = sent w @ p"
proof -
  have step: "write_all ops bs s = (fst (write_all ops bs s), s')"
    if "write_bytes ops bs s = (r, s')" for ops :: "'x StreamOps" and s s'
    using that map_err_state [of ConveyError.IoError "write_all ops bs" s]
    by (auto simp: write_bytes_def prod_eq_iff)
  have "incoming w' = incoming w \<and> (\<exists>p. prefix p bs \<and> sent w' = sent w @ p)"
    using assms
    by (cases rule: unwrap_stream_cases)
       (auto dest!: step byte_stream.write_frame [OF plain_stream] byte_stream.write_frame [OF tls_stream])
  then show "incoming w' = incoming w" and "\<exists>p. prefix p bs \<and> sent w' = sent w @ p" by simp_all
qed

lemma wrap_byte_returns:
  assumes "unwrap_stream (read_type_byte plain) (read_type_byte tls) w = (Return b, w')"
  shows "incoming w = b # incoming w'" and "sent w' = sent w"
  using assms
  by (cases rule: unwrap_stream_cases,
      auto simp: read_type_byte_def exec_simps
           dest: byte_stream.read_u8_returns [OF plain_stream] byte_stream.read_u8_returns [OF tls_stream])+

lemma wrap_byte_frame:
  assumes "unwrap_stream (read_type_byte plain) (read_type_byte tls) w = (r, w')"
  shows "sent w' = sent w" and "suffix (incoming w') (incoming w)"
proof -
  have step: "read_u8 ops s = (fst (read_u8 ops s), s')"
    if "read_type_byte ops s = (r, s')" for ops :: "'x StreamOps" and s s'
    using that map_err_state [of ConveyError.IoError "read_u8 ops" s]
    by (auto simp: read_type_byte_def prod_eq_iff)
  have "sent w' = sent w \<and> suffix (incoming w') (incoming w)"
    using assms
    by (cases rule: unwrap_stream_cases)
       (auto dest!: step byte_stream.read_u8_frame [OF plain_stream] byte_stream.read_u8_frame [OF tls_stream])
  then show "sent w' = sent w" and "suffix (incoming w') (incoming w)" by simp_all
qed

end

section \<open>The two sides of a conveyor\<close>

definition observe ::
  "(('fp, 'ft) StreamWrap \<Rightarrow> 'a) \<Rightarrow> (('bp, 'bt) StreamWrap \<Rightarrow> 'a) \<Rightarrow> Side
    \<Rightarrow> ('fp, 'ft, 'bp, 'bt) Conveyor \<Rightarrow> 'a" where
  "observe f b side c = (case side of Side.Frontend \<Rightarrow> f (frontend c) | Side.Backend \<Rightarrow> b (backend c))"

lemma observe_conveyed [simp]: "observe f b side (c\<lparr>conveyed := ms\<rparr>) = observe f b side c"
  by (simp add: observe_def split: Side.splits)

lemma other_other [simp]: "other (other side) = side" "other side \<noteq> side" "side \<noteq> other side"
  by (cases side; simp)+

definition read_side where
  "read_side env side D =
     (case side of Side.Backend \<Rightarrow> read_backend env D | Side.Frontend \<Rightarrow> read_frontend env D)"

definition write_side where
  "write_side env side bytes =
     (case side of Side.Backend \<Rightarrow> write_backend env bytes | Side.Frontend \<Rightarrow> write_frontend env bytes)"

definition byte_side where
  "byte_side env side =
     (case side of
        Side.Backend \<Rightarrow>
          on_backend (unwrap_stream (read_type_byte (back_plain env)) (read_type_byte (back_tls env)))
      | Side.Frontend \<Rightarrow>
          on_frontend (unwrap_stream (read_type_byte (front_plain env)) (read_type_byte (front_tls env))))"

lemma relay_sides:
  "relay env side D =
     read_through (read_side env side D) (\<lambda>m self. (Return (), self\<lparr>conveyed := conveyed self @ [m]\<rparr>))
       (write_side env (other side))"
  by (cases side) (simp_all add: relay_def read_side_def write_side_def [abs_def])

lemma read_type_byte_from_both_side:
  "read_type_byte_from_both env side =
     bind_prog (byte_side env side) (\<lambda>byte.
       case TypeByte_try_from byte of
         None \<Rightarrow> throw (ConveyError.UnknownType side byte)
       | Some type_byte \<Rightarrow> return (side, type_byte))"
  by (cases side)
     (simp_all only: read_type_byte_from_both_def byte_side_def Side.case bind_prog_assoc bind_return prod.case)

locale conveyor_streams =
  fs: wrapped_stream "front_plain env" "front_tls env" fi fo +
  bs: wrapped_stream "back_plain env" "back_tls env" bi bo
  for env :: "('fp, 'ft, 'bp, 'bt) ConveyEnv" and fi fo bi bo
begin

abbreviation arriving :: "Side \<Rightarrow> ('fp, 'ft, 'bp, 'bt) Conveyor \<Rightarrow> u8 list" where
  "arriving \<equiv> observe fi bi"

abbreviation delivered :: "Side \<Rightarrow> ('fp, 'ft, 'bp, 'bt) Conveyor \<Rightarrow> u8 list" where
  "delivered \<equiv> observe fo bo"

lemma read_side_returns:
  assumes "read_side env side D c = (Return (bytes, m), c')"
  obtains body where "4 + length body < 2 ^ 32" "decode_whole D body = Inr m"
    "bytes = type_prefix D @ frame body" "arriving side c = frame body @ arriving side c'"
  using assms that
  by (auto simp: read_side_def read_backend_def read_frontend_def on_backend_def on_frontend_def observe_def
           split: Side.splits prod.splits
           elim!: fs.wrap_read_returns bs.wrap_read_returns)

lemma read_side_frame:
  assumes "read_side env side D c = (r, c')"
  shows "delivered s c' = delivered s c" "arriving (other side) c' = arriving (other side) c"
    "suffix (arriving side c') (arriving side c)" "conveyed c' = conveyed c"
  using assms
  by (cases side; auto simp: read_side_def read_backend_def read_frontend_def on_backend_def on_frontend_def
           observe_def split: Side.splits prod.splits
           dest: fs.wrap_read_frame bs.wrap_read_frame)+

lemma write_side_returns:
  assumes "write_side env side bs c = (Return u, c')"
  shows "delivered side c' = delivered side c @ bs"
  using assms
  by (cases side) (auto simp: write_side_def write_backend_def write_frontend_def on_backend_def on_frontend_def
           observe_def split: Side.splits prod.splits
           dest: fs.wrap_write_returns bs.wrap_write_returns)

lemma write_side_frame:
  assumes "write_side env side bs c = (r, c')"
  shows "arriving s c' = arriving s c" "delivered (other side) c' = delivered (other side) c"
    "\<exists>p. prefix p bs \<and> delivered side c' = delivered side c @ p" "conveyed c' = conveyed c"
  using assms
  by (cases side; auto simp: write_side_def write_backend_def write_frontend_def on_backend_def on_frontend_def
           observe_def split: Side.splits prod.splits
           dest: fs.wrap_write_frame bs.wrap_write_frame)+

lemma byte_side_returns:
  assumes "byte_side env side c = (Return b, c')"
  shows "arriving side c = b # arriving side c'"
  using assms
  by (cases side) (auto simp: byte_side_def on_backend_def on_frontend_def
           observe_def split: Side.splits prod.splits
           dest: fs.wrap_byte_returns bs.wrap_byte_returns)

lemma byte_side_frame:
  assumes "byte_side env side c = (r, c')"
  shows "delivered s c' = delivered s c" "arriving (other side) c' = arriving (other side) c"
    "suffix (arriving side c') (arriving side c)" "conveyed c' = conveyed c"
  using assms
  by (cases side; auto simp: byte_side_def on_backend_def on_frontend_def
           observe_def split: Side.splits prod.splits
           dest: fs.wrap_byte_frame bs.wrap_byte_frame)+

text \<open>A message that is relayed is taken from one side and delivered, unchanged, to the other.\<close>

lemma relay_returns:
  assumes "relay env side D c = (Return m, c')"
  obtains body where "4 + length body < 2 ^ 32" "decode_whole D body = Inr m"
    "arriving side c = frame body @ arriving side c'"
    "arriving (other side) c' = arriving (other side) c"
    "delivered (other side) c' = delivered (other side) c @ type_prefix D @ frame body"
    "delivered side c' = delivered side c"
    "conveyed c' = conveyed c @ [m]"
proof -
  from assms obtain bytes c1 where
    rd: "read_side env side D c = (Return (bytes, m), c1)" and
    wr: "write_side env (other side) bytes (c1\<lparr>conveyed := conveyed c1 @ [m]\<rparr>) = (Return (), c')"
    by (auto simp: relay_sides read_through_def exec_simps)
  from read_side_returns [OF rd] obtain body where "4 + length body < 2 ^ 32" "decode_whole D body = Inr m"
    "bytes = type_prefix D @ frame body" "arriving side c = frame body @ arriving side c1" .
  with that [of body] show ?thesis
    using read_side_frame [OF rd] write_side_returns [OF wr] write_side_frame [OF wr] by simp
qed

text \<open>Otherwise nothing was delivered or reported, or the write failed: then the message was
  reported and a part of it delivered.\<close>

lemma relay_fails:
  assumes "relay env side D c = (r, c')" and "\<And>m. r \<noteq> Return m"
  obtains (unread) "delivered (other side) c' = delivered (other side) c" "conveyed c' = conveyed c"
    "delivered side c' = delivered side c" "arriving (other side) c' = arriving (other side) c"
    "suffix (arriving side c') (arriving side c)"
  | (unwritten) m body p where "4 + length body < 2 ^ 32" "decode_whole D body = Inr m"
    "arriving side c = frame body @ arriving side c'"
    "arriving (other side) c' = arriving (other side) c"
    "prefix p (type_prefix D @ frame body)"
    "delivered (other side) c' = delivered (other side) c @ p"
    "delivered side c' = delivered side c"
    "conveyed c' = conveyed c @ [m]"
  using assms(1) unfolding relay_sides read_through_def
proof (cases rule: bind_prog_cases)
  case (stop r')
  with read_side_frame [OF stop(1)] show ?thesis by (intro unread) auto
next
  case (go x c1)
  obtain bytes m where x: "x = (bytes, m)" by fastforce
  note rd = go(1) [unfolded x]
  from go(2) x assms(2) obtain q where
    wr: "write_side env (other side) bytes (c1\<lparr>conveyed := conveyed c1 @ [m]\<rparr>) = (q, c')"
    by (auto simp: bind_prog_def split: prod.splits outcome.splits)
  from read_side_returns [OF rd] obtain body where "4 + length body < 2 ^ 32" "decode_whole D body = Inr m"
    "bytes = type_prefix D @ frame body" "arriving side c = frame body @ arriving side c1" .
  moreover from write_side_frame(3) [OF wr] obtain p where "prefix p bytes"
    "delivered (other side) c' = delivered (other side) c1 @ p" by auto
  ultimately show ?thesis
    using read_side_frame [OF rd] write_side_frame(1,2,4) [OF wr] unwritten [of body m p] by simp
qed

end

section \<open>A round of the loop\<close>

definition round :: "('fp, 'ft, 'bp, 'bt) ConveyEnv \<Rightarrow> Side \<Rightarrow> State
    \<Rightarrow> (('fp, 'ft, 'bp, 'bt) Conveyor, ConveyError, flow) prog" where
  "round env side st =
     bind_prog (byte_side env side) (\<lambda>byte.
       case TypeByte_try_from byte of
         None \<Rightarrow> throw (ConveyError.UnknownType side byte)
       | Some tb \<Rightarrow>
           (case expected side tb st of
              None \<Rightarrow> throw (ConveyError.UnexpectedType st side tb)
            | Some D \<Rightarrow> bind_prog (relay env side D) (settle st)))"

lemma go_loop_round:
  "go_loop env (side # choices) st =
     bind_prog (round env side st) (\<lambda>flow.
       case flow of Next st' \<Rightarrow> go_loop env choices st' | Stop \<Rightarrow> return ())"
  by (simp only: go_loop.simps round_def read_type_byte_from_both_side bind_prog_assoc
        bind_option_case bind_return dispatch_settles [symmetric] prod.case)

lemma settle_Return: "settle st m c = (Return f, c') \<longleftrightarrow> next_state st m = Some f \<and> c' = c"
  by (auto simp: settle_def split: option.splits)

lemma settle_state: "settle st m c = (r, c') \<Longrightarrow> c' = c"
  by (auto simp: settle_def split: option.splits)

lemma expected_wire:
  assumes "expected side tb st = Some D" and "decode_whole D body = Inr m" and "4 + length body < 2 ^ 32"
  shows "message_wire m (TypeByte_into tb # frame body)"
  using expected_decodes [OF assms(1,2)] assms(3) by (auto simp: message_wire_def)

text \<open>Messages a state lets through: those it has a next state for, and authentication
  requests, which are judged after they were relayed.\<close>

definition admits :: "State \<Rightarrow> Message \<Rightarrow> bool" where
  "admits st m \<longleftrightarrow> next_state st m \<noteq> None \<or> (\<exists>a. m = Message.Backend (BackendMsg.Authentication a))"

lemma expected_admits:
  assumes "expected side tb st = Some D" and "decode_whole D body = Inr m"
  shows "admits st m"
proof (cases "tb = TypeByte.Authentication")
  case True
  with expected_decodes(2) [OF assms] show ?thesis
    by (cases m rule: message_type.cases) (auto simp: admits_def)
qed (use expected_decodes(4) [OF assms] in \<open>simp add: admits_def\<close>)

lemma expected_prefix: "expected side tb st = Some D \<Longrightarrow> type_prefix D = [TypeByte_into tb]"
  by (simp add: type_prefix_def expected_type)

context conveyor_streams
begin

lemma round_returns:
  assumes "round env side st c = (Return f, c')"
  obtains m w where "next_state st m = Some f" "message_side m = side" "message_wire m w"
    "arriving side c = w @ arriving side c'"
    "arriving (other side) c' = arriving (other side) c"
    "delivered (other side) c' = delivered (other side) c @ w"
    "delivered side c' = delivered side c"
    "conveyed c' = conveyed c @ [m]"
proof -
  from assms obtain b c1 where go: "byte_side env side c = (Return b, c1)"
    "(case TypeByte_try_from b of
        None \<Rightarrow> throw (ConveyError.UnknownType side b)
      | Some tb \<Rightarrow>
          (case expected side tb st of
             None \<Rightarrow> throw (ConveyError.UnexpectedType st side tb)
           | Some D \<Rightarrow> bind_prog (relay env side D) (settle st))) c1 = (Return f, c')"
    unfolding round_def bind_prog_Return by blast
  then obtain tb D m where byte: "byte_side env side c = (Return (TypeByte_into tb), c1)"
    and D: "expected side tb st = Some D" and r: "relay env side D c1 = (Return m, c')"
    and f: "next_state st m = Some f"
    by (auto simp: exec_simps settle_Return split: option.split_asm)
  from relay_returns [OF r] obtain body where body: "4 + length body < 2 ^ 32" "decode_whole D body = Inr m"
    "arriving side c1 = frame body @ arriving side c'"
    "arriving (other side) c' = arriving (other side) c1"
    "delivered (other side) c' = delivered (other side) c1 @ type_prefix D @ frame body"
    "delivered side c' = delivered side c1" "conveyed c' = conveyed c1 @ [m]" .
  show ?thesis
    using that [OF f expected_decodes(1) [OF D body(2)] expected_wire [OF D body(2,1)]]
      byte_side_returns [OF byte] byte_side_frame [OF byte] body expected_prefix [OF D] by simp
qed

lemma round_fails:
  assumes "round env side st c = (r, c')" and "\<And>f. r \<noteq> Return f"
  obtains (silent) "delivered (other side) c' = delivered (other side) c" "conveyed c' = conveyed c"
    "delivered side c' = delivered side c" "arriving (other side) c' = arriving (other side) c"
    "suffix (arriving side c') (arriving side c)"
  | (cut) m w p where "admits st m" "message_side m = side" "message_wire m w" "prefix p w"
    "arriving side c = w @ arriving side c'"
    "arriving (other side) c' = arriving (other side) c"
    "delivered (other side) c' = delivered (other side) c @ p"
    "delivered side c' = delivered side c"
    "conveyed c' = conveyed c @ [m]"
  using assms(1) unfolding round_def
proof (cases rule: bind_prog_cases)
  case (stop r')
  with byte_side_frame [OF stop(1)] show ?thesis by (intro silent) auto
next
  case byte: (go b c1)
  note byte_side = byte_side_returns [OF byte(1)] byte_side_frame [OF byte(1)]
  show ?thesis
  proof (cases "c' = c1")
    case True
    with byte_side show ?thesis by (intro silent) auto
  next
    case False
    then obtain tb D where tb: "b = TypeByte_into tb" and D: "expected side tb st = Some D"
      and run: "bind_prog (relay env side D) (settle st) c1 = (r, c')"
      using byte(2) by (auto split: option.split_asm)
    note wire = expected_wire [OF D] expected_decodes(1) [OF D] expected_admits [OF D]
    from run show ?thesis
    proof (cases rule: bind_prog_cases)
      case (stop r')
      from stop(1,2) show ?thesis
      proof (cases rule: relay_fails)
        case unread
        with byte_side show ?thesis by (intro silent) (auto intro: suffix_order.trans)
      next
        case (unwritten m body p)
        with byte_side wire tb expected_prefix [OF D]
        show ?thesis by (intro cut [of m "TypeByte_into tb # frame body" p]) auto
      qed
    next
      case (go m c2)
      note settled = settle_state [OF go(2)]
      from relay_returns [OF go(1)] obtain body where "4 + length body < 2 ^ 32" "decode_whole D body = Inr m"
        "arriving side c1 = frame body @ arriving side c2"
        "arriving (other side) c2 = arriving (other side) c1"
        "delivered (other side) c2 = delivered (other side) c1 @ type_prefix D @ frame body"
        "delivered side c2 = delivered side c1" "conveyed c2 = conveyed c1 @ [m]" .
      with byte_side wire tb expected_prefix [OF D] settled
      show ?thesis by (intro cut [of m "TypeByte_into tb # frame body" "TypeByte_into tb # frame body"]) auto
    qed
  qed
qed

end

section \<open>The whole loop\<close>

text \<open>The bytes of a trace (messages with their wire forms) that came from one side.\<close>

definition wires :: "Side \<Rightarrow> (Message \<times> u8 list) list \<Rightarrow> u8 list" where
  "wires side tr = concat (map snd (filter (\<lambda>x. message_side (fst x) = side) tr))"

lemma wires_simps [simp]:
  "wires side [] = []"
  "wires side ((m, w) # tr) = (if message_side m = side then w else []) @ wires side tr"
  by (simp_all add: wires_def)

text \<open>
  \<open>conveys tr c c'\<close>: between the two states exactly the messages of \<open>tr\<close> were relayed. Each
  was taken from its side, reported, and delivered unchanged to the other side; no other byte
  was taken or delivered, and nothing else reported.
\<close>

definition conveys ::
  "(('fp, 'ft) StreamWrap \<Rightarrow> u8 list) \<Rightarrow> (('fp, 'ft) StreamWrap \<Rightarrow> u8 list)
    \<Rightarrow> (('bp, 'bt) StreamWrap \<Rightarrow> u8 list) \<Rightarrow> (('bp, 'bt) StreamWrap \<Rightarrow> u8 list)
    \<Rightarrow> (Message \<times> u8 list) list \<Rightarrow> ('fp, 'ft, 'bp, 'bt) Conveyor \<Rightarrow> ('fp, 'ft, 'bp, 'bt) Conveyor \<Rightarrow> bool" where
  "conveys fi fo bi bo tr c c' \<longleftrightarrow>
     list_all (\<lambda>(m, w). message_wire m w) tr
     \<and> conveyed c' = conveyed c @ map fst tr
     \<and> (\<forall>side. observe fi bi side c = wires side tr @ observe fi bi side c'
          \<and> observe fo bo (other side) c' = observe fo bo (other side) c @ wires side tr)"

text \<open>
  \<open>breaks st c c'\<close>: a round in state \<open>st\<close> that did not complete consumed input of one side
  only. It delivered and reported nothing, or it reported one well-formed message of that side
  that the state admits and delivered a prefix of its bytes.
\<close>

definition breaks ::
  "(('fp, 'ft) StreamWrap \<Rightarrow> u8 list) \<Rightarrow> (('fp, 'ft) StreamWrap \<Rightarrow> u8 list)
    \<Rightarrow> (('bp, 'bt) StreamWrap \<Rightarrow> u8 list) \<Rightarrow> (('bp, 'bt) StreamWrap \<Rightarrow> u8 list)
    \<Rightarrow> State \<Rightarrow> ('fp, 'ft, 'bp, 'bt) Conveyor \<Rightarrow> ('fp, 'ft, 'bp, 'bt) Conveyor \<Rightarrow> bool" where
  "breaks fi fo bi bo st c c' \<longleftrightarrow>
     (\<exists>side.
        observe fi bi (other side) c' = observe fi bi (other side) c
        \<and> observe fo bo side c' = observe fo bo side c
        \<and> (suffix (observe fi bi side c') (observe fi bi side c)
             \<and> observe fo bo (other side) c' = observe fo bo (other side) c
             \<and> conveyed c' = conveyed c
           \<or> (\<exists>m w p. admits st m \<and> message_side m = side \<and> message_wire m w \<and> prefix p w
                \<and> observe fi bi side c = w @ observe fi bi side c'
                \<and> observe fo bo (other side) c' = observe fo bo (other side) c @ p
                \<and> conveyed c' = conveyed c @ [m])))"

lemma conveys_Nil [simp]: "conveys fi fo bi bo [] c c"
  by (simp add: conveys_def)

lemma breaks_refl [simp]: "breaks fi fo bi bo st c c"
  by (auto simp: breaks_def)

lemma all_sides: "(\<forall>s. P s) \<longleftrightarrow> P side \<and> P (other side)"
  by (metis Side.exhaust other.simps)

lemma conveys_Cons:
  assumes "message_wire m w" and "message_side m = side"
    and "observe fi bi side c = w @ observe fi bi side c1"
    and "observe fi bi (other side) c1 = observe fi bi (other side) c"
    and "observe fo bo (other side) c1 = observe fo bo (other side) c @ w"
    and "observe fo bo side c1 = observe fo bo side c"
    and "conveyed c1 = conveyed c @ [m]"
    and "conveys fi fo bi bo tr c1 c'"
  shows "conveys fi fo bi bo ((m, w) # tr) c c'"
  using assms unfolding conveys_def all_sides [of _ side] by simp

context conveyor_streams
begin

lemma go_loop_conveys:
  "go_loop env choices st c = (r, c') \<Longrightarrow>
     \<exists>tr f c1. session st (map fst tr) f \<and> conveys fi fo bi bo tr c c1
       \<and> (case f of Stop \<Rightarrow> r = Return () \<and> c' = c1
          | Next st' \<Rightarrow> r \<noteq> Return () \<and> breaks fi fo bi bo st' c1 c')"
proof (induction choices arbitrary: st c)
  case Nil
  then have "session st (map fst []) (Next st) \<and> conveys fi fo bi bo [] c c
      \<and> r \<noteq> Return () \<and> breaks fi fo bi bo st c c'"
    by (auto intro: session_here)
  then show ?case by fastforce
next
  case (Cons side choices)
  from Cons.prems show ?case
    unfolding go_loop_round
  proof (cases rule: bind_prog_cases)
    case (stop r')
    have "breaks fi fo bi bo st c c'"
      using stop(1,2) by (cases rule: round_fails) (unfold breaks_def, blast+)
    moreover have "r \<noteq> Return ()" using stop by blast
    ultimately have "session st (map fst []) (Next st) \<and> conveys fi fo bi bo [] c c
      \<and> r \<noteq> Return () \<and> breaks fi fo bi bo st c c'"
      by (simp add: session_here)
    then show ?thesis by fastforce
  next
    case (go f c1)
    from round_returns [OF go(1)] obtain m w where m: "next_state st m = Some f"
      "message_side m = side" "message_wire m w"
      "arriving side c = w @ arriving side c1" "arriving (other side) c1 = arriving (other side) c"
      "delivered (other side) c1 = delivered (other side) c @ w" "delivered side c1 = delivered side c"
      "conveyed c1 = conveyed c @ [m]" .
    show ?thesis
    proof (cases f)
      case Stop
      with go m have "session st (map fst [(m, w)]) Stop \<and> conveys fi fo bi bo [(m, w)] c c1
          \<and> r = Return () \<and> c' = c1"
        using conveys_Cons [OF m(3,2,4-8) conveys_Nil] by (simp add: session_stop)
      then show ?thesis by fastforce
    next
      case (Next st')
      from go(2) Next have "go_loop env choices st' c1 = (r, c')" by simp
      from Cons.IH [OF this] obtain tr f' c2 where IH: "session st' (map fst tr) f'" "conveys fi fo bi bo tr c1 c2"
        and "case f' of Stop \<Rightarrow> r = Return () \<and> c' = c2
             | Next st' \<Rightarrow> r \<noteq> Return () \<and> breaks fi fo bi bo st' c2 c'"
        by blast
      moreover have "conveys fi fo bi bo ((m, w) # tr) c c2"
        by (rule conveys_Cons [OF m(3,2,4-8) IH(2)])
      moreover have "session st (map fst ((m, w) # tr)) f'"
        using m IH Next by (auto intro: session_step)
      ultimately show ?thesis by blast
    qed
  qed
qed

end

section \<open>Sessions over reliable streams\<close>

lemma frame_prefix_free:
  assumes "frame a @ x = frame b @ y" and "4 + length a < 2 ^ 32" and "4 + length b < 2 ^ 32"
  shows "a = b" and "x = y"
proof -
  have len: "unat (word_of_nat (4 + n) :: u32) = 4 + n" if "4 + n < 2 ^ 32" for n
    using that by (simp add: unat_of_nat del: of_nat_add)
  have head: "take 4 (frame body @ z) = u32_to_be_bytes (word_of_nat (4 + length body))" for body z
    by (simp add: frame_def)
  have "unat (word_of_nat (4 + length a) :: u32) = unat (word_of_nat (4 + length b) :: u32)"
    using arg_cong [OF assms(1), of "take 4"] unfolding head u32_to_be_bytes_inject by (rule arg_cong)
  then have "length a = length b" unfolding len [OF assms(2)] len [OF assms(3)] by simp
  then have "length (frame a) = length (frame b)" by (simp add: frame_def)
  with assms(1) have "frame a = frame b \<and> x = y" by simp
  with \<open>length a = length b\<close> show "a = b" and "x = y" by (simp_all add: frame_def)
qed

locale wrapped_reliable = wrapped_stream +
  assumes plain_reliable:
    "reliable_stream plain (\<lambda>p. incoming (StreamWrap.Plain p)) (\<lambda>p. sent (StreamWrap.Plain p))"
    and tls_reliable:
    "reliable_stream tls (\<lambda>t. incoming (StreamWrap.Tls t)) (\<lambda>t. sent (StreamWrap.Tls t))"
begin

lemma wrap_byte_ok:
  assumes "w \<noteq> TlsHandshake" and "incoming w = b # r"
  shows "\<exists>w'. unwrap_stream (read_type_byte plain) (read_type_byte tls) w = (Return b, w')
    \<and> w' \<noteq> TlsHandshake"
proof (cases w)
  case (Plain p)
  with assms show ?thesis
    using reliable_stream.reads_u8 [OF plain_reliable, of p b r]
    by (force simp: unwrap_stream_def read_type_byte_def map_err_def)
next
  case (Tls t)
  with assms show ?thesis
    using reliable_stream.reads_u8 [OF tls_reliable, of t b r]
    by (force simp: unwrap_stream_def read_type_byte_def map_err_def)
qed (use assms in simp)

lemma wrap_read_ok:
  assumes "w \<noteq> TlsHandshake" and "incoming w = frame body @ r" and "4 + length body < 2 ^ 32 - 1"
    and "decode_whole D body = Inr m"
  shows "\<exists>w'. unwrap_stream (read_msg_mapping_err ovf plain D) (read_msg_mapping_err ovf tls D) w
      = (Return (type_prefix D @ frame body, m), w') \<and> w' \<noteq> TlsHandshake"
proof (cases w)
  case (Plain p)
  with assms show ?thesis
    using reliable_stream.read_msg_complete [OF plain_reliable, of p body r D ovf]
    by (force simp: unwrap_stream_def read_msg_mapping_err_def bind_prog_def map_err_def)
next
  case (Tls t)
  with assms show ?thesis
    using reliable_stream.read_msg_complete [OF tls_reliable, of t body r D ovf]
    by (force simp: unwrap_stream_def read_msg_mapping_err_def bind_prog_def map_err_def)
qed (use assms in simp)

lemma wrap_write_ok:
  assumes "w \<noteq> TlsHandshake"
  shows "\<exists>w'. unwrap_stream (write_bytes plain bs) (write_bytes tls bs) w = (Return (), w')
    \<and> w' \<noteq> TlsHandshake"
proof (cases w)
  case (Plain p)
  then show ?thesis
    using reliable_stream.write_succeeds [OF plain_reliable, of bs p]
    by (force simp: unwrap_stream_def write_bytes_def map_err_def)
next
  case (Tls t)
  then show ?thesis
    using reliable_stream.write_succeeds [OF tls_reliable, of bs t]
    by (force simp: unwrap_stream_def write_bytes_def map_err_def)
qed (use assms in simp)

end

definition live :: "('fp, 'ft, 'bp, 'bt) Conveyor \<Rightarrow> bool" where
  "live c \<longleftrightarrow> frontend c \<noteq> TlsHandshake \<and> backend c \<noteq> TlsHandshake"

locale conveyor_reliable = conveyor_streams +
  fr: wrapped_reliable "front_plain env" "front_tls env" fi fo +
  br: wrapped_reliable "back_plain env" "back_tls env" bi bo
begin

lemma byte_side_ok:
  assumes "live c" and "arriving side c = b # r"
  shows "\<exists>c'. byte_side env side c = (Return b, c') \<and> live c'"
  using assms fr.wrap_byte_ok [of "frontend c" b r] br.wrap_byte_ok [of "backend c" b r]
  by (cases side) (auto simp: byte_side_def on_backend_def on_frontend_def observe_def live_def)

lemma relay_ok:
  assumes "live c" and "arriving side c = frame body @ r" and "4 + length body < 2 ^ 32 - 1"
    and "decode_whole D body = Inr m"
  shows "\<exists>c'. relay env side D c = (Return m, c') \<and> live c'"
proof -
  from assms obtain c1 where rd: "read_side env side D c = (Return (type_prefix D @ frame body, m), c1)"
    and "live c1"
    using fr.wrap_read_ok [of "frontend c" body r D m "overflow_checks env"]
      br.wrap_read_ok [of "backend c" body r D m "overflow_checks env"]
    by (cases side) (auto simp: read_side_def read_backend_def read_frontend_def
        on_backend_def on_frontend_def observe_def live_def)
  moreover from \<open>live c1\<close> obtain c2 where
    "write_side env (other side) (type_prefix D @ frame body) (c1\<lparr>conveyed := conveyed c1 @ [m]\<rparr>) = (Return (), c2)"
    and "live c2"
    using fr.wrap_write_ok [of "frontend c1" "type_prefix D @ frame body"]
      br.wrap_write_ok [of "backend c1" "type_prefix D @ frame body"]
    by (cases side) (auto simp: write_side_def write_backend_def write_frontend_def
        on_backend_def on_frontend_def live_def)
  ultimately show ?thesis
    by (auto simp: relay_sides read_through_def bind_prog_def)
qed

text \<open>A message that is expected and arrives is relayed; whether it is accepted is decided then.\<close>

lemma round_settles:
  assumes "live c" and "message_type m = Some tb" and "expected (message_side m) tb st = Some D"
    and "\<And>body. message_body m body \<Longrightarrow> decode_whole D body = Inr m"
    and "message_wire m w" and "length w < 2 ^ 32" and "arriving (message_side m) c = w @ r"
  shows "\<exists>c'. round env (message_side m) st c = settle st m c' \<and> live c'
    \<and> conveys fi fo bi bo [(m, w)] c c'"
proof -
  let ?side = "message_side m"
  from assms(2,5,6) obtain body where body: "message_body m body" "4 + length body < 2 ^ 32 - 1"
    and w: "w = TypeByte_into tb # frame body"
    by (auto simp: message_wire_def frame_def)
  from byte_side_ok [OF assms(1), of ?side "TypeByte_into tb" "frame body @ r"] assms(7) w obtain c1 where
    byte: "byte_side env ?side c = (Return (TypeByte_into tb), c1)" and "live c1" by auto
  have in1: "arriving ?side c1 = frame body @ r"
    using byte_side_returns [OF byte] assms(7) w by simp
  from relay_ok [OF \<open>live c1\<close> in1 body(2) assms(4) [OF body(1)]] obtain c' where
    rel: "relay env ?side D c1 = (Return m, c')" and "live c'" by blast
  have "round env ?side st c = settle st m c'"
    using byte rel assms(3) by (simp add: round_def bind_prog_def)
  moreover from relay_returns [OF rel] obtain body' where b': "4 + length body' < 2 ^ 32"
    "arriving ?side c1 = frame body' @ arriving ?side c'"
    "arriving (other ?side) c' = arriving (other ?side) c1"
    "delivered (other ?side) c' = delivered (other ?side) c1 @ type_prefix D @ frame body'"
    "delivered ?side c' = delivered ?side c1" "conveyed c' = conveyed c1 @ [m]" .
  moreover have "body' = body"
    using frame_prefix_free(1) [of body' "arriving ?side c'" body r] b'(1,2) in1 body(2) by simp
  ultimately show ?thesis
    using conveys_Cons [OF assms(5) refl, of fi bi c c' fo bo "[]" c']
      byte_side_returns [OF byte] byte_side_frame [OF byte] w expected_prefix [OF assms(3)] \<open>live c'\<close>
    by auto
qed

lemma round_ok:
  assumes "live c" and "next_state st m = Some f" and "message_wire m w" and "length w < 2 ^ 32"
    and "arriving (message_side m) c = w @ r"
  shows "\<exists>c'. round env (message_side m) st c = (Return f, c') \<and> live c'
    \<and> conveys fi fo bi bo [(m, w)] c c'"
proof -
  from expected_accepts [OF assms(2)] obtain tb D where "message_type m = Some tb"
    "expected (message_side m) tb st = Some D" "\<And>body. message_body m body \<Longrightarrow> decode_whole D body = Inr m"
    by blast
  from round_settles [OF assms(1) this assms(3-5)] assms(2) show ?thesis by (simp add: settle_def)
qed

text \<open>Authentication messages are the only ones that are read and relayed without being accepted.\<close>

lemma go_loop_authentication_refused:
  fixes a :: Authentication
  defines "m \<equiv> Message.Backend (BackendMsg.Authentication a)"
  assumes "live c" and "auth_next st a = None" and "message_wire m w" and "length w < 2 ^ 32"
    and "arriving Side.Backend c = w @ r"
  shows "\<exists>c'. go_loop env (Side.Backend # choices) st c = (Throw (auth_rejection st m), c')
    \<and> conveys fi fo bi bo [(m, w)] c c'"
proof -
  let ?D = "as_message (\<lambda>x. Message.Backend (BackendMsg.Authentication x)) Authentication_msg"
  have "decode_whole ?D body = Inr m" if "message_body m body" for body
    using that by (auto simp: m_def as_message_whole msg_defs whole_iffs)
  from round_settles [OF assms(2) _ _ this assms(4,5), of TypeByte.Authentication st r] assms(6)
  obtain c' where "round env Side.Backend st c = settle st m c'" "conveys fi fo bi bo [(m, w)] c c'"
    by (auto simp: m_def expected_def expected_backend_def)
  then show ?thesis
    using assms(3) by (auto simp: go_loop_round settle_def m_def bind_prog_def simp del: go_loop.simps)
qed

text \<open>Every session the protocol admits is carried out when its bytes arrive.\<close>

lemma go_loop_complete:
  assumes "session st (map fst tr) Stop" and "live c"
    and "list_all (\<lambda>(m, w). message_wire m w \<and> length w < 2 ^ 32) tr"
    and "\<And>side. arriving side c = wires side tr @ r side"
  shows "\<exists>c'. go_loop env (map (\<lambda>x. message_side (fst x)) tr) st c = (Return (), c')
    \<and> conveys fi fo bi bo tr c c'"
  using assms
proof (induction tr arbitrary: st c)
  case Nil
  then show ?case by (simp add: session_Nil)
next
  case (Cons x tr)
  obtain m w where x: "x = (m, w)" by fastforce
  from Cons.prems(1) x obtain f where f: "next_state st m = Some f"
    "f = Stop \<and> tr = [] \<or> (\<exists>st'. f = Next st' \<and> session st' (map fst tr) Stop)"
    by (auto simp: session_Cons)
  from round_ok [OF Cons.prems(2) f(1), of w] Cons.prems(3,4) x obtain c1 where
    r: "round env (message_side m) st c = (Return f, c1)" "live c1" and c1: "conveys fi fo bi bo [(m, w)] c c1"
    by force
  have in1: "arriving side c1 = wires side tr @ r side" for side
    using c1 Cons.prems(4) [of side] x by (auto simp: conveys_def split: if_splits)
  show ?case
  proof (cases f)
    case Stop
    with f r c1 x show ?thesis by (auto simp: go_loop_round bind_prog_def simp del: go_loop.simps)
  next
    case (Next st')
    with f have "session st' (map fst tr) Stop" by simp
    from Cons.IH [OF this r(2) _ in1] Cons.prems(3) obtain c' where
      "go_loop env (map (\<lambda>x. message_side (fst x)) tr) st' c1 = (Return (), c')"
      "conveys fi fo bi bo tr c1 c'" by auto
    moreover from this c1 have "conveys fi fo bi bo (x # tr) c c'"
      unfolding x conveys_def by (auto split: if_splits)
    ultimately show ?thesis
      using r Next x by (auto simp: go_loop_round bind_prog_def simp del: go_loop.simps)
  qed
qed

end

section \<open>In-memory endpoints\<close>

text \<open>Both kinds of streams are in-memory pipes and the handshakes succeed or fail as told:
  the environment in which the contracts of this theory are shown to hold.\<close>

definition wrap_in :: "(Pipe, Pipe) StreamWrap \<Rightarrow> u8 list" where
  "wrap_in w = (case w of StreamWrap.Plain p \<Rightarrow> pipe_in p | TlsHandshake \<Rightarrow> [] | StreamWrap.Tls t \<Rightarrow> pipe_in t)"

definition wrap_out :: "(Pipe, Pipe) StreamWrap \<Rightarrow> u8 list" where
  "wrap_out w = (case w of StreamWrap.Plain p \<Rightarrow> pipe_out p | TlsHandshake \<Rightarrow> [] | StreamWrap.Tls t \<Rightarrow> pipe_out t)"

definition pipe_env :: "bool \<Rightarrow> (string, Pipe) outcome \<Rightarrow> (string, Pipe) outcome \<Rightarrow> (Pipe, Pipe, Pipe, Pipe) ConveyEnv" where
  "pipe_env ovf accepted connected =
     \<lparr>overflow_checks = ovf, front_plain = pipe_ops, front_tls = pipe_ops,
      back_plain = pipe_ops, back_tls = pipe_ops,
      frontend_tls_server = (\<lambda>_. accepted), backend_tls_client = (\<lambda>_. connected)\<rparr>"

interpretation pipe_wrap: wrapped_reliable pipe_ops pipe_ops wrap_in wrap_out
  by (intro wrapped_reliable.intro wrapped_stream.intro wrapped_reliable_axioms.intro)
     (simp_all add: wrap_in_def wrap_out_def pipe.byte_stream_axioms pipe.reliable_stream_axioms)

lemma pipe_env_sel [simp]:
  "front_plain (pipe_env ovf a b) = pipe_ops" "front_tls (pipe_env ovf a b) = pipe_ops"
  "back_plain (pipe_env ovf a b) = pipe_ops" "back_tls (pipe_env ovf a b) = pipe_ops"
  by (simp_all add: pipe_env_def)

interpretation pipe_conveyor: conveyor_reliable "pipe_env ovf accepted connected" wrap_in wrap_out wrap_in wrap_out
  for ovf accepted connected
  by (intro conveyor_reliable.intro conveyor_streams.intro)
     (simp_all add: pipe_wrap.wrapped_stream_axioms pipe_wrap.wrapped_reliable_axioms)

section \<open>Refused input\<close>

context conveyor_streams
begin

text \<open>However the loop ends, what one side was sent is an initial part of what the other side
  had to say.\<close>

lemma go_loop_no_injection:
  assumes "go_loop env choices st c = (r, c')"
  shows "\<exists>p. prefix p (arriving side c) \<and> delivered (other side) c' = delivered (other side) c @ p"
proof -
  from go_loop_conveys [OF assms] obtain tr f c1 where c1: "conveys fi fo bi bo tr c c1"
    and f: "case f of Stop \<Rightarrow> r = Return () \<and> c' = c1 | Next st' \<Rightarrow> r \<noteq> Return () \<and> breaks fi fo bi bo st' c1 c'"
    by blast
  have "\<exists>q. prefix q (arriving side c1) \<and> delivered (other side) c' = delivered (other side) c1 @ q"
  proof (cases f)
    case Stop
    with f show ?thesis by auto
  next
    case (Next st')
    with f obtain s where s: "delivered s c' = delivered s c1"
      "delivered (other s) c' = delivered (other s) c1
       \<or> (\<exists>w p. prefix p w \<and> arriving s c1 = w @ arriving s c' \<and> delivered (other s) c' = delivered (other s) c1 @ p)"
      by (auto simp: breaks_def)
    show ?thesis
    proof (cases "s = side")
      case True
      with s(2) show ?thesis by (auto intro: prefix_prefix)
    next
      case False
      then have "other side = s" by (cases s; cases side) simp_all
      with s(1) show ?thesis by auto
    qed
  qed
  with c1 show ?thesis by (auto simp: conveys_def)
qed

end

context wrapped_reliable
begin

lemma wrap_read_malformed:
  assumes "w \<noteq> TlsHandshake" and "incoming w = frame body @ r" and "4 + length body < 2 ^ 32 - 1"
    and "decode_whole D body = Inl e"
  shows "\<exists>w'. unwrap_stream (read_msg_mapping_err ovf plain D) (read_msg_mapping_err ovf tls D) w
      = (Throw (MsgError_to_ConveyError e), w')"
proof (cases w)
  case (Plain p)
  with assms obtain s' where "read_msg ovf plain D p =
      (Return \<lparr>rd_bytes = type_prefix D @ frame body, rd_msg_result = decode_whole D body\<rparr>, s')"
    using reliable_stream.read_msg_complete [OF plain_reliable, of p body r D ovf] by auto
  with Plain assms(4) show ?thesis
    by (simp add: unwrap_stream_def read_msg_mapping_err_def bind_prog_def map_err_def)
next
  case (Tls t)
  with assms obtain s' where "read_msg ovf tls D t =
      (Return \<lparr>rd_bytes = type_prefix D @ frame body, rd_msg_result = decode_whole D body\<rparr>, s')"
    using reliable_stream.read_msg_complete [OF tls_reliable, of t body r D ovf] by auto
  with Tls assms(4) show ?thesis
    by (simp add: unwrap_stream_def read_msg_mapping_err_def bind_prog_def map_err_def)
qed (use assms in simp)

end

context conveyor_reliable
begin

text \<open>A message whose body does not decode ends the session before it is reported or sent on.\<close>

lemma go_loop_malformed:
  assumes "live c" and "expected side tb st = Some D"
    and "arriving side c = TypeByte_into tb # frame body @ r" and "4 + length body < 2 ^ 32 - 1"
    and "decode_whole D body = Inl e"
  shows "\<exists>c'. go_loop env (side # choices) st c = (Throw (MsgError_to_ConveyError e), c')
    \<and> conveyed c' = conveyed c \<and> (\<forall>s. delivered s c' = delivered s c)"
proof -
  from byte_side_ok [OF assms(1,3)] obtain c1 where
    byte: "byte_side env side c = (Return (TypeByte_into tb), c1)" and "live c1" by blast
  have "arriving side c1 = frame body @ r" using byte_side_returns [OF byte] assms(3) by simp
  with \<open>live c1\<close> obtain c2 where rd: "read_side env side D c1 = (Throw (MsgError_to_ConveyError e), c2)"
    using fr.wrap_read_malformed [OF _ _ assms(4,5), of "frontend c1" r "overflow_checks env"]
      br.wrap_read_malformed [OF _ _ assms(4,5), of "backend c1" r "overflow_checks env"]
    by (cases side) (auto simp: read_side_def read_backend_def read_frontend_def
        on_backend_def on_frontend_def observe_def live_def)
  then have "go_loop env (side # choices) st c = (Throw (MsgError_to_ConveyError e), c2)"
    using byte assms(2)
    by (simp add: go_loop_round round_def relay_sides read_through_def bind_prog_def del: go_loop.simps)
  then show ?thesis using byte_side_frame [OF byte] read_side_frame [OF rd] by auto
qed

text \<open>A byte that is no type byte ends the session at once.\<close>

lemma go_loop_unknown:
  assumes "live c" and "arriving side c = b # r" and "TypeByte_try_from b = None"
  shows "\<exists>c'. go_loop env (side # choices) st c = (Throw (ConveyError.UnknownType side b), c')
    \<and> conveyed c' = conveyed c \<and> (\<forall>s. delivered s c' = delivered s c)"
proof -
  from byte_side_ok [OF assms(1,2)] obtain c1 where
    byte: "byte_side env side c = (Return b, c1)" by blast
  with assms(3) show ?thesis using byte_side_frame [OF byte]
    by (simp add: go_loop_round round_def bind_prog_def del: go_loop.simps)
qed

end

end
