(* ===== verification/Automaton.thy ===== *)
theory Automaton
  imports Protocol
begin

text \<open>
  The order of messages in a session: what must have been relayed before a message of the
  frontend is accepted, which states occur, and that no state is a dead end. Everything here
  is about \<open>session\<close>, which the loop of the conveyor implements.
\<close>

section \<open>Sessions as paths\<close>

lemma session_append:
  "session st a (Next st') \<Longrightarrow> session st' b f \<Longrightarrow> session st (a @ b) f"
  by (induction st a "Next st'" rule: session.induct) (auto intro: session.intros)

lemma session_appendD:
  "session st (a @ b) f \<Longrightarrow> b \<noteq> [] \<Longrightarrow> \<exists>st'. session st a (Next st') \<and> session st' b f"
  by (induction a arbitrary: st) (auto simp: session_Nil session_Cons intro: session_here)

lemma session_snoc:
  "session st (a @ [m]) (Next st') \<longleftrightarrow>
     (\<exists>st1. session st a (Next st1) \<and> next_state st1 m = Some (Next st'))"
  by (auto dest!: session_appendD simp: session_Cons session_Nil
           intro: session_append session_step session_here)

lemma session_at:
  assumes "session st (a @ m # b) f"
  obtains st1 f1 where "session st a (Next st1)" "next_state st1 m = Some f1"
    "\<And>st2. f1 = Next st2 \<Longrightarrow> session st2 b f"
  using session_appendD [OF assms] by (auto simp: session_Cons)

section \<open>Phases of a session\<close>

definition phase :: "State \<Rightarrow> nat" where
  "phase st =
     (case st of
        State.GotStartup \<Rightarrow> 0 | State.AskedCleartextPassword \<Rightarrow> 0 | State.AskedGssResponse \<Rightarrow> 0
      | State.AskedMd5Password \<Rightarrow> 0 | State.AskedSaslInitialResponse \<Rightarrow> 0
      | State.AskedSaslResponse \<Rightarrow> 0 | State.FinishedSasl \<Rightarrow> 0 | State.GotAnySaslResponse \<Rightarrow> 0
      | State.GotCleartextPassword \<Rightarrow> 0 | State.GotGssResponse \<Rightarrow> 0 | State.GotMd5Password \<Rightarrow> 0
      | State.Authenticated \<Rightarrow> 1
      | State.SentAllBackendParams \<Rightarrow> 2
      | _ \<Rightarrow> 3)"

abbreviation AuthenticationOk :: Message where
  "AuthenticationOk \<equiv> Message.Backend (BackendMsg.Authentication Authentication.Ok)"

text \<open>The phase changes only with the message that ends it.\<close>

lemma phase_step:
  assumes "next_state st m = Some (Next st')"
  shows "phase st' = phase st
    \<or> phase st = 0 \<and> phase st' = 1 \<and> m = AuthenticationOk
    \<or> phase st = 1 \<and> phase st' = 2 \<and> (\<exists>k. m = Message.Backend (BackendMsg.BackendKeyData k))
    \<or> phase st = 2 \<and> phase st' = 3 \<and> (\<exists>r. m = Message.Backend (BackendMsg.ReadyForQuery r))"
  using assms
  by (cases "(st, m)" rule: next_state.cases)
     (auto simp: phase_def auth_next_def split: if_splits Authentication.splits)

text \<open>What a session from the startup message has relayed by the time it is in a phase.\<close>

definition logged :: "nat \<Rightarrow> Message list \<Rightarrow> bool" where
  "logged n ms \<longleftrightarrow>
     (n = 0 \<or> n = 1 \<and> subseq [AuthenticationOk] ms
      \<or> n = 2 \<and> (\<exists>k. subseq [AuthenticationOk, Message.Backend (BackendMsg.BackendKeyData k)] ms)
      \<or> n = 3 \<and> (\<exists>k r. subseq [AuthenticationOk, Message.Backend (BackendMsg.BackendKeyData k),
                              Message.Backend (BackendMsg.ReadyForQuery r)] ms))"

lemma subseq_snoc_same: "subseq xs ys \<Longrightarrow> subseq (xs @ [y]) (ys @ [y])"
  by (simp add: list_emb_append_mono)

lemma subseq_snoc_more: "subseq xs ys \<Longrightarrow> subseq xs (ys @ [y])"
  using list_emb_append_mono [of _ xs ys "[]" "[y]"] by simp

lemma phase_logged: "session State.GotStartup ms (Next st) \<Longrightarrow> logged (phase st) ms"
proof (induction ms arbitrary: st rule: rev_induct)
  case Nil
  then show ?case by (simp add: session_Nil logged_def phase_def)
next
  case (snoc m ms)
  from snoc.prems obtain st1 where "session State.GotStartup ms (Next st1)"
    and m: "next_state st1 m = Some (Next st)" by (auto simp: session_snoc)
  with snoc.IH have before: "logged (phase st1) ms" by simp
  from phase_step [OF m] show ?case
  proof (elim disjE conjE exE)
    assume "phase st = phase st1"
    with before show ?thesis by (auto simp: logged_def intro: subseq_snoc_more)
  next
    assume "phase st = 1" "m = AuthenticationOk"
    then show ?thesis using subseq_snoc_same [of "[]" ms m] by (simp add: logged_def)
  next
    fix k assume "phase st1 = 1" "phase st = 2" "m = Message.Backend (BackendMsg.BackendKeyData k)"
    with before show ?thesis
      using subseq_snoc_same [of "[AuthenticationOk]" ms m] by (auto simp: logged_def)
  next
    fix r assume "phase st1 = 2" "phase st = 3" and r: "m = Message.Backend (BackendMsg.ReadyForQuery r)"
    with before obtain k where "subseq [AuthenticationOk, Message.Backend (BackendMsg.BackendKeyData k)] ms"
      by (auto simp: logged_def)
    from subseq_snoc_same [OF this, of m] \<open>phase st = 3\<close> r show ?thesis by (auto simp: logged_def)
  qed
qed

text \<open>Commands: what a frontend sends once it is logged in.\<close>

fun is_command :: "Message \<Rightarrow> bool" where
  "is_command (Message.Frontend (FrontendMsg.Query x)) \<longleftrightarrow> True"
| "is_command (Message.Frontend (FrontendMsg.Parse x)) \<longleftrightarrow> True"
| "is_command (Message.Frontend (FrontendMsg.Bind x)) \<longleftrightarrow> True"
| "is_command (Message.Frontend (FrontendMsg.Execute x)) \<longleftrightarrow> True"
| "is_command (Message.Frontend (FrontendMsg.Sync x)) \<longleftrightarrow> True"
| "is_command (Message.Frontend (FrontendMsg.Terminate x)) \<longleftrightarrow> True"
| "is_command _ \<longleftrightarrow> False"

lemma command_phase: "next_state st m = Some f \<Longrightarrow> is_command m \<Longrightarrow> phase st = 3"
  by (cases m rule: is_command.cases) (auto simp: phase_def split: if_splits)

lemma commands_after_login:
  assumes "session State.GotStartup a (Next st)" and "next_state st m \<noteq> None" and "is_command m"
  shows "\<exists>k r. subseq [AuthenticationOk, Message.Backend (BackendMsg.BackendKeyData k),
    Message.Backend (BackendMsg.ReadyForQuery r)] a"
  using phase_logged [OF assms(1)] command_phase [OF _ assms(3)] assms(2) by (auto simp: logged_def)

section \<open>One query at a time\<close>

definition answering :: "State set" where
  "answering = {State.GotSimpleQuery, State.AnsweringToSimpleQuery, State.CompletedSimpleCommand,
     State.AbortedSimpleQuery, State.SeenEmptySimpleQuery}"

lemma answering_step:
  assumes "st \<in> answering" and "next_state st m = Some (Next st')"
  shows "st' \<in> answering \<or> (\<exists>r. m = Message.Backend (BackendMsg.ReadyForQuery r))"
  using assms
  by (cases "(st, m)" rule: next_state.cases)
     (auto simp: answering_def auth_next_def split: if_splits Authentication.splits)

lemma answering_until_ready:
  "session st ms (Next st') \<Longrightarrow> st \<in> answering \<Longrightarrow>
    st' \<in> answering \<or> (\<exists>r. Message.Backend (BackendMsg.ReadyForQuery r) \<in> set ms)"
  by (induction st ms "Next st'" rule: session.induct) (auto dest: answering_step)

lemma query_only_when_ready:
  "next_state st (Message.Frontend (FrontendMsg.Query q)) = Some f \<Longrightarrow>
    st = State.ReadyForQuery \<and> f = Next State.GotSimpleQuery"
  by (auto split: if_splits)

lemma queries_separated:
  assumes "session st (a @ Message.Frontend (FrontendMsg.Query q) # b) (Next st')"
    and "next_state st' (Message.Frontend (FrontendMsg.Query q')) \<noteq> None"
  shows "\<exists>r. Message.Backend (BackendMsg.ReadyForQuery r) \<in> set b"
proof -
  from session_at [OF assms(1)] obtain st1 f1 where
    q: "next_state st1 (Message.Frontend (FrontendMsg.Query q)) = Some f1" and
    rest: "\<And>st2. f1 = Next st2 \<Longrightarrow> session st2 b (Next st')" by blast
  from query_only_when_ready [OF q] rest have "session State.GotSimpleQuery b (Next st')" by simp
  from answering_until_ready [OF this] assms(2) show ?thesis
    by (auto simp: answering_def split: if_splits)
qed

section \<open>Reachable states and the way home\<close>

definition reached :: "State \<Rightarrow> bool" where
  "reached st \<longleftrightarrow> (\<exists>ms. session State.GotStartup ms (Next st))"

lemma reached_step: "reached st \<Longrightarrow> next_state st m = Some (Next st') \<Longrightarrow> reached st'"
  unfolding reached_def using session_snoc by blast

lemma never_bound: "next_state st m = Some (Next State.Bound) \<Longrightarrow> st = State.Bound"
  by (cases "(st, m)" rule: next_state.cases)
     (auto simp: auth_next_def split: if_splits Authentication.splits)

lemma reached_not_bound: "session st ms (Next st') \<Longrightarrow> st \<noteq> State.Bound \<Longrightarrow> st' \<noteq> State.Bound"
  by (induction st ms "Next st'" rule: session.induct) (auto dest: never_bound)

lemma reached_GotStartup: "reached State.GotStartup"
  unfolding reached_def by (rule exI, rule session_here)

lemma reached_login:
  "reached State.AskedCleartextPassword" "reached State.AskedMd5Password" "reached State.AskedGssResponse"
    "reached State.AskedSaslInitialResponse" "reached State.GotCleartextPassword" "reached State.GotMd5Password"
    "reached State.GotGssResponse" "reached State.GotAnySaslResponse" "reached State.AskedSaslResponse"
    "reached State.FinishedSasl" "reached State.Authenticated" "reached State.SentAllBackendParams"
    "reached State.ReadyForQuery"
proof -
  have AskedCleartextPassword: "reached State.AskedCleartextPassword"
    by (rule reached_step [OF reached_GotStartup, of "Message.Backend (BackendMsg.Authentication CleartextPassword)"]) (simp add: auth_next_def)
  have AskedMd5Password: "reached State.AskedMd5Password"
    by (rule reached_step [OF reached_GotStartup, of "Message.Backend (BackendMsg.Authentication (Md5Password x))"]) (simp add: auth_next_def)
  have AskedGssResponse: "reached State.AskedGssResponse"
    by (rule reached_step [OF reached_GotStartup, of "Message.Backend (BackendMsg.Authentication Gss)"]) (simp add: auth_next_def)
  have AskedSaslInitialResponse: "reached State.AskedSaslInitialResponse"
    by (rule reached_step [OF reached_GotStartup, of "Message.Backend (BackendMsg.Authentication (Sasl x))"]) (simp add: auth_next_def)
  have GotCleartextPassword: "reached State.GotCleartextPassword"
    by (rule reached_step [OF AskedCleartextPassword, of "Message.Frontend (FrontendMsg.Password x)"]) (simp add: auth_next_def)
  have GotMd5Password: "reached State.GotMd5Password"
    by (rule reached_step [OF AskedMd5Password, of "Message.Frontend (FrontendMsg.Password x)"]) (simp add: auth_next_def)
  have GotGssResponse: "reached State.GotGssResponse"
    by (rule reached_step [OF AskedGssResponse, of "Message.Frontend (FrontendMsg.GssResponse x)"]) (simp add: auth_next_def)
  have GotAnySaslResponse: "reached State.GotAnySaslResponse"
    by (rule reached_step [OF AskedSaslInitialResponse, of "Message.Frontend (FrontendMsg.SaslInitialResponse x)"]) (simp add: auth_next_def)
  have AskedSaslResponse: "reached State.AskedSaslResponse"
    by (rule reached_step [OF GotAnySaslResponse, of "Message.Backend (BackendMsg.Authentication (SaslContinue x))"]) (simp add: auth_next_def)
  have FinishedSasl: "reached State.FinishedSasl"
    by (rule reached_step [OF GotAnySaslResponse, of "Message.Backend (BackendMsg.Authentication (SaslFinal x))"]) (simp add: auth_next_def)
  have Authenticated: "reached State.Authenticated"
    by (rule reached_step [OF FinishedSasl, of "Message.Backend (BackendMsg.Authentication Authentication.Ok)"]) (simp add: auth_next_def)
  have SentAllBackendParams: "reached State.SentAllBackendParams"
    by (rule reached_step [OF Authenticated, of "Message.Backend (BackendMsg.BackendKeyData x)"]) (simp add: auth_next_def)
  have ReadyForQuery: "reached State.ReadyForQuery"
    by (rule reached_step [OF SentAllBackendParams, of "Message.Backend (BackendMsg.ReadyForQuery x)"]) (simp add: auth_next_def)
  show "reached State.AskedCleartextPassword" "reached State.AskedMd5Password" "reached State.AskedGssResponse"
    "reached State.AskedSaslInitialResponse" "reached State.GotCleartextPassword" "reached State.GotMd5Password"
    "reached State.GotGssResponse" "reached State.GotAnySaslResponse" "reached State.AskedSaslResponse"
    "reached State.FinishedSasl" "reached State.Authenticated" "reached State.SentAllBackendParams"
    "reached State.ReadyForQuery"
    by fact+
qed

lemma reached_simple:
  "reached State.GotSimpleQuery" "reached State.AnsweringToSimpleQuery" "reached State.CompletedSimpleCommand"
    "reached State.AbortedSimpleQuery" "reached State.SeenEmptySimpleQuery" "reached State.GotPreparedStatement"
    "reached State.GotBinding" "reached State.AbortedParsingOrBinding"
proof -
  have GotSimpleQuery: "reached State.GotSimpleQuery"
    by (rule reached_step [OF reached_login(13), of "Message.Frontend (FrontendMsg.Query x)"]) (simp add: auth_next_def)
  have AnsweringToSimpleQuery: "reached State.AnsweringToSimpleQuery"
    by (rule reached_step [OF GotSimpleQuery, of "Message.Backend (BackendMsg.RowDescription x)"]) (simp add: auth_next_def)
  have CompletedSimpleCommand: "reached State.CompletedSimpleCommand"
    by (rule reached_step [OF AnsweringToSimpleQuery, of "Message.Backend (BackendMsg.CommandComplete x)"]) (simp add: auth_next_def)
  have AbortedSimpleQuery: "reached State.AbortedSimpleQuery"
    by (rule reached_step [OF GotSimpleQuery, of "Message.Backend (BackendMsg.ErrorResponse x)"]) (simp add: auth_next_def)
  have SeenEmptySimpleQuery: "reached State.SeenEmptySimpleQuery"
    by (rule reached_step [OF GotSimpleQuery, of "Message.Backend (BackendMsg.EmptyQueryResponse x)"]) (simp add: auth_next_def)
  have GotPreparedStatement: "reached State.GotPreparedStatement"
    by (rule reached_step [OF reached_login(13), of "Message.Frontend (FrontendMsg.Parse x)"]) (simp add: auth_next_def)
  have GotBinding: "reached State.GotBinding"
    by (rule reached_step [OF reached_login(13), of "Message.Frontend (FrontendMsg.Bind x)"]) (simp add: auth_next_def)
  have AbortedParsingOrBinding: "reached State.AbortedParsingOrBinding"
    by (rule reached_step [OF GotBinding, of "Message.Backend (BackendMsg.ErrorResponse x)"]) (simp add: auth_next_def)
  show "reached State.GotSimpleQuery" "reached State.AnsweringToSimpleQuery" "reached State.CompletedSimpleCommand"
    "reached State.AbortedSimpleQuery" "reached State.SeenEmptySimpleQuery" "reached State.GotPreparedStatement"
    "reached State.GotBinding" "reached State.AbortedParsingOrBinding"
    by fact+
qed

lemma reached_extended:
  "reached State.ExecutingExtendedQuery" "reached State.AnsweringToExtendedQuery" "reached State.CompletedExtendedQuery"
    "reached State.SuspendedExtendedQuery" "reached State.SeenEmptyExtendedQuery" "reached State.AbortedExtendedQuery"
    "reached State.GotSync"
proof -
  have ExecutingExtendedQuery: "reached State.ExecutingExtendedQuery"
    by (rule reached_step [OF reached_login(13), of "Message.Frontend (FrontendMsg.Execute x)"]) (simp add: auth_next_def)
  have AnsweringToExtendedQuery: "reached State.AnsweringToExtendedQuery"
    by (rule reached_step [OF ExecutingExtendedQuery, of "Message.Backend (BackendMsg.DataRow x)"]) (simp add: auth_next_def)
  have CompletedExtendedQuery: "reached State.CompletedExtendedQuery"
    by (rule reached_step [OF AnsweringToExtendedQuery, of "Message.Backend (BackendMsg.CommandComplete x)"]) (simp add: auth_next_def)
  have SuspendedExtendedQuery: "reached State.SuspendedExtendedQuery"
    by (rule reached_step [OF AnsweringToExtendedQuery, of "Message.Backend (BackendMsg.PortalSuspended x)"]) (simp add: auth_next_def)
  have SeenEmptyExtendedQuery: "reached State.SeenEmptyExtendedQuery"
    by (rule reached_step [OF ExecutingExtendedQuery, of "Message.Backend (BackendMsg.EmptyQueryResponse x)"]) (simp add: auth_next_def)
  have AbortedExtendedQuery: "reached State.AbortedExtendedQuery"
    by (rule reached_step [OF ExecutingExtendedQuery, of "Message.Backend (BackendMsg.ErrorResponse x)"]) (simp add: auth_next_def)
  have GotSync: "reached State.GotSync"
    by (rule reached_step [OF AbortedExtendedQuery, of "Message.Frontend (FrontendMsg.Sync x)"]) (simp add: auth_next_def)
  show "reached State.ExecutingExtendedQuery" "reached State.AnsweringToExtendedQuery" "reached State.CompletedExtendedQuery"
    "reached State.SuspendedExtendedQuery" "reached State.SeenEmptyExtendedQuery" "reached State.AbortedExtendedQuery"
    "reached State.GotSync"
    by fact+
qed

lemma reached_all: "st \<noteq> State.Bound \<Longrightarrow> reached st"
  by (cases st) (simp_all add: reached_GotStartup reached_login reached_simple reached_extended)

text \<open>Without any error of the backend, every state but \<open>Bound\<close> leads back to
  \<open>ReadyForQuery\<close>.\<close>

definition recovers :: "State \<Rightarrow> bool" where
  "recovers st \<longleftrightarrow> (\<exists>ms. session st ms (Next State.ReadyForQuery)
     \<and> (\<forall>e. Message.Backend (BackendMsg.ErrorResponse e) \<notin> set ms))"

lemma recovers_step:
  assumes "next_state st m = Some (Next st')" and "\<And>e. m \<noteq> Message.Backend (BackendMsg.ErrorResponse e)"
    and "recovers st'"
  shows "recovers st"
proof -
  from assms(3) obtain ms where "session st' ms (Next State.ReadyForQuery)"
    "\<forall>e. Message.Backend (BackendMsg.ErrorResponse e) \<notin> set ms" by (auto simp: recovers_def)
  with assms(1,2) have "session st (m # ms) (Next State.ReadyForQuery)
      \<and> (\<forall>e. Message.Backend (BackendMsg.ErrorResponse e) \<notin> set (m # ms))"
    by (auto intro: session_step dest: sym)
  then show ?thesis unfolding recovers_def by blast
qed

lemma recovers_ReadyForQuery: "recovers State.ReadyForQuery"
  unfolding recovers_def by (rule exI [of _ "[]"]) (simp add: session_here)

lemma recovers_login:
  "recovers State.SentAllBackendParams" "recovers State.Authenticated" "recovers State.GotStartup"
  "recovers State.GotCleartextPassword" "recovers State.GotMd5Password" "recovers State.GotGssResponse"
    "recovers State.FinishedSasl" "recovers State.AskedCleartextPassword"
  "recovers State.AskedMd5Password" "recovers State.AskedGssResponse" "recovers State.GotAnySaslResponse"
    "recovers State.AskedSaslInitialResponse" "recovers State.AskedSaslResponse"
proof -
  have SentAllBackendParams: "recovers State.SentAllBackendParams"
    by (rule recovers_step [OF _ _ recovers_ReadyForQuery, of _ "Message.Backend (BackendMsg.ReadyForQuery x)"]) (simp_all add: auth_next_def)
  have Authenticated: "recovers State.Authenticated"
    by (rule recovers_step [OF _ _ SentAllBackendParams, of _ "Message.Backend (BackendMsg.BackendKeyData x)"]) (simp_all add: auth_next_def)
  have GotStartup: "recovers State.GotStartup"
    by (rule recovers_step [OF _ _ Authenticated, of _ "Message.Backend (BackendMsg.Authentication Authentication.Ok)"]) (simp_all add: auth_next_def)
  have GotCleartextPassword: "recovers State.GotCleartextPassword"
    by (rule recovers_step [OF _ _ Authenticated, of _ "Message.Backend (BackendMsg.Authentication Authentication.Ok)"]) (simp_all add: auth_next_def)
  have GotMd5Password: "recovers State.GotMd5Password"
    by (rule recovers_step [OF _ _ Authenticated, of _ "Message.Backend (BackendMsg.Authentication Authentication.Ok)"]) (simp_all add: auth_next_def)
  have GotGssResponse: "recovers State.GotGssResponse"
    by (rule recovers_step [OF _ _ Authenticated, of _ "Message.Backend (BackendMsg.Authentication Authentication.Ok)"]) (simp_all add: auth_next_def)
  have FinishedSasl: "recovers State.FinishedSasl"
    by (rule recovers_step [OF _ _ Authenticated, of _ "Message.Backend (BackendMsg.Authentication Authentication.Ok)"]) (simp_all add: auth_next_def)
  have AskedCleartextPassword: "recovers State.AskedCleartextPassword"
    by (rule recovers_step [OF _ _ GotCleartextPassword, of _ "Message.Frontend (FrontendMsg.Password x)"]) (simp_all add: auth_next_def)
  have AskedMd5Password: "recovers State.AskedMd5Password"
    by (rule recovers_step [OF _ _ GotMd5Password, of _ "Message.Frontend (FrontendMsg.Password x)"]) (simp_all add: auth_next_def)
  have AskedGssResponse: "recovers State.AskedGssResponse"
    by (rule recovers_step [OF _ _ GotGssResponse, of _ "Message.Frontend (FrontendMsg.GssResponse x)"]) (simp_all add: auth_next_def)
  have GotAnySaslResponse: "recovers State.GotAnySaslResponse"
    by (rule recovers_step [OF _ _ FinishedSasl, of _ "Message.Backend (BackendMsg.Authentication (SaslFinal x))"]) (simp_all add: auth_next_def)
  have AskedSaslInitialResponse: "recovers State.AskedSaslInitialResponse"
    by (rule recovers_step [OF _ _ GotAnySaslResponse, of _ "Message.Frontend (FrontendMsg.SaslInitialResponse x)"]) (simp_all add: auth_next_def)
  have AskedSaslResponse: "recovers State.AskedSaslResponse"
    by (rule recovers_step [OF _ _ GotAnySaslResponse, of _ "Message.Frontend (FrontendMsg.SaslResponse x)"]) (simp_all add: auth_next_def)
  show "recovers State.SentAllBackendParams" "recovers State.Authenticated" "recovers State.GotStartup"
    "recovers State.GotCleartextPassword" "recovers State.GotMd5Password" "recovers State.GotGssResponse"
    "recovers State.FinishedSasl" "recovers State.AskedCleartextPassword"
    "recovers State.AskedMd5Password" "recovers State.AskedGssResponse" "recovers State.GotAnySaslResponse"
    "recovers State.AskedSaslInitialResponse" "recovers State.AskedSaslResponse"
    by fact+
qed

lemma recovers_simple:
  "recovers State.CompletedSimpleCommand" "recovers State.AbortedSimpleQuery" "recovers State.SeenEmptySimpleQuery"
    "recovers State.AbortedParsingOrBinding" "recovers State.AnsweringToSimpleQuery" "recovers State.GotSimpleQuery"
    "recovers State.GotPreparedStatement"
  "recovers State.GotBinding"
proof -
  have CompletedSimpleCommand: "recovers State.CompletedSimpleCommand"
    by (rule recovers_step [OF _ _ recovers_ReadyForQuery, of _ "Message.Backend (BackendMsg.ReadyForQuery x)"]) (simp_all add: auth_next_def)
  have AbortedSimpleQuery: "recovers State.AbortedSimpleQuery"
    by (rule recovers_step [OF _ _ recovers_ReadyForQuery, of _ "Message.Backend (BackendMsg.ReadyForQuery x)"]) (simp_all add: auth_next_def)
  have SeenEmptySimpleQuery: "recovers State.SeenEmptySimpleQuery"
    by (rule recovers_step [OF _ _ recovers_ReadyForQuery, of _ "Message.Backend (BackendMsg.ReadyForQuery x)"]) (simp_all add: auth_next_def)
  have AbortedParsingOrBinding: "recovers State.AbortedParsingOrBinding"
    by (rule recovers_step [OF _ _ recovers_ReadyForQuery, of _ "Message.Backend (BackendMsg.ReadyForQuery x)"]) (simp_all add: auth_next_def)
  have AnsweringToSimpleQuery: "recovers State.AnsweringToSimpleQuery"
    by (rule recovers_step [OF _ _ CompletedSimpleCommand, of _ "Message.Backend (BackendMsg.CommandComplete x)"]) (simp_all add: auth_next_def)
  have GotSimpleQuery: "recovers State.GotSimpleQuery"
    by (rule recovers_step [OF _ _ CompletedSimpleCommand, of _ "Message.Backend (BackendMsg.CommandComplete x)"]) (simp_all add: auth_next_def)
  have GotPreparedStatement: "recovers State.GotPreparedStatement"
    by (rule recovers_step [OF _ _ recovers_ReadyForQuery, of _ "Message.Backend (BackendMsg.ParseComplete x)"]) (simp_all add: auth_next_def)
  have GotBinding: "recovers State.GotBinding"
    by (rule recovers_step [OF _ _ recovers_ReadyForQuery, of _ "Message.Backend (BackendMsg.BindComplete x)"]) (simp_all add: auth_next_def)
  show "recovers State.CompletedSimpleCommand" "recovers State.AbortedSimpleQuery" "recovers State.SeenEmptySimpleQuery"
    "recovers State.AbortedParsingOrBinding" "recovers State.AnsweringToSimpleQuery" "recovers State.GotSimpleQuery"
    "recovers State.GotPreparedStatement"
    "recovers State.GotBinding"
    by fact+
qed

lemma recovers_extended:
  "recovers State.GotSync" "recovers State.CompletedExtendedQuery" "recovers State.AbortedExtendedQuery"
    "recovers State.SeenEmptyExtendedQuery" "recovers State.SuspendedExtendedQuery" "recovers State.AnsweringToExtendedQuery"
    "recovers State.ExecutingExtendedQuery"
proof -
  have GotSync: "recovers State.GotSync"
    by (rule recovers_step [OF _ _ recovers_ReadyForQuery, of _ "Message.Backend (BackendMsg.ReadyForQuery x)"]) (simp_all add: auth_next_def)
  have CompletedExtendedQuery: "recovers State.CompletedExtendedQuery"
    by (rule recovers_step [OF _ _ GotSync, of _ "Message.Frontend (FrontendMsg.Sync x)"]) (simp_all add: auth_next_def)
  have AbortedExtendedQuery: "recovers State.AbortedExtendedQuery"
    by (rule recovers_step [OF _ _ GotSync, of _ "Message.Frontend (FrontendMsg.Sync x)"]) (simp_all add: auth_next_def)
  have SeenEmptyExtendedQuery: "recovers State.SeenEmptyExtendedQuery"
    by (rule recovers_step [OF _ _ GotSync, of _ "Message.Frontend (FrontendMsg.Sync x)"]) (simp_all add: auth_next_def)
  have SuspendedExtendedQuery: "recovers State.SuspendedExtendedQuery"
    by (rule recovers_step [OF _ _ GotSync, of _ "Message.Frontend (FrontendMsg.Sync x)"]) (simp_all add: auth_next_def)
  have AnsweringToExtendedQuery: "recovers State.AnsweringToExtendedQuery"
    by (rule recovers_step [OF _ _ CompletedExtendedQuery, of _ "Message.Backend (BackendMsg.CommandComplete x)"]) (simp_all add: auth_next_def)
  have ExecutingExtendedQuery: "recovers State.ExecutingExtendedQuery"
    by (rule recovers_step [OF _ _ CompletedExtendedQuery, of _ "Message.Backend (BackendMsg.CommandComplete x)"]) (simp_all add: auth_next_def)
  show "recovers State.GotSync" "recovers State.CompletedExtendedQuery" "recovers State.AbortedExtendedQuery"
    "recovers State.SeenEmptyExtendedQuery" "recovers State.SuspendedExtendedQuery" "recovers State.AnsweringToExtendedQuery"
    "recovers State.ExecutingExtendedQuery"
    by fact+
qed

lemma recovers_all: "st \<noteq> State.Bound \<Longrightarrow> recovers st"
  by (cases st) (simp_all add: recovers_ReadyForQuery recovers_login recovers_simple recovers_extended)

end
