(* ===== verification/Session.thy ===== *)
theory Session
  imports Relay Automaton
begin

text \<open>
  The start of a session: the initial message, the negotiation of TLS with both sides, and
  how the loop follows (\<open>go\<close> and \<open>convey\<close> of \<open>src/src/convey.rs\<close>).
\<close>

section \<open>What the callback sees\<close>

context conveyor_streams
begin

text \<open>Whenever a message is reported, the messages reported before it are a session, and the
  state this session is in admits the message.\<close>

lemma go_loop_log:
  assumes "go_loop env choices st c = (r, c')" and log: "conveyed c' = conveyed c @ a @ m # b"
  shows "\<exists>st1. session st a (Next st1) \<and> admits st1 m"
proof -
  have at: "\<exists>st1. session st a (Next st1) \<and> admits st1 m" if "session st (a @ m # b') f" for b' f
    using session_at [OF that] by (metis admits_def option.distinct(1))
  from go_loop_conveys [OF assms(1)] obtain tr f c1 where tr: "session st (map fst tr) f"
    and cv: "conveys fi fo bi bo tr c c1"
    and f: "case f of Stop \<Rightarrow> r = Return () \<and> c' = c1 | Next st' \<Rightarrow> r \<noteq> Return () \<and> breaks fi fo bi bo st' c1 c'"
    by blast
  from cv have c1: "conveyed c1 = conveyed c @ map fst tr" by (simp add: conveys_def)
  have "conveyed c' = conveyed c1 \<or> (\<exists>st' m'. f = Next st' \<and> conveyed c' = conveyed c1 @ [m'] \<and> admits st' m')"
    using f by (cases f) (auto simp: breaks_def)
  then show ?thesis
  proof (elim disjE exE conjE)
    assume "conveyed c' = conveyed c1"
    with c1 log tr at show ?thesis by simp
  next
    fix st' m' assume last: "f = Next st'" "conveyed c' = conveyed c1 @ [m']" "admits st' m'"
    with c1 log have split: "map fst tr @ [m'] = a @ m # b" by simp
    show ?thesis
    proof (cases b rule: rev_cases)
      case Nil
      with split last tr show ?thesis by auto
    next
      case (snoc b' x)
      with split have "map fst tr = a @ m # b'" by simp
      with tr at show ?thesis by simp
    qed
  qed
qed

end

section \<open>Switching to TLS\<close>

lemma switch_to_tls_Plain:
  "switch_to_tls handshake (StreamWrap.Plain p) =
     (case handshake p of
        Return t \<Rightarrow> (Return (), StreamWrap.Tls t)
      | Throw e \<Rightarrow> (Panic (unwrap_panic e), TlsHandshake)
      | Panic s \<Rightarrow> (Panic s, TlsHandshake)
      | Blocked \<Rightarrow> (Blocked, TlsHandshake))"
  by (simp add: switch_to_tls_def replace_plain_with_def split: outcome.splits)

lemma switch_to_tls_refused:
  "\<forall>p. w \<noteq> StreamWrap.Plain p \<Longrightarrow>
    switch_to_tls handshake w = (Throw (ConveyError.TlsError HandshakeDisrupted), w)"
  by (cases w) (auto simp: switch_to_tls_def replace_plain_with_def)

section \<open>The kind of a wrapped stream\<close>

text \<open>Reading and writing keep a plain stream plain and a TLS stream TLS.\<close>

fun kind_of_wrap :: "('p, 't) StreamWrap \<Rightarrow> nat" where
  "kind_of_wrap (StreamWrap.Plain p) = 0"
| "kind_of_wrap TlsHandshake = 1"
| "kind_of_wrap (StreamWrap.Tls t) = 2"

definition kinds :: "('fp, 'ft, 'bp, 'bt) Conveyor \<Rightarrow> nat \<times> nat" where
  "kinds c = (kind_of_wrap (frontend c), kind_of_wrap (backend c))"

lemma live_kinds: "live c \<longleftrightarrow> fst (kinds c) \<noteq> 1 \<and> snd (kinds c) \<noteq> 1"
  by (cases "frontend c"; cases "backend c") (simp_all add: live_def kinds_def)

text \<open>An operation that does not touch the kinds, and on live streams never ends in a TLS
  error.\<close>

definition steady :: "(('fp, 'ft, 'bp, 'bt) Conveyor, ConveyError, 'a) prog \<Rightarrow> bool" where
  "steady m \<longleftrightarrow>
     (\<forall>c r c'. m c = (r, c') \<longrightarrow> kinds c' = kinds c
        \<and> (live c \<longrightarrow> (\<forall>t. r \<noteq> Throw (ConveyError.TlsError t))))"

lemma steady_bind: "steady m \<Longrightarrow> (\<And>x. steady (k x)) \<Longrightarrow> steady (bind_prog m k)"
  unfolding steady_def live_kinds
  by (auto simp: bind_prog_def split: prod.splits outcome.splits)

lemma steady_return: "steady (return x)"
  by (simp add: steady_def)

lemma steady_throw: "(\<And>t. e \<noteq> ConveyError.TlsError t) \<Longrightarrow> steady (throw e)"
  by (simp add: steady_def)

lemma steady_report: "steady (\<lambda>c. (Return (), c\<lparr>conveyed := conveyed c @ [m]\<rparr>))"
  by (simp add: steady_def kinds_def)

lemmas steady_intros = steady_bind steady_return steady_throw steady_report

lemma unwrap_stream_kind: "kind_of_wrap (snd (unwrap_stream f g w)) = kind_of_wrap w"
  by (cases w) (simp_all add: unwrap_stream_def split: prod.splits)

lemma steady_unwrap:
  assumes "\<And>t s s'. f s \<noteq> (Throw (ConveyError.TlsError t), s')"
    and "\<And>t s s'. g s \<noteq> (Throw (ConveyError.TlsError t), s')"
  shows "steady (on_frontend (unwrap_stream f g))" and "steady (on_backend (unwrap_stream f g))"
proof -
  have throw: "w \<noteq> TlsHandshake \<Longrightarrow>
      fst (unwrap_stream f g w) \<noteq> Throw (ConveyError.TlsError t)" for w t
    using assms by (cases w) (auto simp: unwrap_stream_def split: prod.splits)
  show "steady (on_frontend (unwrap_stream f g))"
    using throw unwrap_stream_kind [of f g]
    by (auto simp: steady_def kinds_def live_def on_frontend_def prod_eq_iff case_prod_unfold)
  show "steady (on_backend (unwrap_stream f g))"
    using throw unwrap_stream_kind [of f g]
    by (auto simp: steady_def kinds_def live_def on_backend_def prod_eq_iff case_prod_unfold)
qed

lemma read_errors:
  "ReadError_to_ConveyError e \<noteq> ConveyError.TlsError t"
  "MsgError_to_ConveyError e' \<noteq> ConveyError.TlsError t"
  by (cases e; cases e'; simp)+

lemma no_disruption:
  "read_msg_mapping_err ovf ops D s \<noteq> (Throw (ConveyError.TlsError t), s')"
  "write_bytes ops bs s \<noteq> (Throw (ConveyError.TlsError t), s')"
  "read_type_byte ops s \<noteq> (Throw (ConveyError.TlsError t), s')"
  by (auto simp: read_msg_mapping_err_def write_bytes_def read_type_byte_def bind_prog_def map_err_def
        read_errors split: prod.splits outcome.splits sum.splits)

lemma steady_sides:
  "steady (read_frontend env D)" "steady (read_backend env D)"
  "steady (write_frontend env bs)" "steady (write_backend env bs)" "steady (byte_side env side)"
  "steady (read_backend_type_byte env)"
  by (cases side; auto simp: read_frontend_def read_backend_def write_frontend_def write_backend_def
        byte_side_def read_backend_type_byte_def intro!: steady_unwrap no_disruption)+

lemma steady_read_through:
  "steady rd \<Longrightarrow> (\<And>m. steady (cb m)) \<Longrightarrow> (\<And>bs. steady (wr bs)) \<Longrightarrow> steady (read_through rd cb wr)"
  unfolding read_through_def by (auto intro!: steady_intros split: prod.splits)

lemma steady_through: "steady (read_frontend_through env D W)" "steady (read_backend_through env D V)"
  by (auto simp: read_frontend_through_def read_backend_through_def callback_frontend_def [abs_def]
        callback_backend_def [abs_def] intro!: steady_read_through steady_sides steady_report)

lemma steady_relay: "steady (relay env side D)"
  by (cases side) (auto simp: relay_def intro!: steady_read_through steady_sides steady_report)

lemma steady_settle: "steady (settle st m)"
  by (auto simp: settle_def auth_rejection_def intro!: steady_intros
        split: option.split Message.split BackendMsg.split Authentication.split)

lemma steady_round: "steady (round env side st)"
  unfolding round_def
  by (auto intro!: steady_intros steady_sides steady_relay steady_settle split: option.split)

lemma steady_go_loop: "steady (go_loop env choices st)"
proof (induction choices arbitrary: st)
  case Nil
  then show ?case by (simp add: steady_def)
next
  case (Cons side choices)
  then show ?case
    unfolding go_loop_round by (intro steady_intros steady_round) (auto split: flow.split intro: steady_return)
qed

section \<open>No handshake is ever disrupted\<close>

text \<open>From streams of the given kinds the operation never ends in \<open>HandshakeDisrupted\<close>.\<close>

definition avoids :: "nat \<times> nat \<Rightarrow> (('fp, 'ft, 'bp, 'bt) Conveyor, ConveyError, 'a) prog \<Rightarrow> bool" where
  "avoids K m \<longleftrightarrow>
     (\<forall>c. kinds c = K \<longrightarrow> fst (m c) \<noteq> Throw (ConveyError.TlsError HandshakeDisrupted))"

lemma avoids_steady: "steady m \<Longrightarrow> fst K \<noteq> 1 \<Longrightarrow> snd K \<noteq> 1 \<Longrightarrow> avoids K m"
  unfolding avoids_def steady_def live_kinds by (metis prod.collapse)

lemma avoids_bind:
  assumes "steady m" and "fst K \<noteq> 1" and "snd K \<noteq> 1" and "\<And>x. avoids K (k x)"
  shows "avoids K (bind_prog m k)"
  using assms unfolding avoids_def steady_def live_kinds
  by (auto simp: bind_prog_def split: prod.splits outcome.splits)

lemma avoids_switch:
  "(\<And>x. avoids (n, 2) (k x)) \<Longrightarrow> avoids (n, 0) (bind_prog (switch_client_to_tls env) k)"
  "(\<And>x. avoids (2, n) (k x)) \<Longrightarrow> avoids (0, n) (bind_prog (switch_server_to_tls env) k)"
proof -
  have plain: "kind_of_wrap w = 0 \<Longrightarrow> \<exists>p. w = StreamWrap.Plain p" for w :: "('x, 'y) StreamWrap"
    by (cases w) simp_all
  show "(\<And>x. avoids (n, 2) (k x)) \<Longrightarrow> avoids (n, 0) (bind_prog (switch_client_to_tls env) k)"
    unfolding avoids_def
    by (auto dest!: plain simp: kinds_def bind_prog_def switch_client_to_tls_def on_backend_def switch_to_tls_Plain
        split: prod.splits outcome.splits)
  show "(\<And>x. avoids (2, n) (k x)) \<Longrightarrow> avoids (0, n) (bind_prog (switch_server_to_tls env) k)"
    unfolding avoids_def
    by (auto dest!: plain simp: kinds_def bind_prog_def switch_server_to_tls_def on_frontend_def switch_to_tls_Plain
        split: prod.splits outcome.splits)
qed

lemma tls_answers_distinct [simp]:
  "TLS_SUPPORTED \<noteq> TLS_NOT_SUPPORTED" "TLS_NOT_SUPPORTED \<noteq> TLS_SUPPORTED"
  "ErrorResponse_TYPE_BYTE \<noteq> TLS_NOT_SUPPORTED" "ErrorResponse_TYPE_BYTE \<noteq> TLS_SUPPORTED"
  by (simp_all add: TLS_SUPPORTED_def TLS_NOT_SUPPORTED_def ErrorResponse_TYPE_BYTE_def byte_char_def of_char_def)

lemma avoids_after_initial:
  "(\<And>f. avoids K (k f)) \<Longrightarrow> avoids K (bind_prog (case i of Initial.Startup s \<Rightarrow> return (Next State.GotStartup) | Initial.Cancel c \<Rightarrow> return Stop
     | _ \<Rightarrow> throw (ConveyError.TlsError TlsRequestedInsideTls)) k)"
  by (auto simp: avoids_def bind_prog_def split: Initial.split)

lemma avoids_go_tls:
  assumes "\<And>K f. fst K \<noteq> 1 \<Longrightarrow> snd K \<noteq> 1 \<Longrightarrow> avoids K (k f)"
  shows "avoids (0, 0) (bind_prog (go_tls env) k)"
proof -
  have tail: "avoids (0, n) (bind_prog (go_tls_frontend env) k)" if "n \<noteq> 1" for n
    using that assms unfolding go_tls_frontend_def bind_prog_assoc
    by (intro avoids_bind [OF steady_sides(3)] avoids_switch(2) avoids_bind [OF steady_through(1)] avoids_after_initial) simp_all
  have if_bind: "bind_prog (if P then a else b) k = (if P then bind_prog a k else bind_prog b k)"
    for P and a b :: "(('a, 'b, 'c, 'd) Conveyor, ConveyError, flow) prog"
    by simp
  show ?thesis
    unfolding go_tls_def go_tls_answer_def bind_prog_assoc if_bind
    by (intro avoids_bind [OF steady_sides(6)])
       (auto intro!: tail avoids_switch(1) avoids_bind [OF steady_through(2)] avoids_bind [OF steady_return]
          avoids_bind [OF steady_throw] assms)
qed

lemma avoids_go: "avoids (0, 0) (go env choices)"
proof -
  let ?k = "\<lambda>flow. case flow of Next st \<Rightarrow> go_loop env choices st | Stop \<Rightarrow> return ()"
  have k: "avoids K (?k f)" if "fst K \<noteq> 1" "snd K \<noteq> 1" for K f
    using that by (intro avoids_steady) (auto split: flow.split intro: steady_go_loop steady_return)
  show ?thesis
    unfolding go_def
    by (intro avoids_bind [OF steady_through(1)])
       (auto split: Initial.split intro!: avoids_bind [OF steady_return] avoids_go_tls k)
qed

lemma convey_never_disrupted:
  "fst (convey env choices front_stream back_stream) \<noteq> Throw (ConveyError.TlsError HandshakeDisrupted)"
proof -
  have "kinds (Conveyor_new front_stream back_stream :: ('a, 'b, 'c, 'd) Conveyor) = (0, 0)"
    by (simp add: kinds_def Conveyor_new_def)
  with avoids_go [of env choices] show ?thesis by (auto simp: avoids_def convey_def)
qed

section \<open>How a session opens\<close>

text \<open>
  The TLS negotiation between the initial TLS request and the initial message proper. The
  frontend is told yes and is switched to TLS in any case; the backend is switched to TLS
  exactly if it said yes. Only the one answer byte of the backend is consumed.
\<close>

definition negotiated ::
  "('fp, 'ft, 'bp, 'bt) ConveyEnv \<Rightarrow> (('fp, 'ft) StreamWrap \<Rightarrow> u8 list) \<Rightarrow> (('fp, 'ft) StreamWrap \<Rightarrow> u8 list)
    \<Rightarrow> (('bp, 'bt) StreamWrap \<Rightarrow> u8 list) \<Rightarrow> (('bp, 'bt) StreamWrap \<Rightarrow> u8 list)
    \<Rightarrow> ('fp, 'ft, 'bp, 'bt) Conveyor \<Rightarrow> ('fp, 'ft, 'bp, 'bt) Conveyor \<Rightarrow> bool" where
  "negotiated env fi fo bi bo c c' \<longleftrightarrow>
     (\<exists>p ft. frontend_tls_server env p = Return ft \<and> frontend c' = StreamWrap.Tls ft
        \<and> fi (StreamWrap.Plain p) = fi (frontend c)
        \<and> fo (StreamWrap.Plain p) = fo (frontend c) @ [TLS_SUPPORTED])
     \<and> (\<exists>q. bo (StreamWrap.Plain q) = bo (backend c)
          \<and> (bi (backend c) = TLS_NOT_SUPPORTED # bi (StreamWrap.Plain q) \<and> backend c' = StreamWrap.Plain q
             \<or> bi (backend c) = TLS_SUPPORTED # bi (StreamWrap.Plain q)
               \<and> (\<exists>bt. backend_tls_client env q = Return bt \<and> backend c' = StreamWrap.Tls bt)))
     \<and> conveyed c' = conveyed c"

primrec initial_flow :: "Initial \<Rightarrow> flow option" where
  "initial_flow (Initial.Startup s) = Some (Next State.GotStartup)"
| "initial_flow (Initial.Cancel c) = Some Stop"
| "initial_flow Initial.TLS = None"

abbreviation Initial_message :: "Initial \<Rightarrow> Message" where
  "Initial_message i \<equiv> Message.Frontend (FrontendMsg.Initial i)"

inductive opens for env fi fo bi bo where
  opens_plain:
    "conveys fi fo bi bo [(Initial_message i, w)] c c' \<Longrightarrow> initial_flow i = Some f
      \<Longrightarrow> opens env fi fo bi bo c f c'"
| opens_tls:
    "conveys fi fo bi bo [(Initial_message Initial.TLS, w)] c c1
      \<Longrightarrow> negotiated env fi fo bi bo c1 c2
      \<Longrightarrow> conveys fi fo bi bo [(Initial_message i, w')] c2 c' \<Longrightarrow> initial_flow i = Some f
      \<Longrightarrow> opens env fi fo bi bo c f c'"
| opens_refused:
    "conveys fi fo bi bo [(Initial_message Initial.TLS, w)] c c1
      \<Longrightarrow> conveys fi fo bi bo [(Message.Backend (BackendMsg.ErrorResponse e), w')] c1 c'
      \<Longrightarrow> opens env fi fo bi bo c Stop c'"

context conveyor_streams
begin

lemma relay_conveys:
  assumes "relay env side D c = (Return m, c')" and "TYPE_BYTE_OPT D = message_type m"
    and "message_side m = side" and "\<And>body. decode_whole D body = Inr m \<Longrightarrow> message_body m body"
  shows "\<exists>body. message_wire m (type_prefix D @ frame body)
    \<and> arriving side c = frame body @ arriving side c'
    \<and> arriving (other side) c' = arriving (other side) c
    \<and> delivered (other side) c' = delivered (other side) c @ type_prefix D @ frame body
    \<and> delivered side c' = delivered side c \<and> conveyed c' = conveyed c @ [m]"
proof -
  from relay_returns [OF assms(1)] obtain body where body: "4 + length body < 2 ^ 32" "decode_whole D body = Inr m"
    "arriving side c = frame body @ arriving side c'" "arriving (other side) c' = arriving (other side) c"
    "delivered (other side) c' = delivered (other side) c @ type_prefix D @ frame body"
    "delivered side c' = delivered side c" "conveyed c' = conveyed c @ [m]" .
  moreover have "message_wire m (type_prefix D @ frame body)"
    using assms(2) assms(4) [OF body(2)] body(1) by (auto simp: message_wire_def type_prefix_def)
  ultimately show ?thesis by blast
qed

lemma through_Return:
  "read_frontend_through env D V c = (Return x, c') \<Longrightarrow>
     relay env Side.Frontend (as_message (\<lambda>x. Message.Frontend (V x)) D) c = (Return (Message.Frontend (V x)), c')"
  "read_backend_through env D' W c = (Return y, c') \<Longrightarrow>
     relay env Side.Backend (as_message (\<lambda>x. Message.Backend (W x)) D') c = (Return (Message.Backend (W y)), c')"
proof -
  assume "read_frontend_through env D V c = (Return x, c')"
  then have "bind_prog (read_frontend_through env D V) (\<lambda>x. return (Message.Frontend (V x))) c
    = (Return (Message.Frontend (V x)), c')" by (simp add: bind_prog_def)
  then show "relay env Side.Frontend (as_message (\<lambda>x. Message.Frontend (V x)) D) c = (Return (Message.Frontend (V x)), c')"
    unfolding bind_through_relay(2) [where g = return, OF refl] by (simp add: exec_simps)
next
  assume "read_backend_through env D' W c = (Return y, c')"
  then have "bind_prog (read_backend_through env D' W) (\<lambda>x. return (Message.Backend (W x))) c
    = (Return (Message.Backend (W y)), c')" by (simp add: bind_prog_def)
  then show "relay env Side.Backend (as_message (\<lambda>x. Message.Backend (W x)) D') c = (Return (Message.Backend (W y)), c')"
    unfolding bind_through_relay(1) [where g = return, OF refl] by (simp add: exec_simps)
qed

lemma initial_conveys:
  assumes "read_frontend_through env Initial_msg FrontendMsg.Initial c = (Return i, c')"
  shows "\<exists>w. conveys fi fo bi bo [(Initial_message i, w)] c c'"
proof -
  from relay_conveys [OF through_Return(1) [OF assms]] obtain body where
    "message_wire (Initial_message i) (frame body)"
    "arriving Side.Frontend c = frame body @ arriving Side.Frontend c'"
    "arriving Side.Backend c' = arriving Side.Backend c"
    "delivered Side.Backend c' = delivered Side.Backend c @ frame body"
    "delivered Side.Frontend c' = delivered Side.Frontend c" "conveyed c' = conveyed c @ [Initial_message i]"
    by (auto simp: as_message_whole msg_defs whole_iffs type_prefix_def)
  then show ?thesis using conveys_Cons [OF _ _ _ _ _ _ _ conveys_Nil, of "Initial_message i" "frame body"]
    by fastforce
qed

end

lemma kinds_Plain:
  "kind_of_wrap w = 0 \<Longrightarrow> \<exists>p. w = StreamWrap.Plain p"
  by (cases w) simp_all

lemma switch_client_Return:
  assumes "switch_client_to_tls env c = (Return u, c')" and "backend c = StreamWrap.Plain q"
  shows "\<exists>t. backend_tls_client env q = Return t \<and> c' = c\<lparr>backend := StreamWrap.Tls t\<rparr>"
  using assms by (auto simp: switch_client_to_tls_def on_backend_def switch_to_tls_Plain split: outcome.splits)

lemma switch_server_Return:
  assumes "switch_server_to_tls env c = (Return u, c')" and "frontend c = StreamWrap.Plain p"
  shows "\<exists>t. frontend_tls_server env p = Return t \<and> c' = c\<lparr>frontend := StreamWrap.Tls t\<rparr>"
  using assms by (auto simp: switch_server_to_tls_def on_frontend_def switch_to_tls_Plain split: outcome.splits)

lemma write_frontend_backend: "write_frontend env bs c = (r, c') \<Longrightarrow> backend c' = backend c"
  by (auto simp: write_frontend_def on_frontend_def split: prod.splits)

lemma byte_backend_frontend: "byte_side env Side.Backend c = (r, c') \<Longrightarrow> frontend c' = frontend c"
  by (auto simp: byte_side_def on_backend_def split: prod.splits)

lemma initial_settles:
  "(case i of Initial.Startup s \<Rightarrow> return (Next State.GotStartup) | Initial.Cancel k \<Rightarrow> return Stop
     | _ \<Rightarrow> throw e) c = (Return f, c') \<longleftrightarrow> initial_flow i = Some f \<and> c' = c"
  by (cases i) auto

text \<open>An answer of the backend that lets the negotiation go on leaves its stream plain or
  upgrades it; then it is the frontend's turn.\<close>

lemma go_tls_answer_Return:
  assumes "go_tls_answer env b c = (Return f, c')" and "backend c = StreamWrap.Plain q"
  obtains (tls) c2 where "go_tls_frontend env c2 = (Return f, c')"
      "b = TLS_NOT_SUPPORTED \<and> c2 = c
       \<or> b = TLS_SUPPORTED \<and> (\<exists>t. backend_tls_client env q = Return t \<and> c2 = c\<lparr>backend := StreamWrap.Tls t\<rparr>)"
  | (error) e where "b = ErrorResponse_TYPE_BYTE" "f = Stop"
      "read_backend_through env ErrorResponse_msg BackendMsg.ErrorResponse c = (Return e, c')"
proof -
  have switched: thesis if "b = TLS_SUPPORTED" "switch_client_to_tls env c = (Return u, c2)"
    "go_tls_frontend env c2 = (Return f, c')" for u c2
    using tls [OF that(3)] switch_client_Return [OF that(2) assms(2)] that(1) by blast
  show thesis
    using assms(1) tls [of c] switched error
    by (auto simp: go_tls_answer_def exec_simps split: if_splits)
qed

context conveyor_streams
begin

lemma go_tls_frontend_Return:
  assumes "go_tls_frontend env c = (Return f, c')" and "kind_of_wrap (frontend c) = 0"
  shows "\<exists>p ft c1 i w. frontend_tls_server env p = Return ft
    \<and> fi (StreamWrap.Plain p) = fi (frontend c)
    \<and> fo (StreamWrap.Plain p) = fo (frontend c) @ [TLS_SUPPORTED]
    \<and> c1 = c\<lparr>frontend := StreamWrap.Tls ft\<rparr>
    \<and> conveys fi fo bi bo [(Initial_message i, w)] c1 c' \<and> initial_flow i = Some f"
proof -
  from assms(1) obtain c2 c1 i where
    wr: "write_frontend env [TLS_SUPPORTED] c = (Return (), c2)" and
    sw: "switch_server_to_tls env c2 = (Return (), c1)" and
    rd: "read_frontend_through env Initial_msg FrontendMsg.Initial c1 = (Return i, c')" and
    f: "initial_flow i = Some f"
    by (auto simp: go_tls_frontend_def exec_simps initial_settles)
  have wr': "write_side env Side.Frontend [TLS_SUPPORTED] c = (Return (), c2)"
    using wr by (simp add: write_side_def)
  have "kinds c2 = kinds c" using steady_sides(3) wr unfolding steady_def by blast
  with assms(2) obtain p where p: "frontend c2 = StreamWrap.Plain p"
    using kinds_Plain [of "frontend c2"] by (auto simp: kinds_def)
  have "fi (StreamWrap.Plain p) = fi (frontend c)" "fo (StreamWrap.Plain p) = fo (frontend c) @ [TLS_SUPPORTED]"
    using write_side_frame(1) [OF wr', of Side.Frontend] write_side_returns [OF wr'] p
    by (simp_all add: observe_def)
  moreover from switch_server_Return [OF sw p] obtain ft where "frontend_tls_server env p = Return ft"
    "c1 = c2\<lparr>frontend := StreamWrap.Tls ft\<rparr>" by blast
  moreover have "c2\<lparr>frontend := StreamWrap.Tls ft\<rparr> = c\<lparr>frontend := StreamWrap.Tls ft\<rparr>"
    using write_frontend_backend [OF wr] write_side_frame(4) [OF wr'] by simp
  ultimately show ?thesis using initial_conveys [OF rd] f by metis
qed

lemma error_conveys:
  assumes "read_backend_type_byte env c = (Return ErrorResponse_TYPE_BYTE, c1)"
    and "read_backend_through env ErrorResponse_msg BackendMsg.ErrorResponse c1 = (Return e, c')"
  shows "\<exists>w. conveys fi fo bi bo [(Message.Backend (BackendMsg.ErrorResponse e), w)] c c'"
proof -
  have byte: "byte_side env Side.Backend c = (Return ErrorResponse_TYPE_BYTE, c1)"
    using assms(1) by (simp add: byte_side_def read_backend_type_byte_def)
  let ?m = "Message.Backend (BackendMsg.ErrorResponse e)"
  from relay_conveys [OF through_Return(2) [OF assms(2)]] obtain body where
    "message_wire ?m (ErrorResponse_TYPE_BYTE # frame body)"
    "arriving Side.Backend c1 = frame body @ arriving Side.Backend c'"
    "arriving Side.Frontend c' = arriving Side.Frontend c1"
    "delivered Side.Frontend c' = delivered Side.Frontend c1 @ ErrorResponse_TYPE_BYTE # frame body"
    "delivered Side.Backend c' = delivered Side.Backend c1" "conveyed c' = conveyed c1 @ [?m]"
    by (auto simp: as_message_whole msg_defs whole_iffs type_prefix_def ErrorResponse_TYPE_BYTE_def)
  then show ?thesis
    using conveys_Cons [OF _ _ _ _ _ _ _ conveys_Nil, of ?m "ErrorResponse_TYPE_BYTE # frame body"]
      byte_side_returns [OF byte] byte_side_frame [OF byte] by fastforce
qed

lemma backend_answers:
  assumes "read_backend_type_byte env c = (Return b, c1)" and "kinds c = (0, 0)"
  obtains q where "backend c1 = StreamWrap.Plain q" "bi (backend c) = b # bi (StreamWrap.Plain q)"
    "bo (StreamWrap.Plain q) = bo (backend c)" "frontend c1 = frontend c" "conveyed c1 = conveyed c"
    "kind_of_wrap (frontend c1) = 0"
proof -
  have byte: "byte_side env Side.Backend c = (Return b, c1)"
    using assms(1) by (simp add: byte_side_def read_backend_type_byte_def)
  have kinds: "kinds c1 = (0, 0)" using steady_sides(6) assms unfolding steady_def by metis
  then obtain q where "backend c1 = StreamWrap.Plain q"
    using kinds_Plain [of "backend c1"] by (auto simp: kinds_def)
  with that [of q] show ?thesis
    using byte_side_returns [OF byte] byte_side_frame(1) [OF byte, of Side.Backend] byte_side_frame(4) [OF byte]
      byte_backend_frontend [OF byte] kinds by (simp add: observe_def kinds_def)
qed

lemma go_tls_Return:
  assumes "go_tls env c = (Return f, c')" and "kinds c = (0, 0)"
  shows "(\<exists>c1 i w. negotiated env fi fo bi bo c c1
      \<and> conveys fi fo bi bo [(Initial_message i, w)] c1 c' \<and> initial_flow i = Some f)
    \<or> f = Stop \<and> (\<exists>e w. conveys fi fo bi bo [(Message.Backend (BackendMsg.ErrorResponse e), w)] c c')"
proof -
  from assms(1) obtain b c1 where b: "read_backend_type_byte env c = (Return b, c1)"
    and go: "go_tls_answer env b c1 = (Return f, c')"
    unfolding go_tls_def bind_prog_Return by blast
  from backend_answers [OF b assms(2)] obtain q where q: "backend c1 = StreamWrap.Plain q"
    and c1: "bi (backend c) = b # bi (StreamWrap.Plain q)" "bo (StreamWrap.Plain q) = bo (backend c)"
      "frontend c1 = frontend c" "conveyed c1 = conveyed c" "kind_of_wrap (frontend c1) = 0" .
  from go q show ?thesis
  proof (cases rule: go_tls_answer_Return)
    case (tls c2)
    then have "frontend c2 = frontend c1" "conveyed c2 = conveyed c1" by auto
    with go_tls_frontend_Return [OF tls(1)] c1 obtain p ft i w where *: "frontend_tls_server env p = Return ft"
      "fi (StreamWrap.Plain p) = fi (frontend c)" "fo (StreamWrap.Plain p) = fo (frontend c) @ [TLS_SUPPORTED]"
      "conveys fi fo bi bo [(Initial_message i, w)] (c2\<lparr>frontend := StreamWrap.Tls ft\<rparr>) c'" "initial_flow i = Some f"
      by auto
    have "negotiated env fi fo bi bo c (c2\<lparr>frontend := StreamWrap.Tls ft\<rparr>)"
      unfolding negotiated_def using * c1 q tls(2) \<open>conveyed c2 = conveyed c1\<close>
      by (intro conjI exI [of _ p] exI [of _ q]) auto
    with * show ?thesis by blast
  next
    case (error e)
    with error_conveys [of c c1] b show ?thesis by blast
  qed
qed

text \<open>A session that ends well opened in one of the three ways, and the loop then carried
  out a session of the protocol.\<close>

lemma go_Return:
  assumes "go env choices c = (Return u, c')" and "kinds c = (0, 0)"
  shows "\<exists>f c1. opens env fi fo bi bo c f c1
    \<and> (case f of
         Stop \<Rightarrow> c' = c1
       | Next st \<Rightarrow> \<exists>tr. session st (map fst tr) Stop \<and> conveys fi fo bi bo tr c1 c')"
proof -
  let ?k = "\<lambda>flow. case flow of Next st \<Rightarrow> go_loop env choices st | Stop \<Rightarrow> return ()"
  have loop: "case f of Stop \<Rightarrow> c' = c1
      | Next st \<Rightarrow> \<exists>tr. session st (map fst tr) Stop \<and> conveys fi fo bi bo tr c1 c'"
    if "?k f c1 = (Return u, c')" for f c1
  proof (cases f)
    case (Next st)
    with that have "go_loop env choices st c1 = (Return u, c')" by simp
    from go_loop_conveys [OF this] obtain tr g c2 where "session st (map fst tr) g"
      "conveys fi fo bi bo tr c1 c2"
      "case g of Stop \<Rightarrow> Return u = (Return () :: (ConveyError, unit) outcome) \<and> c' = c2
       | Next st' \<Rightarrow> Return u \<noteq> (Return () :: (ConveyError, unit) outcome) \<and> breaks fi fo bi bo st' c2 c'" by blast
    with Next show ?thesis by (cases g) auto
  qed (use that in simp)
  from assms(1) obtain i c1 f c2 where
    i: "read_frontend_through env Initial_msg FrontendMsg.Initial c = (Return i, c1)" and
    f: "(case i of Initial.Startup _ \<Rightarrow> return (Next State.GotStartup) | Initial.Cancel _ \<Rightarrow> return Stop
         | Initial.TLS \<Rightarrow> go_tls env) c1 = (Return f, c2)" and k: "?k f c2 = (Return u, c')"
    unfolding go_def bind_prog_Return by blast
  from initial_conveys [OF i] obtain w where w: "conveys fi fo bi bo [(Initial_message i, w)] c c1" by blast
  have "opens env fi fo bi bo c f c2"
  proof (cases "i = Initial.TLS")
    case True
    have "kinds c1 = (0, 0)" using steady_through(1) i assms(2) unfolding steady_def by metis
    with True f go_tls_Return [of c1 f c2] w show ?thesis
      by (auto intro: opens_tls opens_refused)
  next
    case False
    with f have "initial_flow i = Some f" "c2 = c1" by (auto split: Initial.split_asm)
    with w show ?thesis by (auto intro: opens_plain)
  qed
  with loop [OF k] show ?thesis by blast
qed

end

section \<open>Errors of the negotiation\<close>

lemma switch_no_throw:
  "backend c = StreamWrap.Plain q \<Longrightarrow> fst (switch_client_to_tls env c) \<noteq> Throw e"
  "frontend c = StreamWrap.Plain p \<Longrightarrow> fst (switch_server_to_tls env c) \<noteq> Throw e"
  by (auto simp: switch_client_to_tls_def switch_server_to_tls_def on_backend_def on_frontend_def
        switch_to_tls_Plain split: outcome.splits)

lemma bind_prog_Throw:
  "bind_prog m k s = (Throw e, s'') \<longleftrightarrow>
     m s = (Throw e, s'') \<or> (\<exists>x s'. m s = (Return x, s') \<and> k x s' = (Throw e, s''))"
  by (auto simp: bind_prog_def split: outcome.splits prod.splits)

lemma steady_no_tls_error:
  assumes "steady m" and "fst (kinds c) \<noteq> 1" and "snd (kinds c) \<noteq> 1"
  shows "m c \<noteq> (Throw (ConveyError.TlsError t), c')"
  using assms unfolding steady_def live_kinds by blast

lemma steady_kinds: "steady m \<Longrightarrow> m c = (r, c') \<Longrightarrow> kinds c' = kinds c"
  unfolding steady_def by blast

lemma steady_then_tls_error:
  assumes "bind_prog m k c = (Throw (ConveyError.TlsError t), c')" and "steady m"
    and "fst (kinds c) \<noteq> 1" and "snd (kinds c) \<noteq> 1"
  obtains x c1 where "m c = (Return x, c1)" "k x c1 = (Throw (ConveyError.TlsError t), c')" "kinds c1 = kinds c"
  using assms(1) steady_no_tls_error [OF assms(2-4)] steady_kinds [OF assms(2)] that
  unfolding bind_prog_Throw by blast

lemma initial_throws:
  "(case i of Initial.Startup s \<Rightarrow> return (Next State.GotStartup) | Initial.Cancel k \<Rightarrow> return Stop
     | _ \<Rightarrow> throw e) c = (Throw e', c') \<longleftrightarrow> i = Initial.TLS \<and> e' = e \<and> c' = c"
  by (cases i) auto

lemma go_tls_frontend_live:
  assumes "go_tls_frontend env c = (Return f, c')" and "fst (kinds c) = 0" and "snd (kinds c) \<noteq> 1"
  shows "fst (kinds c') \<noteq> 1 \<and> snd (kinds c') \<noteq> 1"
proof -
  from assms(1) obtain c1 c2 i where
    wr: "write_frontend env [TLS_SUPPORTED] c = (Return (), c1)" and
    sw: "switch_server_to_tls env c1 = (Return (), c2)" and
    rd: "read_frontend_through env Initial_msg FrontendMsg.Initial c2 = (Return i, c')"
    by (auto simp: go_tls_frontend_def exec_simps initial_settles)
  from steady_kinds [OF steady_sides(3) wr] assms(2) obtain p where p: "frontend c1 = StreamWrap.Plain p"
    using kinds_Plain [of "frontend c1"] by (auto simp: kinds_def)
  from switch_server_Return [OF sw p] steady_kinds [OF steady_sides(3) wr] steady_kinds [OF steady_through(1) rd] assms(3)
  show ?thesis by (auto simp: kinds_def)
qed

lemma go_tls_live:
  assumes "go_tls env c = (Return f, c')" and "kinds c = (0, 0)"
  shows "fst (kinds c') \<noteq> 1 \<and> snd (kinds c') \<noteq> 1"
proof -
  from assms(1) obtain b c1 where b: "read_backend_type_byte env c = (Return b, c1)"
    and go: "go_tls_answer env b c1 = (Return f, c')"
    unfolding go_tls_def bind_prog_Return by blast
  have k: "kinds c1 = (0, 0)" using steady_kinds [OF steady_sides(6) b] assms(2) by simp
  then obtain q where q: "backend c1 = StreamWrap.Plain q"
    using kinds_Plain [of "backend c1"] by (auto simp: kinds_def)
  from go q show ?thesis
  proof (cases rule: go_tls_answer_Return)
    case (tls c2)
    with go_tls_frontend_live [OF tls(1)] k show ?thesis by (auto simp: kinds_def)
  next
    case (error e)
    with steady_kinds [OF steady_through(2) error(3)] k show ?thesis by simp
  qed
qed

context conveyor_streams
begin

text \<open>The one TLS error is the second TLS request; it has been relayed by then.\<close>

lemma go_tls_frontend_error:
  assumes "go_tls_frontend env c = (Throw (ConveyError.TlsError t), c')"
    and "kind_of_wrap (frontend c) = 0" and "kind_of_wrap (backend c) \<noteq> 1"
  shows "t = TlsRequestedInsideTls \<and> conveyed c' = conveyed c @ [Initial_message Initial.TLS]"
proof -
  have k: "fst (kinds c) \<noteq> 1" "snd (kinds c) \<noteq> 1" using assms(2,3) by (simp_all add: kinds_def)
  from steady_then_tls_error [OF assms(1) [unfolded go_tls_frontend_def] steady_sides(3) k] obtain u c1 where
    wr: "write_frontend env [TLS_SUPPORTED] c = (Return u, c1)" and
    sw': "bind_prog (switch_server_to_tls env) (\<lambda>_.
       bind_prog (read_frontend_through env Initial_msg FrontendMsg.Initial) (\<lambda>i.
       case i of Initial.Startup _ \<Rightarrow> return (Next State.GotStartup) | Initial.Cancel _ \<Rightarrow> return Stop
       | _ \<Rightarrow> throw (ConveyError.TlsError TlsRequestedInsideTls))) c1 = (Throw (ConveyError.TlsError t), c')"
    and "kinds c1 = kinds c" .
  with assms(2,3) have k1: "kind_of_wrap (frontend c1) = 0" "kind_of_wrap (backend c1) \<noteq> 1"
    by (simp_all add: kinds_def)
  from kinds_Plain [OF k1(1)] obtain p where p: "frontend c1 = StreamWrap.Plain p" by blast
  from sw' switch_no_throw(2) [OF p, of env] obtain c2 where
    sw: "switch_server_to_tls env c1 = (Return (), c2)" and
    rd': "bind_prog (read_frontend_through env Initial_msg FrontendMsg.Initial) (\<lambda>i.
       case i of Initial.Startup _ \<Rightarrow> return (Next State.GotStartup) | Initial.Cancel _ \<Rightarrow> return Stop
       | _ \<Rightarrow> throw (ConveyError.TlsError TlsRequestedInsideTls)) c2 = (Throw (ConveyError.TlsError t), c')"
    unfolding bind_prog_Throw [of "switch_server_to_tls env"] by (auto simp: prod_eq_iff)
  from switch_server_Return [OF sw p] k1(2) have "fst (kinds c2) \<noteq> 1" "snd (kinds c2) \<noteq> 1"
    and same: "conveyed c2 = conveyed c1" by (auto simp: kinds_def)
  from steady_then_tls_error [OF rd' steady_through(1) this(1,2)] obtain i c3 where
    rd: "read_frontend_through env Initial_msg FrontendMsg.Initial c2 = (Return i, c3)" and
    i: "i = Initial.TLS" "t = TlsRequestedInsideTls" "c' = c3"
    unfolding initial_throws by blast
  have "conveyed c1 = conveyed c"
    using write_side_frame(4) [of Side.Frontend "[TLS_SUPPORTED]" c "Return u" c1] wr by (simp add: write_side_def)
  with initial_conveys [OF rd] same i show ?thesis by (auto simp: conveys_def)
qed

lemma go_tls_error:
  assumes "go_tls env c = (Throw (ConveyError.TlsError t), c')" and "kinds c = (0, 0)"
  shows "t = TlsRequestedInsideTls \<and> conveyed c' = conveyed c @ [Initial_message Initial.TLS]"
proof -
  from steady_then_tls_error [OF assms(1) [unfolded go_tls_def] steady_sides(6)] assms(2) obtain b c1 where
    b: "read_backend_type_byte env c = (Return b, c1)" and
    go: "go_tls_answer env b c1 = (Throw (ConveyError.TlsError t), c')"
    by (metis fst_conv snd_conv zero_neq_one)
  from backend_answers [OF b assms(2)] obtain q where q: "backend c1 = StreamWrap.Plain q"
    and c1: "conveyed c1 = conveyed c" "kind_of_wrap (frontend c1) = 0" by blast
  have "\<not> bind_prog (read_backend_through env ErrorResponse_msg BackendMsg.ErrorResponse) (\<lambda>_. return Stop) c1
      = (Throw (ConveyError.TlsError t), c')"
    by (rule steady_no_tls_error [OF steady_bind [OF steady_through(2) steady_return]])
       (simp_all add: kinds_def c1 q)
  with go consider (no) "go_tls_frontend env c1 = (Throw (ConveyError.TlsError t), c')"
    | (yes) "bind_prog (switch_client_to_tls env) (\<lambda>_. go_tls_frontend env) c1 = (Throw (ConveyError.TlsError t), c')"
    by (auto simp: go_tls_answer_def split: if_splits)
  then show ?thesis
  proof cases
    case no
    from go_tls_frontend_error [OF this] c1 q show ?thesis by simp
  next
    case yes
    with switch_no_throw(1) [OF q, of env] obtain c2 where sw: "switch_client_to_tls env c1 = (Return (), c2)"
      and fe: "go_tls_frontend env c2 = (Throw (ConveyError.TlsError t), c')"
      unfolding bind_prog_Throw by (auto simp: prod_eq_iff)
    from switch_client_Return [OF sw q] c1 go_tls_frontend_error [OF fe] show ?thesis by auto
  qed
qed

lemma go_tls_errors:
  assumes "go env choices c = (Throw (ConveyError.TlsError t), c')" and "kinds c = (0, 0)"
  shows "t = TlsRequestedInsideTls
    \<and> conveyed c' = conveyed c @ [Initial_message Initial.TLS, Initial_message Initial.TLS]"
proof -
  let ?k = "\<lambda>flow. case flow of Next st \<Rightarrow> go_loop env choices st | Stop \<Rightarrow> return ()"
  have k: "steady (?k f)" for f by (auto split: flow.split intro: steady_go_loop steady_return)
  have k0: "fst (kinds c) \<noteq> 1" "snd (kinds c) \<noteq> 1" using assms(2) by simp_all
  from steady_then_tls_error [OF assms(1) [unfolded go_def] steady_through(1) k0] obtain i c1 where
    i: "read_frontend_through env Initial_msg FrontendMsg.Initial c = (Return i, c1)" and
    f: "bind_prog (case i of Initial.Startup _ \<Rightarrow> return (Next State.GotStartup) | Initial.Cancel _ \<Rightarrow> return Stop
         | Initial.TLS \<Rightarrow> go_tls env) ?k c1 = (Throw (ConveyError.TlsError t), c')" and
    "kinds c1 = kinds c" .
  with assms(2) have k1: "kinds c1 = (0, 0)" by simp
  have loop: "?k g c2 \<noteq> (Throw (ConveyError.TlsError t), c')" if "fst (kinds c2) \<noteq> 1" "snd (kinds c2) \<noteq> 1" for g c2
    using steady_no_tls_error [OF k that] .
  show ?thesis
  proof (cases "i = Initial.TLS")
    case False
    with f have "go_loop env choices State.GotStartup c1 = (Throw (ConveyError.TlsError t), c')"
      by (auto simp: bind_prog_Throw split: Initial.split_asm)
    with loop [of c1 "Next State.GotStartup"] k1 show ?thesis by simp
  next
    case True
    have "\<not> (go_tls env c1 = (Return g, c2) \<and> ?k g c2 = (Throw (ConveyError.TlsError t), c'))" for g c2
      using go_tls_live [of env c1 g c2] k1 loop [of c2 g] by blast
    with True f have "go_tls env c1 = (Throw (ConveyError.TlsError t), c')"
      by (auto simp: bind_prog_Throw)
    from go_tls_error [OF this k1] initial_conveys [OF i] True show ?thesis
      by (auto simp: conveys_def)
  qed
qed

end

section \<open>A failed handshake\<close>

context conveyor_reliable
begin

lemma initial_ok:
  assumes "live c" and "arriving Side.Frontend c = frame (Initial_wire i) @ r" and "Initial_valid i"
    and "4 + length (Initial_wire i) < 2 ^ 32 - 1"
  shows "\<exists>c'. read_frontend_through env Initial_msg FrontendMsg.Initial c = (Return i, c')"
proof -
  let ?D = "as_message (\<lambda>x. Initial_message x) Initial_msg"
  have "decode_whole ?D (Initial_wire i) = Inr (Initial_message i)"
    using assms(3) by (auto simp: as_message_whole msg_defs whole_iffs)
  from relay_ok [OF assms(1,2,4) this] obtain c' where
    "relay env Side.Frontend ?D c = (Return (Initial_message i), c')" by blast
  then have "bind_prog (relay env Side.Frontend ?D) return c = (Return (Initial_message i), c')"
    by (simp add: bind_prog_def)
  then show ?thesis
    unfolding bind_through_relay(2) [where g = return, OF refl, symmetric] by (auto simp: exec_simps)
qed

text \<open>When the backend agrees to TLS and the handshake with it fails, the task panics.\<close>

lemma connect_failure:
  assumes "kinds c = (0, 0)" and "arriving Side.Frontend c = frame (Initial_wire Initial.TLS) @ r"
    and "arriving Side.Backend c = TLS_SUPPORTED # r'" and "\<And>q. backend_tls_client env q = Throw e"
  shows "\<exists>c'. go env choices c = (Panic (unwrap_panic e), c')"
proof -
  have "live c" using assms(1) by (simp add: live_kinds)
  from initial_ok [OF this assms(2)] obtain c1 where
    i: "read_frontend_through env Initial_msg FrontendMsg.Initial c = (Return Initial.TLS, c1)"
    by (auto simp: Version_wire_def)
  have k1: "kinds c1 = (0, 0)" using steady_kinds [OF steady_through(1) i] assms(1) by simp
  from initial_conveys [OF i] assms(3) have "arriving Side.Backend c1 = TLS_SUPPORTED # r'"
    by (auto simp: conveys_def)
  from byte_side_ok [OF _ this] k1 obtain c2 where
    b: "read_backend_type_byte env c1 = (Return TLS_SUPPORTED, c2)"
    by (auto simp: live_kinds byte_side_def read_backend_type_byte_def)
  then obtain q where "backend c2 = StreamWrap.Plain q"
    using kinds_Plain [of "backend c2"] steady_kinds [OF steady_sides(6) b] k1 by (auto simp: kinds_def)
  with assms(4) have "fst (switch_client_to_tls env c2) = Panic (unwrap_panic e)"
    by (simp add: switch_client_to_tls_def on_backend_def switch_to_tls_Plain)
  then obtain c3 where "switch_client_to_tls env c2 = (Panic (unwrap_panic e), c3)"
    by (metis prod.collapse)
  with i b show ?thesis by (simp add: go_def go_tls_def go_tls_answer_def bind_prog_def)
qed

end

end
