(* ===== verification/Convey_Util.thy ===== *)
theory Convey_Util
  imports Convey
begin

text \<open>
  Owned copies of the messages a callback is given, \<open>src/src/convey/util.rs\<close>. A reference
  and the value it points to are the same in the model, and \<open>clone\<close> is the identity on
  values; what \<open>make\<close> has to get right is the correspondence of the constructors.
\<close>

datatype BackendMsgClone =
    Authentication Authentication
  | BackendKeyData BackendKeyData
  | BindComplete BindComplete
  | CommandComplete CommandComplete
  | DataRow DataRow
  | EmptyQueryResponse EmptyQueryResponse
  | ErrorResponse ErrorResponse
  | NegotiateProtocolVersion NegotiateProtocolVersion
  | NoticeResponse NoticeResponse
  | ParameterStatus ParameterStatus
  | ParseComplete ParseComplete
  | PortalSuspended PortalSuspended
  | ReadyForQuery ReadyForQuery
  | RowDescription RowDescription

datatype FrontendMsgClone =
    Bind Bind
  | Execute Execute
  | GssResponse GssResponse
  | Initial Initial
  | Parse Parse
  | Password Password
  | Query Query
  | SaslInitialResponse SaslInitialResponse
  | SaslResponse SaslResponse
  | Sync Sync
  | Terminate Terminate

datatype MessageClone = Backend BackendMsgClone | Frontend FrontendMsgClone

primrec BackendMsgClone_make :: "BackendMsg \<Rightarrow> BackendMsgClone" where
  "BackendMsgClone_make (BackendMsg.Authentication refer) = BackendMsgClone.Authentication refer"
| "BackendMsgClone_make (BackendMsg.BackendKeyData refer) = BackendMsgClone.BackendKeyData refer"
| "BackendMsgClone_make (BackendMsg.BindComplete refer) = BackendMsgClone.BindComplete refer"
| "BackendMsgClone_make (BackendMsg.CommandComplete refer) = BackendMsgClone.CommandComplete refer"
| "BackendMsgClone_make (BackendMsg.DataRow refer) = BackendMsgClone.DataRow refer"
| "BackendMsgClone_make (BackendMsg.EmptyQueryResponse refer) = BackendMsgClone.EmptyQueryResponse refer"
| "BackendMsgClone_make (BackendMsg.ErrorResponse refer) = BackendMsgClone.ErrorResponse refer"
| "BackendMsgClone_make (BackendMsg.NegotiateProtocolVersion refer) = BackendMsgClone.NegotiateProtocolVersion refer"
| "BackendMsgClone_make (BackendMsg.NoticeResponse refer) = BackendMsgClone.NoticeResponse refer"
| "BackendMsgClone_make (BackendMsg.ParameterStatus refer) = BackendMsgClone.ParameterStatus refer"
| "BackendMsgClone_make (BackendMsg.ParseComplete refer) = BackendMsgClone.ParseComplete refer"
| "BackendMsgClone_make (BackendMsg.PortalSuspended refer) = BackendMsgClone.PortalSuspended refer"
| "BackendMsgClone_make (BackendMsg.ReadyForQuery refer) = BackendMsgClone.ReadyForQuery refer"
| "BackendMsgClone_make (BackendMsg.RowDescription refer) = BackendMsgClone.RowDescription refer"

primrec FrontendMsgClone_make :: "FrontendMsg \<Rightarrow> FrontendMsgClone" where
  "FrontendMsgClone_make (FrontendMsg.Bind refer) = FrontendMsgClone.Bind refer"
| "FrontendMsgClone_make (FrontendMsg.Execute refer) = FrontendMsgClone.Execute refer"
| "FrontendMsgClone_make (FrontendMsg.GssResponse refer) = FrontendMsgClone.GssResponse refer"
| "FrontendMsgClone_make (FrontendMsg.Initial refer) = FrontendMsgClone.Initial refer"
| "FrontendMsgClone_make (FrontendMsg.Parse refer) = FrontendMsgClone.Parse refer"
| "FrontendMsgClone_make (FrontendMsg.Password refer) = FrontendMsgClone.Password refer"
| "FrontendMsgClone_make (FrontendMsg.Query refer) = FrontendMsgClone.Query refer"
| "FrontendMsgClone_make (FrontendMsg.SaslInitialResponse refer) = FrontendMsgClone.SaslInitialResponse refer"
| "FrontendMsgClone_make (FrontendMsg.SaslResponse refer) = FrontendMsgClone.SaslResponse refer"
| "FrontendMsgClone_make (FrontendMsg.Sync refer) = FrontendMsgClone.Sync refer"
| "FrontendMsgClone_make (FrontendMsg.Terminate refer) = FrontendMsgClone.Terminate refer"

primrec MessageClone_make :: "Message \<Rightarrow> MessageClone" where
  "MessageClone_make (Message.Backend refer) = MessageClone.Backend (BackendMsgClone_make refer)"
| "MessageClone_make (Message.Frontend refer) = MessageClone.Frontend (FrontendMsgClone_make refer)"

text \<open>The message a copy stands for.\<close>

primrec BackendMsgClone_ref :: "BackendMsgClone \<Rightarrow> BackendMsg" where
  "BackendMsgClone_ref (BackendMsgClone.Authentication x) = BackendMsg.Authentication x"
| "BackendMsgClone_ref (BackendMsgClone.BackendKeyData x) = BackendMsg.BackendKeyData x"
| "BackendMsgClone_ref (BackendMsgClone.BindComplete x) = BackendMsg.BindComplete x"
| "BackendMsgClone_ref (BackendMsgClone.CommandComplete x) = BackendMsg.CommandComplete x"
| "BackendMsgClone_ref (BackendMsgClone.DataRow x) = BackendMsg.DataRow x"
| "BackendMsgClone_ref (BackendMsgClone.EmptyQueryResponse x) = BackendMsg.EmptyQueryResponse x"
| "BackendMsgClone_ref (BackendMsgClone.ErrorResponse x) = BackendMsg.ErrorResponse x"
| "BackendMsgClone_ref (BackendMsgClone.NegotiateProtocolVersion x) = BackendMsg.NegotiateProtocolVersion x"
| "BackendMsgClone_ref (BackendMsgClone.NoticeResponse x) = BackendMsg.NoticeResponse x"
| "BackendMsgClone_ref (BackendMsgClone.ParameterStatus x) = BackendMsg.ParameterStatus x"
| "BackendMsgClone_ref (BackendMsgClone.ParseComplete x) = BackendMsg.ParseComplete x"
| "BackendMsgClone_ref (BackendMsgClone.PortalSuspended x) = BackendMsg.PortalSuspended x"
| "BackendMsgClone_ref (BackendMsgClone.ReadyForQuery x) = BackendMsg.ReadyForQuery x"
| "BackendMsgClone_ref (BackendMsgClone.RowDescription x) = BackendMsg.RowDescription x"

primrec FrontendMsgClone_ref :: "FrontendMsgClone \<Rightarrow> FrontendMsg" where
  "FrontendMsgClone_ref (FrontendMsgClone.Bind x) = FrontendMsg.Bind x"
| "FrontendMsgClone_ref (FrontendMsgClone.Execute x) = FrontendMsg.Execute x"
| "FrontendMsgClone_ref (FrontendMsgClone.GssResponse x) = FrontendMsg.GssResponse x"
| "FrontendMsgClone_ref (FrontendMsgClone.Initial x) = FrontendMsg.Initial x"
| "FrontendMsgClone_ref (FrontendMsgClone.Parse x) = FrontendMsg.Parse x"
| "FrontendMsgClone_ref (FrontendMsgClone.Password x) = FrontendMsg.Password x"
| "FrontendMsgClone_ref (FrontendMsgClone.Query x) = FrontendMsg.Query x"
| "FrontendMsgClone_ref (FrontendMsgClone.SaslInitialResponse x) = FrontendMsg.SaslInitialResponse x"
| "FrontendMsgClone_ref (FrontendMsgClone.SaslResponse x) = FrontendMsg.SaslResponse x"
| "FrontendMsgClone_ref (FrontendMsgClone.Sync x) = FrontendMsg.Sync x"
| "FrontendMsgClone_ref (FrontendMsgClone.Terminate x) = FrontendMsg.Terminate x"

primrec MessageClone_ref :: "MessageClone \<Rightarrow> Message" where
  "MessageClone_ref (MessageClone.Backend x) = Message.Backend (BackendMsgClone_ref x)"
| "MessageClone_ref (MessageClone.Frontend x) = Message.Frontend (FrontendMsgClone_ref x)"

lemma BackendMsgClone_ref_make: "BackendMsgClone_ref (BackendMsgClone_make m) = m"
  by (cases m) simp_all

lemma FrontendMsgClone_ref_make: "FrontendMsgClone_ref (FrontendMsgClone_make m) = m"
  by (cases m) simp_all

lemma BackendMsgClone_make_ref: "BackendMsgClone_make (BackendMsgClone_ref m) = m"
  by (cases m) simp_all

lemma FrontendMsgClone_make_ref: "FrontendMsgClone_make (FrontendMsgClone_ref m) = m"
  by (cases m) simp_all

lemmas clone_inverses =
  BackendMsgClone_ref_make FrontendMsgClone_ref_make BackendMsgClone_make_ref FrontendMsgClone_make_ref

end
