(* ===== verification/Tls_Native.thy ===== *)
theory Tls_Native
  imports Convey
begin

text \<open>
  The TLS interface of \<open>src/src/tls/interface.rs\<close> and its implementation by the native TLS
  library in \<open>src/src/tls/native.rs\<close>. The library itself is foreign code: a record of the
  operations the program calls is an argument.
\<close>

section \<open>The interface\<close>

text \<open>A \<open>TlsProvider\<close> has a stream type \<open>'tls\<close> and an error type \<open>'err\<close>; a client connects over a
  plain stream, a server accepts over one.\<close>

record ('plain, 'tls, 'err) TlsClient =
  connect :: "'plain \<Rightarrow> ('err, 'tls) outcome"

record ('plain, 'tls, 'err) TlsServer =
  accept :: "'plain \<Rightarrow> ('err, 'tls) outcome"

section \<open>The native TLS library\<close>

text \<open>
  What the program calls of \<open>native_tls\<close> and \<open>async_native_tls\<close>: building a connector and its
  option for certificates, building an acceptor from a PKCS #12 identity, the two handshakes,
  and the two renderings of errors (\<open>to_string\<close> and \<open>Debug\<close>).
\<close>

record ('plain, 'tls, 'err, 'ident, 'impl, 'acceptor, 'connector) NativeTls =
  TlsConnector_new :: 'connector
  danger_accept_invalid_certs :: "'connector \<Rightarrow> bool \<Rightarrow> 'connector"
  TlsConnector_connect :: "'connector \<Rightarrow> string \<Rightarrow> 'plain \<Rightarrow> ('err, 'tls) outcome"
  Identity_from_pkcs12 :: "u8 list \<Rightarrow> string \<Rightarrow> 'err + 'ident"
  TlsAcceptorImpl_new :: "'ident \<Rightarrow> 'err + 'impl"
  TlsAcceptor_from :: "'impl \<Rightarrow> 'acceptor"
  TlsAcceptor_accept :: "'acceptor \<Rightarrow> 'plain \<Rightarrow> ('err, 'tls) outcome"
  tls_error_text :: "'err \<Rightarrow> string"
  tls_error_debug :: "'err \<Rightarrow> string"

record 'connector NativeTlsClient =
  connector :: 'connector
  hostname :: string

datatype 'acceptor NativeTlsServer = NativeTlsServer 'acceptor

definition NativeTlsClient_connect ::
  "('plain, 'tls, 'err, 'ident, 'impl, 'acceptor, 'connector) NativeTls
    \<Rightarrow> 'connector NativeTlsClient \<Rightarrow> ('plain, 'tls, 'err) TlsClient" where
  "NativeTlsClient_connect lib self =
     \<lparr>connect = (\<lambda>plain. TlsConnector_connect lib (connector self) (hostname self) plain)\<rparr>"

primrec NativeTlsServer_accept ::
  "('plain, 'tls, 'err, 'ident, 'impl, 'acceptor, 'connector) NativeTls
    \<Rightarrow> 'acceptor NativeTlsServer \<Rightarrow> ('plain, 'tls, 'err) TlsServer" where
  "NativeTlsServer_accept lib (NativeTlsServer acceptor) =
     \<lparr>accept = (\<lambda>plain. TlsAcceptor_accept lib acceptor plain)\<rparr>"

end
