(* ===== verification/Ip_Addr.thy ===== *)
theory Ip_Addr
  imports Prelude
begin

text \<open>
  IP addresses and their textual form as the standard library has them: \<open>IpAddr\<close>,
  \<open>SocketAddr\<close> and \<open><IpAddr as FromStr>::from_str\<close>, which \<open>src/src/server.rs\<close> applies to the
  configured target host. A parser takes the text and gives its result with the rest of the
  text; on failure the text is as it was.
\<close>

section \<open>Addresses\<close>

datatype IpAddr = V4 u8 u8 u8 u8 | V6 "u16 list"

record SocketAddr =
  ip :: IpAddr
  port :: u16

section \<open>Parsing\<close>

type_synonym 'a parser = "string \<Rightarrow> ('a \<times> string) option"

definition to_digit :: "nat \<Rightarrow> char \<Rightarrow> nat option" where
  "to_digit radix c =
     (let n = of_char c;
          d = (if 48 \<le> n \<and> n \<le> 57 then n - 48
               else if 97 \<le> n \<and> n \<le> 122 then n - 87
               else if 65 \<le> n \<and> n \<le> 90 then n - 55
               else radix)
      in if d < radix then Some d else None)"

text \<open>The digits of a number below \<open>bound\<close>: a number that is too large or has more than
  \<open>max_digits\<close> digits is a failure, not the end of the number.\<close>

fun read_digits :: "nat \<Rightarrow> nat \<Rightarrow> nat \<Rightarrow> nat \<Rightarrow> nat \<Rightarrow> string \<Rightarrow> (nat \<times> nat \<times> string) option" where
  "read_digits radix bound max_digits result digit_count [] = Some (result, digit_count, [])"
| "read_digits radix bound max_digits result digit_count (c # cs) =
     (case to_digit radix c of
        None \<Rightarrow> Some (result, digit_count, c # cs)
      | Some digit \<Rightarrow>
          if bound \<le> result * radix + digit then None
          else if max_digits < Suc digit_count then None
          else read_digits radix bound max_digits (result * radix + digit) (Suc digit_count) cs)"

definition read_number :: "nat \<Rightarrow> nat \<Rightarrow> nat \<Rightarrow> bool \<Rightarrow> nat parser" where
  "read_number radix bound max_digits allow_zero_prefix cs =
     (case read_digits radix bound max_digits 0 0 cs of
        None \<Rightarrow> None
      | Some (result, digit_count, cs') \<Rightarrow>
          if digit_count = 0 then None
          else if \<not> allow_zero_prefix \<and> hd cs = CHR ''0'' \<and> 1 < digit_count then None
          else Some (result, cs'))"

fun read_given_char :: "char \<Rightarrow> unit parser" where
  "read_given_char c [] = None"
| "read_given_char c (d # cs) = (if c = d then Some ((), cs) else None)"

definition read_separator :: "char \<Rightarrow> nat \<Rightarrow> 'a parser \<Rightarrow> 'a parser" where
  "read_separator sep index inner cs =
     (if 0 < index then
        (case read_given_char sep cs of None \<Rightarrow> None | Some (_, cs') \<Rightarrow> inner cs')
      else inner cs)"

fun read_octets :: "nat \<Rightarrow> nat \<Rightarrow> u8 list parser" where
  "read_octets i 0 cs = Some ([], cs)"
| "read_octets i (Suc n) cs =
     (case read_separator CHR ''.'' i (read_number 10 256 3 False) cs of
        None \<Rightarrow> None
      | Some (x, cs') \<Rightarrow>
          (case read_octets (Suc i) n cs' of
             None \<Rightarrow> None
           | Some (xs, cs'') \<Rightarrow> Some (word_of_nat x # xs, cs'')))"

definition read_ipv4_addr :: "u8 list parser" where
  "read_ipv4_addr = read_octets 0 4"

text \<open>\<open>read_groups\<close> fills up to \<open>n\<close> further groups from index \<open>i\<close> on; with at least two left it
  tries an embedded IPv4 address first, which ends the groups.\<close>

fun read_groups :: "nat \<Rightarrow> nat \<Rightarrow> string \<Rightarrow> u16 list \<times> bool \<times> string" where
  "read_groups i 0 cs = ([], False, cs)"
| "read_groups i (Suc n) cs =
     (case (if 0 < n then read_separator CHR '':'' i read_ipv4_addr cs else None) of
        Some (xs, cs') \<Rightarrow>
          ([u16_from_be_bytes (xs ! 0) (xs ! 1), u16_from_be_bytes (xs ! 2) (xs ! 3)], True, cs')
      | None \<Rightarrow>
          (case read_separator CHR '':'' i (read_number 16 65536 4 True) cs of
             None \<Rightarrow> ([], False, cs)
           | Some (g, cs') \<Rightarrow>
               (case read_groups (Suc i) n cs' of (gs, b, cs'') \<Rightarrow> (word_of_nat g # gs, b, cs''))))"

definition read_ipv6_addr :: "u16 list parser" where
  "read_ipv6_addr cs =
     (case read_groups 0 8 cs of
        (front, front_ipv4, cs1) \<Rightarrow>
          if length front = 8 then Some (front, cs1)
          else if front_ipv4 then None
          else
            (case read_given_char CHR '':'' cs1 of None \<Rightarrow> None | Some (_, cs2) \<Rightarrow>
            (case read_given_char CHR '':'' cs2 of None \<Rightarrow> None | Some (_, cs3) \<Rightarrow>
            (case read_groups 0 (8 - (length front + 1)) cs3 of
               (rear, _, cs4) \<Rightarrow>
                 Some (front @ replicate (8 - length front - length rear) 0 @ rear, cs4)))))"

definition read_ip_addr :: "IpAddr parser" where
  "read_ip_addr cs =
     (case read_ipv4_addr cs of
        Some (xs, cs') \<Rightarrow> Some (V4 (xs ! 0) (xs ! 1) (xs ! 2) (xs ! 3), cs')
      | None \<Rightarrow>
          (case read_ipv6_addr cs of
             Some (gs, cs') \<Rightarrow> Some (V6 gs, cs')
           | None \<Rightarrow> None))"

definition IpAddr_from_str :: "string \<Rightarrow> IpAddr option" where
  "IpAddr_from_str cs =
     (case read_ip_addr cs of
        Some (addr, []) \<Rightarrow> Some addr
      | _ \<Rightarrow> None)"

section \<open>What is parsed\<close>

text \<open>The decimal form of an octet is read back, and so is the dotted form of an address, as
  \<open>Display\<close> writes it.\<close>

definition Ipv4_display :: "u8 \<Rightarrow> u8 \<Rightarrow> u8 \<Rightarrow> u8 \<Rightarrow> string" where
  "Ipv4_display a b c d =
     show_nat (unat a) @ ''.'' @ show_nat (unat b) @ ''.'' @ show_nat (unat c) @ ''.''
       @ show_nat (unat d)"

lemma to_digit_decimal [simp]: "d < 10 \<Longrightarrow> to_digit 10 (char_of (48 + d)) = Some d"
  by (simp add: to_digit_def Let_def of_char_of)

lemma char_digit_zero: "d < 10 \<Longrightarrow> char_of (48 + d :: nat) = CHR ''0'' \<longleftrightarrow> d = 0"
proof -
  assume "d < 10"
  then have "of_char (char_of (48 + d) :: char) = (48 + d)" by (simp add: of_char_of)
  moreover have "of_char CHR ''0'' = (48 :: nat)" by simp
  ultimately show ?thesis by (metis add_cancel_right_right add.right_neutral char_of_char)
qed

lemma show_nat_not_empty [simp]: "show_nat n \<noteq> []"
  by (simp add: show_nat.simps [of n])

lemma hd_show_nat: "hd (show_nat n) = CHR ''0'' \<longleftrightarrow> n = 0"
proof (induction n rule: show_nat.induct)
  case (1 n)
  then show ?case
    by (cases "n < 10") (simp_all add: show_nat.simps [of n] char_digit_zero)
qed

lemma length_show_nat: "length (show_nat n) = (if n < 10 then 1 else Suc (length (show_nat (n div 10))))"
  by (simp add: show_nat.simps [of n])

lemma length_show_nat_octet: "n < 1000 \<Longrightarrow> length (show_nat n) \<le> 3"
  by (simp add: length_show_nat [of n] length_show_nat [of "n div 10"] length_show_nat [of "n div 10 div 10"]
      del: show_nat.simps)

lemma read_digits_show_nat:
  assumes "r * 10 ^ length (show_nat n) + n < bound" and "k + length (show_nat n) \<le> m"
  shows "read_digits 10 bound m r k (show_nat n @ cs) =
    read_digits 10 bound m (r * 10 ^ length (show_nat n) + n) (k + length (show_nat n)) cs"
  using assms
proof (induction n arbitrary: cs rule: show_nat.induct)
  case (1 n)
  show ?case
  proof (cases "n < 10")
    case True
    with "1.prems" show ?thesis by (simp add: show_nat.simps [of n])
  next
    case False
    let ?l = "length (show_nat (n div 10))"
    have l: "show_nat n = show_nat (n div 10) @ [char_of (48 + n mod 10)]" 
      using False by (simp add: show_nat.simps [of n])
    have n: "(r * 10 ^ ?l + n div 10) * 10 + n mod 10 = r * 10 ^ length (show_nat n) + n"
      by (simp add: l algebra_simps)
    have "x < bound" if "x * 10 + y = z" "z < bound" for x y z :: nat using that by linarith
    from this [OF n "1.prems"(1)] have "r * 10 ^ ?l + n div 10 < bound" .
    moreover have "k + ?l < m" using "1.prems"(2) by (simp add: l)
    ultimately show ?thesis
      using "1.IH" [OF False, of "char_of (48 + n mod 10) # cs"] "1.prems" n
      by (simp add: l algebra_simps)
  qed
qed

definition ends_number :: "string \<Rightarrow> bool" where
  "ends_number cs \<longleftrightarrow> (case cs of [] \<Rightarrow> True | c # _ \<Rightarrow> to_digit 10 c = None)"

lemma ends_number_simps [simp]: "ends_number []" "ends_number (CHR ''.'' # cs)"
  by (simp_all add: ends_number_def to_digit_def)

lemma read_digits_end: "ends_number cs \<Longrightarrow> read_digits 10 bound m r k cs = Some (r, k, cs)"
  by (cases cs) (auto simp: ends_number_def)

lemma read_octet:
  assumes "n < 256" and "ends_number cs"
  shows "read_number 10 256 3 False (show_nat n @ cs) = Some (n, cs)"
proof -
  have "read_digits 10 256 3 0 0 (show_nat n @ cs) = Some (n, length (show_nat n), cs)"
    using assms length_show_nat_octet [of n] read_digits_show_nat [of 0 n 256 0 3 cs]
    by (simp add: read_digits_end)
  moreover have "hd (show_nat n) = CHR ''0'' \<Longrightarrow> \<not> 1 < length (show_nat n)"
    by (simp add: hd_show_nat length_show_nat)
  ultimately show ?thesis by (auto simp: read_number_def)
qed

lemma unat_u8_bound: "unat (w :: u8) < 256"
  using unsigned_less [of w] by simp

lemma read_ipv4_addr_unfold: "read_ipv4_addr = read_octets 0 (Suc (Suc (Suc (Suc 0))))"
  by (simp add: read_ipv4_addr_def eval_nat_numeral)

lemma IpAddr_from_Ipv4_display: "IpAddr_from_str (Ipv4_display a b c d) = Some (V4 a b c d)"
  using read_octet [OF unat_u8_bound ends_number_simps(1)]
  by (simp add: IpAddr_from_str_def read_ip_addr_def read_ipv4_addr_unfold Ipv4_display_def
      read_separator_def read_octet unat_u8_bound)

text \<open>The characters that a parser takes all satisfy \<open>P\<close>.\<close>

definition reads_chars :: "(char \<Rightarrow> bool) \<Rightarrow> string \<Rightarrow> string \<Rightarrow> bool" where
  "reads_chars P cs cs' \<longleftrightarrow> (\<exists>us. cs = us @ cs' \<and> list_all P us)"

lemma reads_refl [intro, simp]: "reads_chars P cs cs"
  by (simp add: reads_chars_def)

lemma reads_trans: "reads_chars P a b \<Longrightarrow> reads_chars P b c \<Longrightarrow> reads_chars P a c"
  by (force simp: reads_chars_def)

lemma reads_cons: "reads_chars P cs cs' \<Longrightarrow> P c \<Longrightarrow> reads_chars P (c # cs) cs'"
  by (force simp: reads_chars_def)

lemma reads_mono: "reads_chars P cs cs' \<Longrightarrow> (\<And>c. P c \<Longrightarrow> Q c) \<Longrightarrow> reads_chars Q cs cs'"
  by (auto simp: reads_chars_def list_all_iff)

lemma reads_subset: "reads_chars P cs cs' \<Longrightarrow> set cs' \<subseteq> set cs"
  by (auto simp: reads_chars_def)

lemma reads_all: "reads_chars P cs [] \<longleftrightarrow> list_all P cs"
  by (simp add: reads_chars_def)

lemma read_digits_reads:
  "read_digits radix bound m r k cs = Some (r', k', cs') \<Longrightarrow> (\<And>c d. to_digit radix c = Some d \<Longrightarrow> P c)
    \<Longrightarrow> reads_chars P cs cs'"
  by (induction radix bound m r k cs rule: read_digits.induct)
     (auto split: option.splits if_splits intro: reads_cons)

lemma read_number_reads:
  "read_number radix bound m z cs = Some (x, cs') \<Longrightarrow> (\<And>c d. to_digit radix c = Some d \<Longrightarrow> P c)
    \<Longrightarrow> reads_chars P cs cs'"
  by (auto simp: read_number_def split: option.splits if_splits dest: read_digits_reads [where P = P])

lemma read_given_char_reads:
  "read_given_char c cs = Some (u, cs') \<Longrightarrow> P c \<Longrightarrow> reads_chars P cs cs'"
  by (cases "(c, cs)" rule: read_given_char.cases) (auto split: if_splits intro: reads_cons)

lemma read_separator_reads:
  assumes "read_separator sep i inner cs = Some (x, cs')" and "P sep"
    and "\<And>cs x cs'. inner cs = Some (x, cs') \<Longrightarrow> reads_chars P cs cs'"
  shows "reads_chars P cs cs'"
  using assms by (auto simp: read_separator_def split: option.splits if_splits
      intro: reads_trans read_given_char_reads)

lemma read_separator_number_reads:
  assumes "read_separator sep i (read_number radix bound m z) cs = Some (x, cs')"
    and "P sep" and "\<And>c d. to_digit radix c = Some d \<Longrightarrow> P c"
  shows "reads_chars P cs cs'"
  by (rule read_separator_reads [where P = P, OF assms(1,2)]) (rule read_number_reads [OF _ assms(3)])

text \<open>An IPv4 address consists of decimal digits and dots; every character of any address is a
  hexadecimal digit, a dot or a colon.\<close>

definition ipv4_char :: "char \<Rightarrow> bool" where
  "ipv4_char c \<longleftrightarrow> to_digit 10 c \<noteq> None \<or> c = CHR ''.''"

definition addr_char :: "char \<Rightarrow> bool" where
  "addr_char c \<longleftrightarrow> to_digit 16 c \<noteq> None \<or> c \<in> {CHR ''.'', CHR '':''}"

lemma ipv4_char_addr_char: "ipv4_char c \<Longrightarrow> addr_char c"
  by (auto simp: ipv4_char_def addr_char_def to_digit_def Let_def split: if_splits)

lemma addr_char_separators [simp]: "ipv4_char CHR ''.''" "addr_char CHR '':''"
  by (simp_all add: ipv4_char_def addr_char_def)

lemma read_octets_reads: "read_octets i n cs = Some (xs, cs') \<Longrightarrow> reads_chars ipv4_char cs cs'"
proof (induction n arbitrary: i cs xs)
  case (Suc n)
  then obtain x cs1 xs1 where
    octet: "read_separator CHR ''.'' i (read_number 10 256 3 False) cs = Some (x, cs1)"
    and rest: "read_octets (Suc i) n cs1 = Some (xs1, cs')"
    by (auto split: option.splits)
  have "reads_chars ipv4_char cs cs1"
    by (rule read_separator_number_reads [OF octet]) (simp_all add: ipv4_char_def)
  then show ?case using Suc.IH [OF rest] by (rule reads_trans)
qed simp

lemma read_ipv4_addr_reads: "read_ipv4_addr cs = Some (xs, cs') \<Longrightarrow> reads_chars addr_char cs cs'"
  unfolding read_ipv4_addr_def by (rule reads_mono [OF read_octets_reads ipv4_char_addr_char])

lemma read_groups_reads: "read_groups i n cs = (gs, b, cs') \<Longrightarrow> reads_chars addr_char cs cs'"
proof (induction n arbitrary: i cs gs b)
  case (Suc n)
  have number: "reads_chars addr_char cs cs1"
    if "read_separator CHR '':'' i (read_number 16 65536 4 True) cs = Some (g, cs1)" for g cs1
    by (rule read_separator_number_reads [OF that]) (simp_all add: addr_char_def)
  have addr: "reads_chars addr_char cs cs1"
    if "read_separator CHR '':'' i read_ipv4_addr cs = Some (xs, cs1)" for xs cs1
    by (rule read_separator_reads [where P = addr_char, OF that]) (simp_all add: read_ipv4_addr_reads)
  from Suc.prems consider (addr) xs where "read_separator CHR '':'' i read_ipv4_addr cs = Some (xs, cs')"
    | (none) "cs' = cs"
    | (number) g cs1 gs1 where "read_separator CHR '':'' i (read_number 16 65536 4 True) cs = Some (g, cs1)"
        "read_groups (Suc i) n cs1 = (gs1, b, cs')"
    by (auto split: option.splits prod.splits if_splits)
  then show ?case
    by cases (auto intro: addr reads_trans number Suc.IH)
qed simp

lemma read_ipv6_addr_reads: "read_ipv6_addr cs = Some (gs, cs') \<Longrightarrow> reads_chars addr_char cs cs'"
  by (auto simp: read_ipv6_addr_def split: option.splits prod.splits if_splits
      dest!: read_groups_reads read_given_char_reads [where P = addr_char] intro: reads_trans)

text \<open>An IPv6 address has a colon: without one there is at most one group, or an IPv4 address.\<close>

lemma read_separator_no_colon:
  "CHR '':'' \<notin> set cs \<Longrightarrow> read_separator CHR '':'' (Suc i) inner cs = None"
  by (cases cs) (auto simp: read_separator_def)

lemma read_groups_no_colon: "CHR '':'' \<notin> set cs \<Longrightarrow> read_groups (Suc i) n cs = ([], False, cs)"
  by (cases n) (simp_all add: read_separator_no_colon)

lemma read_groups_one:
  assumes "CHR '':'' \<notin> set cs" and "read_groups 0 n cs = (gs, b, cs')"
  shows "length gs \<le> 2"
proof (cases n)
  case (Suc n')
  have "CHR '':'' \<notin> set cs1" if "read_number 16 65536 4 True cs = Some (g, cs1)" for g cs1
    using read_number_reads [OF that, of "\<lambda>_. True"] assms(1) by (auto dest: reads_subset)
  with assms(2) Suc show ?thesis
    by (auto simp: read_separator_def read_groups_no_colon split: option.splits prod.splits if_splits)
qed (use assms(2) in simp)

lemma read_ipv6_addr_colon:
  assumes "read_ipv6_addr cs = Some (gs, cs')"
  shows "CHR '':'' \<in> set cs"
proof (rule ccontr)
  assume colon: "CHR '':'' \<notin> set cs"
  obtain front b cs1 where front: "read_groups 0 8 cs = (front, b, cs1)" by (cases "read_groups 0 8 cs")
  have "set cs1 \<subseteq> set cs" using reads_subset [OF read_groups_reads [OF front]] .
  with colon have "read_given_char CHR '':'' cs1 = None" by (cases cs1) auto
  with assms read_groups_one [OF colon front] show False
    by (simp add: read_ipv6_addr_def front split: if_splits)
qed

lemma read_ipv6_addr_both:
  "read_ipv6_addr cs = Some (gs, cs') \<Longrightarrow> CHR '':'' \<in> set cs \<and> reads_chars addr_char cs cs'"
  using read_ipv6_addr_reads read_ipv6_addr_colon by blast

lemma IpAddr_from_str_cases:
  assumes "IpAddr_from_str cs = Some a"
  shows "list_all ipv4_char cs \<or> CHR '':'' \<in> set cs \<and> list_all addr_char cs"
  using assms
  by (auto simp: IpAddr_from_str_def read_ip_addr_def read_ipv4_addr_def
      split: option.splits prod.splits list.splits
      dest!: read_octets_reads read_ipv6_addr_both simp flip: reads_all)

text \<open>A host name: it has a character that no address has, or it has no colon and is not made of
  decimal digits and dots only. Every domain name with a letter in it is one.\<close>

definition host_name :: "string \<Rightarrow> bool" where
  "host_name host \<longleftrightarrow>
     \<not> list_all addr_char host \<or> CHR '':'' \<notin> set host \<and> \<not> list_all ipv4_char host"

lemma host_name_not_an_address:
  assumes "host_name host"
  shows "IpAddr_from_str host = None"
proof (cases "IpAddr_from_str host")
  case (Some a)
  have "list_all addr_char host" if "list_all ipv4_char host"
    using that by (auto simp: list_all_iff ipv4_char_addr_char)
  with IpAddr_from_str_cases [OF Some] assms show ?thesis by (auto simp: host_name_def)
qed

end
