(* ===== verification/Server.thy ===== *)
theory Server
  imports Tls_Native Ip_Addr
begin

text \<open>
  The server of \<open>src/src/server.rs\<close>: the accept loop, the task it spawns for every client, and
  the task that connects to the target server and conveys. Tasks run concurrently: each is
  modelled as a \<open>Task\<close>, the tree of its effects in program order, and the server as a step
  relation in which the accept loop and the tasks take turns in any order, one effect at a time.

  Sockets, files, the clock, the TLS library and the task runtime are foreign. Every
  \<open>println!\<close> of the program is an event that carries the arguments of its format string.
\<close>

section \<open>Configuration and environment\<close>

type_synonym usize = "64 word"

record Config =
  listen_addr :: IpAddr
  listen_port :: u16
  target_host :: string
  target_port :: u16
  cert_p12_file :: string
  cert_p12_password :: string

text \<open>
  What the server uses of its surroundings: reading a file, binding a listener, the addresses
  of sockets, the operations of TCP and TLS streams, the TLS library, whether the build checks
  arithmetic overflow, and whether the runtime aborts the process when a task panics.
\<close>

record ('tcp, 'tls, 'err, 'ident, 'impl, 'acceptor, 'connector, 'listener) ServerEnv =
  fs_read :: "string \<Rightarrow> IoError + u8 list"
  TcpListener_bind :: "SocketAddr \<Rightarrow> (IoError, 'listener) outcome"
  listener_local_addr :: "'listener \<Rightarrow> IoError + SocketAddr"
  local_addr :: "'tcp \<Rightarrow> IoError + SocketAddr"
  peer_addr :: "'tcp \<Rightarrow> IoError + SocketAddr"
  tcp_ops :: "'tcp StreamOps"
  tls_ops :: "'tls StreamOps"
  tls_library :: "('tcp, 'tls, 'err, 'ident, 'impl, 'acceptor, 'connector) NativeTls"
  checks_overflow :: bool
  aborts_on_panic :: bool

record ('acceptor, 'listener) Server =
  tls_acceptor :: 'acceptor
  tcp_listener :: 'listener
  config :: Config

section \<open>Starting to listen\<close>

definition tls_error_to_io_error ::
  "('tcp, 'tls, 'err, 'ident, 'impl, 'acceptor, 'connector) NativeTls \<Rightarrow> 'err \<Rightarrow> IoError" where
  "tls_error_to_io_error lib tls_error = IoError.IoError Other (tls_error_text lib tls_error)"

definition new_tls_acceptor ::
  "('tcp, 'tls, 'err, 'ident, 'impl, 'acceptor, 'connector, 'listener) ServerEnv
    \<Rightarrow> Config \<Rightarrow> IoError + 'acceptor" where
  "new_tls_acceptor env cfg =
     (case fs_read env (cert_p12_file cfg) of
        Inl e \<Rightarrow> Inl e
      | Inr cert_p12 \<Rightarrow>
          (let lib = tls_library env;
               tls_identity = Identity_from_pkcs12 lib cert_p12 (cert_p12_password cfg);
               tls_acceptor_impl =
                 (case tls_identity of Inl e \<Rightarrow> Inl e | Inr identity \<Rightarrow> TlsAcceptorImpl_new lib identity)
           in map_sum (tls_error_to_io_error lib) (TlsAcceptor_from lib) tls_acceptor_impl))"

definition new_tls_connector ::
  "('tcp, 'tls, 'err, 'ident, 'impl, 'acceptor, 'connector) NativeTls \<Rightarrow> 'connector" where
  "new_tls_connector lib = danger_accept_invalid_certs lib (TlsConnector_new lib) True"

definition listen ::
  "('tcp, 'tls, 'err, 'ident, 'impl, 'acceptor, 'connector, 'listener) ServerEnv
    \<Rightarrow> Config \<Rightarrow> (IoError, ('acceptor, 'listener) Server) outcome" where
  "listen env cfg =
     (case new_tls_acceptor env cfg of
        Inl e \<Rightarrow> Throw e
      | Inr acceptor \<Rightarrow>
          (case TcpListener_bind env \<lparr>ip = listen_addr cfg, port = listen_port cfg\<rparr> of
             Return listener \<Rightarrow>
               Return \<lparr>tls_acceptor = acceptor, tcp_listener = listener, config = cfg\<rparr>
           | Throw e \<Rightarrow> Throw e
           | Panic p \<Rightarrow> Panic p
           | Blocked \<Rightarrow> Blocked))"

definition get_listen_port ::
  "('tcp, 'tls, 'err, 'ident, 'impl, 'acceptor, 'connector, 'listener) ServerEnv
    \<Rightarrow> ('acceptor, 'listener) Server \<Rightarrow> IoError + u16" where
  "get_listen_port env self = map_sum id port (listener_local_addr env (tcp_listener self))"

section \<open>Tasks\<close>

text \<open>The lines the server prints, with the arguments of their format strings, and the calls of
  the callback.\<close>

datatype line =
    NewConnection u16 usize SocketAddr
  | ConnectedToTarget string u16 usize SocketAddr
  | StoppedConveying string u16 usize "ConveyError + unit"
  | CouldNotConnect string u16 usize IoError
  | CouldNotBeHandled string u16 usize IoError
  | Callback Message

text \<open>What a task does that others can see: it takes a number from the shared counter, dials an
  address, or puts something out.\<close>

datatype event = TookNumber usize | Dialled SocketAddr | Output line

text \<open>\<open>Result::unwrap\<close> on an I/O error, and a panic inside a called function.\<close>

datatype panic = UnwrapOnErr IoError | PanicInside string

text \<open>
  A task is what it does next: take a client number from the shared counter (\<open>fetch_add\<close>),
  read the clock, put something out, connect to an address, convey with some order of served sides,
  spawn another task; or it is over, panicked, or waits forever.
\<close>

datatype 'tcp Task =
    Done
  | Panicked panic
  | Waiting
  | FetchAdd "usize \<Rightarrow> 'tcp Task"
  | Now "string \<Rightarrow> 'tcp Task"
  | Emit line "'tcp Task"
  | Connect SocketAddr "(IoError, 'tcp) outcome \<Rightarrow> 'tcp Task"
  | Select "Side list \<Rightarrow> 'tcp Task"
  | Spawn "'tcp Task" "'tcp Task"

definition format_now :: "(string \<Rightarrow> 'tcp Task) \<Rightarrow> 'tcp Task" where
  "format_now k = Now k"

text \<open>\<open>stream.local_addr().map(|addr| addr.port()).unwrap_or(0)\<close>.\<close>

definition local_port_or_0 ::
  "('tcp, 'tls, 'err, 'ident, 'impl, 'acceptor, 'connector, 'listener) ServerEnv \<Rightarrow> 'tcp \<Rightarrow> u16" where
  "local_port_or_0 env stream = (case local_addr env stream of Inr addr \<Rightarrow> port addr | Inl _ \<Rightarrow> 0)"

definition unwrap_io :: "IoError + 'a \<Rightarrow> ('a \<Rightarrow> 'tcp Task) \<Rightarrow> 'tcp Task" where
  "unwrap_io r k = (case r of Inr x \<Rightarrow> k x | Inl e \<Rightarrow> Panicked (UnwrapOnErr e))"

text \<open>
  The conveyor between the client and the target server. Its TLS server is the acceptor of the
  configuration, its TLS client a fresh connector for the name \<open>localhost\<close>.
\<close>

definition client_env ::
  "('tcp, 'tls, 'err, 'ident, 'impl, 'acceptor, 'connector, 'listener) ServerEnv \<Rightarrow> 'acceptor
    \<Rightarrow> ('tcp, 'tls, 'tcp, 'tls) ConveyEnv" where
  "client_env env acceptor =
     (let lib = tls_library env;
          frontend_tls = NativeTlsServer_accept lib (NativeTlsServer acceptor);
          backend_tls = NativeTlsClient_connect lib
            \<lparr>connector = new_tls_connector lib, hostname = ''localhost''\<rparr>
      in \<lparr>overflow_checks = checks_overflow env,
          front_plain = tcp_ops env, front_tls = tls_ops env,
          back_plain = tcp_ops env, back_tls = tls_ops env,
          frontend_tls_server = (\<lambda>p. map_outcome (tls_error_debug lib) id (accept frontend_tls p)),
          backend_tls_client = (\<lambda>p. map_outcome (tls_error_debug lib) id (connect backend_tls p))\<rparr>)"

text \<open>\<open>convey\<close> in a task: it calls the callback with each message it conveys and hands its
  result to the rest of the task.\<close>

definition convey_task ::
  "('tcp, 'tls, 'err, 'ident, 'impl, 'acceptor, 'connector, 'listener) ServerEnv \<Rightarrow> 'acceptor
    \<Rightarrow> 'tcp \<Rightarrow> 'tcp \<Rightarrow> (ConveyError + unit \<Rightarrow> 'tcp Task) \<Rightarrow> 'tcp Task" where
  "convey_task env acceptor client server k =
     Select (\<lambda>choices.
       case convey (client_env env acceptor) choices client server of
         (r, c) \<Rightarrow>
           foldr (\<lambda>msg. Emit (Callback msg)) (conveyed c)
             (case r of
                Return _ \<Rightarrow> k (Inr ())
              | Throw e \<Rightarrow> k (Inl e)
              | Panic p \<Rightarrow> Panicked (PanicInside p)
              | Blocked \<Rightarrow> Waiting))"

definition serve_client ::
  "('tcp, 'tls, 'err, 'ident, 'impl, 'acceptor, 'connector, 'listener) ServerEnv \<Rightarrow> 'acceptor
    \<Rightarrow> u16 \<Rightarrow> usize \<Rightarrow> 'tcp \<Rightarrow> SocketAddr \<Rightarrow> 'tcp Task" where
  "serve_client env acceptor lport client_id client server_endpoint =
     Connect server_endpoint (\<lambda>connected.
       case connected of
         Return server \<Rightarrow>
           format_now (\<lambda>now.
           unwrap_io (local_addr env server) (\<lambda>addr.
           Emit (ConnectedToTarget now lport client_id addr)
             (convey_task env acceptor client server (\<lambda>result.
              format_now (\<lambda>now.
              Emit (StoppedConveying now lport client_id result) Done)))))
       | Throw err \<Rightarrow> format_now (\<lambda>now. Emit (CouldNotConnect now lport client_id err) Done)
       | Panic p \<Rightarrow> Panicked (PanicInside p)
       | Blocked \<Rightarrow> Waiting)"

definition addr_parse_error :: IoError where
  "addr_parse_error = IoError.IoError NotConnected ''invalid IP address syntax''"

definition handle_client ::
  "('tcp, 'tls, 'err, 'ident, 'impl, 'acceptor, 'connector, 'listener) ServerEnv
    \<Rightarrow> string \<Rightarrow> u16 \<Rightarrow> 'acceptor \<Rightarrow> usize \<Rightarrow> 'tcp \<Rightarrow> (IoError + unit \<Rightarrow> 'tcp Task) \<Rightarrow> 'tcp Task" where
  "handle_client env host tport acceptor client_id client k =
     (let lport = local_port_or_0 env client
      in unwrap_io (peer_addr env client) (\<lambda>peer.
         Emit (NewConnection lport client_id peer)
           (case IpAddr_from_str host of
              None \<Rightarrow> k (Inl addr_parse_error)
            | Some target_ip \<Rightarrow>
                Spawn (serve_client env acceptor lport client_id client
                         \<lparr>ip = target_ip, port = tport\<rparr>)
                  (k (Inr ())))))"

definition client_task ::
  "('tcp, 'tls, 'err, 'ident, 'impl, 'acceptor, 'connector, 'listener) ServerEnv
    \<Rightarrow> ('acceptor, 'listener) Server \<Rightarrow> 'tcp \<Rightarrow> 'tcp Task" where
  "client_task env server stream =
     FetchAdd (\<lambda>client_id.
       let lport = local_port_or_0 env stream
       in handle_client env (target_host (config server)) (target_port (config server))
            (tls_acceptor server) client_id stream
            (\<lambda>result.
               case result of
                 Inr _ \<Rightarrow> Done
               | Inl err \<Rightarrow>
                   format_now (\<lambda>now. Emit (CouldNotBeHandled now lport client_id err) Done)))"

section \<open>The accept loop and the interleaving of tasks\<close>

text \<open>One effect of a task, given what its surroundings answer: the rest of the task, the
  shared counter, the visible effects and the tasks it spawned. \<open>fetch_add\<close> wraps around.\<close>

datatype 'tcp answer =
    NoAnswer
  | Clock string
  | Connection "(IoError, 'tcp) outcome"
  | Served "Side list"

fun task_step ::
  "'tcp answer \<Rightarrow> usize \<Rightarrow> 'tcp Task \<Rightarrow> ('tcp Task \<times> usize \<times> event list \<times> 'tcp Task list) option" where
  "task_step NoAnswer n (FetchAdd k) = Some (k n, n + 1, [TookNumber n], [])"
| "task_step (Clock now) n (Now k) = Some (k now, n, [], [])"
| "task_step NoAnswer n (Emit out t) = Some (t, n, [Output out], [])"
| "task_step (Connection r) n (Connect addr k) = Some (k r, n, [Dialled addr], [])"
| "task_step (Served choices) n (Select k) = Some (k choices, n, [], [])"
| "task_step NoAnswer n (Spawn t u) = Some (u, n, [], [t])"
| "task_step _ _ _ = None"

text \<open>
  A running server: the result of the accept loop once it has returned, the shared counter, the
  accepted streams, the tasks and the visible effects so far, and whether a panic has aborted
  the process. Tasks and effects carry the index of the accepted stream they belong to.
\<close>

record 'tcp Running =
  loop_result :: "(IoError + unit) option"
  next_client_id :: usize
  accepted :: "'tcp list"
  tasks :: "(nat \<times> 'tcp Task) list"
  effects :: "(nat \<times> event) list"
  aborted :: bool

definition loop_accepting :: "'tcp Running" where
  "loop_accepting =
     \<lparr>loop_result = None, next_client_id = 1, accepted = [], tasks = [], effects = [],
      aborted = False\<rparr>"

text \<open>One round of the loop: \<open>incoming.next()\<close> gave \<open>item\<close>.\<close>

definition accept_round ::
  "('tcp, 'tls, 'err, 'ident, 'impl, 'acceptor, 'connector, 'listener) ServerEnv
    \<Rightarrow> ('acceptor, 'listener) Server \<Rightarrow> (IoError + 'tcp) option \<Rightarrow> 'tcp Running \<Rightarrow> 'tcp Running" where
  "accept_round env server item c =
     (case item of
        None \<Rightarrow> c\<lparr>loop_result := Some (Inr ())\<rparr>
      | Some (Inl e) \<Rightarrow> c\<lparr>loop_result := Some (Inl e)\<rparr>
      | Some (Inr stream) \<Rightarrow>
          c\<lparr>accepted := accepted c @ [stream],
            tasks := tasks c @ [(length (accepted c), client_task env server stream)]\<rparr>)"

datatype 'tcp move = Arrival "(IoError + 'tcp) option" | Turn nat "'tcp answer"

definition task_turn ::
  "('tcp, 'tls, 'err, 'ident, 'impl, 'acceptor, 'connector, 'listener) ServerEnv
    \<Rightarrow> nat \<Rightarrow> 'tcp answer \<Rightarrow> 'tcp Running \<Rightarrow> 'tcp Running option" where
  "task_turn env i answer c =
     (if i < length (tasks c) then
        (case tasks c ! i of
           (k, Panicked p) \<Rightarrow> if aborts_on_panic env then Some (c\<lparr>aborted := True\<rparr>) else None
         | (k, t) \<Rightarrow>
             (case task_step answer (next_client_id c) t of
                None \<Rightarrow> None
              | Some (t', n, es, spawned) \<Rightarrow>
                  Some (c\<lparr>next_client_id := n,
                          tasks := (tasks c)[i := (k, t')] @ map (Pair k) spawned,
                          effects := effects c @ map (Pair k) es\<rparr>)))
      else None)"

definition move ::
  "('tcp, 'tls, 'err, 'ident, 'impl, 'acceptor, 'connector, 'listener) ServerEnv
    \<Rightarrow> ('acceptor, 'listener) Server \<Rightarrow> 'tcp move \<Rightarrow> 'tcp Running \<Rightarrow> 'tcp Running option" where
  "move env server m c =
     (if aborted c then None
      else case m of
        Arrival item \<Rightarrow> if loop_result c = None then Some (accept_round env server item c) else None
      | Turn i answer \<Rightarrow> task_turn env i answer c)"

fun moves ::
  "('tcp, 'tls, 'err, 'ident, 'impl, 'acceptor, 'connector, 'listener) ServerEnv
    \<Rightarrow> ('acceptor, 'listener) Server \<Rightarrow> 'tcp move list \<Rightarrow> 'tcp Running \<Rightarrow> 'tcp Running option" where
  "moves env server [] c = Some c"
| "moves env server (m # ms) c =
     (case move env server m c of None \<Rightarrow> None | Some c' \<Rightarrow> moves env server ms c')"

inductive reachable ::
  "('tcp, 'tls, 'err, 'ident, 'impl, 'acceptor, 'connector, 'listener) ServerEnv
    \<Rightarrow> ('acceptor, 'listener) Server \<Rightarrow> 'tcp Running \<Rightarrow> bool"
  for env server where
  start: "reachable env server loop_accepting"
| step: "reachable env server c \<Longrightarrow> move env server m c = Some c' \<Longrightarrow> reachable env server c'"

end
