(* ===== verification/Serving.thy ===== *)
theory Serving
  imports Server
begin

text \<open>
  What the server does, in every interleaving of its tasks. The record of a connection is first
  described for the connection on its own (\<open>client_record\<close>); a projection then shows that in a
  running server each connection behaves as if it were alone, and a construction that a new
  client can be served to the end in every state of the others. Further: the client numbers,
  the end of the accept loop, and the endpoint that is dialled.
\<close>

section \<open>One connection on its own\<close>

text \<open>\<open>plays ts es\<close>: the tasks \<open>ts\<close>, left to themselves, can have the effects \<open>es\<close>.\<close>

inductive plays :: "'tcp Task list \<Rightarrow> event list \<Rightarrow> bool" where
  plays_nothing: "plays ts []"
| plays_turn: "i < length ts \<Longrightarrow> task_step answer n (ts ! i) = Some (t', n', es, spawned)
    \<Longrightarrow> plays (ts[i := t'] @ spawned) es' \<Longrightarrow> plays ts (es @ es')"

lemma task_step_iffs:
  "task_step a n Done = None"
  "task_step a n (Panicked p) = None"
  "task_step a n Waiting = None"
  "task_step a n (FetchAdd f) = Some x \<longleftrightarrow> a = NoAnswer \<and> x = (f n, n + 1, [TookNumber n], [])"
  "task_step a n (Now g) = Some x \<longleftrightarrow> (\<exists>now. a = Clock now \<and> x = (g now, n, [], []))"
  "task_step a n (Emit out t) = Some x \<longleftrightarrow> a = NoAnswer \<and> x = (t, n, [Output out], [])"
  "task_step a n (Connect addr h) = Some x \<longleftrightarrow> (\<exists>r. a = Connection r \<and> x = (h r, n, [Dialled addr], []))"
  "task_step a n (Select l) = Some x \<longleftrightarrow> (\<exists>cs. a = Served cs \<and> x = (l cs, n, [], []))"
  "task_step a n (Spawn t u) = Some x \<longleftrightarrow> a = NoAnswer \<and> x = (u, n, [], [t])"
  by (cases a; auto)+

lemma plays_single:
  "plays [t] es \<longleftrightarrow> es = [] \<or>
    (\<exists>answer n t' n' es1 spawned es2. task_step answer n t = Some (t', n', es1, spawned)
       \<and> plays (t' # spawned) es2 \<and> es = es1 @ es2)" (is "?L \<longleftrightarrow> ?R")
proof
  assume ?L
  then show ?R
  proof (cases rule: plays.cases)
    case (plays_turn i answer n t' n' es1 spawned es2)
    then have "task_step answer n t = Some (t', n', es1, spawned)" "plays (t' # spawned) es2"
      by simp_all
    with plays_turn(1) show ?thesis by blast
  qed simp
next
  show "?R \<Longrightarrow> ?L" using plays_turn [of 0 "[t]"] by (auto intro: plays_nothing)
qed

text \<open>What each effect of a task leaves to the rest of it.\<close>

lemma plays_stopped:
  "plays [Done] es \<longleftrightarrow> es = []"
  "plays [Panicked p] es \<longleftrightarrow> es = []"
  "plays [Waiting] es \<longleftrightarrow> es = []"
  by (subst plays_single, simp add: task_step_iffs)+

lemma plays_FetchAdd:
  "plays [FetchAdd f] es \<longleftrightarrow> es = [] \<or> (\<exists>n es'. es = TookNumber n # es' \<and> plays [f n] es')"
  by (subst plays_single) (auto simp: task_step_iffs)

lemma plays_Emit: "plays [Emit out t] es \<longleftrightarrow> es = [] \<or> (\<exists>es'. es = Output out # es' \<and> plays [t] es')"
  by (subst plays_single) (auto simp: task_step_iffs)

lemma plays_Connect:
  "plays [Connect addr h] es \<longleftrightarrow> es = [] \<or> (\<exists>r es'. es = Dialled addr # es' \<and> plays [h r] es')"
  using plays_turn [of 0 "[Connect addr h]" "Connection r" for r]
  by (auto simp: plays_single [of "Connect addr h"] task_step_iffs)

lemma plays_Now: "plays [Now g] es \<longleftrightarrow> (\<exists>now. plays [g now] es)"
  using plays_turn [of 0 "[Now g]" "Clock now" for now]
  by (auto simp: plays_single [of "Now g"] task_step_iffs intro: plays_nothing)

lemma plays_format_now: "plays [format_now g] es \<longleftrightarrow> (\<exists>now. plays [g now] es)"
  by (simp add: format_now_def plays_Now)

lemma plays_Select: "plays [Select l] es \<longleftrightarrow> (\<exists>cs. plays [l cs] es)"
  using plays_turn [of 0 "[Select l]" "Served cs" for cs]
  by (auto simp: plays_single [of "Select l"] task_step_iffs intro: plays_nothing)

lemma plays_Done_beside: "plays (Done # ts) es \<longleftrightarrow> plays ts es"
proof
  have "plays us es \<Longrightarrow> us = Done # ts \<Longrightarrow> plays ts es" for us
  proof (induction arbitrary: ts rule: plays.induct)
    case (plays_turn i us answer n t' n' es1 spawned es2)
    then obtain j where j: "i = Suc j" by (cases i) (auto simp: task_step_iffs)
    with plays_turn have "plays (ts[j := t'] @ spawned) es2" by simp
    with j plays_turn.hyps(1,2) plays_turn.prems show ?case
      by (auto intro!: plays.plays_turn [of j ts answer n t' n' es1 spawned])
  qed (rule plays_nothing)
  then show "plays (Done # ts) es \<Longrightarrow> plays ts es" by blast
  show "plays ts es \<Longrightarrow> plays (Done # ts) es"
  proof (induction rule: plays.induct)
    case (plays_turn i ts answer n t' n' es1 spawned es2)
    then show ?case using plays.plays_turn [of "Suc i" "Done # ts"] by simp
  qed (rule plays_nothing)
qed

lemma plays_Spawn: "plays [Spawn t Done] es \<longleftrightarrow> plays [t] es"
  by (subst plays_single) (auto simp: task_step_iffs plays_Done_beside intro: plays_nothing)

lemma plays_Emits:
  "plays [foldr (\<lambda>x. Emit (ev x)) xs t] es \<longleftrightarrow>
     prefix es (map (Output \<circ> ev) xs) \<or> (\<exists>es'. es = map (Output \<circ> ev) xs @ es' \<and> plays [t] es')"
proof (induction xs arbitrary: es)
  case (Cons x xs)
  show ?case
    by (cases es) (auto simp: plays_Emit Cons.IH plays_nothing)
qed (auto intro: plays_nothing)

lemmas plays_simps =
  plays_stopped plays_FetchAdd plays_Emit plays_Connect plays_Now plays_format_now
  plays_Select plays_Spawn plays_Emits

text \<open>
  The complete record of one connection, as a function of what its surroundings do: the number
  it gets, the clock, the outcome of connecting, and the order in which the sides are served.
\<close>

definition outcome_events :: "(ConveyError, unit) outcome \<Rightarrow> (ConveyError + unit \<Rightarrow> line) \<Rightarrow> event list" where
  "outcome_events r ev =
     (case r of Return _ \<Rightarrow> [Output (ev (Inr ()))] | Throw e \<Rightarrow> [Output (ev (Inl e))] | Panic _ \<Rightarrow> [] | Blocked \<Rightarrow> [])"

definition served_record ::
  "('tcp, 'tls, 'err, 'ident, 'impl, 'acceptor, 'connector, 'listener) ServerEnv \<Rightarrow> 'acceptor
    \<Rightarrow> u16 \<Rightarrow> usize \<Rightarrow> 'tcp \<Rightarrow> string \<Rightarrow> string \<Rightarrow> (IoError, 'tcp) outcome \<Rightarrow> Side list \<Rightarrow> event list" where
  "served_record env acceptor lport n client now1 now2 connected choices =
     (case connected of
        Return server \<Rightarrow>
          (case local_addr env server of
             Inl _ \<Rightarrow> []
           | Inr addr \<Rightarrow>
               (case convey (client_env env acceptor) choices client server of
                  (r, c) \<Rightarrow>
                    Output (ConnectedToTarget now1 lport n addr) # map (Output \<circ> Callback) (conveyed c)
                      @ outcome_events r (StoppedConveying now2 lport n)))
      | Throw e \<Rightarrow> [Output (CouldNotConnect now1 lport n e)]
      | Panic _ \<Rightarrow> []
      | Blocked \<Rightarrow> [])"

definition client_record ::
  "('tcp, 'tls, 'err, 'ident, 'impl, 'acceptor, 'connector, 'listener) ServerEnv
    \<Rightarrow> ('acceptor, 'listener) Server \<Rightarrow> 'tcp \<Rightarrow> usize \<Rightarrow> string \<Rightarrow> string \<Rightarrow> (IoError, 'tcp) outcome
    \<Rightarrow> Side list \<Rightarrow> event list" where
  "client_record env server client n now1 now2 connected choices =
     TookNumber n #
     (case peer_addr env client of
        Inl _ \<Rightarrow> []
      | Inr peer \<Rightarrow>
          Output (NewConnection (local_port_or_0 env client) n peer) #
          (case IpAddr_from_str (target_host (config server)) of
             None \<Rightarrow> [Output (CouldNotBeHandled now1 (local_port_or_0 env client) n addr_parse_error)]
           | Some target_ip \<Rightarrow>
               Dialled \<lparr>ip = target_ip, port = target_port (config server)\<rparr>
               # served_record env (tls_acceptor server) (local_port_or_0 env client) n client
                   now1 now2 connected choices))"

lemma plays_convey_task:
  "plays [convey_task env acceptor client server (\<lambda>r. format_now (\<lambda>now. Emit (ev now r) Done))] es \<longleftrightarrow>
    (\<exists>now choices. case convey (client_env env acceptor) choices client server of
       (r, c) \<Rightarrow> prefix es (map (Output \<circ> Callback) (conveyed c) @ outcome_events r (ev now)))"
proof -
  have ends: "(\<exists>es'. es = L @ es' \<and> es' = []) \<longleftrightarrow> es = L" for L :: "event list" by simp
  have "plays [foldr (\<lambda>msg. Emit (Callback msg)) ms
      (case r of Return _ \<Rightarrow> format_now (\<lambda>now. Emit (ev now (Inr ())) Done)
       | Throw e \<Rightarrow> format_now (\<lambda>now. Emit (ev now (Inl e)) Done)
       | Panic p \<Rightarrow> Panicked (PanicInside p) | Blocked \<Rightarrow> Waiting)] es
    \<longleftrightarrow> (\<exists>now. prefix es (map (Output \<circ> Callback) ms @ outcome_events r (ev now)))" for ms r
    by (cases r) (auto simp: plays_simps outcome_events_def prefix_append prefix_Cons)
  then show ?thesis unfolding convey_task_def plays_Select case_prod_beta by blast
qed

lemma plays_serve_client:
  "plays [serve_client env acceptor lport n client addr] es \<longleftrightarrow>
    (\<exists>now1 now2 connected choices.
       prefix es (Dialled addr # served_record env acceptor lport n client now1 now2 connected choices))"
proof -
  have "plays [case connected of
       Return server \<Rightarrow>
         format_now (\<lambda>now.
         unwrap_io (local_addr env server) (\<lambda>addr.
         Emit (ConnectedToTarget now lport n addr)
           (convey_task env acceptor client server (\<lambda>result.
            format_now (\<lambda>now.
            Emit (StoppedConveying now lport n result) Done)))))
     | Throw err \<Rightarrow> format_now (\<lambda>now. Emit (CouldNotConnect now lport n err) Done)
     | Panic p \<Rightarrow> Panicked (PanicInside p)
     | Blocked \<Rightarrow> Waiting] es
    \<longleftrightarrow> (\<exists>now1 now2 choices. prefix es (served_record env acceptor lport n client now1 now2 connected choices))"
    for connected es
  proof (cases connected)
    case (Return server)
    then show ?thesis
      by (cases "local_addr env server")
         (auto simp: plays_simps unwrap_io_def
            plays_convey_task served_record_def case_prod_beta prefix_Cons)
  qed (auto simp: plays_simps served_record_def prefix_Cons)
  then show ?thesis
    unfolding serve_client_def plays_Connect prefix_Cons by blast
qed

lemma plays_client_task:
  "plays [client_task env server client] es \<longleftrightarrow>
    (\<exists>n now1 now2 connected choices.
       prefix es (client_record env server client n now1 now2 connected choices))"
  by (cases "peer_addr env client"; cases "IpAddr_from_str (target_host (config server))")
     (auto simp: client_task_def handle_client_def client_record_def unwrap_io_def Let_def
        plays_simps plays_serve_client prefix_Cons)

section \<open>Every connection by itself\<close>

text \<open>The entries of one connection among the tasks or effects of all.\<close>

definition entries_of :: "nat \<Rightarrow> (nat \<times> 'a) list \<Rightarrow> 'a list" where
  "entries_of k xs = map snd (filter (\<lambda>p. fst p = k) xs)"

lemma entries_of_simps [simp]:
  "entries_of k [] = []"
  "entries_of k (p # xs) = (if fst p = k then snd p # entries_of k xs else entries_of k xs)"
  "entries_of k (xs @ ys) = entries_of k xs @ entries_of k ys"
  "entries_of k (map (Pair j) zs) = (if j = k then zs else [])"
  by (induction zs) (auto simp: entries_of_def)

lemma entries_of_update:
  assumes "i < length xs" and "xs ! i = (k, t)"
  shows "\<exists>j < length (entries_of k xs). entries_of k xs ! j = t
    \<and> (\<forall>t'. entries_of k (xs[i := (k, t')]) = (entries_of k xs)[j := t'])"
proof -
  let ?j = "length (entries_of k (take i xs))"
  have xs: "xs = take i xs @ (k, t) # drop (Suc i) xs"
    using assms by (metis id_take_nth_drop)
  have split: "entries_of k xs = entries_of k (take i xs) @ t # entries_of k (drop (Suc i) xs)"
    by (subst xs) simp
  have "entries_of k (xs[i := (k, t')]) = entries_of k (take i xs) @ t' # entries_of k (drop (Suc i) xs)" for t'
    using assms(1) by (simp add: upd_conv_take_nth_drop)
  then show ?thesis by (intro exI [of _ ?j]) (simp add: split)
qed

lemma entries_of_update_other:
  assumes "i < length xs" and "fst (xs ! i) \<noteq> k" and "j \<noteq> k"
  shows "entries_of k (xs[i := (j, t')]) = entries_of k xs"
proof -
  have "entries_of k (take i xs @ xs ! i # drop (Suc i) xs)
      = entries_of k (take i xs) @ entries_of k (drop (Suc i) xs)"
    using assms(2) by simp
  moreover have "take i xs @ xs ! i # drop (Suc i) xs = xs"
    using assms(1) by (rule id_take_nth_drop [symmetric])
  ultimately show ?thesis using assms(1,3) by (simp add: upd_conv_take_nth_drop)
qed

abbreviation record_of :: "nat \<Rightarrow> 'tcp Running \<Rightarrow> event list" where
  "record_of k c \<equiv> entries_of k (effects c)"

lemma task_turn_cases:
  assumes "task_turn env i answer c = Some c'"
  obtains (abort) "c' = c\<lparr>aborted := True\<rparr>"
  | (turn) k t t' n es spawned where "i < length (tasks c)" "tasks c ! i = (k, t)"
      "task_step answer (next_client_id c) t = Some (t', n, es, spawned)"
      "c' = c\<lparr>next_client_id := n, tasks := (tasks c)[i := (k, t')] @ map (Pair k) spawned,
              effects := effects c @ map (Pair k) es\<rparr>"
  using assms
  by (auto simp: task_turn_def split: if_splits prod.splits Task.splits option.splits)

lemma move_cases [consumes 1, case_names abort arrival error close turn]:
  assumes "move env server m c = Some c'"
  obtains (abort) i a where "m = Turn i a" "c' = c\<lparr>aborted := True\<rparr>"
  | (arrival) stream where "m = Arrival (Some (Inr stream))" "loop_result c = None"
      "c' = c\<lparr>accepted := accepted c @ [stream],
              tasks := tasks c @ [(length (accepted c), client_task env server stream)]\<rparr>"
  | (error) e where "m = Arrival (Some (Inl e))" "loop_result c = None"
      "c' = c\<lparr>loop_result := Some (Inl e)\<rparr>"
  | (close) "m = Arrival None" "loop_result c = None" "c' = c\<lparr>loop_result := Some (Inr ())\<rparr>"
  | (turn) i a k t t' n es spawned where "m = Turn i a" "i < length (tasks c)" "tasks c ! i = (k, t)"
      "task_step a (next_client_id c) t = Some (t', n, es, spawned)"
      "c' = c\<lparr>next_client_id := n, tasks := (tasks c)[i := (k, t')] @ map (Pair k) spawned,
              effects := effects c @ map (Pair k) es\<rparr>"
proof (cases m)
  case (Arrival item)
  with assms that(2-4) show ?thesis
    by (auto simp: move_def accept_round_def split: if_splits option.splits sum.splits)
next
  case (Turn i a)
  with assms have "task_turn env i a c = Some c'" by (simp add: move_def split: if_splits)
  then show ?thesis by (cases rule: task_turn_cases) (use Turn that(1,5) in blast)+
qed

text \<open>Tasks and effects belong to accepted streams.\<close>

lemma owners:
  "reachable env server c \<Longrightarrow> fst ` set (tasks c) \<union> fst ` set (effects c) \<subseteq> {..<length (accepted c)}"
proof (induction rule: reachable.induct)
  case (step c m c')
  from step.hyps(2) show ?case
  proof (cases rule: move_cases)
    case (turn i a k t t' n es spawned)
    then have "k < length (accepted c)" using step.IH nth_mem by fastforce
    with turn step.IH show ?thesis
      by (auto dest!: set_update_subset_insert [THEN subsetD])
  qed (use step.IH in auto)
qed (simp add: loop_accepting_def)

lemma entries_of_beyond: "fst ` set xs \<subseteq> {..<n} \<Longrightarrow> entries_of n xs = []"
  by (auto simp: entries_of_def filter_empty_conv)

text \<open>Whatever the tasks of a connection go on to do, with what they have done already it is
  something the connection can do on its own.\<close>

lemma reachable_plays:
  assumes "reachable env server c" and "k < length (accepted c)" and "plays (entries_of k (tasks c)) es"
  shows "plays [client_task env server (accepted c ! k)] (record_of k c @ es)"
  using assms
proof (induction arbitrary: k es rule: reachable.induct)
  case (step c m c')
  from step.hyps(2) show ?case
  proof (cases rule: move_cases)
    case (arrival stream)
    have "entries_of (length (accepted c)) (tasks c) = []" "record_of (length (accepted c)) c = []"
      using owners [OF step.hyps(1)] by (simp_all add: entries_of_beyond)
    with arrival step show ?thesis
      by (cases "k = length (accepted c)") (auto simp: nth_append)
  next
    case (turn i a j t t' n es1 spawned)
    show ?thesis
    proof (cases "j = k")
      case True
      obtain p where p: "p < length (entries_of k (tasks c))" "entries_of k (tasks c) ! p = t"
        "\<And>t'. entries_of k ((tasks c)[i := (k, t')]) = (entries_of k (tasks c))[p := t']"
        using entries_of_update [OF turn(2)] turn(3) True by blast
      have "plays (entries_of k (tasks c)) (es1 @ es)"
        by (rule plays_turn [OF p(1)]) (use turn True p step.prems in auto)
      with step.IH step.prems turn True show ?thesis by simp
    next
      case False
      with turn step.prems have "plays (entries_of k (tasks c)) es"
        by (simp add: entries_of_update_other)
      with step.IH step.prems turn False show ?thesis by simp
    qed
  qed (use step.IH step.prems in auto)
qed (simp add: loop_accepting_def)

lemma reachable_record:
  assumes "reachable env server c" and "k < length (accepted c)"
  shows "\<exists>n now1 now2 connected choices.
    prefix (record_of k c) (client_record env server (accepted c ! k) n now1 now2 connected choices)"
  using reachable_plays [OF assms plays_nothing] by (simp add: plays_client_task)

section \<open>A client is served whatever the others do\<close>

text \<open>\<open>own_turns env k ms c\<close>: from \<open>c\<close> on, every move of \<open>ms\<close> is a turn of a task of connection
  \<open>k\<close>. The inputs of a run are the answers that its tasks were given by their surroundings.\<close>

fun own_turns ::
  "('tcp, 'tls, 'err, 'ident, 'impl, 'acceptor, 'connector, 'listener) ServerEnv
    \<Rightarrow> nat \<Rightarrow> 'tcp move list \<Rightarrow> 'tcp Running \<Rightarrow> bool" where
  "own_turns env k [] c \<longleftrightarrow> True"
| "own_turns env k (Arrival item # ms) c \<longleftrightarrow> False"
| "own_turns env k (Turn i a # ms) c \<longleftrightarrow>
     i < length (tasks c) \<and> fst (tasks c ! i) = k
     \<and> (case task_turn env i a c of None \<Rightarrow> False | Some c' \<Rightarrow> own_turns env k ms c')"

primrec asked :: "'tcp answer \<Rightarrow> 'tcp answer list" where
  "asked NoAnswer = []"
| "asked (Clock now) = [Clock now]"
| "asked (Connection r) = [Connection r]"
| "asked (Served choices) = [Served choices]"

primrec input_of :: "'tcp move \<Rightarrow> 'tcp answer list" where
  "input_of (Arrival item) = []"
| "input_of (Turn i a) = asked a"

definition inputs :: "'tcp move list \<Rightarrow> 'tcp answer list" where
  "inputs ms = concat (map input_of ms)"

lemma own_turns_tasks:
  "own_turns env k ms c \<Longrightarrow> moves env server ms c = Some c' \<Longrightarrow> j \<noteq> k \<Longrightarrow>
    entries_of j (tasks c') = entries_of j (tasks c) \<and> record_of j c' = record_of j c"
proof (induction env k ms c rule: own_turns.induct)
  case (3 env k i a ms c)
  from "3.prems" obtain c1 where c1: "task_turn env i a c = Some c1" "own_turns env k ms c1"
    "i < length (tasks c)" "fst (tasks c ! i) = k"
    by (auto split: option.splits)
  with "3.prems"(2) have "moves env server ms c1 = Some c'"
    by (auto simp: move_def split: option.splits if_splits)
  with "3.IH" [OF c1(1,2)] "3.prems"(3)
  have "entries_of j (tasks c') = entries_of j (tasks c1) \<and> record_of j c' = record_of j c1" by blast
  moreover from c1(1) have "entries_of j (tasks c1) = entries_of j (tasks c) \<and> record_of j c1 = record_of j c"
    by (cases rule: task_turn_cases) (use c1(3,4) "3.prems"(3) in \<open>auto simp: entries_of_update_other\<close>)
  ultimately show ?case by simp
qed simp_all

text \<open>\<open>does env server k n t as es\<close>: in every state that is not aborted and has the counter at \<open>n\<close>,
  a task \<open>t\<close> of connection \<open>k\<close>, given the answers \<open>as\<close>, can have the effects \<open>es\<close> without a turn of
  anything else.\<close>

definition does ::
  "('tcp, 'tls, 'err, 'ident, 'impl, 'acceptor, 'connector, 'listener) ServerEnv
    \<Rightarrow> ('acceptor, 'listener) Server \<Rightarrow> nat \<Rightarrow> usize \<Rightarrow> 'tcp Task \<Rightarrow> 'tcp answer list \<Rightarrow> event list \<Rightarrow> bool" where
  "does env server k n t as es \<longleftrightarrow>
     (\<forall>c i. \<not> aborted c \<longrightarrow> next_client_id c = n \<longrightarrow> i < length (tasks c) \<longrightarrow> tasks c ! i = (k, t) \<longrightarrow>
        (\<exists>ms c'. moves env server ms c = Some c' \<and> own_turns env k ms c \<and> inputs ms = as
           \<and> accepted c' = accepted c \<and> effects c' = effects c @ map (Pair k) es))"

lemma does_nothing: "does env server k n t [] []"
  by (auto simp: does_def inputs_def intro!: exI [of _ "[]"])

lemma does_turn:
  assumes step: "task_step a n t = Some (t', n', es, spawned)"
    and "does env server k n' t' as es' \<or> spawned = [u] \<and> does env server k n' u as es'"
  shows "does env server k n t (asked a @ as) (es @ es')"
  unfolding does_def
proof (intro allI impI)
  fix c :: "'a Running" and i
  assume c: "\<not> aborted c" "next_client_id c = n" "i < length (tasks c)" "tasks c ! i = (k, t)"
  define c1 where "c1 = c\<lparr>next_client_id := n',
    tasks := (tasks c)[i := (k, t')] @ map (Pair k) spawned, effects := effects c @ map (Pair k) es\<rparr>"
  have turn: "task_turn env i a c = Some c1"
    using step c by (cases t) (auto simp: task_turn_def task_step_iffs c1_def)
  have "\<exists>ms c'. moves env server ms c1 = Some c' \<and> own_turns env k ms c1 \<and> inputs ms = as
           \<and> accepted c' = accepted c1 \<and> effects c' = effects c1 @ map (Pair k) es'"
    using assms(2)
  proof
    assume "does env server k n' t' as es'"
    then show ?thesis
      unfolding does_def using c by (elim allE [of _ c1] allE [of _ i]) (auto simp: c1_def nth_append)
  next
    assume "spawned = [u] \<and> does env server k n' u as es'"
    then show ?thesis
      unfolding does_def using c
      by (elim conjE allE [of _ c1] allE [of _ "length (tasks c)"]) (auto simp: c1_def nth_append)
  qed
  then obtain ms c' where "moves env server ms c1 = Some c'" "own_turns env k ms c1" "inputs ms = as"
    "accepted c' = accepted c1" "effects c' = effects c1 @ map (Pair k) es'"
    by blast
  with turn c show "\<exists>ms c'. moves env server ms c = Some c' \<and> own_turns env k ms c
           \<and> inputs ms = asked a @ as \<and> accepted c' = accepted c
           \<and> effects c' = effects c @ map (Pair k) (es @ es')"
    by (intro exI [of _ "Turn i a # ms"] exI [of _ c'])
       (simp add: move_def inputs_def, simp add: c1_def)
qed

lemma does_FetchAdd:
  "does env server k (n + 1) (f n) as es \<Longrightarrow> does env server k n (FetchAdd f) as (TookNumber n # es)"
  using does_turn [of NoAnswer n "FetchAdd f" "f n" "n + 1" "[TookNumber n]" "[]" env server k as es] by simp

lemma does_Emit: "does env server k n t as es \<Longrightarrow> does env server k n (Emit out t) as (Output out # es)"
  using does_turn [of NoAnswer n "Emit out t" t n "[Output out]" "[]" env server k as es] by simp

lemma does_Now: "does env server k n (g now) as es \<Longrightarrow> does env server k n (format_now g) (Clock now # as) es"
  using does_turn [of "Clock now" n "Now g" "g now" n "[]" "[]" env server k as es] by (simp add: format_now_def)

lemma does_Connect:
  "does env server k n (h r) as es \<Longrightarrow>
    does env server k n (Connect addr h) (Connection r # as) (Dialled addr # es)"
  using does_turn [of "Connection r" n "Connect addr h" "h r" n "[Dialled addr]" "[]" env server k as es] by simp

lemma does_Select: "does env server k n (l cs) as es \<Longrightarrow> does env server k n (Select l) (Served cs # as) es"
  using does_turn [of "Served cs" n "Select l" "l cs" n "[]" "[]" env server k as es] by simp

lemma does_Spawn: "does env server k n t as es \<Longrightarrow> does env server k n (Spawn t u) as es"
  using does_turn [of NoAnswer n "Spawn t u" u n "[]" "[t]" env server k as es t] by simp

lemma does_Emits:
  "does env server k n t as es \<Longrightarrow>
    does env server k n (foldr (\<lambda>x. Emit (ev x)) xs t) as (map (Output \<circ> ev) xs @ es)"
  by (induction xs) (auto intro: does_Emit)

text \<open>The answers that go with a complete record.\<close>

definition outcome_inputs :: "(ConveyError, unit) outcome \<Rightarrow> string \<Rightarrow> 'tcp answer list" where
  "outcome_inputs r now = (case r of Return _ \<Rightarrow> [Clock now] | Throw e \<Rightarrow> [Clock now] | Panic _ \<Rightarrow> [] | Blocked \<Rightarrow> [])"

definition served_inputs ::
  "('tcp, 'tls, 'err, 'ident, 'impl, 'acceptor, 'connector, 'listener) ServerEnv \<Rightarrow> 'acceptor
    \<Rightarrow> 'tcp \<Rightarrow> string \<Rightarrow> string \<Rightarrow> (IoError, 'tcp) outcome \<Rightarrow> Side list \<Rightarrow> 'tcp answer list" where
  "served_inputs env acceptor client now1 now2 connected choices =
     Connection connected #
     (case connected of
        Return server \<Rightarrow>
          Clock now1 #
          (case local_addr env server of
             Inl _ \<Rightarrow> []
           | Inr addr \<Rightarrow>
               Served choices # outcome_inputs (fst (convey (client_env env acceptor) choices client server)) now2)
      | Throw e \<Rightarrow> [Clock now1]
      | Panic _ \<Rightarrow> []
      | Blocked \<Rightarrow> [])"

definition client_inputs ::
  "('tcp, 'tls, 'err, 'ident, 'impl, 'acceptor, 'connector, 'listener) ServerEnv
    \<Rightarrow> ('acceptor, 'listener) Server \<Rightarrow> 'tcp \<Rightarrow> string \<Rightarrow> string \<Rightarrow> (IoError, 'tcp) outcome
    \<Rightarrow> Side list \<Rightarrow> 'tcp answer list" where
  "client_inputs env server client now1 now2 connected choices =
     (case peer_addr env client of
        Inl _ \<Rightarrow> []
      | Inr peer \<Rightarrow>
          (case IpAddr_from_str (target_host (config server)) of
             None \<Rightarrow> [Clock now1]
           | Some target_ip \<Rightarrow> served_inputs env (tls_acceptor server) client now1 now2 connected choices))"

lemma does_convey_task:
  assumes "convey (client_env env acceptor) choices client server = (r, c)"
  shows "does env srv k n (convey_task env acceptor client server
      (\<lambda>r. format_now (\<lambda>now. Emit (ev now r) Done)))
    (Served choices # outcome_inputs r now)
    (map (Output \<circ> Callback) (conveyed c) @ outcome_events r (ev now))"
  unfolding convey_task_def
proof (rule does_Select [of _ _ _ _ _ choices], unfold assms prod.case, rule does_Emits)
  show "does env srv k n
     (case r of Return _ \<Rightarrow> format_now (\<lambda>now. Emit (ev now (Inr ())) Done)
      | Throw e \<Rightarrow> format_now (\<lambda>now. Emit (ev now (Inl e)) Done)
      | Panic p \<Rightarrow> Panicked (PanicInside p) | Blocked \<Rightarrow> Waiting)
     (outcome_inputs r now) (outcome_events r (ev now))"
    by (cases r) (auto simp: outcome_events_def outcome_inputs_def
        intro: does_nothing does_Emit does_Now [of _ _ _ _ "\<lambda>now. Emit (ev now x) Done" now for x])
qed

lemma does_serve_client:
  "does env srv k m (serve_client env acceptor lport n client addr)
     (served_inputs env acceptor client now1 now2 connected choices)
     (Dialled addr # served_record env acceptor lport n client now1 now2 connected choices)"
  unfolding serve_client_def served_inputs_def
proof (rule does_Connect [of _ _ _ _ _ connected], cases connected, goal_cases)
  case (1 server)
  obtain r c where convey: "convey (client_env env acceptor) choices client server = (r, c)" by fastforce
  from does_convey_task [OF this]
  have conveys: "does env srv k m (Emit (ConnectedToTarget now1 lport n a)
      (convey_task env acceptor client server
        (\<lambda>r. format_now (\<lambda>now. Emit (StoppedConveying now lport n r) Done))))
    (Served choices # outcome_inputs r now2)
    (Output (ConnectedToTarget now1 lport n a) # map (Output \<circ> Callback) (conveyed c)
      @ outcome_events r (StoppedConveying now2 lport n))" for a
    by (rule does_Emit)
  show ?case
    unfolding 1 outcome.case
    by (rule does_Now [of _ _ _ _ _ now1], cases "local_addr env server")
       (use convey conveys in \<open>auto simp: served_record_def unwrap_io_def intro: does_nothing\<close>)
qed (auto simp: served_record_def intro: does_Now [of _ _ _ _ _ now1] does_nothing does_Emit)

lemma does_client_task:
  "does env server k n (client_task env server client)
     (client_inputs env server client now1 now2 connected choices)
     (client_record env server client n now1 now2 connected choices)"
  unfolding client_task_def client_record_def client_inputs_def
  by (rule does_FetchAdd, cases "peer_addr env client"; cases "IpAddr_from_str (target_host (config server))")
     (auto simp: handle_client_def Let_def unwrap_io_def
        intro: does_nothing does_Emit does_Spawn does_Now [of _ _ _ _ _ now1] does_serve_client)

lemma new_client_served:
  assumes "reachable env server c" and "\<not> aborted c" and "loop_result c = None"
  shows "\<exists>ms c'. moves env server (Arrival (Some (Inr stream)) # ms) c = Some c'
    \<and> own_turns env (length (accepted c)) ms (accept_round env server (Some (Inr stream)) c)
    \<and> inputs ms = client_inputs env server stream now1 now2 connected choices
    \<and> record_of (length (accepted c)) c' =
        client_record env server stream (next_client_id c) now1 now2 connected choices
    \<and> (\<forall>j < length (accepted c). entries_of j (tasks c') = entries_of j (tasks c)
         \<and> record_of j c' = record_of j c)"
proof -
  let ?k = "length (accepted c)"
  define c1 where "c1 = accept_round env server (Some (Inr stream)) c"
  have "move env server (Arrival (Some (Inr stream))) c = Some c1"
    using assms by (simp add: move_def c1_def)
  moreover have c1: "tasks c1 ! length (tasks c) = (?k, client_task env server stream)"
    "length (tasks c) < length (tasks c1)" "\<not> aborted c1" "next_client_id c1 = next_client_id c"
    "effects c1 = effects c" "tasks c1 = tasks c @ [(?k, client_task env server stream)]"
    using assms by (simp_all add: c1_def accept_round_def)
  moreover from this obtain ms c' where ms: "moves env server ms c1 = Some c'" "own_turns env ?k ms c1"
    "inputs ms = client_inputs env server stream now1 now2 connected choices"
    "effects c' = effects c1 @ map (Pair ?k)
       (client_record env server stream (next_client_id c) now1 now2 connected choices)"
    using does_client_task [of env server ?k "next_client_id c" stream now1 now2 connected choices]
    unfolding does_def by blast
  moreover have "record_of ?k c = []"
    using owners [OF assms(1)] by (simp add: entries_of_beyond)
  moreover have "entries_of j (tasks c') = entries_of j (tasks c) \<and> record_of j c' = record_of j c"
    if "j < ?k" for j
    using own_turns_tasks [OF ms(2,1), of j] that c1(5,6) by simp
  ultimately show ?thesis unfolding c1_def [symmetric]
    by (intro exI [of _ ms] exI [of _ c']) simp
qed

section \<open>Client numbers\<close>

fun number_of :: "event \<Rightarrow> usize option" where
  "number_of (TookNumber n) = Some n"
| "number_of _ = None"

definition numbers :: "'tcp Running \<Rightarrow> usize list" where
  "numbers c = List.map_filter (number_of \<circ> snd) (effects c)"

lemma numbers_task_step:
  assumes "task_step a n t = Some (t', n', es, spawned)"
  shows "List.map_filter (number_of \<circ> snd) (map (Pair k) es) = [] \<and> n' = n
    \<or> List.map_filter (number_of \<circ> snd) (map (Pair k) es) = [n] \<and> n' = n + 1"
  using assms by (cases t) (auto simp: task_step_iffs map_filter_simps)

lemma map_filter_append: "List.map_filter f (xs @ ys) = List.map_filter f xs @ List.map_filter f ys"
  by (simp add: List.map_filter_def)

text \<open>The numbers are given out in order, from 1 on.\<close>

lemma numbers_in_order:
  "reachable env server c \<Longrightarrow>
    numbers c = map (\<lambda>i. word_of_nat (Suc i)) [0..<length (numbers c)]
    \<and> next_client_id c = word_of_nat (Suc (length (numbers c)))"
proof (induction rule: reachable.induct)
  case (step c m c')
  from step.hyps(2) show ?case
  proof (cases rule: move_cases)
    case (turn i a k t t' n es spawned)
    let ?new = "List.map_filter (number_of \<circ> snd) (map (Pair k) es)"
    have "numbers c' = numbers c @ ?new"
      using turn by (simp add: numbers_def map_filter_append)
    moreover have "next_client_id c' = n" using turn by simp
    moreover note numbers_task_step [OF turn(4), of k]
    ultimately show ?thesis using step.IH by (auto simp: add.commute)
  qed (use step.IH in \<open>simp_all add: numbers_def\<close>)
qed (simp add: loop_accepting_def numbers_def map_filter_simps)

text \<open>A connection takes at most one number.\<close>

lemma outcome_events_Output: "set (outcome_events r ev) \<subseteq> range Output"
  by (cases r) (auto simp: outcome_events_def)

lemma served_record_Output:
  "set (served_record env acceptor lport n client now1 now2 connected choices) \<subseteq> range Output"
proof (cases connected)
  case (Return server)
  then show ?thesis
    using outcome_events_Output by (auto simp: served_record_def split: sum.splits prod.splits)
qed (auto simp: served_record_def)

lemma Output_no_number: "set es \<subseteq> range Output \<Longrightarrow> List.map_filter number_of es = []"
  by (auto simp: List.map_filter_def filter_empty_conv)

lemma client_record_number:
  "List.map_filter number_of (client_record env server client n now1 now2 connected choices) = [n]"
  by (simp add: client_record_def map_filter_simps Output_no_number [OF served_record_Output]
      split: sum.splits option.splits)

lemma prefix_map_filter: "prefix xs ys \<Longrightarrow> prefix (List.map_filter f xs) (List.map_filter f ys)"
  by (auto simp: prefix_def map_filter_append)

lemma one_number:
  assumes "reachable env server c" and "k < length (accepted c)"
  shows "length (List.map_filter number_of (record_of k c)) \<le> 1"
  using reachable_record [OF assms] client_record_number prefix_map_filter prefix_length_le
  by (metis length_Cons list.size(3) One_nat_def)

lemma map_filter_entries: "List.map_filter f (entries_of k xs) = entries_of k (List.map_filter (\<lambda>(j, x). map_option (Pair j) (f x)) xs)"
  by (induction xs) (auto simp: map_filter_simps split: option.splits)

lemma distinct_entries:
  "(\<And>k. length (entries_of k xs) \<le> 1) \<Longrightarrow> distinct (map fst xs)"
proof (induction xs)
  case (Cons p xs)
  have "length (entries_of k xs) \<le> 1" for k using Cons.prems [of k] by (simp split: if_splits)
  moreover have "entries_of (fst p) xs = []" using Cons.prems [of "fst p"] by simp
  ultimately show ?case using Cons.IH by (auto simp: entries_of_def filter_empty_conv)
qed simp

definition numbered :: "'tcp Running \<Rightarrow> (nat \<times> usize) list" where
  "numbered c = List.map_filter (\<lambda>(k, e). map_option (Pair k) (number_of e)) (effects c)"

lemma numbers_numbered: "numbers c = map snd (numbered c)"
proof -
  have "List.map_filter (number_of \<circ> snd) xs =
      map snd (List.map_filter (\<lambda>(k, e). map_option (Pair k) (number_of e)) xs)" for xs :: "(nat \<times> event) list"
    by (induction xs) (auto simp: map_filter_simps split: option.splits)
  then show ?thesis by (simp add: numbers_def numbered_def)
qed

lemma numbered_distinct:
  assumes "reachable env server c"
  shows "distinct (map fst (numbered c))" and "fst ` set (numbered c) \<subseteq> {..<length (accepted c)}"
proof -
  show sub: "fst ` set (numbered c) \<subseteq> {..<length (accepted c)}"
    using owners [OF assms] by (force simp: numbered_def List.map_filter_def)
  have "length (entries_of k (numbered c)) \<le> 1" for k
  proof (cases "k < length (accepted c)")
    case True
    from one_number [OF assms True] show ?thesis by (simp add: numbered_def map_filter_entries)
  next
    case False
    with sub have "k \<notin> fst ` set (numbered c)" by auto
    then have "entries_of k (numbered c) = []" by (force simp: entries_of_def filter_empty_conv)
    then show ?thesis by simp
  qed
  then show "distinct (map fst (numbered c))" by (rule distinct_entries)
qed

lemma numbers_bounded: "reachable env server c \<Longrightarrow> length (numbers c) \<le> length (accepted c)"
  using numbered_distinct [of env server c] card_mono [of "{..<length (accepted c)}" "fst ` set (numbered c)"]
    distinct_card [of "map fst (numbered c)"]
  by (simp add: numbers_numbered)

lemma distinct_usizes:
  assumes "n < 2 ^ 64"
  shows "distinct (map (\<lambda>i. word_of_nat (Suc i) :: usize) [0..<n])"
proof -
  have unat: "unat (word_of_nat (Suc i) :: usize) = Suc i" if "i < n" for i
  proof -
    have "Suc i < 2 ^ LENGTH(64)" using that assms by simp
    then show ?thesis by (simp only: unat_of_nat mod_less)
  qed
  have "inj_on (\<lambda>i. word_of_nat (Suc i) :: usize) {0..<n}"
  proof (rule inj_onI)
    fix i j
    assume ij: "i \<in> {0..<n}" "j \<in> {0..<n}"
      and eq: "(word_of_nat (Suc i) :: usize) = word_of_nat (Suc j)"
    from arg_cong [OF eq, of unat] ij show "i = j"
      by (simp only: unat atLeastLessThan_iff nat.inject)
  qed
  then show ?thesis by (simp add: distinct_map)
qed

lemma numbers_distinct:
  assumes "reachable env server c" and "length (accepted c) < 2 ^ 64"
  shows "distinct (numbers c)"
proof -
  have "length (numbers c) < 2 ^ 64" using numbers_bounded [OF assms(1)] assms(2) by linarith
  from distinct_usizes [OF this] numbers_in_order [OF assms(1)] show ?thesis by metis
qed

lemma took_number_numbered: "(k, TookNumber n) \<in> set (effects c) \<Longrightarrow> (k, n) \<in> set (numbered c)"
  by (force simp: numbered_def List.map_filter_def)

lemma same_number_same_client:
  assumes "reachable env server c" and "length (accepted c) < 2 ^ 64"
    and "(j, TookNumber n) \<in> set (effects c)" and "(k, TookNumber n) \<in> set (effects c)"
  shows "j = k"
proof -
  have "distinct (map snd (numbered c))"
    using numbers_distinct [OF assms(1,2)] by (simp add: numbers_numbered)
  then have inj: "inj_on snd (set (numbered c))" by (simp add: distinct_map)
  show ?thesis
    using inj_onD [OF inj, of "(j, n)" "(k, n)"] assms(3,4) [THEN took_number_numbered] by simp
qed

section \<open>The accept loop\<close>

fun arrival :: "'tcp move \<Rightarrow> (IoError + 'tcp) option option" where
  "arrival (Arrival item) = Some item"
| "arrival (Turn i a) = None"

definition arrivals :: "'tcp move list \<Rightarrow> (IoError + 'tcp) option list" where
  "arrivals ms = List.map_filter arrival ms"

text \<open>The item that ended the loop.\<close>

definition last_item :: "(IoError + unit) option \<Rightarrow> (IoError + 'tcp) option list" where
  "last_item r = (case r of None \<Rightarrow> [] | Some (Inl e) \<Rightarrow> [Some (Inl e)] | Some (Inr _) \<Rightarrow> [None])"

lemma moves_after_loop:
  "moves env server ms c = Some c' \<Longrightarrow> loop_result c = Some r \<Longrightarrow>
    arrivals ms = [] \<and> loop_result c' = Some r \<and> accepted c' = accepted c"
proof (induction ms arbitrary: c)
  case (Cons m ms)
  then obtain c1 where c1: "move env server m c = Some c1" "moves env server ms c1 = Some c'"
    by (auto split: option.splits)
  from c1(1) have "loop_result c1 = Some r \<and> accepted c1 = accepted c \<and> arrival m = None"
    using Cons.prems(2) by (cases rule: move_cases) auto
  with Cons.IH [OF c1(2)] show ?case by (simp add: arrivals_def map_filter_simps)
qed (simp add: arrivals_def map_filter_simps)

lemma moves_arrivals:
  "moves env server ms c = Some c' \<Longrightarrow> loop_result c = None \<Longrightarrow>
    \<exists>streams. accepted c' = accepted c @ streams
      \<and> arrivals ms = map (\<lambda>s. Some (Inr s)) streams @ last_item (loop_result c')"
proof (induction ms arbitrary: c)
  case (Cons m ms)
  then obtain c1 where c1: "move env server m c = Some c1" "moves env server ms c1 = Some c'"
    by (auto split: option.splits)
  from c1(1) show ?case
  proof (cases rule: move_cases)
    case (arrival stream)
    with Cons.IH [OF c1(2)] Cons.prems(2) obtain streams where
      "accepted c' = accepted c1 @ streams"
      "arrivals ms = map (\<lambda>s. Some (Inr s)) streams @ last_item (loop_result c')"
      by auto
    with arrival show ?thesis
      by (intro exI [of _ "stream # streams"]) (simp add: arrivals_def map_filter_simps)
  next
    case (error e)
    with moves_after_loop [OF c1(2)] show ?thesis
      by (intro exI [of _ "[]"]) (simp add: arrivals_def map_filter_simps last_item_def)
  next
    case close
    with moves_after_loop [OF c1(2)] show ?thesis
      by (intro exI [of _ "[]"]) (simp add: arrivals_def map_filter_simps last_item_def)
  next
    case (abort i a)
    with Cons.IH [OF c1(2)] Cons.prems(2) show ?thesis by (simp add: arrivals_def map_filter_simps)
  next
    case (turn i a k t t' n es spawned)
    with Cons.IH [OF c1(2)] Cons.prems(2) show ?thesis by (simp add: arrivals_def map_filter_simps)
  qed
qed (simp add: arrivals_def map_filter_simps last_item_def)

lemma moves_reachable:
  "moves env server ms c = Some c' \<Longrightarrow> reachable env server c \<Longrightarrow> reachable env server c'"
  by (induction ms arbitrary: c) (auto split: option.splits intro: reachable.step)

section \<open>The target of a connection\<close>

lemma client_record_dials:
  assumes "Dialled addr \<in> set (client_record env server client n now1 now2 connected choices)"
  shows "\<exists>target_ip. IpAddr_from_str (target_host (config server)) = Some target_ip
    \<and> addr = \<lparr>ip = target_ip, port = target_port (config server)\<rparr>"
  using assms served_record_Output
  by (fastforce simp: client_record_def split: sum.splits option.splits)

lemma reachable_dials:
  assumes "reachable env server c" and "(k, Dialled addr) \<in> set (effects c)"
  shows "\<exists>target_ip. IpAddr_from_str (target_host (config server)) = Some target_ip
    \<and> addr = \<lparr>ip = target_ip, port = target_port (config server)\<rparr>"
proof -
  have "k < length (accepted c)" using owners [OF assms(1)] assms(2) by force
  from reachable_record [OF assms(1) this] obtain n now1 now2 connected choices where
    "prefix (record_of k c) (client_record env server (accepted c ! k) n now1 now2 connected choices)"
    by blast
  moreover have "Dialled addr \<in> set (record_of k c)" using assms(2) by (force simp: entries_of_def)
  ultimately show ?thesis by (blast dest: set_mono_prefix intro: client_record_dials)
qed

section \<open>A target host that is not an address\<close>

text \<open>The record of a client that is announced and then reported as not handled; the stages of its
  only task, with what it has done before.\<close>

definition unresolved_record ::
  "('tcp, 'tls, 'err, 'ident, 'impl, 'acceptor, 'connector, 'listener) ServerEnv
    \<Rightarrow> 'tcp \<Rightarrow> SocketAddr \<Rightarrow> usize \<Rightarrow> string \<Rightarrow> event list" where
  "unresolved_record env client peer n now =
     [TookNumber n, Output (NewConnection (local_port_or_0 env client) n peer),
      Output (CouldNotBeHandled now (local_port_or_0 env client) n addr_parse_error)]"

inductive unresolved_stage ::
  "('tcp, 'tls, 'err, 'ident, 'impl, 'acceptor, 'connector, 'listener) ServerEnv
    \<Rightarrow> ('acceptor, 'listener) Server \<Rightarrow> 'tcp \<Rightarrow> SocketAddr \<Rightarrow> 'tcp Task \<Rightarrow> event list \<Rightarrow> bool"
  for env server client peer where
  "unresolved_stage env server client peer (client_task env server client) []"
| "unresolved_stage env server client peer
     (Emit (NewConnection (local_port_or_0 env client) n peer)
       (format_now (\<lambda>now. Emit (CouldNotBeHandled now (local_port_or_0 env client) n addr_parse_error) Done)))
     (take 1 (unresolved_record env client peer n now))"
| "unresolved_stage env server client peer
     (format_now (\<lambda>now. Emit (CouldNotBeHandled now (local_port_or_0 env client) n addr_parse_error) Done))
     (take 2 (unresolved_record env client peer n now))"
| "unresolved_stage env server client peer
     (Emit (CouldNotBeHandled now (local_port_or_0 env client) n addr_parse_error) Done)
     (take 2 (unresolved_record env client peer n now))"
| "unresolved_stage env server client peer Done (unresolved_record env client peer n now)"

lemma unresolved_stage_step:
  assumes "unresolved_stage env server client peer t es" and "task_step a n t = Some (t', n', es', spawned)"
    and "peer_addr env client = Inr peer" and "IpAddr_from_str (target_host (config server)) = None"
  shows "spawned = [] \<and> unresolved_stage env server client peer t' (es @ es')"
  using assms
  by (cases rule: unresolved_stage.cases)
     (auto simp: client_task_def handle_client_def unwrap_io_def format_now_def task_step_iffs
        unresolved_record_def numeral_2_eq_2 intro: unresolved_stage.intros [unfolded unresolved_record_def format_now_def numeral_2_eq_2, simplified])

lemma unresolved_stage_reached:
  assumes "reachable env server c" and "IpAddr_from_str (target_host (config server)) = None"
    and "k < length (accepted c)" and "peer_addr env (accepted c ! k) = Inr peer"
  shows "\<exists>t. entries_of k (tasks c) = [t] \<and> unresolved_stage env server (accepted c ! k) peer t (record_of k c)"
  using assms
proof (induction arbitrary: k rule: reachable.induct)
  case (step c m c')
  from step.hyps(2) show ?case
  proof (cases rule: move_cases)
    case (arrival stream)
    have "entries_of (length (accepted c)) (tasks c) = []" "record_of (length (accepted c)) c = []"
      using owners [OF step.hyps(1)] by (simp_all add: entries_of_beyond)
    with arrival step show ?thesis
      by (cases "k = length (accepted c)") (auto simp: nth_append intro: unresolved_stage.intros)
  next
    case (turn i a j t t' n es spawned)
    from turn step obtain u where u: "entries_of k (tasks c) = [u]"
      "unresolved_stage env server (accepted c ! k) peer u (record_of k c)" by auto
    show ?thesis
    proof (cases "j = k")
      case True
      from entries_of_update [OF turn(2)] turn(3) True u(1) have "u = t"
        "\<And>t'. entries_of k ((tasks c)[i := (k, t')]) = [t']" by auto
      with unresolved_stage_step [OF u(2)] turn step.prems True show ?thesis by auto
    next
      case False
      with turn u show ?thesis by (auto simp: entries_of_update_other)
    qed
  qed (use step in auto)
qed (simp add: loop_accepting_def)

lemma unresolved_stage_prefix:
  assumes "unresolved_stage env server client peer t es"
  shows "\<exists>n now. prefix es (unresolved_record env client peer n now)"
  using assms by cases (auto intro: take_is_prefix)

lemma unresolved_stage_does:
  assumes "unresolved_stage env server client peer t es"
    and "peer_addr env client = Inr peer" and "IpAddr_from_str (target_host (config server)) = None"
  shows "\<exists>n' now as es'. es @ es' = unresolved_record env client peer n' now \<and> does env server k n t as es'"
  using assms(1)
proof cases
  case 1
  have "does env server k n t (client_inputs env server client now now connected choices)
      (unresolved_record env client peer n now)" for now connected choices
    using does_client_task [of env server k n client now now connected choices] assms(2,3) 1
    by (simp add: client_record_def unresolved_record_def)
  with 1 show ?thesis by fastforce
next
  case (2 m now)
  have "does env server k n t (Clock now # []) (drop 1 (unresolved_record env client peer m now))"
    unfolding 2(1) unresolved_record_def by (auto intro!: does_Emit does_Now does_nothing)
  then show ?thesis unfolding 2(2) by (metis append_take_drop_id)
next
  case (3 m now)
  have "does env server k n t (Clock now # []) (drop 2 (unresolved_record env client peer m now))"
    unfolding 3(1) unresolved_record_def by (auto intro!: does_Emit does_Now does_nothing)
  then show ?thesis unfolding 3(2) by (metis append_take_drop_id)
next
  case (4 now m)
  have "does env server k n t [] (drop 2 (unresolved_record env client peer m now))"
    unfolding 4(1) unresolved_record_def by (auto intro!: does_Emit does_nothing)
  then show ?thesis unfolding 4(2) by (metis append_take_drop_id)
next
  case (5 m now)
  then show ?thesis using does_nothing [of env server k n t] by (metis append_Nil2)
qed

text \<open>So every such client is announced and reported, by turns of its own task.\<close>

lemma unresolved_served:
  assumes "reachable env server c" and "IpAddr_from_str (target_host (config server)) = None"
    and "k < length (accepted c)" and "peer_addr env (accepted c ! k) = Inr peer"
  shows "\<exists>n now. prefix (record_of k c) (unresolved_record env (accepted c ! k) peer n now)"
    and "\<not> aborted c \<Longrightarrow> \<exists>ms c' n now. moves env server ms c = Some c' \<and> own_turns env k ms c
      \<and> record_of k c' = unresolved_record env (accepted c ! k) peer n now"
proof -
  from unresolved_stage_reached [OF assms] obtain t where t: "entries_of k (tasks c) = [t]"
    "unresolved_stage env server (accepted c ! k) peer t (record_of k c)" by blast
  from unresolved_stage_prefix [OF t(2)]
  show "\<exists>n now. prefix (record_of k c) (unresolved_record env (accepted c ! k) peer n now)" .
  assume "\<not> aborted c"
  from t(1) have "(k, t) \<in> set (tasks c)" by (force simp: entries_of_def filter_eq_Cons_iff)
  then obtain i where "i < length (tasks c)" "tasks c ! i = (k, t)" by (auto simp: in_set_conv_nth)
  moreover from unresolved_stage_does [OF t(2) assms(4,2)] obtain n now as es where
    "record_of k c @ es = unresolved_record env (accepted c ! k) peer n now"
    "does env server k (next_client_id c) t as es" by blast
  ultimately show "\<exists>ms c' n now. moves env server ms c = Some c' \<and> own_turns env k ms c
      \<and> record_of k c' = unresolved_record env (accepted c ! k) peer n now"
    using \<open>\<not> aborted c\<close> unfolding does_def by (metis entries_of_simps(3,4))
qed

text \<open>A client that has gone before its task asks for the peer's address panics the task.\<close>

lemma vanished_client_panics:
  "peer_addr env client = Inl e \<Longrightarrow>
    handle_client env host tport acceptor n client k = Panicked (UnwrapOnErr e)"
  by (simp add: handle_client_def unwrap_io_def Let_def)

section \<open>Listening\<close>

lemma map_sum_Inr: "map_sum f g x = Inr y \<longleftrightarrow> (\<exists>z. x = Inr z \<and> y = g z)"
  by (cases x) auto

lemma listen_Return:
  "listen env cfg = Return server \<longleftrightarrow>
    (\<exists>cert identity impl listener.
       fs_read env (cert_p12_file cfg) = Inr cert
       \<and> Identity_from_pkcs12 (tls_library env) cert (cert_p12_password cfg) = Inr identity
       \<and> TlsAcceptorImpl_new (tls_library env) identity = Inr impl
       \<and> TcpListener_bind env \<lparr>ip = listen_addr cfg, port = listen_port cfg\<rparr> = Return listener
       \<and> server = \<lparr>tls_acceptor = TlsAcceptor_from (tls_library env) impl,
                   tcp_listener = listener, config = cfg\<rparr>)"
  by (cases "fs_read env (cert_p12_file cfg)";
      cases "TcpListener_bind env \<lparr>ip = listen_addr cfg, port = listen_port cfg\<rparr>")
     (auto simp: listen_def new_tls_acceptor_def Let_def map_sum_Inr split: sum.splits)

lemma listen_Throw:
  "listen env cfg = Throw e \<longleftrightarrow>
    (case fs_read env (cert_p12_file cfg) of
       Inl io \<Rightarrow> e = io
     | Inr cert \<Rightarrow>
         (case Identity_from_pkcs12 (tls_library env) cert (cert_p12_password cfg) of
            Inl err \<Rightarrow> e = IoError.IoError Other (tls_error_text (tls_library env) err)
          | Inr identity \<Rightarrow>
              (case TlsAcceptorImpl_new (tls_library env) identity of
                 Inl err \<Rightarrow> e = IoError.IoError Other (tls_error_text (tls_library env) err)
               | Inr impl \<Rightarrow> TcpListener_bind env \<lparr>ip = listen_addr cfg, port = listen_port cfg\<rparr> = Throw e)))"
  by (auto simp: listen_def new_tls_acceptor_def tls_error_to_io_error_def Let_def
      split: sum.splits outcome.splits)

end
