(* ===== verification/Served.thy ===== *)
theory Served
  imports Serving Session
begin

text \<open>
  Sessions served by the server: the contracts of its streams are those of the conveyor, so a
  connection that was stopped with success reported a complete session. The last section is a
  server over in-memory streams.
\<close>

section \<open>Complete sessions\<close>

inductive opens_with :: "Message list \<Rightarrow> flow \<Rightarrow> bool" where
  "initial_flow i = Some f \<Longrightarrow> opens_with [Initial_message i] f"
| "initial_flow i = Some f \<Longrightarrow> opens_with [Initial_message Initial.TLS, Initial_message i] f"
| "opens_with [Initial_message Initial.TLS, Message.Backend (BackendMsg.ErrorResponse e)] Stop"

text \<open>What the callback is told in a complete connection: an opening and, unless it ended there,
  a session of the protocol from its state to the end.\<close>

definition complete_connection :: "Message list \<Rightarrow> bool" where
  "complete_connection ms \<longleftrightarrow>
     (\<exists>op f rest. opens_with op f \<and> ms = op @ rest
        \<and> (case f of Stop \<Rightarrow> rest = [] | Next st \<Rightarrow> session st rest Stop))"

lemma opens_opens_with:
  "opens env fi fo bi bo c f c' \<Longrightarrow> \<exists>op. opens_with op f \<and> conveyed c' = conveyed c @ op"
  by (induction rule: opens.induct)
     (auto simp: conveys_def negotiated_def intro: opens_with.intros)

fun callback_of :: "event \<Rightarrow> Message option" where
  "callback_of (Output (Callback m)) = Some m"
| "callback_of _ = None"

definition callbacks :: "event list \<Rightarrow> Message list" where
  "callbacks es = List.map_filter callback_of es"

locale server_streams = wrapped_stream "tcp_ops env" "tls_ops env" win wout
  for env :: "('tcp, 'tls, 'err, 'ident, 'impl, 'acceptor, 'connector, 'listener) ServerEnv"
  and win wout
begin

lemma client_streams: "conveyor_streams (client_env env acceptor) win wout win wout"
  using wrapped_stream_axioms
  by (simp add: conveyor_streams_def client_env_def Let_def)

lemma convey_complete:
  assumes "convey (client_env env acceptor) choices client server = (Return u, c)"
  shows "complete_connection (conveyed c)"
proof -
  have "kinds (Conveyor_new client server :: ('tcp, 'tls, 'tcp, 'tls) Conveyor) = (0, 0)"
    by (simp add: kinds_def Conveyor_new_def)
  from conveyor_streams.go_Return [OF client_streams assms [unfolded convey_def] this]
  obtain f c1 where f: "opens (client_env env acceptor) win wout win wout (Conveyor_new client server) f c1"
    "case f of Stop \<Rightarrow> c = c1
     | Next st \<Rightarrow> \<exists>tr. session st (map fst tr) Stop \<and> conveys win wout win wout tr c1 c"
    by blast
  from opens_opens_with [OF f(1)] obtain op where op: "opens_with op f" "conveyed c1 = op"
    by (auto simp: Conveyor_new_def)
  have "\<exists>rest. conveyed c = op @ rest \<and> (case f of Stop \<Rightarrow> rest = [] | Next st \<Rightarrow> session st rest Stop)"
    using f(2) op(2) by (cases f) (auto simp: conveys_def)
  with op(1) show ?thesis unfolding complete_connection_def by blast
qed

end

text \<open>A connection that has reported success has emitted its whole record.\<close>

lemma callbacks_simps [simp]:
  "callbacks [] = []"
  "callbacks (e # es) = (case callback_of e of None \<Rightarrow> callbacks es | Some m \<Rightarrow> m # callbacks es)"
  "callbacks (es @ es') = callbacks es @ callbacks es'"
  by (simp_all add: callbacks_def map_filter_simps map_filter_append split: option.splits)

lemma callbacks_map [simp]: "callbacks (map (Output \<circ> Callback) ms) = ms"
  by (induction ms) simp_all

lemma served_record_stopped:
  assumes "prefix es (served_record env acceptor lport n client now1 now2 connected choices)"
    and "Output (StoppedConveying now p i r) \<in> set es"
  obtains server c o' where "connected = Return server"
    "convey (client_env env acceptor) choices client server = (o', c)"
    "callbacks es = conveyed c" "o' = (case r of Inl e \<Rightarrow> Throw e | Inr u \<Rightarrow> Return u)"
proof -
  from assms have stop: "Output (StoppedConveying now p i r)
      \<in> set (served_record env acceptor lport n client now1 now2 connected choices)"
    by (blast dest: set_mono_prefix)
  then obtain server where server: "connected = Return server"
    by (cases connected) (auto simp: served_record_def)
  with stop obtain addr where addr: "local_addr env server = Inr addr"
    by (cases "local_addr env server") (auto simp: served_record_def)
  obtain o' c where c: "convey (client_env env acceptor) choices client server = (o', c)"
    by fastforce
  from stop have "Output (StoppedConveying now p i r) \<in> set (outcome_events o' (StoppedConveying now2 lport n))"
    by (simp add: served_record_def server addr c image_iff)
  then have r: "o' = (case r of Inl e \<Rightarrow> Throw e | Inr u \<Rightarrow> Return u)"
    by (cases o') (auto simp: outcome_events_def)
  have whole: "served_record env acceptor lport n client now1 now2 connected choices =
      (Output (ConnectedToTarget now1 lport n addr) # map (Output \<circ> Callback) (conveyed c))
        @ [Output (StoppedConveying now2 lport n r)]"
    using server addr c r by (cases r) (simp_all add: served_record_def outcome_events_def)
  have "es = Output (ConnectedToTarget now1 lport n addr) # map (Output \<circ> Callback) (conveyed c)
        @ [Output (StoppedConveying now2 lport n r)]"
    using assms unfolding whole prefix_snoc by (auto dest!: set_mono_prefix)
  then have "callbacks es = conveyed c" by simp
  with server c r that show thesis by blast
qed

lemma stopped_record:
  assumes "reachable env server c" and "(k, Output (StoppedConveying now p i r)) \<in> set (effects c)"
  obtains target choices c1 where
    "convey (client_env env (tls_acceptor server)) choices (accepted c ! k) target =
       (case r of Inl e \<Rightarrow> Throw e | Inr u \<Rightarrow> Return u, c1)"
    "callbacks (record_of k c) = conveyed c1"
proof -
  have "k < length (accepted c)" using owners [OF assms(1)] assms(2) by force
  from reachable_record [OF assms(1) this] obtain n now1 now2 connected choices where
    pre: "prefix (record_of k c) (client_record env server (accepted c ! k) n now1 now2 connected choices)"
    by blast
  have stop: "Output (StoppedConveying now p i r) \<in> set (record_of k c)"
    using assms(2) by (force simp: entries_of_def)
  from pre stop obtain e1 e2 e3 es where es: "record_of k c = e1 # e2 # e3 # es"
    "callbacks [e1, e2, e3] = []" "Output (StoppedConveying now p i r) \<in> set es"
    "prefix es (served_record env (tls_acceptor server) (local_port_or_0 env (accepted c ! k)) n
        (accepted c ! k) now1 now2 connected choices)"
    by (auto simp: client_record_def prefix_Cons split: sum.split_asm option.split_asm)
  from served_record_stopped [OF es(4,3)] obtain target c1 where
    "convey (client_env env (tls_acceptor server)) choices (accepted c ! k) target =
       (case r of Inl e \<Rightarrow> Throw e | Inr u \<Rightarrow> Return u, c1)" "callbacks es = conveyed c1"
    by metis
  moreover have "callbacks (record_of k c) = callbacks es"
    using es(1,2) by (simp split: option.splits)
  ultimately show thesis using that by metis
qed

lemma stopped_ok_complete:
  assumes "wrapped_stream (tcp_ops env) (tls_ops env) win wout" and "reachable env server c"
    and "(k, Output (StoppedConveying now p i (Inr u))) \<in> set (effects c)"
  shows "complete_connection (callbacks (record_of k c))"
proof -
  from stopped_record [OF assms(2,3)] obtain target choices c1 where
    "convey (client_env env (tls_acceptor server)) choices (accepted c ! k) target = (Return u, c1)"
    "callbacks (record_of k c) = conveyed c1" by (metis sum.case(2))
  with server_streams.convey_complete [OF server_streams.intro [OF assms(1)]] show ?thesis by metis
qed

section \<open>A server over in-memory streams\<close>

definition pipe_server :: "bool \<Rightarrow> (Pipe \<Rightarrow> IoError + SocketAddr)
    \<Rightarrow> (Pipe, Pipe, string, unit, unit, unit, unit, unit) ServerEnv" where
  "pipe_server aborts peer =
     \<lparr>fs_read = (\<lambda>_. Inr []), TcpListener_bind = (\<lambda>_. Return ()),
      listener_local_addr = (\<lambda>_. Inr \<lparr>ip = V4 127 0 0 1, port = 5432\<rparr>),
      local_addr = (\<lambda>_. Inr \<lparr>ip = V4 127 0 0 1, port = 5432\<rparr>), peer_addr = peer,
      tcp_ops = pipe_ops, tls_ops = pipe_ops,
      tls_library =
        \<lparr>TlsConnector_new = (), danger_accept_invalid_certs = (\<lambda>c _. c),
         TlsConnector_connect = (\<lambda>_ _ p. Return p), Identity_from_pkcs12 = (\<lambda>_ _. Inr ()),
         TlsAcceptorImpl_new = (\<lambda>_. Inr ()), TlsAcceptor_from = (\<lambda>_. ()),
         TlsAcceptor_accept = (\<lambda>_ p. Return p), tls_error_text = id, tls_error_debug = id\<rparr>,
      checks_overflow = False, aborts_on_panic = aborts\<rparr>"

interpretation pipe_server: server_streams "pipe_server aborts peer" wrap_in wrap_out
  using pipe_wrap.wrapped_stream_axioms by (simp add: server_streams_def pipe_server_def)

end
