(* ===== verification/Utf8.thy ===== *)
theory Utf8
  imports Prelude
begin

text \<open>
  Strings of the program as lists of Unicode scalar values, their UTF-8 encoding, and
  \<open>String::from_utf8_lossy\<close>, with which the program shows byte strings: every maximal part of
  the input that begins like a character and is broken off becomes one U+FFFD.
\<close>

section \<open>Encoding\<close>

definition scalar :: "nat \<Rightarrow> bool" where
  "scalar c \<longleftrightarrow> c < 0xD800 \<or> 0xE000 \<le> c \<and> c < 0x110000"

definition utf8_char :: "nat \<Rightarrow> nat list" where
  "utf8_char c =
     (if c < 0x80 then [c]
      else if c < 0x800 then [0xC0 + c div 0x40, 0x80 + c mod 0x40]
      else if c < 0x10000 then [0xE0 + c div 0x1000, 0x80 + c div 0x40 mod 0x40, 0x80 + c mod 0x40]
      else [0xF0 + c div 0x40000, 0x80 + c div 0x1000 mod 0x40, 0x80 + c div 0x40 mod 0x40,
            0x80 + c mod 0x40])"

definition utf8_encode :: "nat list \<Rightarrow> u8 list" where
  "utf8_encode cs = map word_of_nat (concat (map utf8_char cs))"

section \<open>Lossy decoding\<close>

definition replacement :: nat where
  "replacement = 0xFFFD"

definition continues :: "nat \<Rightarrow> bool" where
  "continues b \<longleftrightarrow> 0x80 \<le> b \<and> b < 0xC0"

text \<open>The second byte of a character of three or four bytes is restricted by the first.\<close>

definition second_of_3 :: "nat \<Rightarrow> nat \<Rightarrow> bool" where
  "second_of_3 a b \<longleftrightarrow>
     (if a = 0xE0 then 0xA0 \<le> b \<and> b < 0xC0
      else if a = 0xED then 0x80 \<le> b \<and> b < 0xA0
      else continues b)"

definition second_of_4 :: "nat \<Rightarrow> nat \<Rightarrow> bool" where
  "second_of_4 a b \<longleftrightarrow>
     (if a = 0xF0 then 0x90 \<le> b \<and> b < 0xC0
      else if a = 0xF4 then 0x80 \<le> b \<and> b < 0x90
      else continues b)"

text \<open>\<open>expect ok bs v k\<close> takes the next byte if there is one and it is \<open>ok\<close>; otherwise the
  character is broken off before it.\<close>

definition expect :: "(nat \<Rightarrow> bool) \<Rightarrow> nat list \<Rightarrow> (nat \<Rightarrow> nat list \<Rightarrow> nat \<times> nat list) \<Rightarrow> nat \<times> nat list" where
  "expect ok bs k =
     (case bs of
        [] \<Rightarrow> (replacement, [])
      | b # bs' \<Rightarrow> if ok b then k b bs' else (replacement, bs))"

definition lossy_char :: "nat \<Rightarrow> nat list \<Rightarrow> nat \<times> nat list" where
  "lossy_char a bs =
     (if a < 0x80 then (a, bs)
      else if 0xC2 \<le> a \<and> a < 0xE0 then
        expect continues bs (\<lambda>b bs. ((a - 0xC0) * 0x40 + (b - 0x80), bs))
      else if 0xE0 \<le> a \<and> a < 0xF0 then
        expect (second_of_3 a) bs (\<lambda>b bs.
        expect continues bs (\<lambda>c bs.
          ((a - 0xE0) * 0x1000 + (b - 0x80) * 0x40 + (c - 0x80), bs)))
      else if 0xF0 \<le> a \<and> a < 0xF5 then
        expect (second_of_4 a) bs (\<lambda>b bs.
        expect continues bs (\<lambda>c bs.
        expect continues bs (\<lambda>d bs.
          ((a - 0xF0) * 0x40000 + (b - 0x80) * 0x1000 + (c - 0x80) * 0x40 + (d - 0x80), bs))))
      else (replacement, bs))"

lemma expect_shorter:
  assumes "\<And>b bs'. bs = b # bs' \<Longrightarrow> length (snd (k b bs')) \<le> length bs'"
  shows "length (snd (expect ok bs k)) \<le> length bs"
  using assms by (force simp: expect_def split: list.splits)

lemma lossy_char_shorter: "length (snd (lossy_char a bs)) \<le> length bs"
  by (auto simp: lossy_char_def intro!: expect_shorter)

function lossy :: "nat list \<Rightarrow> nat list" where
  "lossy [] = []"
| "lossy (a # bs) = (case lossy_char a bs of (c, bs') \<Rightarrow> c # lossy bs')"
  by pat_completeness auto
termination
  by (relation "measure length")
     (auto simp: less_Suc_eq_le, metis lossy_char_shorter snd_conv)

definition from_utf8_lossy :: "u8 list \<Rightarrow> nat list" where
  "from_utf8_lossy bs = lossy (map unat bs)"

section \<open>Decoding what was encoded\<close>

lemma lossy_utf8_char:
  assumes "scalar c"
  shows "\<exists>a bs. utf8_char c = a # bs \<and> lossy_char a (bs @ r) = (c, r)"
proof -
  consider "c < 0x80" | "0x80 \<le> c" "c < 0x800" | "0x800 \<le> c" "c < 0x10000" | "0x10000 \<le> c" "c < 0x110000"
    using assms unfolding scalar_def by linarith
  then show ?thesis
  proof cases
    case 1
    then show ?thesis by (simp add: utf8_char_def lossy_char_def)
  next
    case 2
    then have "2 \<le> c div 64" "c div 64 < 32" by linarith+
    with 2 show ?thesis by (simp add: utf8_char_def lossy_char_def expect_def continues_def)
  next
    case 3
    let ?a = "c div 4096" and ?b = "c div 64 mod 64"
    have "?a < 16" using 3 by linarith
    moreover have d: "?a * 64 + ?b = c div 64"
      using div_mult2_eq [of c 64 64] by simp
    moreover have "c div 64 * 64 + c mod 64 = c" by simp
    then have "?a * 4096 + ?b * 64 + c mod 64 = c" using d by linarith
    moreover have "32 \<le> c div 64" "c div 64 < 864 \<or> 896 \<le> c div 64"
      using 3 assms unfolding scalar_def by linarith+
    then have "second_of_3 (224 + ?a) (128 + ?b)"
      using d unfolding second_of_3_def continues_def by (cases "?a = 0"; cases "?a = 13"; force)
    ultimately show ?thesis
      using 3 by (simp add: utf8_char_def lossy_char_def expect_def continues_def)
  next
    case 4
    let ?a = "c div 262144" and ?b = "c div 4096 mod 64" and ?c = "c div 64 mod 64"
    have "?a < 5" using 4 by linarith
    moreover have d: "?a * 64 + ?b = c div 4096" "c div 4096 * 64 + ?c = c div 64"
      using div_mult2_eq [of c 4096 64] div_mult2_eq [of c 64 64] by simp_all
    moreover have "c div 64 * 64 + c mod 64 = c" by simp
    then have "?a * 262144 + ?b * 4096 + ?c * 64 + c mod 64 = c" using d by linarith
    moreover have "16 \<le> c div 4096" "c div 4096 < 272" using 4 by linarith+
    then have "second_of_4 (240 + ?a) (128 + ?b)"
      using d(1) unfolding second_of_4_def continues_def by (cases "?a = 0"; cases "?a = 4"; force)
    ultimately show ?thesis
      using 4 by (simp add: utf8_char_def lossy_char_def expect_def continues_def)
  qed
qed

lemma utf8_char_bytes: "scalar c \<Longrightarrow> b \<in> set (utf8_char c) \<Longrightarrow> b < 256"
  by (auto simp: utf8_char_def scalar_def split: if_splits)

lemma lossy_concat: "list_all scalar cs \<Longrightarrow> lossy (concat (map utf8_char cs)) = cs"
proof (induction cs)
  case (Cons c cs)
  then obtain a bs where "utf8_char c = a # bs"
    "lossy_char a (bs @ concat (map utf8_char cs)) = (c, concat (map utf8_char cs))"
    using lossy_utf8_char [of c "concat (map utf8_char cs)"] by auto
  with Cons show ?case by simp
qed simp

lemma unat_utf8: "list_all scalar cs \<Longrightarrow> map unat (utf8_encode cs) = concat (map utf8_char cs)"
  unfolding utf8_encode_def map_map
  by (rule map_idI) (auto simp: list_all_iff unat_of_nat intro!: mod_less dest: utf8_char_bytes)

theorem from_utf8_lossy_encode: "list_all scalar cs \<Longrightarrow> from_utf8_lossy (utf8_encode cs) = cs"
  by (simp add: from_utf8_lossy_def unat_utf8 lossy_concat)

text \<open>Byte strings that are UTF-8 are told apart by what is shown of them.\<close>

definition valid_utf8 :: "u8 list \<Rightarrow> bool" where
  "valid_utf8 bs \<longleftrightarrow> utf8_encode (from_utf8_lossy bs) = bs"

lemma valid_utf8_encode: "list_all scalar cs \<Longrightarrow> valid_utf8 (utf8_encode cs)"
  by (simp add: valid_utf8_def from_utf8_lossy_encode)

lemma from_utf8_lossy_inject [simp]:
  "valid_utf8 a \<Longrightarrow> valid_utf8 b \<Longrightarrow> from_utf8_lossy a = from_utf8_lossy b \<longleftrightarrow> a = b"
  unfolding valid_utf8_def by metis

end
