(* ===== verification/Dump.thy ===== *)
theory Dump
  imports Convey Utf8
begin

text \<open>
  How messages are shown: the \<open>Debug\<close> implementations of \<open>src/src/msg\<close> and the callback of
  \<open>src/src/main.rs\<close>. A value of type \<open>debug\<close> is the tree of the \<open>Formatter\<close> calls an
  implementation makes (\<open>debug_struct\<close>, \<open>debug_tuple\<close>, their fields, lists, strings, numbers);
  the text the formatter makes of it is in \<open>Dump_Text\<close>. \<open>hex::encode\<close> is foreign code and
  an argument, \<open>hx\<close>. Derived implementations follow the declaration of their type.
\<close>

section \<open>Trees of formatter calls\<close>

datatype debug =
    Number int
  | Str "nat list"
  | DebugStruct string "(nat list \<times> debug) list"
  | DebugTuple string "debug list"
  | DebugList "debug list"

definition lit :: "string \<Rightarrow> nat list" where
  "lit s = map of_char s"

definition lossy_str :: "u8 list \<Rightarrow> debug" where
  "lossy_str bytes = Str (from_utf8_lossy bytes)"

definition unsigned_fmt :: "'a::len word \<Rightarrow> debug" where
  "unsigned_fmt x = Number (uint x)"

definition signed_fmt :: "'a::len word \<Rightarrow> debug" where
  "signed_fmt x = Number (sint x)"

definition bytes_fmt :: "u8 list \<Rightarrow> debug" where
  "bytes_fmt bytes = DebugList (map unsigned_fmt bytes)"

definition option_fmt :: "('a \<Rightarrow> debug) \<Rightarrow> 'a option \<Rightarrow> debug" where
  "option_fmt f x = (case x of None \<Rightarrow> DebugTuple ''None'' [] | Some y \<Rightarrow> DebugTuple ''Some'' [f y])"

type_synonym hex = "u8 list \<Rightarrow> nat list"

section \<open>Parts\<close>

primrec Bytes_fmt :: "hex \<Rightarrow> Bytes \<Rightarrow> debug" where
  "Bytes_fmt hx (Bytes.Bytes b) = DebugTuple ''Bytes'' [Str (hx b)]"

primrec Text_fmt :: "Text \<Rightarrow> debug" where
  "Text_fmt (Text.Text t) = DebugTuple ''Text'' [lossy_str t]"

definition Text_from :: "nat list \<Rightarrow> Text" where
  "Text_from s = Text.Text (utf8_encode s)"

primrec Format_fmt :: "Format \<Rightarrow> debug" where
  "Format_fmt Format.Text = DebugTuple ''Text'' []"
| "Format_fmt Format.Binary = DebugTuple ''Binary'' []"

primrec Value_fmt :: "hex \<Rightarrow> Value \<Rightarrow> debug" where
  "Value_fmt hx Value.Null = DebugTuple ''Null'' []"
| "Value_fmt hx (Value.Bytes b) = DebugTuple ''Bytes'' [Bytes_fmt hx b]"

section \<open>Messages of the backend\<close>

primrec Authentication_fmt :: "Authentication \<Rightarrow> debug" where
  "Authentication_fmt CleartextPassword = DebugTuple ''CleartextPassword'' []"
| "Authentication_fmt Gss = DebugTuple ''Gss'' []"
| "Authentication_fmt (GssContinue d) = DebugStruct ''GssContinue'' [(lit ''auth_data'', bytes_fmt d)]"
| "Authentication_fmt KerberosV5 = DebugTuple ''KerberosV5'' []"
| "Authentication_fmt (Md5Password s) = DebugStruct ''Md5Password'' [(lit ''salt'', bytes_fmt s)]"
| "Authentication_fmt Authentication.Ok = DebugTuple ''Ok'' []"
| "Authentication_fmt (Sasl ms) =
     DebugStruct ''Sasl'' [(lit ''auth_mechanisms'', DebugList (map bytes_fmt ms))]"
| "Authentication_fmt (SaslContinue d) = DebugStruct ''SaslContinue'' [(lit ''challenge_data'', bytes_fmt d)]"
| "Authentication_fmt (SaslFinal d) = DebugStruct ''SaslFinal'' [(lit ''additional_data'', bytes_fmt d)]"
| "Authentication_fmt ScmCredential = DebugTuple ''ScmCredential'' []"
| "Authentication_fmt Sspi = DebugTuple ''Sspi'' []"

definition BackendKeyData_fmt :: "BackendKeyData \<Rightarrow> debug" where
  "BackendKeyData_fmt m = DebugStruct ''BackendKeyData''
     [(lit ''process_id'', unsigned_fmt (process_id m)), (lit ''secret_key'', unsigned_fmt (secret_key m))]"

definition CommandComplete_fmt :: "CommandComplete \<Rightarrow> debug" where
  "CommandComplete_fmt self = DebugStruct ''CommandComplete'' [(lit ''tag'', lossy_str (tag self))]"

definition DataRow_fmt :: "hex \<Rightarrow> DataRow \<Rightarrow> debug" where
  "DataRow_fmt hx m =
     DebugStruct ''DataRow'' [(lit ''columns'', DebugList (map (Value_fmt hx) (columns m)))]"

text \<open>The macros of \<open>error_and_notice_responses.rs\<close>: an optional field that is there is shown,
  one that is not is left out.\<close>

definition fmt_opt_field ::
  "'r \<Rightarrow> (nat list \<times> debug) list \<Rightarrow> string \<times> ('r \<Rightarrow> u8 list option) \<Rightarrow> (nat list \<times> debug) list" where
  "fmt_opt_field self debug_struct field =
     (case snd field self of
        Some vec \<Rightarrow> debug_struct @ [(lit (fst field), lossy_str vec)]
      | None \<Rightarrow> debug_struct)"

definition fmt_struct_of_opt_fields ::
  "'r \<Rightarrow> string \<Rightarrow> (string \<times> ('r \<Rightarrow> u8 list option)) list \<Rightarrow> debug" where
  "fmt_struct_of_opt_fields self struct_name opt_fields =
     DebugStruct struct_name (foldl (fmt_opt_field self) [] opt_fields)"

definition error_fields :: "(string \<times> (ErrorOrNoticeFields \<Rightarrow> u8 list option)) list" where
  "error_fields =
     [(''localized_severity'', localized_severity),
      (''severity'', severity),
      (''code'', code),
      (''message'', message),
      (''detail'', detail),
      (''hint'', hint),
      (''position'', position),
      (''internal_position'', internal_position),
      (''internal_query'', internal_query),
      (''where_'', where_field),
      (''schema'', schema),
      (''table'', table),
      (''column'', column),
      (''data_type'', data_type),
      (''constraint'', constraint),
      (''file'', file_field),
      (''line'', line),
      (''routine'', routine)]"

definition ErrorOrNoticeFields_fmt :: "ErrorOrNoticeFields \<Rightarrow> debug" where
  "ErrorOrNoticeFields_fmt self = fmt_struct_of_opt_fields self ''ErrorOrNoticeFields'' error_fields"

primrec ErrorResponse_fmt :: "ErrorResponse \<Rightarrow> debug" where
  "ErrorResponse_fmt (ErrorResponse.ErrorResponse f) = DebugTuple ''ErrorResponse'' [ErrorOrNoticeFields_fmt f]"

primrec NoticeResponse_fmt :: "NoticeResponse \<Rightarrow> debug" where
  "NoticeResponse_fmt (NoticeResponse.NoticeResponse f) = DebugTuple ''NoticeResponse'' [ErrorOrNoticeFields_fmt f]"

definition NegotiateProtocolVersion_fmt :: "NegotiateProtocolVersion \<Rightarrow> debug" where
  "NegotiateProtocolVersion_fmt m = DebugStruct ''NegotiateProtocolVersion''
     [(lit ''newest_backend_minor'', unsigned_fmt (newest_backend_minor m)),
      (lit ''unrecognized_options'', DebugList (map Text_fmt (unrecognized_options m)))]"

text \<open>The name of the parameter is the name of the field.\<close>

definition ParameterStatus_new :: "u8 list \<Rightarrow> u8 list \<Rightarrow> ParameterStatus" where
  "ParameterStatus_new nm val = \<lparr>status_name = nm, status_value = val\<rparr>"

definition ParameterStatus_fmt :: "ParameterStatus \<Rightarrow> debug" where
  "ParameterStatus_fmt self = DebugStruct ''ParameterStatus''
     [(from_utf8_lossy (status_name self), lossy_str (status_value self))]"

primrec Status_fmt :: "Status \<Rightarrow> debug" where
  "Status_fmt Status.Idle = DebugTuple ''Idle'' []"
| "Status_fmt Status.Transaction = DebugTuple ''Transaction'' []"
| "Status_fmt Status.Error = DebugTuple ''Error'' []"

definition ReadyForQuery_fmt :: "ReadyForQuery \<Rightarrow> debug" where
  "ReadyForQuery_fmt m = DebugStruct ''ReadyForQuery'' [(lit ''status'', Status_fmt (status m))]"

definition Field_fmt :: "Field \<Rightarrow> debug" where
  "Field_fmt self = DebugStruct ''Field''
     [(lit ''name'', lossy_str (name self)),
      (lit ''column_oid'', unsigned_fmt (column_oid self)),
      (lit ''column_attr_num'', unsigned_fmt (column_attr_num self)),
      (lit ''type_oid'', unsigned_fmt (type_oid self)),
      (lit ''type_size'', signed_fmt (type_size self)),
      (lit ''type_modifier'', signed_fmt (type_modifier self)),
      (lit ''format'', Format_fmt (field_format self))]"

definition RowDescription_fmt :: "RowDescription \<Rightarrow> debug" where
  "RowDescription_fmt m =
     DebugStruct ''RowDescription'' [(lit ''fields'', DebugList (map Field_fmt (row_fields m)))]"

primrec BackendMsg_fmt :: "hex \<Rightarrow> BackendMsg \<Rightarrow> debug" where
  "BackendMsg_fmt hx (BackendMsg.Authentication m) = DebugTuple ''Authentication'' [Authentication_fmt m]"
| "BackendMsg_fmt hx (BackendMsg.BackendKeyData m) = DebugTuple ''BackendKeyData'' [BackendKeyData_fmt m]"
| "BackendMsg_fmt hx (BackendMsg.BindComplete m) = DebugTuple ''BindComplete'' [DebugTuple ''BindComplete'' []]"
| "BackendMsg_fmt hx (BackendMsg.CommandComplete m) = DebugTuple ''CommandComplete'' [CommandComplete_fmt m]"
| "BackendMsg_fmt hx (BackendMsg.DataRow m) = DebugTuple ''DataRow'' [DataRow_fmt hx m]"
| "BackendMsg_fmt hx (BackendMsg.EmptyQueryResponse m) =
     DebugTuple ''EmptyQueryResponse'' [DebugStruct ''EmptyQueryResponse'' []]"
| "BackendMsg_fmt hx (BackendMsg.ErrorResponse m) = DebugTuple ''ErrorResponse'' [ErrorResponse_fmt m]"
| "BackendMsg_fmt hx (BackendMsg.NegotiateProtocolVersion m) =
     DebugTuple ''NegotiateProtocolVersion'' [NegotiateProtocolVersion_fmt m]"
| "BackendMsg_fmt hx (BackendMsg.NoticeResponse m) = DebugTuple ''NoticeResponse'' [NoticeResponse_fmt m]"
| "BackendMsg_fmt hx (BackendMsg.ParameterStatus m) = DebugTuple ''ParameterStatus'' [ParameterStatus_fmt m]"
| "BackendMsg_fmt hx (BackendMsg.ParseComplete m) = DebugTuple ''ParseComplete'' [DebugTuple ''ParseComplete'' []]"
| "BackendMsg_fmt hx (BackendMsg.PortalSuspended m) =
     DebugTuple ''PortalSuspended'' [DebugTuple ''PortalSuspended'' []]"
| "BackendMsg_fmt hx (BackendMsg.ReadyForQuery m) = DebugTuple ''ReadyForQuery'' [ReadyForQuery_fmt m]"
| "BackendMsg_fmt hx (BackendMsg.RowDescription m) = DebugTuple ''RowDescription'' [RowDescription_fmt m]"

section \<open>Messages of the frontend\<close>

definition Bind_fmt :: "hex \<Rightarrow> Bind \<Rightarrow> debug" where
  "Bind_fmt hx m = DebugStruct ''Bind''
     [(lit ''prepared_statement_name'', Text_fmt (bind_prepared_statement_name m)),
      (lit ''portal_name'', Text_fmt (bind_portal_name m)),
      (lit ''parameters_formats'', DebugList (map Format_fmt (parameters_formats m))),
      (lit ''parameters_values'', DebugList (map (Value_fmt hx) (parameters_values m))),
      (lit ''results_formats'', DebugList (map Format_fmt (results_formats m)))]"

definition Execute_fmt :: "Execute \<Rightarrow> debug" where
  "Execute_fmt m = DebugStruct ''Execute''
     [(lit ''portal_name'', Text_fmt (execute_portal_name m)),
      (lit ''rows_limit'', unsigned_fmt (rows_limit m))]"

primrec GssResponse_fmt :: "hex \<Rightarrow> GssResponse \<Rightarrow> debug" where
  "GssResponse_fmt hx (GssResponse.GssResponse d) = DebugTuple ''GssResponse'' [Str (hx d)]"

definition Version_fmt :: "Version \<Rightarrow> debug" where
  "Version_fmt v = DebugStruct ''Version''
     [(lit ''major'', unsigned_fmt (major v)), (lit ''minor'', unsigned_fmt (minor v))]"

definition StartupParam_new :: "u8 list \<Rightarrow> u8 list \<Rightarrow> StartupParam" where
  "StartupParam_new nm val = \<lparr>param_name = nm, param_value = val\<rparr>"

definition StartupParam_fmt :: "StartupParam \<Rightarrow> debug" where
  "StartupParam_fmt self = DebugStruct ''StartupParam''
     [(from_utf8_lossy (param_name self), lossy_str (param_value self))]"

definition Cancel_fmt :: "Cancel \<Rightarrow> debug" where
  "Cancel_fmt c = DebugStruct ''Cancel''
     [(lit ''process_id'', unsigned_fmt (cancel_process_id c)),
      (lit ''secret_key'', unsigned_fmt (cancel_secret_key c))]"

definition Startup_fmt :: "Startup \<Rightarrow> debug" where
  "Startup_fmt s = DebugStruct ''Startup''
     [(lit ''version'', Version_fmt (startup_version s)),
      (lit ''params'', DebugList (map StartupParam_fmt (startup_params s)))]"

primrec Initial_fmt :: "Initial \<Rightarrow> debug" where
  "Initial_fmt (Initial.Cancel c) = DebugTuple ''Cancel'' [Cancel_fmt c]"
| "Initial_fmt Initial.TLS = DebugTuple ''TLS'' []"
| "Initial_fmt (Initial.Startup s) = DebugTuple ''Startup'' [Startup_fmt s]"

definition Parse_fmt :: "Parse \<Rightarrow> debug" where
  "Parse_fmt m = DebugStruct ''Parse''
     [(lit ''prepared_statement_name'', Text_fmt (parse_prepared_statement_name m)),
      (lit ''query'', Text_fmt (parse_query m)),
      (lit ''parameters_types'', DebugList (map unsigned_fmt (parse_parameters_types m)))]"

primrec Password_fmt :: "Password \<Rightarrow> debug" where
  "Password_fmt (Password.Password p) = DebugTuple ''Password'' [lossy_str p]"

primrec Query_fmt :: "Query \<Rightarrow> debug" where
  "Query_fmt (Query.Query q) = DebugTuple ''Query'' [lossy_str q]"

text \<open>The mechanism is shown as a list of numbers, the data in hexadecimal.\<close>

definition SaslInitialResponse_fmt :: "hex \<Rightarrow> SaslInitialResponse \<Rightarrow> debug" where
  "SaslInitialResponse_fmt hx self = DebugStruct ''SaslInitialResponse''
     [(lit ''selected_mechanism'', bytes_fmt (selected_mechanism self)),
      (lit ''mechanism_data'', option_fmt Str (map_option hx (initial_mechanism_data self)))]"

definition SaslResponse_fmt :: "hex \<Rightarrow> SaslResponse \<Rightarrow> debug" where
  "SaslResponse_fmt hx self = DebugStruct ''SaslResponse''
     [(lit ''mechanism_data'', Str (hx (mechanism_data self)))]"

primrec FrontendMsg_fmt :: "hex \<Rightarrow> FrontendMsg \<Rightarrow> debug" where
  "FrontendMsg_fmt hx (FrontendMsg.Bind m) = DebugTuple ''Bind'' [Bind_fmt hx m]"
| "FrontendMsg_fmt hx (FrontendMsg.Execute m) = DebugTuple ''Execute'' [Execute_fmt m]"
| "FrontendMsg_fmt hx (FrontendMsg.GssResponse m) = DebugTuple ''GssResponse'' [GssResponse_fmt hx m]"
| "FrontendMsg_fmt hx (FrontendMsg.Initial m) = DebugTuple ''Initial'' [Initial_fmt m]"
| "FrontendMsg_fmt hx (FrontendMsg.Parse m) = DebugTuple ''Parse'' [Parse_fmt m]"
| "FrontendMsg_fmt hx (FrontendMsg.Password m) = DebugTuple ''Password'' [Password_fmt m]"
| "FrontendMsg_fmt hx (FrontendMsg.Query m) = DebugTuple ''Query'' [Query_fmt m]"
| "FrontendMsg_fmt hx (FrontendMsg.SaslInitialResponse m) =
     DebugTuple ''SaslInitialResponse'' [SaslInitialResponse_fmt hx m]"
| "FrontendMsg_fmt hx (FrontendMsg.SaslResponse m) = DebugTuple ''SaslResponse'' [SaslResponse_fmt hx m]"
| "FrontendMsg_fmt hx (FrontendMsg.Sync m) = DebugTuple ''Sync'' [DebugTuple ''Sync'' []]"
| "FrontendMsg_fmt hx (FrontendMsg.Terminate m) = DebugTuple ''Terminate'' [DebugStruct ''Terminate'' []]"

section \<open>The callback of the program\<close>

datatype dump_line = GotFromServer debug | GotFromClient debug

primrec dump_msg :: "hex \<Rightarrow> Message \<Rightarrow> dump_line" where
  "dump_msg hx (Message.Backend backend_msg) = GotFromServer (BackendMsg_fmt hx backend_msg)"
| "dump_msg hx (Message.Frontend frontend_msg) = GotFromClient (FrontendMsg_fmt hx frontend_msg)"

section \<open>Messages are told apart by what is shown of them\<close>

text \<open>The texts of a message that are shown as strings are UTF-8.\<close>

primrec Text_utf8 :: "Text \<Rightarrow> bool" where
  "Text_utf8 (Text.Text t) = valid_utf8 t"

definition error_fields_utf8 :: "ErrorOrNoticeFields \<Rightarrow> bool" where
  "error_fields_utf8 r \<longleftrightarrow> list_all (\<lambda>(_, sel). case sel r of None \<Rightarrow> True | Some v \<Rightarrow> valid_utf8 v) error_fields"

fun BackendMsg_utf8 :: "BackendMsg \<Rightarrow> bool" where
  "BackendMsg_utf8 (BackendMsg.CommandComplete m) \<longleftrightarrow> valid_utf8 (tag m)"
| "BackendMsg_utf8 (BackendMsg.ErrorResponse (ErrorResponse.ErrorResponse r)) \<longleftrightarrow> error_fields_utf8 r"
| "BackendMsg_utf8 (BackendMsg.NoticeResponse (NoticeResponse.NoticeResponse r)) \<longleftrightarrow> error_fields_utf8 r"
| "BackendMsg_utf8 (BackendMsg.NegotiateProtocolVersion m) \<longleftrightarrow> list_all Text_utf8 (unrecognized_options m)"
| "BackendMsg_utf8 (BackendMsg.ParameterStatus m) \<longleftrightarrow> valid_utf8 (status_name m) \<and> valid_utf8 (status_value m)"
| "BackendMsg_utf8 (BackendMsg.RowDescription m) \<longleftrightarrow> list_all (\<lambda>f. valid_utf8 (name f)) (row_fields m)"
| "BackendMsg_utf8 _ \<longleftrightarrow> True"

fun Initial_utf8 :: "Initial \<Rightarrow> bool" where
  "Initial_utf8 (Initial.Startup s) \<longleftrightarrow>
     list_all (\<lambda>p. valid_utf8 (param_name p) \<and> valid_utf8 (param_value p)) (startup_params s)"
| "Initial_utf8 _ \<longleftrightarrow> True"

fun FrontendMsg_utf8 :: "FrontendMsg \<Rightarrow> bool" where
  "FrontendMsg_utf8 (FrontendMsg.Bind m) \<longleftrightarrow>
     Text_utf8 (bind_prepared_statement_name m) \<and> Text_utf8 (bind_portal_name m)"
| "FrontendMsg_utf8 (FrontendMsg.Execute m) \<longleftrightarrow> Text_utf8 (execute_portal_name m)"
| "FrontendMsg_utf8 (FrontendMsg.Initial m) \<longleftrightarrow> Initial_utf8 m"
| "FrontendMsg_utf8 (FrontendMsg.Parse m) \<longleftrightarrow>
     Text_utf8 (parse_prepared_statement_name m) \<and> Text_utf8 (parse_query m)"
| "FrontendMsg_utf8 (FrontendMsg.Password (Password.Password p)) \<longleftrightarrow> valid_utf8 p"
| "FrontendMsg_utf8 (FrontendMsg.Query (Query.Query q)) \<longleftrightarrow> valid_utf8 q"
| "FrontendMsg_utf8 _ \<longleftrightarrow> True"

primrec Message_utf8 :: "Message \<Rightarrow> bool" where
  "Message_utf8 (Message.Backend m) = BackendMsg_utf8 m"
| "Message_utf8 (Message.Frontend m) = FrontendMsg_utf8 m"

lemma Text_from_shown: "list_all scalar s \<Longrightarrow> Text_fmt (Text_from s) = DebugTuple ''Text'' [Str s]"
  by (simp add: Text_from_def lossy_str_def from_utf8_lossy_encode)

lemma lit_inject [simp]: "lit a = lit b \<longleftrightarrow> a = b"
  unfolding lit_def by (rule inj_map_eq_map) (simp add: inj_on_def)

lemma list_fmt_inject:
  assumes "\<And>a b. P a \<Longrightarrow> P b \<Longrightarrow> f a = f b \<Longrightarrow> a = b"
  shows "list_all P xs \<Longrightarrow> list_all P ys \<Longrightarrow> map f xs = map f ys \<Longrightarrow> xs = ys"
proof (induction xs arbitrary: ys)
  case (Cons x xs)
  then show ?case using assms by (cases ys) auto
qed simp

lemmas list_fmt_inject_all = list_fmt_inject [of "\<lambda>_. True", simplified list.pred_True, simplified]

text \<open>The fields that are there are recovered by looking up their names.\<close>

lemma fmt_opt_fields_collect:
  "foldl (fmt_opt_field r) acc fs =
     acc @ List.map_filter (\<lambda>(n, sel). map_option (\<lambda>v. (lit n, lossy_str v)) (sel r)) fs"
  by (induction fs arbitrary: acc)
     (auto simp: fmt_opt_field_def map_filter_simps split: option.splits)

lemma fmt_opt_fields_none:
  "n \<notin> fst ` set fs \<Longrightarrow>
    map_of (List.map_filter (\<lambda>(n, sel). map_option (\<lambda>v. (lit n, lossy_str v)) (sel r)) fs) (lit n) = None"
  by (induction fs) (auto simp: map_filter_simps split: option.splits)

lemma fmt_opt_fields_lookup:
  "distinct (map fst fs) \<Longrightarrow> (n, sel) \<in> set fs \<Longrightarrow>
    map_of (List.map_filter (\<lambda>(n, sel). map_option (\<lambda>v. (lit n, lossy_str v)) (sel r)) fs) (lit n)
      = map_option lossy_str (sel r)"
proof (induction fs)
  case (Cons f fs)
  show ?case
  proof (cases "f = (n, sel)")
    case True
    then have "n \<notin> fst ` set fs" using Cons.prems(1) by auto
    from fmt_opt_fields_none [OF this, of r] True show ?thesis
      by (auto simp: map_filter_simps split: option.splits)
  next
    case False
    with Cons.prems have "(n, sel) \<in> set fs" "fst f \<noteq> n" by (auto simp: rev_image_eqI)
    with Cons show ?thesis
      by (cases f) (auto simp: map_filter_simps split: option.splits)
  qed
qed simp

lemma error_fields_inject:
  assumes "error_fields_utf8 r" and "error_fields_utf8 r'"
    and "ErrorOrNoticeFields_fmt r = ErrorOrNoticeFields_fmt r'"
  shows "r = r'"
proof -
  have names: "distinct (map fst error_fields)" by (simp add: error_fields_def)
  have same: "sel r = sel r'" if "(n, sel) \<in> set error_fields" for n sel
  proof -
    have "map_option lossy_str (sel r) = map_option lossy_str (sel r')"
      using assms(3) fmt_opt_fields_lookup [OF names that, of r] fmt_opt_fields_lookup [OF names that, of r']
      by (simp add: ErrorOrNoticeFields_fmt_def fmt_struct_of_opt_fields_def fmt_opt_fields_collect)
    moreover have "case sel r of None \<Rightarrow> True | Some v \<Rightarrow> valid_utf8 v"
      "case sel r' of None \<Rightarrow> True | Some v \<Rightarrow> valid_utf8 v"
      using assms(1,2) that by (auto simp: error_fields_utf8_def list_all_iff)
    ultimately show ?thesis by (auto simp: lossy_str_def split: option.splits)
  qed
  then have "list_all (\<lambda>(n, sel). sel r = sel r') error_fields" by (auto simp: list_all_iff)
  then show ?thesis
    by (intro ErrorOrNoticeFields.equality) (simp_all add: error_fields_def)
qed

lemma fmt_words [simp]:
  "unsigned_fmt x = unsigned_fmt y \<longleftrightarrow> x = y"
  "signed_fmt x = signed_fmt y \<longleftrightarrow> x = y"
  by (auto simp: unsigned_fmt_def signed_fmt_def intro: word_uint_eqI signed_word_eqI)

lemma fmt_bytes [simp]: "bytes_fmt x = bytes_fmt y \<longleftrightarrow> x = y"
  by (auto simp: bytes_fmt_def inj_map_eq_map inj_on_def)

lemma lossy_str_inject [simp]: "valid_utf8 a \<Longrightarrow> valid_utf8 b \<Longrightarrow> lossy_str a = lossy_str b \<longleftrightarrow> a = b"
  by (simp add: lossy_str_def)

lemma Text_fmt_inject [simp]: "Text_utf8 a \<Longrightarrow> Text_utf8 b \<Longrightarrow> Text_fmt a = Text_fmt b \<longleftrightarrow> a = b"
  by (cases a; cases b) auto

lemma Format_fmt_inject [simp]: "Format_fmt a = Format_fmt b \<longleftrightarrow> a = b"
  by (cases a; cases b) simp_all

lemma Status_fmt_inject [simp]: "Status_fmt a = Status_fmt b \<longleftrightarrow> a = b"
  by (cases a; cases b) simp_all

lemma map_fmt_inject [simp]:
  "map Format_fmt fs = map Format_fmt gs \<longleftrightarrow> fs = gs"
  "map bytes_fmt bs = map bytes_fmt cs \<longleftrightarrow> bs = cs"
  "map (unsigned_fmt :: 'a::len word \<Rightarrow> debug) ws = map unsigned_fmt vs \<longleftrightarrow> ws = vs"
  by (simp_all add: inj_map_eq_map inj_on_def)

lemma Value_fmt_inject: "inj hx \<Longrightarrow> inj (Value_fmt hx)"
proof (rule injI)
  fix a b assume "inj hx" "Value_fmt hx a = Value_fmt hx b"
  then show "a = b"
    by (cases a; cases b; cases "case a of Value.Bytes x \<Rightarrow> x | _ \<Rightarrow> Bytes.Bytes []";
        cases "case b of Value.Bytes x \<Rightarrow> x | _ \<Rightarrow> Bytes.Bytes []") (auto dest: injD)
qed

lemma Authentication_fmt_inject: "Authentication_fmt a = Authentication_fmt b \<Longrightarrow> a = b"
  by (cases a; cases b; simp)

lemma Field_fmt_inject: "valid_utf8 (name a) \<Longrightarrow> valid_utf8 (name b) \<Longrightarrow> Field_fmt a = Field_fmt b \<Longrightarrow> a = b"
  by (cases a; cases b) (simp add: Field_fmt_def)

lemma StartupParam_fmt_inject:
  "valid_utf8 (param_name a) \<and> valid_utf8 (param_value a) \<Longrightarrow>
    valid_utf8 (param_name b) \<and> valid_utf8 (param_value b) \<Longrightarrow>
    StartupParam_fmt a = StartupParam_fmt b \<Longrightarrow> a = b"
  by (cases a; cases b) (simp add: StartupParam_fmt_def)

lemma Initial_fmt_inject:
  assumes "Initial_utf8 a" and "Initial_utf8 b" and "Initial_fmt a = Initial_fmt b"
  shows "a = b"
proof (cases a)
  case (Cancel x)
  with assms(3) show ?thesis by (cases b; cases x) (auto simp: Cancel_fmt_def)
next
  case TLS
  with assms(3) show ?thesis by (cases b) simp_all
next
  case (Startup x)
  with assms(3) obtain y where b: "b = Initial.Startup y" by (cases b) simp_all
  have "startup_params x = startup_params y"
    by (rule list_fmt_inject [OF StartupParam_fmt_inject])
       (use assms Startup b in \<open>auto simp: Startup_fmt_def\<close>)
  moreover have "startup_version x = startup_version y"
    using assms(3) Startup b
    by (cases "startup_version x"; cases "startup_version y") (simp add: Startup_fmt_def Version_fmt_def)
  ultimately show ?thesis using Startup b by simp
qed

lemma unit_messages:
  "(x1 :: BindComplete) = y1" "(x2 :: EmptyQueryResponse) = y2" "(x3 :: ParseComplete) = y3"
  "(x4 :: PortalSuspended) = y4" "(x5 :: Sync) = y5" "(x6 :: Terminate) = y6"
  by - (metis BindComplete.exhaust, metis EmptyQueryResponse.exhaust, metis ParseComplete.exhaust,
        metis PortalSuspended.exhaust, metis Sync.exhaust, metis Terminate.exhaust)

lemma BackendMsg_fmt_inject:
  assumes hx: "inj hx" and "BackendMsg_utf8 a" and "BackendMsg_utf8 b"
    and "BackendMsg_fmt hx a = BackendMsg_fmt hx b"
  shows "a = b"
proof (cases a)
  case (Authentication x)
  with assms(4) show ?thesis by (cases b) (simp_all add: Authentication_fmt_inject)
next
  case (BackendKeyData x)
  with assms(4) show ?thesis by (cases b; cases x) (auto simp: BackendKeyData_fmt_def)
next
  case (BindComplete x)
  with assms(4) show ?thesis by (cases b) (simp_all add: unit_messages)
next
  case (CommandComplete x)
  with assms(2-4) show ?thesis by (cases b) (auto simp: CommandComplete_fmt_def)
next
  case (DataRow x)
  with assms(4) show ?thesis
    by (cases b) (auto simp: DataRow_fmt_def inj_map_eq_map [OF Value_fmt_inject [OF hx]])
next
  case (EmptyQueryResponse x)
  with assms(4) show ?thesis by (cases b) (simp_all add: unit_messages)
next
  case (ErrorResponse x)
  with assms(4) obtain y where "b = BackendMsg.ErrorResponse y" by (cases b) simp_all
  with ErrorResponse assms(2-4) show ?thesis by (cases x; cases y) (auto intro: error_fields_inject)
next
  case (NegotiateProtocolVersion x)
  with assms(4) obtain y where b: "b = BackendMsg.NegotiateProtocolVersion y" by (cases b) simp_all
  have "unrecognized_options x = unrecognized_options y"
    by (rule list_fmt_inject [of Text_utf8 Text_fmt])
       (use NegotiateProtocolVersion b assms(2-4) in \<open>simp_all add: NegotiateProtocolVersion_fmt_def\<close>)
  with NegotiateProtocolVersion b assms(4) show ?thesis by (simp add: NegotiateProtocolVersion_fmt_def)
next
  case (NoticeResponse x)
  with assms(4) obtain y where "b = BackendMsg.NoticeResponse y" by (cases b) simp_all
  with NoticeResponse assms(2-4) show ?thesis by (cases x; cases y) (auto intro: error_fields_inject)
next
  case (ParameterStatus x)
  with assms(2-4) show ?thesis by (cases b) (auto simp: ParameterStatus_fmt_def)
next
  case (ParseComplete x)
  with assms(4) show ?thesis by (cases b) (simp_all add: unit_messages)
next
  case (PortalSuspended x)
  with assms(4) show ?thesis by (cases b) (simp_all add: unit_messages)
next
  case (ReadyForQuery x)
  with assms(4) show ?thesis by (cases b) (auto simp: ReadyForQuery_fmt_def)
next
  case (RowDescription x)
  with assms(4) obtain y where b: "b = BackendMsg.RowDescription y" by (cases b) simp_all
  have "row_fields x = row_fields y"
    by (rule list_fmt_inject [OF Field_fmt_inject])
       (use RowDescription b assms(2-4) in \<open>simp_all add: RowDescription_fmt_def\<close>)
  with RowDescription b show ?thesis by simp
qed

lemma FrontendMsg_fmt_inject:
  assumes hx: "inj hx" and "FrontendMsg_utf8 a" and "FrontendMsg_utf8 b"
    and "FrontendMsg_fmt hx a = FrontendMsg_fmt hx b"
  shows "a = b"
proof (cases a)
  case (Bind x)
  with assms(2-4) show ?thesis
    by (cases b) (auto simp: Bind_fmt_def inj_map_eq_map [OF Value_fmt_inject [OF hx]])
next
  case (Execute x)
  with assms(2-4) show ?thesis by (cases b) (auto simp: Execute_fmt_def)
next
  case (GssResponse x)
  with assms(4) obtain y where "b = FrontendMsg.GssResponse y" by (cases b) simp_all
  with GssResponse assms(4) hx show ?thesis by (cases x; cases y) (simp add: inj_eq)
next
  case (Initial x)
  with assms(2-4) show ?thesis by (cases b) (auto intro: Initial_fmt_inject)
next
  case (Parse x)
  with assms(2-4) show ?thesis by (cases b) (auto simp: Parse_fmt_def)
next
  case (Password x)
  with assms(4) obtain y where "b = FrontendMsg.Password y" by (cases b) simp_all
  with Password assms(2-4) show ?thesis by (cases x; cases y) simp
next
  case (Query x)
  with assms(4) obtain y where "b = FrontendMsg.Query y" by (cases b) simp_all
  with Query assms(2-4) show ?thesis by (cases x; cases y) simp
next
  case (SaslInitialResponse x)
  with assms(4) hx show ?thesis
    by (cases b)
       (auto simp: SaslInitialResponse_fmt_def option_fmt_def inj_eq split: option.splits)
next
  case (SaslResponse x)
  with assms(4) hx show ?thesis by (cases b) (simp_all add: SaslResponse_fmt_def inj_eq)
next
  case (Sync x)
  with assms(4) show ?thesis by (cases b) (simp_all add: unit_messages)
next
  case (Terminate x)
  with assms(4) show ?thesis by (cases b) (simp_all add: unit_messages)
qed

lemma dump_msg_inject:
  "inj hx \<Longrightarrow> Message_utf8 a \<Longrightarrow> Message_utf8 b \<Longrightarrow> dump_msg hx a = dump_msg hx b \<Longrightarrow> a = b"
  by (cases a; cases b) (auto intro: BackendMsg_fmt_inject FrontendMsg_fmt_inject)

end
