(* ===== verification/Postgread.thy ===== *)
theory Postgread
  imports Served Dump
begin

text \<open>
  The program of \<open>src/src/main.rs\<close>: it listens, runs the accept loop with a callback that shows
  every message, and ends with the result of the loop.
\<close>

datatype console_line = ServerLine line | Dumped dump_line

primrec console_lines :: "hex \<Rightarrow> event \<Rightarrow> console_line list" where
  "console_lines hx (TookNumber n) = []"
| "console_lines hx (Dialled addr) = []"
| "console_lines hx (Output l) =
     (case l of Callback msg \<Rightarrow> [Dumped (dump_msg hx msg)] | _ \<Rightarrow> [ServerLine l])"

text \<open>\<open>task::block_on\<close>: tasks take turns until the accept loop returns. Then \<open>main\<close> returns and the
  process ends, and with it every task: there is no further move.\<close>

fun block_on ::
  "('tcp, 'tls, 'err, 'ident, 'impl, 'acceptor, 'connector, 'listener) ServerEnv
    \<Rightarrow> ('acceptor, 'listener) Server \<Rightarrow> 'tcp move list \<Rightarrow> 'tcp Running \<Rightarrow> 'tcp Running option" where
  "block_on env server [] c = Some c"
| "block_on env server (m # ms) c =
     (if loop_result c \<noteq> None then None
      else case move env server m c of None \<Rightarrow> None | Some c' \<Rightarrow> block_on env server ms c')"

lemma block_on_moves: "block_on env server ms c = Some c' \<Longrightarrow> moves env server ms c = Some c'"
  by (induction ms arbitrary: c) (auto split: if_splits option.splits)

text \<open>The result is \<open>None\<close> as long as \<open>main\<close> has not returned.\<close>

definition main ::
  "hex \<Rightarrow> ('tcp, 'tls, 'err, 'ident, 'impl, 'acceptor, 'connector, 'listener) ServerEnv \<Rightarrow> Config
    \<Rightarrow> 'tcp move list \<Rightarrow> ((IoError + unit) option \<times> console_line list) option" where
  "main hx env cfg ms =
     (case listen env cfg of
        Return server \<Rightarrow>
          (case block_on env server ms loop_accepting of
             None \<Rightarrow> None
           | Some c \<Rightarrow> Some (loop_result c, concat (map (console_lines hx \<circ> snd) (effects c))))
      | Throw e \<Rightarrow> Some (Some (Inl e), [])
      | _ \<Rightarrow> Some (None, []))"

text \<open>What the program shows of messages is what the callback was given, in the same order.\<close>

lemma main_shows_callbacks:
  assumes "main hx env cfg ms = Some (r, out)"
  shows "(\<exists>server c. listen env cfg = Return server \<and> moves env server ms loop_accepting = Some c
      \<and> r = loop_result c
      \<and> List.map_filter (\<lambda>l. case l of Dumped d \<Rightarrow> Some d | _ \<Rightarrow> None) out
        = map (dump_msg hx) (callbacks (map snd (effects c))))
    \<or> (\<forall>server. listen env cfg \<noteq> Return server) \<and> out = []"
proof -
  have shown: "List.map_filter (\<lambda>l. case l of Dumped d \<Rightarrow> Some d | _ \<Rightarrow> None)
        (concat (map (console_lines hx \<circ> snd) es))
      = map (dump_msg hx) (callbacks (map snd es))" for es :: "(nat \<times> event) list"
  proof (induction es)
    case (Cons e es)
    then show ?case
      by (cases "snd e") (auto simp: map_filter_simps map_filter_append split: line.splits)
  qed (simp add: map_filter_simps)
  from assms show ?thesis
    by (auto simp: main_def shown split: outcome.splits option.splits dest: block_on_moves)
qed

end
