(* ===== verification/Complete.thy ===== *)
theory Complete
  imports Served
begin

text \<open>
  Complete connections are carried out: \<open>convey\<close> from the first message on, and the whole server
  from accepting a client to the report that its session has stopped with success.
\<close>

section \<open>A connection without TLS\<close>

lemma message_wire_prefix_free:
  assumes "message_wire m w" and "message_wire m' w'" and "w @ x = w' @ y"
    and "message_type m = None \<longleftrightarrow> message_type m' = None"
  shows "w = w' \<and> x = y"
proof -
  from assms(1) obtain a where a: "4 + length a < 2 ^ 32"
    "w = (case message_type m of None \<Rightarrow> [] | Some t \<Rightarrow> [TypeByte_into t]) @ frame a"
    by (auto simp: message_wire_def)
  from assms(2) obtain b where b: "4 + length b < 2 ^ 32"
    "w' = (case message_type m' of None \<Rightarrow> [] | Some t \<Rightarrow> [TypeByte_into t]) @ frame b"
    by (auto simp: message_wire_def)
  from assms(3,4) a(2) b(2) have "frame a @ x = frame b @ y"
    by (auto split: option.splits)
  from frame_prefix_free [OF this a(1) b(1)] assms(3) show ?thesis by simp
qed

lemma conveys_append:
  "conveys fi fo bi bo tr c c1 \<Longrightarrow> conveys fi fo bi bo tr' c1 c2 \<Longrightarrow>
    conveys fi fo bi bo (tr @ tr') c c2"
  by (simp add: conveys_def wires_def)

lemma Initial_message_wire:
  "message_wire (Initial_message i) w \<longleftrightarrow>
    Initial_valid i \<and> w = frame (Initial_wire i) \<and> 4 + length (Initial_wire i) < 2 ^ 32"
  by (auto simp: message_wire_def)

text \<open>The messages of a connection that opens without TLS: a cancel request alone, or a startup
  message and a session.\<close>

definition continues :: "flow \<Rightarrow> Message list \<Rightarrow> bool" where
  "continues f ms \<longleftrightarrow> (case f of Stop \<Rightarrow> ms = [] | Next st \<Rightarrow> session st ms Stop)"

definition plain_connection :: "Message list \<Rightarrow> bool" where
  "plain_connection ms \<longleftrightarrow>
     (\<exists>i f ms'. ms = Initial_message i # ms' \<and> initial_flow i = Some f \<and> continues f ms')"

text \<open>The order of the sides in which the loop reads the messages of a connection: initial messages
  are read before the loop.\<close>

fun is_initial :: "Message \<Rightarrow> bool" where
  "is_initial (Message.Frontend (FrontendMsg.Initial i)) \<longleftrightarrow> True"
| "is_initial _ \<longleftrightarrow> False"

definition loop_sides :: "Message list \<Rightarrow> Side list" where
  "loop_sides ms = map message_side (dropWhile is_initial ms)"

lemma session_not_initial: "session st (m # ms) f \<Longrightarrow> \<not> is_initial m"
  by (cases m rule: is_initial.cases) (auto simp: session_Cons)

lemma plain_loop_sides: "plain_connection ms \<Longrightarrow> loop_sides ms = map message_side (tl ms)"
proof -
  assume "plain_connection ms"
  then obtain i f ms' where ms: "ms = Initial_message i # ms'" "continues f ms'"
    by (auto simp: plain_connection_def)
  then have "ms' = [] \<or> \<not> is_initial (hd ms')"
    by (cases ms') (auto simp: continues_def dest: session_not_initial split: flow.splits)
  with ms(1) show ?thesis by (cases ms') (simp_all add: loop_sides_def)
qed

text \<open>The two kinds of messages that the length field and the program's buffers allow.\<close>

abbreviation fitting :: "(Message \<times> u8 list) list \<Rightarrow> bool" where
  "fitting \<equiv> list_all (\<lambda>(m, w). message_wire m w \<and> length w < 2 ^ 32 - 1)"

definition proceed ::
  "('fp, 'ft, 'bp, 'bt) ConveyEnv \<Rightarrow> Side list \<Rightarrow> flow
    \<Rightarrow> (('fp, 'ft, 'bp, 'bt) Conveyor, ConveyError, unit) prog" where
  "proceed env choices f = (case f of Next st \<Rightarrow> go_loop env choices st | Stop \<Rightarrow> return ())"

abbreviation sides :: "(Message \<times> u8 list) list \<Rightarrow> Side list" where
  "sides \<equiv> map (\<lambda>x. message_side (fst x))"

text \<open>The initial message decides what follows.\<close>

lemma go_split:
  "go env choices = bind_prog (read_frontend_through env Initial_msg FrontendMsg.Initial) (\<lambda>i.
     bind_prog (case initial_flow i of Some f \<Rightarrow> return f | None \<Rightarrow> go_tls env) (proceed env choices))"
proof -
  have "(case i of Initial.Startup _ \<Rightarrow> return (Next State.GotStartup) | Initial.Cancel _ \<Rightarrow> return Stop
      | Initial.TLS \<Rightarrow> go_tls env) = (case initial_flow i of Some f \<Rightarrow> return f | None \<Rightarrow> go_tls env)" for i
    by (cases i) simp_all
  then show ?thesis by (simp add: go_def proceed_def [abs_def])
qed

lemma tls_request_splits:
  "(case i of Initial.Startup _ \<Rightarrow> return (Next State.GotStartup) | Initial.Cancel _ \<Rightarrow> return Stop
     | _ \<Rightarrow> throw e) = (case initial_flow i of Some f \<Rightarrow> return f | None \<Rightarrow> throw e)"
  by (cases i) simp_all

context conveyor_reliable
begin

text \<open>An initial message that arrives is relayed, and nothing else is touched.\<close>

lemma initial_relayed:
  assumes "live c" and "message_wire (Initial_message i) w" and "length w < 2 ^ 32 - 1"
    and "arriving Side.Frontend c = w @ r"
  obtains c' where "read_frontend_through env Initial_msg FrontendMsg.Initial c = (Return i, c')"
    "conveys fi fo bi bo [(Initial_message i, w)] c c'" "kinds c' = kinds c"
    "arriving Side.Frontend c' = r" "arriving Side.Backend c' = arriving Side.Backend c"
proof -
  have i: "Initial_valid i" "w = frame (Initial_wire i)" "4 + length (Initial_wire i) < 2 ^ 32 - 1"
    using assms(2,3) by (auto simp: Initial_message_wire frame_def)
  with initial_ok [OF assms(1) assms(4) [unfolded i(2)] i(1)] obtain c1 where
    c1: "read_frontend_through env Initial_msg FrontendMsg.Initial c = (Return i, c1)" by blast
  from initial_conveys [OF c1] obtain w' where w': "conveys fi fo bi bo [(Initial_message i, w')] c c1" by blast
  then have wire: "message_wire (Initial_message i) w'"
    and taken: "arriving Side.Frontend c = w' @ arriving Side.Frontend c1"
      "arriving Side.Backend c = arriving Side.Backend c1"
    using w' by (auto simp: conveys_def dest: spec [of _ Side.Frontend] spec [of _ Side.Backend])
  from message_wire_prefix_free [OF assms(2) wire] taken(1) assms(4)
  have "w' = w" "arriving Side.Frontend c1 = r" by metis+
  with that [OF c1] w' taken(2) steady_kinds [OF steady_through(1) c1] show thesis by simp
qed

text \<open>What follows the opening is carried out by the loop.\<close>

lemma proceed_complete:
  assumes "continues f (map fst tr)" and "live c" and "fitting tr"
    and "\<And>side. arriving side c = wires side tr @ r side"
  shows "\<exists>c'. proceed env (sides tr) f c = (Return (), c') \<and> conveys fi fo bi bo tr c c'"
proof (cases f)
  case Stop
  with assms(1) show ?thesis by (simp add: continues_def proceed_def)
next
  case (Next st)
  with assms(1) have "session st (map fst tr) Stop" by (simp add: continues_def)
  moreover have "list_all (\<lambda>(m, w). message_wire m w \<and> length w < 2 ^ 32) tr"
    using assms(3) by (auto simp: list_all_iff)
  ultimately show ?thesis
    using go_loop_complete [OF _ assms(2) _ assms(4), of st] Next by (simp add: proceed_def)
qed

text \<open>An initial message that is not a TLS request, and what follows it.\<close>

lemma plain_complete:
  assumes "plain_connection (map fst tr)" and "live c" and "fitting tr"
    and "\<And>side. arriving side c = wires side tr @ r side"
  shows "\<exists>c'. bind_prog (read_frontend_through env Initial_msg FrontendMsg.Initial) (\<lambda>i.
       bind_prog (case initial_flow i of Some f \<Rightarrow> return f | None \<Rightarrow> m) (proceed env (sides (tl tr)))) c
      = (Return (), c')
    \<and> conveys fi fo bi bo tr c c'"
proof -
  from assms(1) obtain i f w tr' where tr: "tr = (Initial_message i, w) # tr'"
    and f: "initial_flow i = Some f" "continues f (map fst tr')"
  proof -
    from assms(1) obtain i f ms where "map fst tr = Initial_message i # ms" "initial_flow i = Some f"
      "continues f ms" unfolding plain_connection_def by (elim exE conjE)
    with that show thesis by (cases tr; cases "hd tr") auto
  qed
  have w: "message_wire (Initial_message i) w" "length w < 2 ^ 32 - 1" using assms(3) tr by auto
  have "arriving Side.Frontend c = w @ (wires Side.Frontend tr' @ r Side.Frontend)"
    using assms(4) [of Side.Frontend] tr by simp
  from initial_relayed [OF assms(2) w this] obtain c1 where
    c1: "read_frontend_through env Initial_msg FrontendMsg.Initial c = (Return i, c1)"
    "conveys fi fo bi bo [(Initial_message i, w)] c c1" "kinds c1 = kinds c"
    "arriving Side.Frontend c1 = wires Side.Frontend tr' @ r Side.Frontend"
    "arriving Side.Backend c1 = arriving Side.Backend c" .
  have "arriving side c1 = wires side tr' @ r side" for side
    using c1(4,5) assms(4) [of Side.Backend] tr by (cases side) simp_all
  moreover have "live c1" using assms(2) c1(3) by (simp add: live_kinds)
  ultimately obtain c2 where c2: "proceed env (sides tr') f c1 = (Return (), c2)" "conveys fi fo bi bo tr' c1 c2"
    using proceed_complete [OF f(2), of c1 r] assms(3) tr by auto
  from c1(1) c2(1) f(1) tr show ?thesis
    using conveys_append [OF c1(2) c2(2)] by (auto simp: bind_prog_def)
qed

lemma go_complete:
  assumes "plain_connection (map fst tr)" and "kinds c = (0, 0)" and "fitting tr"
    and "\<And>side. arriving side c = wires side tr @ r side"
  shows "\<exists>c'. go env (sides (tl tr)) c = (Return (), c') \<and> conveys fi fo bi bo tr c c'"
  unfolding go_split using assms by (intro plain_complete) (simp_all add: live_kinds)

end

section \<open>A connection that asks for TLS\<close>

text \<open>
  What a handshake makes of the bytes that arrive on the plain stream: whatever the stream was
  told before, the TLS stream has \<open>after\<close> to say when \<open>before\<close> arrives below it.
\<close>

definition handshakes ::
  "('p \<Rightarrow> (string, 't) outcome) \<Rightarrow> (('p, 't) StreamWrap \<Rightarrow> u8 list) \<Rightarrow> u8 list \<Rightarrow> u8 list \<Rightarrow> bool" where
  "handshakes handshake incoming before after \<longleftrightarrow>
     (\<forall>p. incoming (StreamWrap.Plain p) = before \<longrightarrow>
        (\<exists>t. handshake p = Return t \<and> incoming (StreamWrap.Tls t) = after))"

text \<open>The backend declines TLS and goes on in plain text, or it agrees and goes on inside TLS.\<close>

definition answers ::
  "('bp \<Rightarrow> (string, 'bt) outcome) \<Rightarrow> (('bp, 'bt) StreamWrap \<Rightarrow> u8 list) \<Rightarrow> u8 list \<Rightarrow> u8 list \<Rightarrow> bool" where
  "answers handshake incoming bytes x \<longleftrightarrow>
     bytes = TLS_NOT_SUPPORTED # x
     \<or> (\<exists>y. bytes = TLS_SUPPORTED # y \<and> handshakes handshake incoming y x)"

context conveyor_reliable
begin

lemma write_frontend_ok:
  assumes "live c"
  obtains c' where "write_frontend env bytes c = (Return (), c')"
  using assms fr.wrap_write_ok [of "frontend c" bytes]
  by (auto simp: write_frontend_def on_frontend_def live_def)

lemma go_tls_frontend_ok:
  assumes "frontend c = StreamWrap.Plain p" and "live c"
    and "handshakes (frontend_tls_server env) fi (fi (StreamWrap.Plain p)) y"
  obtains p' t where "frontend_tls_server env p' = Return t"
    "fi (StreamWrap.Plain p') = fi (StreamWrap.Plain p)"
    "fo (StreamWrap.Plain p') = fo (StreamWrap.Plain p) @ [TLS_SUPPORTED]" "fi (StreamWrap.Tls t) = y"
    "go_tls_frontend env c =
       bind_prog (read_frontend_through env Initial_msg FrontendMsg.Initial) (\<lambda>i.
         case initial_flow i of Some f \<Rightarrow> return f | None \<Rightarrow> throw (ConveyError.TlsError TlsRequestedInsideTls))
       (c\<lparr>frontend := StreamWrap.Tls t\<rparr>)"
proof -
  from write_frontend_ok [OF assms(2)] obtain c1 where wr: "write_frontend env [TLS_SUPPORTED] c = (Return (), c1)" .
  then have wr': "write_side env Side.Frontend [TLS_SUPPORTED] c = (Return (), c1)"
    by (simp add: write_side_def)
  from steady_kinds [OF steady_sides(3) wr] assms(1) obtain p' where p': "frontend c1 = StreamWrap.Plain p'"
    using kinds_Plain [of "frontend c1"] by (auto simp: kinds_def)
  have io: "fi (StreamWrap.Plain p') = fi (StreamWrap.Plain p)"
    "fo (StreamWrap.Plain p') = fo (StreamWrap.Plain p) @ [TLS_SUPPORTED]"
    using write_side_frame(1) [OF wr', of Side.Frontend] write_side_returns [OF wr'] p' assms(1)
    by (simp_all add: observe_def)
  with assms(3) obtain t where t: "frontend_tls_server env p' = Return t" "fi (StreamWrap.Tls t) = y"
    by (auto simp: handshakes_def)
  then have "switch_server_to_tls env c1 = (Return (), c1\<lparr>frontend := StreamWrap.Tls t\<rparr>)"
    using p' by (simp add: switch_server_to_tls_def on_frontend_def switch_to_tls_Plain)
  moreover have "c1\<lparr>frontend := StreamWrap.Tls t\<rparr> = c\<lparr>frontend := StreamWrap.Tls t\<rparr>"
    using write_frontend_backend [OF wr] write_side_frame(4) [OF wr'] by simp
  ultimately have "go_tls_frontend env c =
       bind_prog (read_frontend_through env Initial_msg FrontendMsg.Initial) (\<lambda>i.
         case initial_flow i of Some f \<Rightarrow> return f | None \<Rightarrow> throw (ConveyError.TlsError TlsRequestedInsideTls))
       (c\<lparr>frontend := StreamWrap.Tls t\<rparr>)"
    using wr by (simp add: go_tls_frontend_def tls_request_splits bind_prog_def [of "write_frontend env x" for x]
        bind_prog_def [of "switch_server_to_tls env"])
  with that t io show thesis by blast
qed

text \<open>The negotiation succeeds, and an initial message is read inside TLS.\<close>

lemma go_tls_complete:
  assumes "kinds c = (0, 0)" and "handshakes (frontend_tls_server env) fi (arriving Side.Frontend c) y"
    and "answers (backend_tls_client env) bi (arriving Side.Backend c) x"
  obtains c1 where "negotiated env fi fo bi bo c c1" "live c1"
    "arriving Side.Frontend c1 = y" "arriving Side.Backend c1 = x"
    "go_tls env c =
       bind_prog (read_frontend_through env Initial_msg FrontendMsg.Initial) (\<lambda>i.
         case initial_flow i of Some f \<Rightarrow> return f | None \<Rightarrow> throw (ConveyError.TlsError TlsRequestedInsideTls)) c1"
proof -
  from assms(3) obtain b z where b: "arriving Side.Backend c = b # z"
    "b = TLS_NOT_SUPPORTED \<and> z = x \<or> b = TLS_SUPPORTED \<and> handshakes (backend_tls_client env) bi z x"
    by (auto simp: answers_def)
  from byte_side_ok [OF _ b(1)] assms(1) obtain c2 where byte: "read_backend_type_byte env c = (Return b, c2)"
    by (auto simp: live_kinds byte_side_def read_backend_type_byte_def)
  from backend_answers [OF byte assms(1)] obtain q where q: "backend c2 = StreamWrap.Plain q"
    "bi (backend c) = b # bi (StreamWrap.Plain q)" "bo (StreamWrap.Plain q) = bo (backend c)"
    "frontend c2 = frontend c" "conveyed c2 = conveyed c" "kind_of_wrap (frontend c2) = 0" .
  from b(1) q(2) have z: "bi (StreamWrap.Plain q) = z" by (simp add: observe_def)
  obtain p where p: "frontend c = StreamWrap.Plain p" using assms(1) kinds_Plain [of "frontend c"] by (auto simp: kinds_def)
  have "\<exists>w. go_tls_answer env b c2 = go_tls_frontend env (c2\<lparr>backend := w\<rparr>) \<and> w \<noteq> TlsHandshake \<and> bi w = x
    \<and> (b = TLS_NOT_SUPPORTED \<and> w = StreamWrap.Plain q
       \<or> b = TLS_SUPPORTED \<and> (\<exists>t. backend_tls_client env q = Return t \<and> w = StreamWrap.Tls t))"
    using b(2)
  proof
    assume no: "b = TLS_NOT_SUPPORTED \<and> z = x"
    have "c2\<lparr>backend := StreamWrap.Plain q\<rparr> = c2" using q(1) by simp
    with no z show ?thesis by (intro exI [of _ "StreamWrap.Plain q"]) (simp add: go_tls_answer_def)
  next
    assume yes: "b = TLS_SUPPORTED \<and> handshakes (backend_tls_client env) bi z x"
    with z obtain t where t: "backend_tls_client env q = Return t" "bi (StreamWrap.Tls t) = x"
      by (auto simp: handshakes_def)
    then have "switch_client_to_tls env c2 = (Return (), c2\<lparr>backend := StreamWrap.Tls t\<rparr>)"
      using q(1) by (simp add: switch_client_to_tls_def on_backend_def switch_to_tls_Plain)
    with yes t show ?thesis
      by (intro exI [of _ "StreamWrap.Tls t"])
         (simp add: go_tls_answer_def bind_prog_def TLS_SUPPORTED_def TLS_NOT_SUPPORTED_def byte_char_def)
  qed
  then obtain w where w: "go_tls_answer env b c2 = go_tls_frontend env (c2\<lparr>backend := w\<rparr>)"
    "w \<noteq> TlsHandshake" "bi w = x"
    "b = TLS_NOT_SUPPORTED \<and> w = StreamWrap.Plain q
     \<or> b = TLS_SUPPORTED \<and> (\<exists>t. backend_tls_client env q = Return t \<and> w = StreamWrap.Tls t)" by blast
  have "handshakes (frontend_tls_server env) fi (fi (StreamWrap.Plain p)) y"
    using assms(2) p by (simp add: observe_def)
  from go_tls_frontend_ok [of "c2\<lparr>backend := w\<rparr>", OF _ _ this] p q(4) w(2) obtain p' t where
    t: "frontend_tls_server env p' = Return t" "fi (StreamWrap.Plain p') = fi (StreamWrap.Plain p)"
    "fo (StreamWrap.Plain p') = fo (StreamWrap.Plain p) @ [TLS_SUPPORTED]" "fi (StreamWrap.Tls t) = y"
    "go_tls_frontend env (c2\<lparr>backend := w\<rparr>) =
       bind_prog (read_frontend_through env Initial_msg FrontendMsg.Initial) (\<lambda>i.
         case initial_flow i of Some f \<Rightarrow> return f | None \<Rightarrow> throw (ConveyError.TlsError TlsRequestedInsideTls))
       (c2\<lparr>backend := w, frontend := StreamWrap.Tls t\<rparr>)"
    by (auto simp: live_def)
  let ?c1 = "c2\<lparr>backend := w, frontend := StreamWrap.Tls t\<rparr>"
  have "negotiated env fi fo bi bo c ?c1"
    unfolding negotiated_def using t(1-3) p q(1-3,5) w(4)
    by (intro conjI exI [of _ p'] exI [of _ q]) auto
  moreover have "go_tls env c = go_tls_frontend env (c2\<lparr>backend := w\<rparr>)"
    using byte w(1) by (simp add: go_tls_def bind_prog_def)
  ultimately show thesis using that [of ?c1] t(4,5) w(2,3) by (simp add: live_def observe_def)
qed

end

text \<open>
  \<open>brings unread inf inb tr\<close>: what arrives from the client (\<open>inf\<close>) and from the target (\<open>inb\<close>) before
  anything is done carries the complete connection \<open>tr\<close>: a connection without TLS; a TLS request
  that the target answers by an error because it does not know TLS; or a TLS request, after which
  the client goes on inside TLS and the target as it answers. Behind the connection each side
  may have sent more, \<open>unread\<close>.
\<close>

inductive brings ::
  "('fp, 'ft, 'bp, 'bt) ConveyEnv \<Rightarrow> (('fp, 'ft) StreamWrap \<Rightarrow> u8 list) \<Rightarrow> (('bp, 'bt) StreamWrap \<Rightarrow> u8 list)
    \<Rightarrow> (Side \<Rightarrow> u8 list) \<Rightarrow> u8 list \<Rightarrow> u8 list \<Rightarrow> (Message \<times> u8 list) list \<Rightarrow> bool"
  for env fi bi and unread :: "Side \<Rightarrow> u8 list" where
  brings_plain:
    "plain_connection (map fst tr) \<Longrightarrow>
     brings env fi bi unread (wires Side.Frontend tr @ unread Side.Frontend) (wires Side.Backend tr @ unread Side.Backend)
       tr"
| brings_refused:
    "brings env fi bi unread (w @ unread Side.Frontend) (w' @ unread Side.Backend)
       [(Initial_message Initial.TLS, w), (Message.Backend (BackendMsg.ErrorResponse e), w')]"
| brings_tls:
    "plain_connection (map fst tr)
      \<Longrightarrow> handshakes (frontend_tls_server env) fi x (wires Side.Frontend tr @ unread Side.Frontend)
      \<Longrightarrow> answers (backend_tls_client env) bi inb (wires Side.Backend tr @ unread Side.Backend)
      \<Longrightarrow> brings env fi bi unread (w @ x) inb ((Initial_message Initial.TLS, w) # tr)"

text \<open>\<open>carries tr c c'\<close>: the connection was relayed, with the negotiation after a TLS request.\<close>

inductive carries for env fi fo bi bo where
  carries_plain: "conveys fi fo bi bo tr c c' \<Longrightarrow> carries env fi fo bi bo tr c c'"
| carries_tls:
    "conveys fi fo bi bo [x] c c1 \<Longrightarrow> negotiated env fi fo bi bo c1 c2 \<Longrightarrow> conveys fi fo bi bo tr c2 c'
      \<Longrightarrow> fst x = Initial_message Initial.TLS \<Longrightarrow> carries env fi fo bi bo (x # tr) c c'"

lemma carries_conveyed: "carries env fi fo bi bo tr c c' \<Longrightarrow> conveyed c' = conveyed c @ map fst tr"
  by (induction rule: carries.induct) (auto simp: conveys_def negotiated_def)

lemma carries_without_tls:
  "carries env fi fo bi bo tr c c' \<Longrightarrow> plain_connection (map fst tr) \<Longrightarrow> conveys fi fo bi bo tr c c'"
  by (induction rule: carries.induct) (auto simp: plain_connection_def)

context conveyor_reliable
begin

lemma error_relayed:
  assumes "kinds c = (0, 0)" and "message_wire (Message.Backend (BackendMsg.ErrorResponse e)) w"
    and "length w < 2 ^ 32 - 1" and "arriving Side.Backend c = w @ r"
  obtains c' where "go_tls env c = (Return Stop, c')"
    "conveys fi fo bi bo [(Message.Backend (BackendMsg.ErrorResponse e), w)] c c'"
proof -
  let ?m = "Message.Backend (BackendMsg.ErrorResponse e)"
  let ?D = "as_message (\<lambda>x. Message.Backend (BackendMsg.ErrorResponse x)) ErrorResponse_msg"
  from assms(2,3) obtain body where body: "fields_wire (ErrorResponse_fields e) body"
    "w = ErrorResponse_TYPE_BYTE # frame body" "4 + length body < 2 ^ 32 - 1"
    unfolding message_wire_def by (auto simp: ErrorResponse_TYPE_BYTE_def frame_def)
  from byte_side_ok [of c Side.Backend ErrorResponse_TYPE_BYTE "frame body @ r"] assms(1,4) body(2)
  obtain c1 where byte: "byte_side env Side.Backend c = (Return ErrorResponse_TYPE_BYTE, c1)" and "live c1"
    by (auto simp: live_kinds)
  then have b: "read_backend_type_byte env c = (Return ErrorResponse_TYPE_BYTE, c1)"
    by (simp add: byte_side_def read_backend_type_byte_def)
  have arr: "arriving Side.Backend c1 = frame body @ r"
    using byte_side_returns [OF byte] assms(4) body(2) by simp
  have "decode_whole ?D body = Inr ?m"
    using body(1) by (auto simp: as_message_whole msg_defs whole_iffs)
  from relay_ok [OF \<open>live c1\<close> arr body(3) this] obtain c2 where
    "relay env Side.Backend ?D c1 = (Return ?m, c2)" by blast
  then have "bind_prog (relay env Side.Backend ?D) return c1 = (Return ?m, c2)"
    by (simp add: bind_prog_def)
  then have rd: "read_backend_through env ErrorResponse_msg BackendMsg.ErrorResponse c1 = (Return e, c2)"
    unfolding bind_through_relay(1) [where g = return, OF refl, symmetric] by (auto simp: exec_simps)
  from error_conveys [OF b rd] obtain w' where w': "conveys fi fo bi bo [(?m, w')] c c2" by blast
  then have "message_wire ?m w'" "w @ r = w' @ arriving Side.Backend c2"
    using assms(4) by (auto simp: conveys_def dest: spec [of _ Side.Backend])
  from message_wire_prefix_free [OF assms(2) this] have "w' = w" by simp
  moreover have "go_tls env c = (Return Stop, c2)"
    using b rd by (simp add: go_tls_def go_tls_answer_def bind_prog_def)
  ultimately show thesis using that w' by blast
qed

lemma conveys_unread:
  assumes "conveys fi fo bi bo tr c c'" and "\<And>side. arriving side c = wires side tr @ unread side"
  shows "\<forall>side. arriving side c' = unread side"
  using assms by (simp add: conveys_def)

text \<open>Every complete connection whose bytes arrive is carried out when the loop serves the sides in
  the order of its messages, and nothing behind it is taken.\<close>

lemma go_brought:
  assumes "brings env fi bi unread (arriving Side.Frontend c) (arriving Side.Backend c) tr"
    and "kinds c = (0, 0)" and "fitting tr"
  shows "\<exists>c'. go env (loop_sides (map fst tr)) c = (Return (), c') \<and> carries env fi fo bi bo tr c c'
    \<and> (\<forall>side. arriving side c' = unread side)"
  using assms(1)
proof cases
  case brings_plain
  have arr: "arriving side c = wires side tr @ unread side" for side
    using brings_plain by (cases side) simp_all
  from go_complete [OF brings_plain(3) assms(2,3) arr] obtain c' where
    c': "go env (sides (tl tr)) c = (Return (), c')" "conveys fi fo bi bo tr c c'" by blast
  from carries_plain [OF c'(2)] conveys_unread [OF c'(2) arr] c'(1) plain_loop_sides [OF brings_plain(3)]
  show ?thesis by (auto simp: map_tl comp_def)
next
  case (brings_refused w w' e)
  have w: "message_wire (Initial_message Initial.TLS) w" "length w < 2 ^ 32 - 1"
    "message_wire (Message.Backend (BackendMsg.ErrorResponse e)) w'" "length w' < 2 ^ 32 - 1"
    using assms(3) brings_refused(3) by simp_all
  have "live c" using assms(2) by (simp add: live_kinds)
  from initial_relayed [OF this w(1,2) brings_refused(1)] obtain c1 where
    c1: "read_frontend_through env Initial_msg FrontendMsg.Initial c = (Return Initial.TLS, c1)"
    "conveys fi fo bi bo [(Initial_message Initial.TLS, w)] c c1" "kinds c1 = kinds c"
    "arriving Side.Backend c1 = arriving Side.Backend c" by blast
  with assms(2) brings_refused(2) error_relayed [OF _ w(3,4), of c1 "unread Side.Backend"] obtain c2 where
    c2: "go_tls env c1 = (Return Stop, c2)"
    "conveys fi fo bi bo [(Message.Backend (BackendMsg.ErrorResponse e), w')] c1 c2" by auto
  have "go env choices c = (Return (), c2)" for choices
    using c1(1) c2(1) by (simp add: go_split bind_prog_def proceed_def)
  moreover have relayed: "conveys fi fo bi bo tr c c2"
    using conveys_append [OF c1(2) c2(2)] brings_refused(3) by simp
  moreover have "arriving side c = wires side tr @ unread side" for side
    using brings_refused by (cases side) simp_all
  from conveys_unread [OF relayed this] have "\<forall>side. arriving side c2 = unread side" .
  ultimately show ?thesis by (blast intro: carries_plain)
next
  case (brings_tls tr' x w)
  have w: "message_wire (Initial_message Initial.TLS) w" "length w < 2 ^ 32 - 1" "fitting tr'"
    using assms(3) brings_tls(2) by simp_all
  have "live c" using assms(2) by (simp add: live_kinds)
  from initial_relayed [OF this w(1,2) brings_tls(1)] obtain c1 where
    c1: "read_frontend_through env Initial_msg FrontendMsg.Initial c = (Return Initial.TLS, c1)"
    "conveys fi fo bi bo [(Initial_message Initial.TLS, w)] c c1" "kinds c1 = (0, 0)"
    "arriving Side.Frontend c1 = x" "arriving Side.Backend c1 = arriving Side.Backend c"
    using assms(2) by metis
  from go_tls_complete [OF c1(3)] c1(4,5) brings_tls(4,5) obtain c2 where
    c2: "negotiated env fi fo bi bo c1 c2" "live c2"
    "arriving Side.Frontend c2 = wires Side.Frontend tr' @ unread Side.Frontend"
    "arriving Side.Backend c2 = wires Side.Backend tr' @ unread Side.Backend"
    "go_tls env c1 =
       bind_prog (read_frontend_through env Initial_msg FrontendMsg.Initial) (\<lambda>i.
         case initial_flow i of Some f \<Rightarrow> return f | None \<Rightarrow> throw (ConveyError.TlsError TlsRequestedInsideTls)) c2"
    by metis
  have arr: "arriving side c2 = wires side tr' @ unread side" for side
    using c2(3,4) by (cases side) simp_all
  from plain_complete [OF brings_tls(3) c2(2) w(3) arr] obtain c3 where
    c3: "bind_prog (read_frontend_through env Initial_msg FrontendMsg.Initial) (\<lambda>i.
       bind_prog (case initial_flow i of Some f \<Rightarrow> return f
         | None \<Rightarrow> throw (ConveyError.TlsError TlsRequestedInsideTls)) (proceed env (sides (tl tr')))) c2
      = (Return (), c3)" "conveys fi fo bi bo tr' c2 c3" by blast
  have "bind_prog (go_tls env) (proceed env (sides (tl tr'))) c1 = (Return (), c3)"
    using c3(1) c2(5) by (simp add: bind_prog_assoc [symmetric] bind_prog_def [of "go_tls env"])
       (simp add: bind_prog_def)
  then have "go env (sides (tl tr')) c = (Return (), c3)"
    using c1(1) by (simp add: go_split bind_prog_def [of "read_frontend_through env D W" for D W])
  moreover have "carries env fi fo bi bo tr c c3"
    unfolding brings_tls(2) using carries_tls [OF c1(2) c2(1) c3(2)] by simp
  moreover have "loop_sides (map fst tr) = sides (tl tr')"
    using plain_loop_sides [OF brings_tls(3)] brings_tls(2) by (simp add: loop_sides_def map_tl comp_def)
  ultimately show ?thesis using conveys_unread [OF c3(2) arr] by metis
qed

end

section \<open>From accepting a client to the end of its session\<close>

locale server_reliable = wrapped_reliable "tcp_ops env" "tls_ops env" win wout
  for env :: "('tcp, 'tls, 'err, 'ident, 'impl, 'acceptor, 'connector, 'listener) ServerEnv"
  and win wout
begin

lemma client_reliable: "conveyor_reliable (client_env env acceptor) win wout win wout"
  using wrapped_reliable_axioms wrapped_stream_axioms
  by (simp add: conveyor_reliable_def conveyor_streams_def client_env_def Let_def)

lemma convey_carries_out:
  assumes "brings (client_env env acceptor) win win unread (win (StreamWrap.Plain client)) (win (StreamWrap.Plain target)) tr"
    and "fitting tr"
  shows "\<exists>c'. convey (client_env env acceptor) (loop_sides (map fst tr)) client target = (Return (), c')
    \<and> carries (client_env env acceptor) win wout win wout tr (Conveyor_new client target) c'
    \<and> (\<forall>side. observe win win side c' = unread side)"
  unfolding convey_def using assms
  by (intro conveyor_reliable.go_brought [OF client_reliable])
     (simp_all add: kinds_def observe_def Conveyor_new_def)

lemma session_served:
  assumes "reachable env server c" and "\<not> aborted c" and "loop_result c = None"
    and "brings (client_env env (tls_acceptor server)) win win unread
      (win (StreamWrap.Plain client)) (win (StreamWrap.Plain target)) tr"
    and "fitting tr" and "peer_addr env client = Inr peer" and "local_addr env target = Inr addr"
    and "IpAddr_from_str (target_host (config server)) = Some target_ip"
  shows "\<exists>ms c' cv. moves env server (Arrival (Some (Inr client)) # ms) c = Some c'
    \<and> own_turns env (length (accepted c)) ms (accept_round env server (Some (Inr client)) c)
    \<and> inputs ms = [Connection (Return target), Clock now1, Served (loop_sides (map fst tr)), Clock now2]
    \<and> convey (client_env env (tls_acceptor server)) (loop_sides (map fst tr)) client target = (Return (), cv)
    \<and> record_of (length (accepted c)) c' =
        [TookNumber (next_client_id c),
         Output (NewConnection (local_port_or_0 env client) (next_client_id c) peer),
         Dialled \<lparr>ip = target_ip, port = target_port (config server)\<rparr>,
         Output (ConnectedToTarget now1 (local_port_or_0 env client) (next_client_id c) addr)]
        @ map (\<lambda>(m, w). Output (Callback m)) tr
        @ [Output (StoppedConveying now2 (local_port_or_0 env client) (next_client_id c) (Inr ()))]
    \<and> carries (client_env env (tls_acceptor server)) win wout win wout tr (Conveyor_new client target) cv
    \<and> (\<forall>side. observe win win side cv = unread side)
    \<and> (\<forall>j < length (accepted c). record_of j c' = record_of j c)"
proof -
  let ?choices = "loop_sides (map fst tr)"
  from convey_carries_out [OF assms(4,5)] obtain cv where
    cv: "convey (client_env env (tls_acceptor server)) ?choices client target = (Return (), cv)"
    "carries (client_env env (tls_acceptor server)) win wout win wout tr (Conveyor_new client target) cv"
    "\<forall>side. observe win win side cv = unread side" by blast
  from carries_conveyed [OF cv(2)] have "conveyed cv = map fst tr" by (simp add: Conveyor_new_def)
  then have "client_record env server client (next_client_id c) now1 now2 (Return target) ?choices =
      [TookNumber (next_client_id c),
       Output (NewConnection (local_port_or_0 env client) (next_client_id c) peer),
       Dialled \<lparr>ip = target_ip, port = target_port (config server)\<rparr>,
       Output (ConnectedToTarget now1 (local_port_or_0 env client) (next_client_id c) addr)]
      @ map (\<lambda>(m, w). Output (Callback m)) tr
      @ [Output (StoppedConveying now2 (local_port_or_0 env client) (next_client_id c) (Inr ()))]"
    using assms(6-8) cv(1)
    by (simp add: client_record_def served_record_def outcome_events_def case_prod_beta comp_def)
  moreover have "client_inputs env server client now1 now2 (Return target) ?choices =
      [Connection (Return target), Clock now1, Served ?choices, Clock now2]"
    using assms(6-8) cv(1) by (simp add: client_inputs_def served_inputs_def outcome_inputs_def)
  ultimately show ?thesis
    using new_client_served [OF assms(1-3), of client now1 now2 "Return target" ?choices] cv by metis
qed

end

interpretation pipe_server_reliable: server_reliable "pipe_server aborts peer" wrap_in wrap_out
  using pipe_wrap.wrapped_reliable_axioms by (simp add: server_reliable_def pipe_server_def)

end
