(* ===== verification/Body_Tests.thy ===== *)
theory Body_Tests
  imports Protocol
begin

text \<open>
  The tests of the message bodies under \<open>src/src/msg/body\<close> and their helpers of
  \<open>src/src/msg/util/test.rs\<close>. A test of the file \<open>x.rs\<close> is the definition \<open>x_tests_<name>\<close>: the
  conjunction of its assertions. Byte literals of characters are written with \<open>ascii\<close>.
\<close>

abbreviation ascii :: "string \<Rightarrow> u8 list" where
  "ascii s \<equiv> map byte_char s"

section \<open>Assertions\<close>

definition assert_decode :: "'m MsgDecode \<Rightarrow> 'm DecodeResult \<Rightarrow> u8 list \<Rightarrow> bool" where
  "assert_decode D expected_result bytes =
     (case decode_body D (BytesSource_new bytes) of
        (decoded, bytes_source) \<Rightarrow> expected_result = decoded \<and> 0 = left bytes_source)"

definition assert_decode_ok :: "'m MsgDecode \<Rightarrow> 'm \<Rightarrow> u8 list \<Rightarrow> bool" where
  "assert_decode_ok D expected_result bytes = assert_decode D (Inr expected_result) bytes"

definition assert_decode_err :: "'m MsgDecode \<Rightarrow> Problem \<Rightarrow> u8 list \<Rightarrow> bool" where
  "assert_decode_err D expected_result bytes = assert_decode D (Inl expected_result) bytes"

text \<open>A positive test asserts that the bytes are the wire form of the message.\<close>

lemma assert_decode_ok_whole:
  "assert_decode_ok D m bytes \<longleftrightarrow> decode_whole D bytes = Inr m"
  by (auto simp: assert_decode_ok_def assert_decode_def decode_whole_def split: prod.splits sum.splits nat.splits)

section \<open>Tests\<close>

definition authentication_tests_cleartext_password :: bool where
  "authentication_tests_cleartext_password \<longleftrightarrow>
     assert_decode_ok Authentication_msg (CleartextPassword) ([0, 0, 0, 3])"

definition authentication_tests_gss :: bool where
  "authentication_tests_gss \<longleftrightarrow>
     assert_decode_ok Authentication_msg (Gss) ([0, 0, 0, 7])"

definition authentication_tests_gss_continue :: bool where
  "authentication_tests_gss_continue \<longleftrightarrow>
     assert_decode_ok Authentication_msg
      (GssContinue (ascii ''GSS''))
      ([0, 0, 0, 8] @ ascii ''GSS'')"

definition authentication_tests_kerberos_v5 :: bool where
  "authentication_tests_kerberos_v5 \<longleftrightarrow>
     assert_decode_ok Authentication_msg (KerberosV5) ([0, 0, 0, 2])"

definition authentication_tests_md5_password :: bool where
  "authentication_tests_md5_password \<longleftrightarrow>
     assert_decode_ok Authentication_msg (Md5Password [1, 2, 3, 4]) ([0, 0, 0, 5] @ [1, 2, 3, 4])"

definition authentication_tests_ok :: bool where
  "authentication_tests_ok \<longleftrightarrow>
     assert_decode_ok Authentication_msg (Authentication.Ok) ([0, 0, 0, 0])"

definition authentication_tests_sasl :: bool where
  "authentication_tests_sasl \<longleftrightarrow>
     assert_decode_ok Authentication_msg
      (Sasl [ascii ''OTP'', ascii ''SKEY''])
      ([0, 0, 0, 10] @ ascii ''OTP'' @ [0] @ ascii ''SKEY'' @ [0] @ [0])"

definition authentication_tests_sasl_continue :: bool where
  "authentication_tests_sasl_continue \<longleftrightarrow>
     assert_decode_ok Authentication_msg
      (SaslContinue (ascii ''SASL CONT''))
      ([0, 0, 0, 11] @ ascii ''SASL CONT'')"

definition authentication_tests_sasl_final :: bool where
  "authentication_tests_sasl_final \<longleftrightarrow>
     assert_decode_ok Authentication_msg
      (SaslFinal (ascii ''SASL FIN''))
      ([0, 0, 0, 12] @ ascii ''SASL FIN'')"

definition authentication_tests_scm_credential :: bool where
  "authentication_tests_scm_credential \<longleftrightarrow>
     assert_decode_ok Authentication_msg (ScmCredential) ([0, 0, 0, 6])"

definition authentication_tests_sspi :: bool where
  "authentication_tests_sspi \<longleftrightarrow>
     assert_decode_ok Authentication_msg (Sspi) ([0, 0, 0, 9])"

definition backend_key_data_tests_simple :: bool where
  "backend_key_data_tests_simple \<longleftrightarrow>
     assert_decode_ok BackendKeyData_msg
      (\<lparr>process_id = 0x01020304, secret_key = 0x05060708\<rparr>)
      ([1, 2, 3, 4, 5, 6, 7, 8])"

definition bind_tests_empty :: bool where
  "bind_tests_empty \<longleftrightarrow>
     assert_decode_ok Bind_msg
      (\<lparr>bind_prepared_statement_name = Text.Text [], bind_portal_name = Text.Text [], parameters_formats = [], parameters_values = [], results_formats = []\<rparr>)
      ([0] @ [0] @ [0, 0] @ [0, 0] @ [0, 0])"

definition bind_tests_named_prep_stat :: bool where
  "bind_tests_named_prep_stat \<longleftrightarrow>
     assert_decode_ok Bind_msg
      (\<lparr>bind_prepared_statement_name = Text.Text (ascii ''pr st''), bind_portal_name = Text.Text [], parameters_formats = [], parameters_values = [], results_formats = []\<rparr>)
      (ascii ''pr st'' @ [0] @ [0] @ [0, 0] @ [0, 0] @ [0, 0])"

definition bind_tests_named_portal :: bool where
  "bind_tests_named_portal \<longleftrightarrow>
     assert_decode_ok Bind_msg
      (\<lparr>bind_prepared_statement_name = Text.Text [], bind_portal_name = Text.Text (ascii ''portal''), parameters_formats = [], parameters_values = [], results_formats = []\<rparr>)
      ([0] @ ascii ''portal'' @ [0] @ [0, 0] @ [0, 0] @ [0, 0])"

definition bind_tests_parameters_formats :: bool where
  "bind_tests_parameters_formats \<longleftrightarrow>
     assert_decode_ok Bind_msg
      (\<lparr>bind_prepared_statement_name = Text.Text [], bind_portal_name = Text.Text [], parameters_formats = [Format.Text, Format.Binary, Format.Text], parameters_values = [], results_formats = []\<rparr>)
      ([0] @ [0] @ [0, 3] @ [0, 0, 0, 1, 0, 0] @ [0, 0] @ [0, 0])"

definition bind_tests_parameters_values :: bool where
  "bind_tests_parameters_values \<longleftrightarrow>
     assert_decode_ok Bind_msg
      (\<lparr>bind_prepared_statement_name = Text.Text [], bind_portal_name = Text.Text [], parameters_formats = [], parameters_values = [Value.Bytes (Bytes.Bytes [34, 55, 89, 144, 233]), Value.Bytes (Bytes.Bytes []), Value.Null], results_formats = []\<rparr>)
      ([0] @ [0] @ [0, 0] @ [0, 3] @ [0, 0, 0, 5] @ [34, 55, 89, 144, 233] @ [0, 0, 0, 0] @ [0xff, 0xff, 0xff, 0xff] @ [0, 0])"

definition bind_tests_results_formats :: bool where
  "bind_tests_results_formats \<longleftrightarrow>
     assert_decode_ok Bind_msg
      (\<lparr>bind_prepared_statement_name = Text.Text [], bind_portal_name = Text.Text [], parameters_formats = [], parameters_values = [], results_formats = [Format.Binary, Format.Text, Format.Binary]\<rparr>)
      ([0] @ [0] @ [0, 0] @ [0, 0] @ [0, 3] @ [0, 1, 0, 0, 0, 1])"

definition bind_tests_all :: bool where
  "bind_tests_all \<longleftrightarrow>
     assert_decode_ok Bind_msg
      (\<lparr>bind_prepared_statement_name = Text.Text (ascii ''PreP''), bind_portal_name = Text.Text (ascii ''PortaL''), parameters_formats = [Format.Binary, Format.Text], parameters_values = [Value.Null, Value.Bytes (Bytes.Bytes [34, 55, 89, 144, 233]), Value.Bytes (Bytes.Bytes [])], results_formats = [Format.Text, Format.Binary, Format.Binary, Format.Text]\<rparr>)
      (ascii ''PreP'' @ [0] @ ascii ''PortaL'' @ [0] @ [0, 2] @ [0, 1, 0, 0] @ [0, 3] @ [0xff, 0xff, 0xff, 0xff] @ [0, 0, 0, 5] @ [34, 55, 89, 144, 233] @ [0, 0, 0, 0] @ [0, 4] @ [0, 0, 0, 1, 0, 1, 0, 0])"

definition bind_complete_tests_simple :: bool where
  "bind_complete_tests_simple \<longleftrightarrow>
     assert_decode_ok BindComplete_msg (BindComplete.BindComplete) ([])"

definition command_complete_tests_simple :: bool where
  "command_complete_tests_simple \<longleftrightarrow>
     assert_decode_ok CommandComplete_msg
      (\<lparr>tag = ascii ''UPDATE 9000''\<rparr>)
      (ascii ''UPDATE 9000'' @ [0])"

definition data_row_tests_no_columns :: bool where
  "data_row_tests_no_columns \<longleftrightarrow>
     assert_decode_ok DataRow_msg (\<lparr>columns = []\<rparr>) ([0, 0])"

definition data_row_tests_many_columns :: bool where
  "data_row_tests_many_columns \<longleftrightarrow>
     assert_decode_ok DataRow_msg
      (\<lparr>columns = [Value.Null, Value.Bytes (Bytes.Bytes []), Value.Bytes (Bytes.Bytes [12, 34, 56])]\<rparr>)
      ([0, 3] @ [0xff, 0xff, 0xff, 0xff] @ [0, 0, 0, 0] @ [0, 0, 0, 3] @ [12, 34, 56])"

definition empty_query_response_tests_simple :: bool where
  "empty_query_response_tests_simple \<longleftrightarrow>
     assert_decode_ok EmptyQueryResponse_msg (EmptyQueryResponse.EmptyQueryResponse) ([])"

definition error_and_notice_responses_tests_no_fields :: bool where
  "error_and_notice_responses_tests_no_fields \<longleftrightarrow>
     assert_decode_ok ErrorResponse_msg
      (ErrorResponse.ErrorResponse ErrorOrNoticeFields_default)
      ([0])
     \<and> assert_decode_ok NoticeResponse_msg
      (NoticeResponse.NoticeResponse ErrorOrNoticeFields_default)
      ([0])"

definition expected_fields :: ErrorOrNoticeFields where
  "expected_fields =
     \<lparr>localized_severity = Some ([0xd1, 0x8d, 0xd0, 0xb9]),
      severity = Some (ascii ''ab''),
      code = Some (ascii ''12''),
      message = Some (ascii ''cd''),
      detail = Some (ascii ''ef''),
      hint = Some (ascii ''gh''),
      position = Some (ascii ''34''),
      internal_position = Some (ascii ''56''),
      internal_query = Some (ascii ''ij''),
      where_field = Some (ascii ''kl''),
      schema = Some (ascii ''mn''),
      table = Some (ascii ''op''),
      column = Some (ascii ''qr''),
      data_type = Some (ascii ''st''),
      constraint = Some (ascii ''uv''),
      file_field = Some (ascii ''wx''),
      line = Some (ascii ''78''),
      routine = Some (ascii ''yz'')\<rparr>"

definition all_fields_bytes :: "u8 list" where
  "all_fields_bytes =
     ascii ''S'' @ [0xd1, 0x8d, 0xd0, 0xb9] @ [0]
      @ ascii ''Vab'' @ [0]
      @ ascii ''C12'' @ [0]
      @ ascii ''Mcd'' @ [0]
      @ ascii ''Def'' @ [0]
      @ ascii ''Hgh'' @ [0]
      @ ascii ''P34'' @ [0]
      @ ascii ''p56'' @ [0]
      @ ascii ''qij'' @ [0]
      @ ascii ''Wkl'' @ [0]
      @ ascii ''smn'' @ [0]
      @ ascii ''top'' @ [0]
      @ ascii ''cqr'' @ [0]
      @ ascii ''dst'' @ [0]
      @ ascii ''nuv'' @ [0]
      @ ascii ''Fwx'' @ [0]
      @ ascii ''L78'' @ [0]
      @ ascii ''Ryz'' @ [0] @ [0]"

definition error_and_notice_responses_tests_all_fields :: bool where
  "error_and_notice_responses_tests_all_fields \<longleftrightarrow>
     assert_decode_ok ErrorResponse_msg
      (ErrorResponse.ErrorResponse expected_fields)
      (all_fields_bytes)
     \<and> assert_decode_ok NoticeResponse_msg
      (NoticeResponse.NoticeResponse expected_fields)
      (all_fields_bytes)"

definition execute_tests_unnamed_limited :: bool where
  "execute_tests_unnamed_limited \<longleftrightarrow>
     assert_decode_ok Execute_msg
      (\<lparr>execute_portal_name = Text.Text [], rows_limit = 0x12345678\<rparr>)
      ([0] @ [0x12, 0x34, 0x56, 0x78])"

definition execute_tests_named_unlimited :: bool where
  "execute_tests_named_unlimited \<longleftrightarrow>
     assert_decode_ok Execute_msg
      (\<lparr>execute_portal_name = Text.Text (ascii ''PortaL''), rows_limit = 0\<rparr>)
      (ascii ''PortaL'' @ [0] @ [0, 0, 0, 0])"

definition execute_tests_named_limited :: bool where
  "execute_tests_named_limited \<longleftrightarrow>
     assert_decode_ok Execute_msg
      (\<lparr>execute_portal_name = Text.Text (ascii ''poRtaL''), rows_limit = 0x23456789\<rparr>)
      (ascii ''poRtaL'' @ [0] @ [0x23, 0x45, 0x67, 0x89])"

definition gss_response_tests_simple :: bool where
  "gss_response_tests_simple \<longleftrightarrow>
     assert_decode_ok GssResponse_msg
      (GssResponse.GssResponse [0x12, 0x34, 0x56, 0x78, 0x9a, 0xbc])
      ([0x12, 0x34, 0x56, 0x78, 0x9a, 0xbc])"

definition initial_tests_cancel :: bool where
  "initial_tests_cancel \<longleftrightarrow>
     assert_decode_ok Initial_msg
      (Initial.Cancel \<lparr>cancel_process_id = 0x01020304, cancel_secret_key = 0x05060708\<rparr>)
      ([4, 210, 22, 46] @ [1, 2, 3, 4] @ [5, 6, 7, 8])"

definition initial_tests_ssl :: bool where
  "initial_tests_ssl \<longleftrightarrow>
     assert_decode_ok Initial_msg (Initial.TLS) ([4, 210, 22, 47])"

definition initial_tests_startup_without_params :: bool where
  "initial_tests_startup_without_params \<longleftrightarrow>
     assert_decode_ok Initial_msg
      (Initial.Startup \<lparr>startup_version = \<lparr>major = 3, minor = 1\<rparr>, startup_params = []\<rparr>)
      ([0, 3, 0, 1] @ [0])"

definition initial_tests_startup_with_params :: bool where
  "initial_tests_startup_with_params \<longleftrightarrow>
     assert_decode_ok Initial_msg
      (Initial.Startup \<lparr>startup_version = \<lparr>major = 3, minor = 0x100\<rparr>, startup_params = [\<lparr>param_name = ascii ''user'', param_value = ascii ''root''\<rparr>, \<lparr>param_name = ascii ''database'', param_value = ascii ''postgres''\<rparr>]\<rparr>)
      ([0, 3, 1, 0] @ ascii ''user'' @ [0] @ ascii ''root'' @ [0] @ ascii ''database'' @ [0] @ ascii ''postgres'' @ [0] @ [0])"

definition negotiate_protocol_version_tests_no_unrecognized_options :: bool where
  "negotiate_protocol_version_tests_no_unrecognized_options \<longleftrightarrow>
     assert_decode_ok NegotiateProtocolVersion_msg
      (\<lparr>newest_backend_minor = 0x12345678, unrecognized_options = []\<rparr>)
      ([0x12, 0x34, 0x56, 0x78] @ [0, 0, 0, 0])"

definition negotiate_protocol_version_tests_many_unrecognized_options :: bool where
  "negotiate_protocol_version_tests_many_unrecognized_options \<longleftrightarrow>
     assert_decode_ok NegotiateProtocolVersion_msg
      (\<lparr>newest_backend_minor = 0x12345678, unrecognized_options = [Text.Text (ascii ''first''), Text.Text (ascii ''second''), Text.Text (ascii ''third'')]\<rparr>)
      ([0x12, 0x34, 0x56, 0x78] @ [0, 0, 0, 3] @ ascii ''first'' @ [0] @ ascii ''second'' @ [0] @ ascii ''third'' @ [0])"

definition parameter_status_tests_simple :: bool where
  "parameter_status_tests_simple \<longleftrightarrow>
     assert_decode_ok ParameterStatus_msg
      (\<lparr>status_name = ascii ''TimeZone'', status_value = ascii ''UTC''\<rparr>)
      (ascii ''TimeZone'' @ [0] @ ascii ''UTC'' @ [0])"

definition parse_tests_unnamed_without_types :: bool where
  "parse_tests_unnamed_without_types \<longleftrightarrow>
     assert_decode_ok Parse_msg
      (\<lparr>parse_prepared_statement_name = Text.Text [], parse_query = Text.Text (ascii ''SQL''), parse_parameters_types = []\<rparr>)
      ([0] @ ascii ''SQL'' @ [0] @ [0, 0])"

definition parse_tests_named_without_types :: bool where
  "parse_tests_named_without_types \<longleftrightarrow>
     assert_decode_ok Parse_msg
      (\<lparr>parse_prepared_statement_name = Text.Text (ascii ''Name''), parse_query = Text.Text (ascii ''sql''), parse_parameters_types = []\<rparr>)
      (ascii ''Name'' @ [0] @ ascii ''sql'' @ [0] @ [0, 0])"

definition parse_tests_named_with_types :: bool where
  "parse_tests_named_with_types \<longleftrightarrow>
     assert_decode_ok Parse_msg
      (\<lparr>parse_prepared_statement_name = Text.Text (ascii ''Name''), parse_query = Text.Text (ascii ''sql''), parse_parameters_types = [0x12345678, 0x23456789, 0x3579bdf1]\<rparr>)
      (ascii ''Name'' @ [0] @ ascii ''sql'' @ [0] @ [0, 3] @ [0x12, 0x34, 0x56, 0x78] @ [0x23, 0x45, 0x67, 0x89] @ [0x35, 0x79, 0xbd, 0xf1])"

definition parse_complete_tests_simple :: bool where
  "parse_complete_tests_simple \<longleftrightarrow>
     assert_decode_ok ParseComplete_msg (ParseComplete.ParseComplete) ([])"

definition password_tests_simple :: bool where
  "password_tests_simple \<longleftrightarrow>
     assert_decode_ok Password_msg
      (Password.Password (ascii ''qwerty123''))
      (ascii ''qwerty123'' @ [0])"

definition portal_suspended_tests_simple :: bool where
  "portal_suspended_tests_simple \<longleftrightarrow>
     assert_decode_ok PortalSuspended_msg (PortalSuspended.PortalSuspended) ([])"

definition query_tests_simple :: bool where
  "query_tests_simple \<longleftrightarrow>
     assert_decode_ok Query_msg (Query.Query (ascii ''select 1;'')) (ascii ''select 1;'' @ [0])"

definition ready_for_query_tests_idle :: bool where
  "ready_for_query_tests_idle \<longleftrightarrow>
     assert_decode_ok ReadyForQuery_msg (\<lparr>status = Status.Idle\<rparr>) (ascii ''I'')"

definition ready_for_query_tests_transaction :: bool where
  "ready_for_query_tests_transaction \<longleftrightarrow>
     assert_decode_ok ReadyForQuery_msg
      (\<lparr>status = Status.Transaction\<rparr>)
      (ascii ''T'')"

definition ready_for_query_tests_error :: bool where
  "ready_for_query_tests_error \<longleftrightarrow>
     assert_decode_ok ReadyForQuery_msg (\<lparr>status = Status.Error\<rparr>) (ascii ''E'')"

definition ready_for_query_tests_incorrect_status :: bool where
  "ready_for_query_tests_incorrect_status \<longleftrightarrow>
     assert_decode_err ReadyForQuery_msg (Unknown ''status is unknown: 255'') ([255])"

definition row_description_tests_no_fields :: bool where
  "row_description_tests_no_fields \<longleftrightarrow>
     assert_decode_ok RowDescription_msg (\<lparr>row_fields = []\<rparr>) ([0, 0])"

definition row_description_tests_two_fields :: bool where
  "row_description_tests_two_fields \<longleftrightarrow>
     assert_decode_ok RowDescription_msg
      (\<lparr>row_fields = [\<lparr>name = ascii ''First'', column_oid = 0x10111213, column_attr_num = 0x1415, type_oid = 0x16171819,
        type_size = 0x1A1B, type_modifier = 0x1C1D1E1F, field_format = Format.Text\<rparr>,
       \<lparr>name = ascii ''Second'', column_oid = 0x2F2E2D2C, column_attr_num = 0x2B2A, type_oid = 0x29282726,
        type_size = 0x2524, type_modifier = 0x23222120, field_format = Format.Binary\<rparr>]\<rparr>)
      ([0, 2] @ ascii ''First'' @ [0] @ [0x10, 0x11, 0x12, 0x13] @ [0x14, 0x15] @ [0x16, 0x17, 0x18, 0x19] @ [0x1A, 0x1B] @ [0x1C, 0x1D, 0x1E, 0x1F] @ [0, 0]
       @ ascii ''Second'' @ [0] @ [0x2F, 0x2E, 0x2D, 0x2C] @ [0x2B, 0x2A] @ [0x29, 0x28, 0x27, 0x26] @ [0x25, 0x24] @ [0x23, 0x22, 0x21, 0x20] @ [0, 1])"

definition sasl_initial_response_tests_no_mechanism_data :: bool where
  "sasl_initial_response_tests_no_mechanism_data \<longleftrightarrow>
     assert_decode_ok SaslInitialResponse_msg
      (\<lparr>selected_mechanism = ascii ''OTP'', initial_mechanism_data = None\<rparr>)
      (ascii ''OTP'' @ [0] @ [0xff, 0xff, 0xff, 0xff])"

definition sasl_initial_response_tests_some_mechanism_data :: bool where
  "sasl_initial_response_tests_some_mechanism_data \<longleftrightarrow>
     assert_decode_ok SaslInitialResponse_msg
      (\<lparr>selected_mechanism = ascii ''SKEY'', initial_mechanism_data = Some [0x12, 0x34, 0x56]\<rparr>)
      (ascii ''SKEY'' @ [0] @ [0, 0, 0, 3] @ [0x12, 0x34, 0x56])"

definition sasl_response_tests_simple :: bool where
  "sasl_response_tests_simple \<longleftrightarrow>
     assert_decode_ok SaslResponse_msg
      (\<lparr>mechanism_data = [0x12, 0x34, 0x56]\<rparr>)
      ([0x12, 0x34, 0x56])"

definition sync_tests_simple :: bool where
  "sync_tests_simple \<longleftrightarrow>
     assert_decode_ok Sync_msg (Sync.Sync) ([])"

definition terminate_tests_simple :: bool where
  "terminate_tests_simple \<longleftrightarrow>
     assert_decode_ok Terminate_msg (Terminate.Terminate) ([])"

text \<open>All of them, in the order of the files.\<close>

definition body_tests :: "bool list" where
  "body_tests =
     [authentication_tests_cleartext_password,
      authentication_tests_gss,
      authentication_tests_gss_continue,
      authentication_tests_kerberos_v5,
      authentication_tests_md5_password,
      authentication_tests_ok,
      authentication_tests_sasl,
      authentication_tests_sasl_continue,
      authentication_tests_sasl_final,
      authentication_tests_scm_credential,
      authentication_tests_sspi,
      backend_key_data_tests_simple,
      bind_tests_empty,
      bind_tests_named_prep_stat,
      bind_tests_named_portal,
      bind_tests_parameters_formats,
      bind_tests_parameters_values,
      bind_tests_results_formats,
      bind_tests_all,
      bind_complete_tests_simple,
      command_complete_tests_simple,
      data_row_tests_no_columns,
      data_row_tests_many_columns,
      empty_query_response_tests_simple,
      error_and_notice_responses_tests_no_fields,
      error_and_notice_responses_tests_all_fields,
      execute_tests_unnamed_limited,
      execute_tests_named_unlimited,
      execute_tests_named_limited,
      gss_response_tests_simple,
      initial_tests_cancel,
      initial_tests_ssl,
      initial_tests_startup_without_params,
      initial_tests_startup_with_params,
      negotiate_protocol_version_tests_no_unrecognized_options,
      negotiate_protocol_version_tests_many_unrecognized_options,
      parameter_status_tests_simple,
      parse_tests_unnamed_without_types,
      parse_tests_named_without_types,
      parse_tests_named_with_types,
      parse_complete_tests_simple,
      password_tests_simple,
      portal_suspended_tests_simple,
      query_tests_simple,
      ready_for_query_tests_idle,
      ready_for_query_tests_transaction,
      ready_for_query_tests_error,
      ready_for_query_tests_incorrect_status,
      row_description_tests_no_fields,
      row_description_tests_two_fields,
      sasl_initial_response_tests_no_mechanism_data,
      sasl_initial_response_tests_some_mechanism_data,
      sasl_response_tests_simple,
      sync_tests_simple,
      terminate_tests_simple]"

section \<open>They pass\<close>

text \<open>A positive test is decided by the wire form of its message, a negative one by running the
  decoder. The fields of an error, a table of setters, are decoded once for both messages.\<close>

lemma all_fields_decoded:
  "ErrorOrNoticeFields_decode (BytesSource_new all_fields_bytes) =
     (Inr expected_fields, \<lparr>bs_slice = all_fields_bytes, bs_pos = length all_fields_bytes\<rparr>)"
  by code_simp

lemma authentication_tests_pass:
  "authentication_tests_cleartext_password"
  "authentication_tests_gss"
  "authentication_tests_gss_continue"
  "authentication_tests_kerberos_v5"
  "authentication_tests_md5_password"
  "authentication_tests_ok"
  "authentication_tests_sasl"
  "authentication_tests_sasl_continue"
  "authentication_tests_sasl_final"
  "authentication_tests_scm_credential"
  "authentication_tests_sspi"
  unfolding authentication_tests_cleartext_password_def
    authentication_tests_gss_def
    authentication_tests_gss_continue_def
    authentication_tests_kerberos_v5_def
    authentication_tests_md5_password_def
    authentication_tests_ok_def
    authentication_tests_sasl_def
    authentication_tests_sasl_continue_def
    authentication_tests_sasl_final_def
    authentication_tests_scm_credential_def
    authentication_tests_sspi_def
    assert_decode_ok_whole whole_iffs
  by code_simp+

lemma backend_key_data_tests_pass:
  "backend_key_data_tests_simple"
  unfolding backend_key_data_tests_simple_def
    assert_decode_ok_whole whole_iffs
  by code_simp

lemma bind_tests_pass:
  "bind_tests_empty"
  "bind_tests_named_prep_stat"
  "bind_tests_named_portal"
  "bind_tests_parameters_formats"
  "bind_tests_parameters_values"
  "bind_tests_results_formats"
  "bind_tests_all"
  unfolding bind_tests_empty_def
    bind_tests_named_prep_stat_def
    bind_tests_named_portal_def
    bind_tests_parameters_formats_def
    bind_tests_parameters_values_def
    bind_tests_results_formats_def
    bind_tests_all_def
    assert_decode_ok_whole whole_iffs
  by code_simp+

lemma bind_complete_tests_pass:
  "bind_complete_tests_simple"
  unfolding bind_complete_tests_simple_def
    assert_decode_ok_whole whole_iffs
  by code_simp

lemma command_complete_tests_pass:
  "command_complete_tests_simple"
  unfolding command_complete_tests_simple_def
    assert_decode_ok_whole whole_iffs
  by code_simp

lemma data_row_tests_pass:
  "data_row_tests_no_columns"
  "data_row_tests_many_columns"
  unfolding data_row_tests_no_columns_def
    data_row_tests_many_columns_def
    assert_decode_ok_whole whole_iffs
  by code_simp+

lemma empty_query_response_tests_pass:
  "empty_query_response_tests_simple"
  unfolding empty_query_response_tests_simple_def
    assert_decode_ok_whole whole_iffs
  by code_simp

lemma error_and_notice_responses_tests_pass:
  "error_and_notice_responses_tests_no_fields" "error_and_notice_responses_tests_all_fields"
proof -
  show "error_and_notice_responses_tests_no_fields" by code_simp
  show "error_and_notice_responses_tests_all_fields"
    by (simp add: error_and_notice_responses_tests_all_fields_def assert_decode_ok_def assert_decode_def
          ErrorResponse_msg_def NoticeResponse_msg_def ErrorResponse_decode_body_def NoticeResponse_decode_body_def
          bind_dec_def ok_dec_def all_fields_decoded left_def)
qed

lemma execute_tests_pass:
  "execute_tests_unnamed_limited"
  "execute_tests_named_unlimited"
  "execute_tests_named_limited"
  unfolding execute_tests_unnamed_limited_def
    execute_tests_named_unlimited_def
    execute_tests_named_limited_def
    assert_decode_ok_whole whole_iffs
  by code_simp+

lemma gss_response_tests_pass:
  "gss_response_tests_simple"
  unfolding gss_response_tests_simple_def
    assert_decode_ok_whole whole_iffs
  by code_simp

lemma initial_tests_pass:
  "initial_tests_cancel"
  "initial_tests_ssl"
  "initial_tests_startup_without_params"
  "initial_tests_startup_with_params"
  unfolding initial_tests_cancel_def
    initial_tests_ssl_def
    initial_tests_startup_without_params_def
    initial_tests_startup_with_params_def
    assert_decode_ok_whole whole_iffs
  by code_simp+

lemma negotiate_protocol_version_tests_pass:
  "negotiate_protocol_version_tests_no_unrecognized_options"
  "negotiate_protocol_version_tests_many_unrecognized_options"
  unfolding negotiate_protocol_version_tests_no_unrecognized_options_def
    negotiate_protocol_version_tests_many_unrecognized_options_def
    assert_decode_ok_whole whole_iffs
  by code_simp+

lemma parameter_status_tests_pass:
  "parameter_status_tests_simple"
  unfolding parameter_status_tests_simple_def
    assert_decode_ok_whole whole_iffs
  by code_simp

lemma parse_tests_pass:
  "parse_tests_unnamed_without_types"
  "parse_tests_named_without_types"
  "parse_tests_named_with_types"
  unfolding parse_tests_unnamed_without_types_def
    parse_tests_named_without_types_def
    parse_tests_named_with_types_def
    assert_decode_ok_whole whole_iffs
  by code_simp+

lemma parse_complete_tests_pass:
  "parse_complete_tests_simple"
  unfolding parse_complete_tests_simple_def
    assert_decode_ok_whole whole_iffs
  by code_simp

lemma password_tests_pass:
  "password_tests_simple"
  unfolding password_tests_simple_def
    assert_decode_ok_whole whole_iffs
  by code_simp

lemma portal_suspended_tests_pass:
  "portal_suspended_tests_simple"
  unfolding portal_suspended_tests_simple_def
    assert_decode_ok_whole whole_iffs
  by code_simp

lemma query_tests_pass:
  "query_tests_simple"
  unfolding query_tests_simple_def
    assert_decode_ok_whole whole_iffs
  by code_simp

lemma ready_for_query_tests_pass:
  "ready_for_query_tests_idle"
  "ready_for_query_tests_transaction"
  "ready_for_query_tests_error"
  "ready_for_query_tests_incorrect_status"
  unfolding ready_for_query_tests_idle_def
    ready_for_query_tests_transaction_def
    ready_for_query_tests_error_def
    ready_for_query_tests_incorrect_status_def
    assert_decode_ok_whole whole_iffs
  by code_simp+

lemma row_description_tests_pass:
  "row_description_tests_no_fields"
  "row_description_tests_two_fields"
  unfolding row_description_tests_no_fields_def
    row_description_tests_two_fields_def
    assert_decode_ok_whole whole_iffs
  by code_simp+

lemma sasl_initial_response_tests_pass:
  "sasl_initial_response_tests_no_mechanism_data"
  "sasl_initial_response_tests_some_mechanism_data"
  unfolding sasl_initial_response_tests_no_mechanism_data_def
    sasl_initial_response_tests_some_mechanism_data_def
    assert_decode_ok_whole whole_iffs
  by code_simp+

lemma sasl_response_tests_pass:
  "sasl_response_tests_simple"
  unfolding sasl_response_tests_simple_def
    assert_decode_ok_whole whole_iffs
  by code_simp

lemma sync_tests_pass:
  "sync_tests_simple"
  unfolding sync_tests_simple_def
    assert_decode_ok_whole whole_iffs
  by code_simp

lemma terminate_tests_pass:
  "terminate_tests_simple"
  unfolding terminate_tests_simple_def
    assert_decode_ok_whole whole_iffs
  by code_simp

lemma all_body_tests: "list_all id body_tests"
  by (simp add: body_tests_def authentication_tests_pass
        backend_key_data_tests_pass
        bind_tests_pass
        bind_complete_tests_pass
        command_complete_tests_pass
        data_row_tests_pass
        empty_query_response_tests_pass
        error_and_notice_responses_tests_pass
        execute_tests_pass
        gss_response_tests_pass
        initial_tests_pass
        negotiate_protocol_version_tests_pass
        parameter_status_tests_pass
        parse_tests_pass
        parse_complete_tests_pass
        password_tests_pass
        portal_suspended_tests_pass
        query_tests_pass
        ready_for_query_tests_pass
        row_description_tests_pass
        sasl_initial_response_tests_pass
        sasl_response_tests_pass
        sync_tests_pass
        terminate_tests_pass)

end
