(* ===== verification/New_Msg.thy ===== *)
theory New_Msg
  imports Convey Body_Tests
begin

text \<open>
  The messages of the conveyor's tests, \<open>src/src/convey/tests/new_msg.rs\<close>: the constructor \<open>f\<close> of
  the module \<open>m\<close> is \<open>m_f\<close>. String literals are ASCII in the tests. The parameters of a startup
  message come from a hash map, in the order in which it is traversed: the list.
\<close>

definition authentication_ok :: Authentication where
  "authentication_ok = Authentication.Ok"

definition authentication_cleartext_password :: Authentication where
  "authentication_cleartext_password = CleartextPassword"

definition authentication_gss :: Authentication where
  "authentication_gss = Gss"

definition authentication_gss_continue :: "u8 list \<Rightarrow> Authentication" where
  "authentication_gss_continue auth_data = GssContinue auth_data"

definition authentication_kerberos_v5 :: Authentication where
  "authentication_kerberos_v5 = KerberosV5"

definition authentication_md5_password :: "u8 list \<Rightarrow> Authentication" where
  "authentication_md5_password salt = Md5Password salt"

definition authentication_sasl :: "string list \<Rightarrow> Authentication" where
  "authentication_sasl auth_mechanisms = Sasl (map (\<lambda>s. ascii s) auth_mechanisms)"

definition authentication_sasl_continue :: "string \<Rightarrow> Authentication" where
  "authentication_sasl_continue challenge_data = SaslContinue (ascii challenge_data)"

definition authentication_sasl_final :: "string \<Rightarrow> Authentication" where
  "authentication_sasl_final additional_data = SaslFinal (ascii additional_data)"

definition authentication_scm_credential :: Authentication where
  "authentication_scm_credential = ScmCredential"

definition authentication_sspi :: Authentication where
  "authentication_sspi = Sspi"

definition backend_key_data_new :: "u32 \<Rightarrow> u32 \<Rightarrow> BackendKeyData" where
  "backend_key_data_new pid key = \<lparr>process_id = pid, secret_key = key\<rparr>"

definition bind_new :: Bind where
  "bind_new =
     \<lparr>bind_prepared_statement_name = Text.Text [], bind_portal_name = Text.Text [],
      parameters_formats = [], parameters_values = [], results_formats = []\<rparr>"

definition bind_complete_new :: BindComplete where
  "bind_complete_new = BindComplete.BindComplete"

definition command_complete_new :: "string \<Rightarrow> CommandComplete" where
  "command_complete_new t = \<lparr>tag = ascii t\<rparr>"

definition data_row_columns :: "string option list \<Rightarrow> DataRow" where
  "data_row_columns values =
     \<lparr>columns = map (\<lambda>opt. case opt of
        None \<Rightarrow> Value.Null
      | Some str \<Rightarrow> Value.Bytes (Bytes.Bytes (ascii str))) values\<rparr>"

definition empty_query_response_new :: EmptyQueryResponse where
  "empty_query_response_new = EmptyQueryResponse.EmptyQueryResponse"

definition error_response_new :: "string \<Rightarrow> ErrorResponse" where
  "error_response_new msg =
     ErrorResponse.ErrorResponse (ErrorOrNoticeFields_default
       \<lparr>severity := Some (ascii ''ERROR''), message := Some (ascii msg)\<rparr>)"

definition execute_new :: Execute where
  "execute_new = \<lparr>execute_portal_name = Text.Text [], rows_limit = 0\<rparr>"

definition gss_response_new :: "u8 list \<Rightarrow> GssResponse" where
  "gss_response_new response = GssResponse.GssResponse response"

definition notice_response_new :: "string \<Rightarrow> NoticeResponse" where
  "notice_response_new msg =
     NoticeResponse.NoticeResponse (ErrorOrNoticeFields_default
       \<lparr>severity := Some (ascii ''NOTICE''), message := Some (ascii msg)\<rparr>)"

definition initial_startup :: "u16 \<Rightarrow> u16 \<Rightarrow> (string \<times> string) list \<Rightarrow> Initial" where
  "initial_startup mj mn params =
     Initial.Startup
       \<lparr>startup_version = \<lparr>major = mj, minor = mn\<rparr>,
        startup_params = map (\<lambda>(n, v). \<lparr>param_name = ascii n, param_value = ascii v\<rparr>) params\<rparr>"

definition initial_cancel :: "u32 \<Rightarrow> u32 \<Rightarrow> Initial" where
  "initial_cancel pid key = Initial.Cancel \<lparr>cancel_process_id = pid, cancel_secret_key = key\<rparr>"

definition initial_tls :: Initial where
  "initial_tls = Initial.TLS"

definition negotiate_protocol_version_new :: "u32 \<Rightarrow> string list \<Rightarrow> NegotiateProtocolVersion" where
  "negotiate_protocol_version_new newest options =
     \<lparr>newest_backend_minor = newest, unrecognized_options = map (\<lambda>str. Text.Text (ascii str)) options\<rparr>"

definition parameter_status_new :: "string \<Rightarrow> string \<Rightarrow> ParameterStatus" where
  "parameter_status_new n v = \<lparr>status_name = ascii n, status_value = ascii v\<rparr>"

definition parse_new :: Parse where
  "parse_new =
     \<lparr>parse_prepared_statement_name = Text.Text [], parse_query = Text.Text [], parse_parameters_types = []\<rparr>"

definition parse_complete_new :: ParseComplete where
  "parse_complete_new = ParseComplete.ParseComplete"

definition password_new :: "string \<Rightarrow> Password" where
  "password_new password = Password.Password (ascii password)"

definition portal_suspended_new :: PortalSuspended where
  "portal_suspended_new = PortalSuspended.PortalSuspended"

definition query_new :: "string \<Rightarrow> Query" where
  "query_new sql = Query.Query (ascii sql)"

definition ready_for_query_idle :: ReadyForQuery where
  "ready_for_query_idle = \<lparr>status = Status.Idle\<rparr>"

definition row_description_fields :: "string list \<Rightarrow> RowDescription" where
  "row_description_fields names =
     \<lparr>row_fields = map (\<lambda>(i, nm).
        \<lparr>name = ascii nm, column_oid = 100 * word_of_nat i, column_attr_num = word_of_nat i,
         type_oid = 1000 * word_of_nat i, type_size = 10 * word_of_nat i,
         type_modifier = 10000 * word_of_nat i, field_format = Format.Text\<rparr>) (enumerate 0 names)\<rparr>"

definition sasl_initial_response_new :: "string \<Rightarrow> SaslInitialResponse" where
  "sasl_initial_response_new mech = \<lparr>selected_mechanism = ascii mech, initial_mechanism_data = None\<rparr>"

definition sasl_response_new :: "string \<Rightarrow> SaslResponse" where
  "sasl_response_new dat = \<lparr>mechanism_data = ascii dat\<rparr>"

definition sync_new :: Sync where
  "sync_new = Sync.Sync"

definition terminate_new :: Terminate where
  "terminate_new = Terminate.Terminate"

lemmas new_msg_defs =
  authentication_ok_def authentication_cleartext_password_def authentication_gss_def
  authentication_gss_continue_def authentication_kerberos_v5_def authentication_md5_password_def
  authentication_sasl_def authentication_sasl_continue_def authentication_sasl_final_def
  authentication_scm_credential_def authentication_sspi_def initial_startup_def initial_cancel_def
  initial_tls_def

end
