(* ===== verification/Fakes.thy ===== *)
theory Fakes
  imports Protocol
begin

text \<open>
  The test doubles of the conveyor, \<open>src/src/convey/tests/fake_stream.rs\<close> and \<open>fake_tls.rs\<close>. Both
  fake streams of a test take from one queue of items, so that the test decides in which order
  the sides speak. An item carries a type byte or a whole message. A boxed message
  (\<open>Box<dyn Any>\<close>) is the message with the constructor of its type; a \<open>downcast\<close> to a message
  type is an argument that recognises that type. The mutex of the queue is never contended.
\<close>

section \<open>The queue\<close>

type_synonym FakeStreamSide = Side

datatype FakeData = TypeByte u8 | Body Message

datatype FakeDataForm = Encrypted FakeData | NotEncrypted FakeData

record TwoFakeStreamsItem =
  item_side :: FakeStreamSide
  data_form :: FakeDataForm

record TwoFakeStreams =
  items :: "TwoFakeStreamsItem list"
  backend_tls_started :: bool
  frontend_tls_started :: bool

definition TwoFakeStreams_new :: TwoFakeStreams where
  "TwoFakeStreams_new = \<lparr>items = [], backend_tls_started = False, frontend_tls_started = False\<rparr>"

definition push_data :: "FakeStreamSide \<Rightarrow> FakeData \<Rightarrow> TwoFakeStreams \<Rightarrow> TwoFakeStreams" where
  "push_data side dat self =
     (let encrypted = (case side of
            Side.Frontend \<Rightarrow> frontend_tls_started self
          | Side.Backend \<Rightarrow> backend_tls_started self)
      in self\<lparr>items := items self @
           [\<lparr>item_side = side, data_form = (if encrypted then Encrypted dat else NotEncrypted dat)\<rparr>]\<rparr>)"

definition push_type_byte :: "FakeStreamSide \<Rightarrow> u8 \<Rightarrow> TwoFakeStreams \<Rightarrow> TwoFakeStreams" where
  "push_type_byte side type_byte = push_data side (FakeData.TypeByte type_byte)"

definition push_body :: "FakeStreamSide \<Rightarrow> Message \<Rightarrow> TwoFakeStreams \<Rightarrow> TwoFakeStreams" where
  "push_body side body = push_data side (FakeData.Body body)"

text \<open>\<open>Msg::TYPE_BYTE_OPT\<close> of the message's type.\<close>

definition push :: "FakeStreamSide \<Rightarrow> Message \<Rightarrow> TwoFakeStreams \<Rightarrow> TwoFakeStreams" where
  "push side body self =
     push_body side body
       (case message_type body of
          Some type_byte \<Rightarrow> push_type_byte side (TypeByte_into type_byte) self
        | None \<Rightarrow> self)"

definition push_backend :: "BackendMsg \<Rightarrow> TwoFakeStreams \<Rightarrow> TwoFakeStreams" where
  "push_backend body = push Side.Backend (Message.Backend body)"

definition push_frontend :: "FrontendMsg \<Rightarrow> TwoFakeStreams \<Rightarrow> TwoFakeStreams" where
  "push_frontend body = push Side.Frontend (Message.Frontend body)"

definition backend_accepts_tls :: "TwoFakeStreams \<Rightarrow> TwoFakeStreams" where
  "backend_accepts_tls self =
     (push_type_byte Side.Backend TLS_SUPPORTED self)\<lparr>backend_tls_started := True\<rparr>"

definition backend_rejects_tls :: "TwoFakeStreams \<Rightarrow> TwoFakeStreams" where
  "backend_rejects_tls self = push_type_byte Side.Backend TLS_NOT_SUPPORTED self"

definition frontend_starts_tls :: "TwoFakeStreams \<Rightarrow> TwoFakeStreams" where
  "frontend_starts_tls self = self\<lparr>frontend_tls_started := True\<rparr>"

definition untaken :: "TwoFakeStreams \<Rightarrow> TwoFakeStreamsItem list \<times> TwoFakeStreams" where
  "untaken self = (items self, self\<lparr>items := []\<rparr>)"

section \<open>Reading from a fake stream\<close>

datatype 'a Poll = Ready 'a | Pending

definition FakeStream_poll_next ::
  "FakeStreamSide \<Rightarrow> TwoFakeStreamsItem list \<Rightarrow> FakeDataForm option Poll \<times> TwoFakeStreamsItem list" where
  "FakeStream_poll_next side queue =
     (case queue of
        [] \<Rightarrow> (Ready None, queue)
      | item # queue' \<Rightarrow>
          if item_side item = side then (Ready (Some (data_form item)), queue') else (Pending, queue))"

definition show_side :: "FakeStreamSide \<Rightarrow> string" where
  "show_side side = (case side of Side.Backend \<Rightarrow> ''Backend'' | Side.Frontend \<Rightarrow> ''Frontend'')"

text \<open>A stream on which it is the other side's turn stays pending.\<close>

definition fake_read_data :: "FakeStreamSide \<Rightarrow> (TwoFakeStreamsItem list, Async_IO.IoError, FakeDataForm) prog" where
  "fake_read_data side queue =
     (case FakeStream_poll_next side queue of
        (Ready (Some form), queue') \<Rightarrow> (Return form, queue')
      | (Ready None, queue') \<Rightarrow>
          (Throw (Async_IO.IoError UnexpectedEof (''fake '' @ show_side side @ '' is ended'')), queue')
      | (Pending, queue') \<Rightarrow> (Blocked, queue'))"

definition unwrap_not_encrypted :: "FakeStreamSide \<Rightarrow> FakeDataForm \<Rightarrow> ('s, 'e, FakeData) prog" where
  "unwrap_not_encrypted side form s =
     (case form of
        NotEncrypted dat \<Rightarrow> (Return dat, s)
      | _ \<Rightarrow> (Panic (''expected not encrypted data in fake '' @ show_side side), s))"

definition unwrap_encrypted :: "FakeStreamSide \<Rightarrow> FakeDataForm \<Rightarrow> ('s, 'e, FakeData) prog" where
  "unwrap_encrypted side form s =
     (case form of
        Encrypted dat \<Rightarrow> (Return dat, s)
      | _ \<Rightarrow> (Panic (''expected encrypted data in fake '' @ show_side side), s))"

definition unwrap_msg_body ::
  "(Message \<Rightarrow> 'm option) \<Rightarrow> (Message \<Rightarrow> string) \<Rightarrow> FakeStreamSide \<Rightarrow> FakeData \<Rightarrow> ('s, ReadError, 'm ReadData) prog" where
  "unwrap_msg_body downcast type_name side dat s =
     (case dat of
        FakeData.Body any \<Rightarrow>
          (case downcast any of
             Some msg \<Rightarrow> (Return \<lparr>rd_bytes = [], rd_msg_result = Inr msg\<rparr>, s)
           | None \<Rightarrow> (Panic (''fake '' @ show_side side @ '' gave a message of unexpected type '' @ type_name any), s))
      | FakeData.TypeByte _ \<Rightarrow>
          (Panic (''fake '' @ show_side side @ '' gave a type byte instead of a message''), s))"

definition unwrap_type_byte ::
  "(Message \<Rightarrow> string) \<Rightarrow> FakeStreamSide \<Rightarrow> FakeData \<Rightarrow> ('s, Async_IO.IoError, u8) prog" where
  "unwrap_type_byte type_name side dat s =
     (case dat of
        FakeData.TypeByte type_byte \<Rightarrow> (Return type_byte, s)
      | FakeData.Body any \<Rightarrow>
          (Panic (''fake '' @ show_side side @ '' gave a '' @ type_name any @ '' message instead of a type byte''), s))"

text \<open>\<open>ConveyReader\<close> for \<open>FakeStream\<close> (\<open>unwrap\<close> is \<open>unwrap_not_encrypted\<close>) and for
  \<open>FakeTlsStream<FakeStream>\<close> (\<open>unwrap_encrypted\<close>).\<close>

definition fake_read_msg ::
  "(FakeDataForm \<Rightarrow> (TwoFakeStreamsItem list, ReadError, FakeData) prog) \<Rightarrow> (Message \<Rightarrow> 'm option)
    \<Rightarrow> (Message \<Rightarrow> string) \<Rightarrow> FakeStreamSide \<Rightarrow> (TwoFakeStreamsItem list, ReadError, 'm ReadData) prog" where
  "fake_read_msg unwrap downcast type_name side =
     bind_prog (map_err ReadError.IoError (fake_read_data side)) (\<lambda>form.
     bind_prog (unwrap form) (unwrap_msg_body downcast type_name side))"

definition fake_read_type_byte ::
  "(FakeDataForm \<Rightarrow> (TwoFakeStreamsItem list, Async_IO.IoError, FakeData) prog)
    \<Rightarrow> (Message \<Rightarrow> string) \<Rightarrow> FakeStreamSide \<Rightarrow> (TwoFakeStreamsItem list, Async_IO.IoError, u8) prog" where
  "fake_read_type_byte unwrap type_name side =
     bind_prog (fake_read_data side) (\<lambda>form.
     bind_prog (unwrap form) (unwrap_type_byte type_name side))"

definition fake_write_bytes :: "u8 list \<Rightarrow> ('s, Async_IO.IoError, unit) prog" where
  "fake_write_bytes bytes = return ()"

section \<open>Fake TLS\<close>

datatype 'p FakeTlsStream = FakeTlsStream 'p

definition FakeTlsClient_connect :: "'p \<Rightarrow> ('e, 'p FakeTlsStream) outcome" where
  "FakeTlsClient_connect plain = Return (FakeTlsStream plain)"

definition FakeTlsServer_accept :: "'p \<Rightarrow> ('e, 'p FakeTlsStream) outcome" where
  "FakeTlsServer_accept plain = Return (FakeTlsStream plain)"

section \<open>What is pushed is read\<close>

text \<open>The items of a message pushed on a side.\<close>

definition data_of :: "Message \<Rightarrow> FakeData list" where
  "data_of m = (case message_type m of Some tb \<Rightarrow> [FakeData.TypeByte (TypeByte_into tb)] | None \<Rightarrow> [])
     @ [FakeData.Body m]"

definition encrypting :: "FakeStreamSide \<Rightarrow> TwoFakeStreams \<Rightarrow> bool" where
  "encrypting side s = (case side of
     Side.Frontend \<Rightarrow> frontend_tls_started s | Side.Backend \<Rightarrow> backend_tls_started s)"

definition item_of :: "FakeStreamSide \<Rightarrow> bool \<Rightarrow> FakeData \<Rightarrow> TwoFakeStreamsItem" where
  "item_of side encrypted dat =
     \<lparr>item_side = side, data_form = (if encrypted then Encrypted dat else NotEncrypted dat)\<rparr>"

lemma push_data_items:
  "push_data side dat s = s\<lparr>items := items s @ [item_of side (encrypting side s) dat]\<rparr>"
  by (simp add: push_data_def item_of_def encrypting_def Let_def)

lemma encrypting_items [simp]: "encrypting side (s\<lparr>items := q\<rparr>) = encrypting side s"
  by (simp add: encrypting_def split: Side.split)

lemma push_items:
  "push side m s = s\<lparr>items := items s @ map (item_of side (encrypting side s)) (data_of m)\<rparr>"
  by (auto simp: push_def push_body_def push_type_byte_def push_data_items data_of_def split: option.splits)

lemma fake_read_type_byte_pushed:
  assumes "message_type m = Some tb"
  shows "fake_read_type_byte (if e then unwrap_encrypted side else unwrap_not_encrypted side) type_name side
      (map (item_of side e) (data_of m) @ queue)
    = (Return (TypeByte_into tb), item_of side e (FakeData.Body m) # queue)"
  using assms
  by (simp add: data_of_def item_of_def fake_read_type_byte_def fake_read_data_def FakeStream_poll_next_def
        bind_prog_def unwrap_encrypted_def unwrap_not_encrypted_def unwrap_type_byte_def)

lemma fake_read_msg_pushed:
  assumes "downcast m = Some x"
  shows "fake_read_msg (if e then unwrap_encrypted side else unwrap_not_encrypted side) downcast type_name side
      (item_of side e (FakeData.Body m) # queue)
    = (Return \<lparr>rd_bytes = [], rd_msg_result = Inr x\<rparr>, queue)"
  using assms
  by (simp add: item_of_def fake_read_msg_def fake_read_data_def FakeStream_poll_next_def map_err_def
        bind_prog_def unwrap_encrypted_def unwrap_not_encrypted_def unwrap_msg_body_def)

text \<open>It is nobody else's turn meanwhile.\<close>

lemma fake_other_side_waits: "fake_read_data (other side) (item_of side e dat # queue) =
    (Blocked, item_of side e dat # queue)"
  by (cases side) (simp_all add: fake_read_data_def FakeStream_poll_next_def item_of_def)

end
