(* ===== verification/Protocol_Tests.thy ===== *)
theory Protocol_Tests
  imports Complete New_Msg Fakes
begin

text \<open>
  The scripts of the protocol tests, \<open>src/src/convey/tests/protocol.rs\<close>: messages that are pushed on
  both sides of the fake streams, each script with its assertion. The test itself, \<open>test_convey\<close>,
  which runs the conveyor over the fake streams, is not modelled. Here the conversations are
  carried out over byte streams that deliver the bytes of the items that a script queues (what the
  items of a side say before and inside TLS), so that reading, decoding and writing take part, with
  the sides served in the order of the queue.
\<close>

section \<open>Scripts\<close>

text \<open>The statements of a test: the macros \<open>backend!\<close> and \<open>frontend!\<close>, and the calls on the streams.\<close>

datatype Step =
    BackendSays BackendMsg
  | FrontendSays FrontendMsg
  | BackendAcceptsTls
  | BackendRejectsTls
  | FrontendStartsTls

record TestState =
  streams :: TwoFakeStreams
  expected_conveyed :: "Message list"

definition backend_macro :: "BackendMsg \<Rightarrow> TestState \<Rightarrow> TestState" where
  "backend_macro m st =
     st\<lparr>streams := push_backend m (streams st),
        expected_conveyed := expected_conveyed st @ [Message.Backend m]\<rparr>"

definition frontend_macro :: "FrontendMsg \<Rightarrow> TestState \<Rightarrow> TestState" where
  "frontend_macro m st =
     st\<lparr>streams := push_frontend m (streams st),
        expected_conveyed := expected_conveyed st @ [Message.Frontend m]\<rparr>"

primrec perform :: "Step \<Rightarrow> TestState \<Rightarrow> TestState" where
  "perform (BackendSays m) = backend_macro m"
| "perform (FrontendSays m) = frontend_macro m"
| "perform BackendAcceptsTls = (\<lambda>st. st\<lparr>streams := backend_accepts_tls (streams st)\<rparr>)"
| "perform BackendRejectsTls = (\<lambda>st. st\<lparr>streams := backend_rejects_tls (streams st)\<rparr>)"
| "perform FrontendStartsTls = (\<lambda>st. st\<lparr>streams := frontend_starts_tls (streams st)\<rparr>)"

definition run_script :: "Step list \<Rightarrow> TestState" where
  "run_script steps = fold perform steps \<lparr>streams = TwoFakeStreams_new, expected_conveyed = []\<rparr>"

datatype Assertion = AssertOk | AssertUnsupported

type_synonym ProtocolTest = "Step list \<times> Assertion"

section \<open>The tests\<close>

definition test_cancel :: ProtocolTest where
  "test_cancel =
     ([FrontendSays (FrontendMsg.Initial (initial_cancel 11 12))], AssertOk)"

definition test_cancel_when_backend_accepts_tls :: ProtocolTest where
  "test_cancel_when_backend_accepts_tls =
     ([FrontendSays (FrontendMsg.Initial initial_tls),
       BackendAcceptsTls,
       FrontendStartsTls,
       FrontendSays (FrontendMsg.Initial (initial_cancel 11 12))], AssertOk)"

definition test_cancel_when_backend_rejects_tls :: ProtocolTest where
  "test_cancel_when_backend_rejects_tls =
     ([FrontendSays (FrontendMsg.Initial initial_tls),
       BackendRejectsTls,
       FrontendStartsTls,
       FrontendSays (FrontendMsg.Initial (initial_cancel 11 12))], AssertOk)"

definition test_backend_does_not_know_tls :: ProtocolTest where
  "test_backend_does_not_know_tls =
     ([FrontendSays (FrontendMsg.Initial initial_tls),
       BackendSays (BackendMsg.ErrorResponse (error_response_new ''too old backend''))], AssertOk)"

definition test_error_after_startup :: ProtocolTest where
  "test_error_after_startup =
     ([FrontendSays (FrontendMsg.Initial (initial_startup 11 12 [])),
       BackendSays (BackendMsg.ErrorResponse (error_response_new ''something goes wrong''))], AssertOk)"

definition test_negotiate_and_error_after_startup :: ProtocolTest where
  "test_negotiate_and_error_after_startup =
     ([FrontendSays (FrontendMsg.Initial (initial_startup 11 12 [])),
       BackendSays (BackendMsg.NegotiateProtocolVersion (negotiate_protocol_version_new 21 [''_pq_x'', ''_pq_y''])),
       BackendSays (BackendMsg.ErrorResponse (error_response_new ''something goes wrong''))], AssertOk)"

definition test_error_after_startup_when_backend_accepts_tls :: ProtocolTest where
  "test_error_after_startup_when_backend_accepts_tls =
     ([FrontendSays (FrontendMsg.Initial initial_tls),
       BackendAcceptsTls,
       FrontendStartsTls,
       FrontendSays (FrontendMsg.Initial (initial_startup 11 12 [])),
       BackendSays (BackendMsg.ErrorResponse (error_response_new ''something goes wrong''))], AssertOk)"

definition test_error_after_startup_when_backend_rejects_tls :: ProtocolTest where
  "test_error_after_startup_when_backend_rejects_tls =
     ([FrontendSays (FrontendMsg.Initial initial_tls),
       BackendRejectsTls,
       FrontendStartsTls,
       FrontendSays (FrontendMsg.Initial (initial_startup 11 12 [])),
       BackendSays (BackendMsg.ErrorResponse (error_response_new ''something goes wrong''))], AssertOk)"

definition test_auth_ok_and_error :: ProtocolTest where
  "test_auth_ok_and_error =
     ([FrontendSays (FrontendMsg.Initial (initial_startup 11 12 [])),
       BackendSays (BackendMsg.Authentication authentication_ok),
       BackendSays (BackendMsg.ErrorResponse (error_response_new ''something goes wrong''))], AssertOk)"

definition test_auth_cleartext_with_correct_password :: ProtocolTest where
  "test_auth_cleartext_with_correct_password =
     ([FrontendSays (FrontendMsg.Initial (initial_startup 11 12 [])),
       BackendSays (BackendMsg.Authentication authentication_cleartext_password),
       FrontendSays (FrontendMsg.Password (password_new ''correct'')),
       BackendSays (BackendMsg.Authentication authentication_ok),
       BackendSays (BackendMsg.ErrorResponse (error_response_new ''shorten test''))], AssertOk)"

definition test_auth_cleartext_with_wrong_password :: ProtocolTest where
  "test_auth_cleartext_with_wrong_password =
     ([FrontendSays (FrontendMsg.Initial (initial_startup 11 12 [])),
       BackendSays (BackendMsg.Authentication authentication_cleartext_password),
       FrontendSays (FrontendMsg.Password (password_new ''wrong'')),
       BackendSays (BackendMsg.ErrorResponse (error_response_new ''wrong password''))], AssertOk)"

definition test_auth_md5_with_correct_password :: ProtocolTest where
  "test_auth_md5_with_correct_password =
     ([FrontendSays (FrontendMsg.Initial (initial_startup 11 12 [])),
       BackendSays (BackendMsg.Authentication (authentication_md5_password (ascii ''salt''))),
       FrontendSays (FrontendMsg.Password (password_new ''md5correct'')),
       BackendSays (BackendMsg.Authentication authentication_ok),
       BackendSays (BackendMsg.ErrorResponse (error_response_new ''shorten test''))], AssertOk)"

definition test_auth_md5_with_wrong_password :: ProtocolTest where
  "test_auth_md5_with_wrong_password =
     ([FrontendSays (FrontendMsg.Initial (initial_startup 11 12 [])),
       BackendSays (BackendMsg.Authentication (authentication_md5_password (ascii ''salt''))),
       FrontendSays (FrontendMsg.Password (password_new ''md5wrong'')),
       BackendSays (BackendMsg.ErrorResponse (error_response_new ''wrong password''))], AssertOk)"

definition test_auth_gss_single_ok :: ProtocolTest where
  "test_auth_gss_single_ok =
     ([FrontendSays (FrontendMsg.Initial (initial_startup 11 12 [])),
       BackendSays (BackendMsg.Authentication authentication_gss),
       FrontendSays (FrontendMsg.GssResponse (gss_response_new [0xf1])),
       BackendSays (BackendMsg.Authentication authentication_ok),
       BackendSays (BackendMsg.ErrorResponse (error_response_new ''shorten test''))], AssertOk)"

definition test_auth_gss_single_error :: ProtocolTest where
  "test_auth_gss_single_error =
     ([FrontendSays (FrontendMsg.Initial (initial_startup 11 12 [])),
       BackendSays (BackendMsg.Authentication authentication_gss),
       FrontendSays (FrontendMsg.GssResponse (gss_response_new [0xf1])),
       BackendSays (BackendMsg.ErrorResponse (error_response_new ''something wrong''))], AssertOk)"

definition test_auth_gss_double_ok :: ProtocolTest where
  "test_auth_gss_double_ok =
     ([FrontendSays (FrontendMsg.Initial (initial_startup 11 12 [])),
       BackendSays (BackendMsg.Authentication authentication_gss),
       FrontendSays (FrontendMsg.GssResponse (gss_response_new [0xf1])),
       BackendSays (BackendMsg.Authentication (authentication_gss_continue [0xb2])),
       FrontendSays (FrontendMsg.GssResponse (gss_response_new [0xf2])),
       BackendSays (BackendMsg.Authentication authentication_ok),
       BackendSays (BackendMsg.ErrorResponse (error_response_new ''shorten test''))], AssertOk)"

definition test_auth_gss_double_error :: ProtocolTest where
  "test_auth_gss_double_error =
     ([FrontendSays (FrontendMsg.Initial (initial_startup 11 12 [])),
       BackendSays (BackendMsg.Authentication authentication_gss),
       FrontendSays (FrontendMsg.GssResponse (gss_response_new [0xf1])),
       BackendSays (BackendMsg.Authentication (authentication_gss_continue [0xb2])),
       FrontendSays (FrontendMsg.GssResponse (gss_response_new [0xf2])),
       BackendSays (BackendMsg.ErrorResponse (error_response_new ''something wrong''))], AssertOk)"

definition test_auth_gss_quadruple_ok :: ProtocolTest where
  "test_auth_gss_quadruple_ok =
     ([FrontendSays (FrontendMsg.Initial (initial_startup 11 12 [])),
       BackendSays (BackendMsg.Authentication authentication_gss),
       FrontendSays (FrontendMsg.GssResponse (gss_response_new [0xf1])),
       BackendSays (BackendMsg.Authentication (authentication_gss_continue [0xb2])),
       FrontendSays (FrontendMsg.GssResponse (gss_response_new [0xf2])),
       BackendSays (BackendMsg.Authentication (authentication_gss_continue [0xb3])),
       FrontendSays (FrontendMsg.GssResponse (gss_response_new [0xf3])),
       BackendSays (BackendMsg.Authentication (authentication_gss_continue [0xb4])),
       FrontendSays (FrontendMsg.GssResponse (gss_response_new [0xf4])),
       BackendSays (BackendMsg.Authentication authentication_ok),
       BackendSays (BackendMsg.ErrorResponse (error_response_new ''shorten test''))], AssertOk)"

definition test_auth_gss_quadruple_error :: ProtocolTest where
  "test_auth_gss_quadruple_error =
     ([FrontendSays (FrontendMsg.Initial (initial_startup 11 12 [])),
       BackendSays (BackendMsg.Authentication authentication_gss),
       FrontendSays (FrontendMsg.GssResponse (gss_response_new [0xf1])),
       BackendSays (BackendMsg.Authentication (authentication_gss_continue [0xb2])),
       FrontendSays (FrontendMsg.GssResponse (gss_response_new [0xf2])),
       BackendSays (BackendMsg.Authentication (authentication_gss_continue [0xb3])),
       FrontendSays (FrontendMsg.GssResponse (gss_response_new [0xf3])),
       BackendSays (BackendMsg.Authentication (authentication_gss_continue [0xb4])),
       FrontendSays (FrontendMsg.GssResponse (gss_response_new [0xf4])),
       BackendSays (BackendMsg.ErrorResponse (error_response_new ''something wrong''))], AssertOk)"

definition test_auth_sspi_single_ok :: ProtocolTest where
  "test_auth_sspi_single_ok =
     ([FrontendSays (FrontendMsg.Initial (initial_startup 11 12 [])),
       BackendSays (BackendMsg.Authentication authentication_sspi),
       FrontendSays (FrontendMsg.GssResponse (gss_response_new [0xf1])),
       BackendSays (BackendMsg.Authentication authentication_ok),
       BackendSays (BackendMsg.ErrorResponse (error_response_new ''shorten test''))], AssertOk)"

definition test_auth_sspi_single_error :: ProtocolTest where
  "test_auth_sspi_single_error =
     ([FrontendSays (FrontendMsg.Initial (initial_startup 11 12 [])),
       BackendSays (BackendMsg.Authentication authentication_sspi),
       FrontendSays (FrontendMsg.GssResponse (gss_response_new [0xf1])),
       BackendSays (BackendMsg.ErrorResponse (error_response_new ''something wrong''))], AssertOk)"

definition test_auth_sspi_double_ok :: ProtocolTest where
  "test_auth_sspi_double_ok =
     ([FrontendSays (FrontendMsg.Initial (initial_startup 11 12 [])),
       BackendSays (BackendMsg.Authentication authentication_sspi),
       FrontendSays (FrontendMsg.GssResponse (gss_response_new [0xf1])),
       BackendSays (BackendMsg.Authentication (authentication_gss_continue [0xb2])),
       FrontendSays (FrontendMsg.GssResponse (gss_response_new [0xf2])),
       BackendSays (BackendMsg.Authentication authentication_ok),
       BackendSays (BackendMsg.ErrorResponse (error_response_new ''shorten test''))], AssertOk)"

definition test_auth_sspi_double_error :: ProtocolTest where
  "test_auth_sspi_double_error =
     ([FrontendSays (FrontendMsg.Initial (initial_startup 11 12 [])),
       BackendSays (BackendMsg.Authentication authentication_sspi),
       FrontendSays (FrontendMsg.GssResponse (gss_response_new [0xf1])),
       BackendSays (BackendMsg.Authentication (authentication_gss_continue [0xb2])),
       FrontendSays (FrontendMsg.GssResponse (gss_response_new [0xf2])),
       BackendSays (BackendMsg.ErrorResponse (error_response_new ''something wrong''))], AssertOk)"

definition test_auth_sspi_quadruple_ok :: ProtocolTest where
  "test_auth_sspi_quadruple_ok =
     ([FrontendSays (FrontendMsg.Initial (initial_startup 11 12 [])),
       BackendSays (BackendMsg.Authentication authentication_sspi),
       FrontendSays (FrontendMsg.GssResponse (gss_response_new [0xf1])),
       BackendSays (BackendMsg.Authentication (authentication_gss_continue [0xb2])),
       FrontendSays (FrontendMsg.GssResponse (gss_response_new [0xf2])),
       BackendSays (BackendMsg.Authentication (authentication_gss_continue [0xb3])),
       FrontendSays (FrontendMsg.GssResponse (gss_response_new [0xf3])),
       BackendSays (BackendMsg.Authentication (authentication_gss_continue [0xb4])),
       FrontendSays (FrontendMsg.GssResponse (gss_response_new [0xf4])),
       BackendSays (BackendMsg.Authentication authentication_ok),
       BackendSays (BackendMsg.ErrorResponse (error_response_new ''shorten test''))], AssertOk)"

definition test_auth_sspi_quadruple_error :: ProtocolTest where
  "test_auth_sspi_quadruple_error =
     ([FrontendSays (FrontendMsg.Initial (initial_startup 11 12 [])),
       BackendSays (BackendMsg.Authentication authentication_sspi),
       FrontendSays (FrontendMsg.GssResponse (gss_response_new [0xf1])),
       BackendSays (BackendMsg.Authentication (authentication_gss_continue [0xb2])),
       FrontendSays (FrontendMsg.GssResponse (gss_response_new [0xf2])),
       BackendSays (BackendMsg.Authentication (authentication_gss_continue [0xb3])),
       FrontendSays (FrontendMsg.GssResponse (gss_response_new [0xf3])),
       BackendSays (BackendMsg.Authentication (authentication_gss_continue [0xb4])),
       FrontendSays (FrontendMsg.GssResponse (gss_response_new [0xf4])),
       BackendSays (BackendMsg.ErrorResponse (error_response_new ''something wrong''))], AssertOk)"

definition test_auth_sasl_single_ok :: ProtocolTest where
  "test_auth_sasl_single_ok =
     ([FrontendSays (FrontendMsg.Initial (initial_startup 11 12 [])),
       BackendSays (BackendMsg.Authentication (authentication_sasl [''a'', ''b''])),
       FrontendSays (FrontendMsg.SaslInitialResponse (sasl_initial_response_new ''a'')),
       BackendSays (BackendMsg.Authentication (authentication_sasl_final '''')),
       BackendSays (BackendMsg.Authentication authentication_ok),
       BackendSays (BackendMsg.ErrorResponse (error_response_new ''shorten test''))], AssertOk)"

definition test_auth_sasl_single_error_after_final :: ProtocolTest where
  "test_auth_sasl_single_error_after_final =
     ([FrontendSays (FrontendMsg.Initial (initial_startup 11 12 [])),
       BackendSays (BackendMsg.Authentication (authentication_sasl [''a'', ''b''])),
       FrontendSays (FrontendMsg.SaslInitialResponse (sasl_initial_response_new ''a'')),
       BackendSays (BackendMsg.Authentication (authentication_sasl_final '''')),
       BackendSays (BackendMsg.ErrorResponse (error_response_new ''something wrong''))], AssertOk)"

definition test_auth_sasl_single_error :: ProtocolTest where
  "test_auth_sasl_single_error =
     ([FrontendSays (FrontendMsg.Initial (initial_startup 11 12 [])),
       BackendSays (BackendMsg.Authentication (authentication_sasl [''a'', ''b''])),
       FrontendSays (FrontendMsg.SaslInitialResponse (sasl_initial_response_new ''a'')),
       BackendSays (BackendMsg.ErrorResponse (error_response_new ''something wrong''))], AssertOk)"

definition test_auth_sasl_double_ok :: ProtocolTest where
  "test_auth_sasl_double_ok =
     ([FrontendSays (FrontendMsg.Initial (initial_startup 11 12 [])),
       BackendSays (BackendMsg.Authentication (authentication_sasl [''a'', ''b''])),
       FrontendSays (FrontendMsg.SaslInitialResponse (sasl_initial_response_new ''a'')),
       BackendSays (BackendMsg.Authentication (authentication_sasl_continue '''')),
       FrontendSays (FrontendMsg.SaslResponse (sasl_response_new '''')),
       BackendSays (BackendMsg.Authentication (authentication_sasl_final '''')),
       BackendSays (BackendMsg.Authentication authentication_ok),
       BackendSays (BackendMsg.ErrorResponse (error_response_new ''shorten test''))], AssertOk)"

definition test_auth_sasl_double_error_after_final :: ProtocolTest where
  "test_auth_sasl_double_error_after_final =
     ([FrontendSays (FrontendMsg.Initial (initial_startup 11 12 [])),
       BackendSays (BackendMsg.Authentication (authentication_sasl [''a'', ''b''])),
       FrontendSays (FrontendMsg.SaslInitialResponse (sasl_initial_response_new ''a'')),
       BackendSays (BackendMsg.Authentication (authentication_sasl_continue '''')),
       FrontendSays (FrontendMsg.SaslResponse (sasl_response_new '''')),
       BackendSays (BackendMsg.Authentication (authentication_sasl_final '''')),
       BackendSays (BackendMsg.ErrorResponse (error_response_new ''something wrong''))], AssertOk)"

definition test_auth_sasl_double_error :: ProtocolTest where
  "test_auth_sasl_double_error =
     ([FrontendSays (FrontendMsg.Initial (initial_startup 11 12 [])),
       BackendSays (BackendMsg.Authentication (authentication_sasl [''a'', ''b''])),
       FrontendSays (FrontendMsg.SaslInitialResponse (sasl_initial_response_new ''a'')),
       BackendSays (BackendMsg.Authentication (authentication_sasl_continue '''')),
       FrontendSays (FrontendMsg.SaslResponse (sasl_response_new '''')),
       BackendSays (BackendMsg.ErrorResponse (error_response_new ''something wrong''))], AssertOk)"

definition test_auth_sasl_quadriple_ok :: ProtocolTest where
  "test_auth_sasl_quadriple_ok =
     ([FrontendSays (FrontendMsg.Initial (initial_startup 11 12 [])),
       BackendSays (BackendMsg.Authentication (authentication_sasl [''a'', ''b''])),
       FrontendSays (FrontendMsg.SaslInitialResponse (sasl_initial_response_new ''a'')),
       BackendSays (BackendMsg.Authentication (authentication_sasl_continue ''2'')),
       FrontendSays (FrontendMsg.SaslResponse (sasl_response_new ''2'')),
       BackendSays (BackendMsg.Authentication (authentication_sasl_continue ''3'')),
       FrontendSays (FrontendMsg.SaslResponse (sasl_response_new ''3'')),
       BackendSays (BackendMsg.Authentication (authentication_sasl_continue ''4'')),
       FrontendSays (FrontendMsg.SaslResponse (sasl_response_new ''4'')),
       BackendSays (BackendMsg.Authentication (authentication_sasl_final '''')),
       BackendSays (BackendMsg.Authentication authentication_ok),
       BackendSays (BackendMsg.ErrorResponse (error_response_new ''shorten test''))], AssertOk)"

definition test_auth_sasl_quadriple_error_after_final :: ProtocolTest where
  "test_auth_sasl_quadriple_error_after_final =
     ([FrontendSays (FrontendMsg.Initial (initial_startup 11 12 [])),
       BackendSays (BackendMsg.Authentication (authentication_sasl [''a'', ''b''])),
       FrontendSays (FrontendMsg.SaslInitialResponse (sasl_initial_response_new ''a'')),
       BackendSays (BackendMsg.Authentication (authentication_sasl_continue ''2'')),
       FrontendSays (FrontendMsg.SaslResponse (sasl_response_new ''2'')),
       BackendSays (BackendMsg.Authentication (authentication_sasl_continue ''3'')),
       FrontendSays (FrontendMsg.SaslResponse (sasl_response_new ''3'')),
       BackendSays (BackendMsg.Authentication (authentication_sasl_continue ''4'')),
       FrontendSays (FrontendMsg.SaslResponse (sasl_response_new ''4'')),
       BackendSays (BackendMsg.Authentication (authentication_sasl_final '''')),
       BackendSays (BackendMsg.ErrorResponse (error_response_new ''something wrong''))], AssertOk)"

definition test_auth_sasl_quadriple_error :: ProtocolTest where
  "test_auth_sasl_quadriple_error =
     ([FrontendSays (FrontendMsg.Initial (initial_startup 11 12 [])),
       BackendSays (BackendMsg.Authentication (authentication_sasl [''a'', ''b''])),
       FrontendSays (FrontendMsg.SaslInitialResponse (sasl_initial_response_new ''a'')),
       BackendSays (BackendMsg.Authentication (authentication_sasl_continue ''2'')),
       FrontendSays (FrontendMsg.SaslResponse (sasl_response_new ''2'')),
       BackendSays (BackendMsg.Authentication (authentication_sasl_continue ''3'')),
       FrontendSays (FrontendMsg.SaslResponse (sasl_response_new ''3'')),
       BackendSays (BackendMsg.Authentication (authentication_sasl_continue ''4'')),
       FrontendSays (FrontendMsg.SaslResponse (sasl_response_new ''4'')),
       BackendSays (BackendMsg.ErrorResponse (error_response_new ''something wrong''))], AssertOk)"

definition test_auth_kerberos_unsupported :: ProtocolTest where
  "test_auth_kerberos_unsupported =
     ([FrontendSays (FrontendMsg.Initial (initial_startup 11 12 [])),
       BackendSays (BackendMsg.Authentication authentication_kerberos_v5)], AssertUnsupported)"

definition test_auth_scm_credential_unsupported :: ProtocolTest where
  "test_auth_scm_credential_unsupported =
     ([FrontendSays (FrontendMsg.Initial (initial_startup 11 12 [])),
       BackendSays (BackendMsg.Authentication authentication_scm_credential)], AssertUnsupported)"

definition test_negotiate_and_error_after_auth_ok :: ProtocolTest where
  "test_negotiate_and_error_after_auth_ok =
     ([FrontendSays (FrontendMsg.Initial (initial_startup 11 12 [])),
       BackendSays (BackendMsg.Authentication authentication_ok),
       BackendSays (BackendMsg.NegotiateProtocolVersion (negotiate_protocol_version_new 21 [''_pq_x'', ''_pq_y''])),
       BackendSays (BackendMsg.ErrorResponse (error_response_new ''something goes wrong''))], AssertOk)"

definition test_negotiate_before_and_after_auth_ok :: ProtocolTest where
  "test_negotiate_before_and_after_auth_ok =
     ([FrontendSays (FrontendMsg.Initial (initial_startup 11 12 [])),
       BackendSays (BackendMsg.NegotiateProtocolVersion (negotiate_protocol_version_new 21 [''_pq_x'', ''_pq_y''])),
       BackendSays (BackendMsg.Authentication authentication_ok),
       BackendSays (BackendMsg.NegotiateProtocolVersion (negotiate_protocol_version_new 22 [''_pq_z'', ''_pq_t''])),
       BackendSays (BackendMsg.ErrorResponse (error_response_new ''something goes wrong''))], AssertOk)"

definition test_error_after_param_status :: ProtocolTest where
  "test_error_after_param_status =
     ([FrontendSays (FrontendMsg.Initial (initial_startup 11 12 [])),
       BackendSays (BackendMsg.Authentication authentication_ok),
       BackendSays (BackendMsg.ParameterStatus (parameter_status_new ''param1'' ''value A'')),
       BackendSays (BackendMsg.ParameterStatus (parameter_status_new ''param2'' ''value B'')),
       BackendSays (BackendMsg.ErrorResponse (error_response_new ''something goes wrong''))], AssertOk)"

definition test_error_after_backend_key :: ProtocolTest where
  "test_error_after_backend_key =
     ([FrontendSays (FrontendMsg.Initial (initial_startup 11 12 [])),
       BackendSays (BackendMsg.Authentication authentication_ok),
       BackendSays (BackendMsg.ParameterStatus (parameter_status_new ''param1'' ''value A'')),
       BackendSays (BackendMsg.ParameterStatus (parameter_status_new ''param2'' ''value B'')),
       BackendSays (BackendMsg.BackendKeyData (backend_key_data_new 21 22)),
       BackendSays (BackendMsg.ErrorResponse (error_response_new ''something goes wrong''))], AssertOk)"

definition test_error_after_ready :: ProtocolTest where
  "test_error_after_ready =
     ([FrontendSays (FrontendMsg.Initial (initial_startup 11 12 [])),
       BackendSays (BackendMsg.Authentication authentication_ok),
       BackendSays (BackendMsg.ParameterStatus (parameter_status_new ''param1'' ''value A'')),
       BackendSays (BackendMsg.ParameterStatus (parameter_status_new ''param2'' ''value B'')),
       BackendSays (BackendMsg.BackendKeyData (backend_key_data_new 21 22)),
       BackendSays (BackendMsg.ReadyForQuery ready_for_query_idle),
       BackendSays (BackendMsg.ErrorResponse (error_response_new ''something goes wrong''))], AssertOk)"

definition test_ready_and_terminate :: ProtocolTest where
  "test_ready_and_terminate =
     ([FrontendSays (FrontendMsg.Initial (initial_startup 11 12 [])),
       BackendSays (BackendMsg.Authentication authentication_ok),
       BackendSays (BackendMsg.ParameterStatus (parameter_status_new ''param1'' ''value A'')),
       BackendSays (BackendMsg.ParameterStatus (parameter_status_new ''param2'' ''value B'')),
       BackendSays (BackendMsg.BackendKeyData (backend_key_data_new 21 22)),
       BackendSays (BackendMsg.ReadyForQuery ready_for_query_idle),
       FrontendSays (FrontendMsg.Terminate terminate_new)], AssertOk)"

definition test_ready_and_terminate_with_notices :: ProtocolTest where
  "test_ready_and_terminate_with_notices =
     ([FrontendSays (FrontendMsg.Initial (initial_startup 11 12 [])),
       BackendSays (BackendMsg.Authentication authentication_ok),
       BackendSays (BackendMsg.NoticeResponse (notice_response_new ''first'')),
       BackendSays (BackendMsg.ParameterStatus (parameter_status_new ''param1'' ''value A'')),
       BackendSays (BackendMsg.NoticeResponse (notice_response_new ''second'')),
       BackendSays (BackendMsg.ParameterStatus (parameter_status_new ''param2'' ''value B'')),
       BackendSays (BackendMsg.NoticeResponse (notice_response_new ''third'')),
       BackendSays (BackendMsg.BackendKeyData (backend_key_data_new 21 22)),
       BackendSays (BackendMsg.NoticeResponse (notice_response_new ''forth'')),
       BackendSays (BackendMsg.ReadyForQuery ready_for_query_idle),
       BackendSays (BackendMsg.NoticeResponse (notice_response_new ''fifth'')),
       FrontendSays (FrontendMsg.Terminate terminate_new)], AssertOk)"

definition test_empty_query :: ProtocolTest where
  "test_empty_query =
     ([FrontendSays (FrontendMsg.Initial (initial_startup 11 12 [])),
       BackendSays (BackendMsg.Authentication authentication_ok),
       BackendSays (BackendMsg.BackendKeyData (backend_key_data_new 21 22)),
       BackendSays (BackendMsg.ReadyForQuery ready_for_query_idle),
       FrontendSays (FrontendMsg.Query (query_new '''')),
       BackendSays (BackendMsg.EmptyQueryResponse empty_query_response_new),
       BackendSays (BackendMsg.ReadyForQuery ready_for_query_idle),
       FrontendSays (FrontendMsg.Terminate terminate_new)], AssertOk)"

definition test_simple_select_query :: ProtocolTest where
  "test_simple_select_query =
     ([FrontendSays (FrontendMsg.Initial (initial_startup 11 12 [])),
       BackendSays (BackendMsg.Authentication authentication_ok),
       BackendSays (BackendMsg.BackendKeyData (backend_key_data_new 21 22)),
       BackendSays (BackendMsg.ReadyForQuery ready_for_query_idle),
       FrontendSays (FrontendMsg.Query (query_new ''select 2+3 as sum, null as nil'')),
       BackendSays (BackendMsg.NoticeResponse (notice_response_new ''first'')),
       BackendSays (BackendMsg.RowDescription (row_description_fields [''sum'', ''nil''])),
       BackendSays (BackendMsg.NoticeResponse (notice_response_new ''second'')),
       BackendSays (BackendMsg.DataRow (data_row_columns [Some ''5'', None])),
       BackendSays (BackendMsg.NoticeResponse (notice_response_new ''third'')),
       BackendSays (BackendMsg.CommandComplete (command_complete_new ''SELECT 1'')),
       BackendSays (BackendMsg.NoticeResponse (notice_response_new ''forth'')),
       BackendSays (BackendMsg.ReadyForQuery ready_for_query_idle),
       BackendSays (BackendMsg.NoticeResponse (notice_response_new ''fifth'')),
       FrontendSays (FrontendMsg.Terminate terminate_new)], AssertOk)"

definition test_simple_select_query_with_notices :: ProtocolTest where
  "test_simple_select_query_with_notices =
     ([FrontendSays (FrontendMsg.Initial (initial_startup 11 12 [])),
       BackendSays (BackendMsg.Authentication authentication_ok),
       BackendSays (BackendMsg.BackendKeyData (backend_key_data_new 21 22)),
       BackendSays (BackendMsg.ReadyForQuery ready_for_query_idle),
       FrontendSays (FrontendMsg.Query (query_new ''select 2+3 as sum, null as nil'')),
       BackendSays (BackendMsg.RowDescription (row_description_fields [''sum'', ''nil''])),
       BackendSays (BackendMsg.DataRow (data_row_columns [Some ''5'', None])),
       BackendSays (BackendMsg.CommandComplete (command_complete_new ''SELECT 1'')),
       BackendSays (BackendMsg.ReadyForQuery ready_for_query_idle),
       FrontendSays (FrontendMsg.Terminate terminate_new)], AssertOk)"

definition test_single_changing_query :: ProtocolTest where
  "test_single_changing_query =
     ([FrontendSays (FrontendMsg.Initial (initial_startup 11 12 [])),
       BackendSays (BackendMsg.Authentication authentication_ok),
       BackendSays (BackendMsg.BackendKeyData (backend_key_data_new 21 22)),
       BackendSays (BackendMsg.ReadyForQuery ready_for_query_idle),
       FrontendSays (FrontendMsg.Query (query_new (''insert values('' @ [CHR 0x27] @ ''new'' @ [CHR 0x27] @ '') into t1''))),
       BackendSays (BackendMsg.CommandComplete (command_complete_new ''INSERT 1'')),
       BackendSays (BackendMsg.ReadyForQuery ready_for_query_idle),
       FrontendSays (FrontendMsg.Terminate terminate_new)], AssertOk)"

definition test_multiple_statements_in_query :: ProtocolTest where
  "test_multiple_statements_in_query =
     ([FrontendSays (FrontendMsg.Initial (initial_startup 11 12 [])),
       BackendSays (BackendMsg.Authentication authentication_ok),
       BackendSays (BackendMsg.BackendKeyData (backend_key_data_new 21 22)),
       BackendSays (BackendMsg.ReadyForQuery ready_for_query_idle),
       FrontendSays (FrontendMsg.Query (query_new ''select 2+3 as sum; update t1 set key=0; delete from t1; select null as nil'')),
       BackendSays (BackendMsg.RowDescription (row_description_fields [''sum''])),
       BackendSays (BackendMsg.DataRow (data_row_columns [Some ''5'', None])),
       BackendSays (BackendMsg.CommandComplete (command_complete_new ''SELECT 1'')),
       BackendSays (BackendMsg.CommandComplete (command_complete_new ''UPDATE 9000'')),
       BackendSays (BackendMsg.CommandComplete (command_complete_new ''DELETE 9000'')),
       BackendSays (BackendMsg.RowDescription (row_description_fields [''nil''])),
       BackendSays (BackendMsg.DataRow (data_row_columns [Some ''null'', None])),
       BackendSays (BackendMsg.CommandComplete (command_complete_new ''SELECT 1'')),
       BackendSays (BackendMsg.ReadyForQuery ready_for_query_idle),
       FrontendSays (FrontendMsg.Terminate terminate_new)], AssertOk)"

definition test_multiple_statements_in_query_with_error_between :: ProtocolTest where
  "test_multiple_statements_in_query_with_error_between =
     ([FrontendSays (FrontendMsg.Initial (initial_startup 11 12 [])),
       BackendSays (BackendMsg.Authentication authentication_ok),
       BackendSays (BackendMsg.BackendKeyData (backend_key_data_new 21 22)),
       BackendSays (BackendMsg.ReadyForQuery ready_for_query_idle),
       FrontendSays (FrontendMsg.Query (query_new ''select 2+3 as sum; update t1 set key=0; delete from t1; select null as nil'')),
       BackendSays (BackendMsg.RowDescription (row_description_fields [''sum''])),
       BackendSays (BackendMsg.DataRow (data_row_columns [Some ''5'', None])),
       BackendSays (BackendMsg.CommandComplete (command_complete_new ''SELECT 1'')),
       BackendSays (BackendMsg.ErrorResponse (error_response_new (''relation '' @ [CHR 0x22] @ ''t1'' @ [CHR 0x22] @ '' does not exist''))),
       BackendSays (BackendMsg.ReadyForQuery ready_for_query_idle),
       FrontendSays (FrontendMsg.Terminate terminate_new)], AssertOk)"

definition test_multiple_queries_with_error_between :: ProtocolTest where
  "test_multiple_queries_with_error_between =
     ([FrontendSays (FrontendMsg.Initial (initial_startup 11 12 [])),
       BackendSays (BackendMsg.Authentication authentication_ok),
       BackendSays (BackendMsg.BackendKeyData (backend_key_data_new 21 22)),
       BackendSays (BackendMsg.ReadyForQuery ready_for_query_idle),
       FrontendSays (FrontendMsg.Query (query_new ''update t1 set key=0'')),
       BackendSays (BackendMsg.ErrorResponse (error_response_new (''relation '' @ [CHR 0x22] @ ''t1'' @ [CHR 0x22] @ '' does not exist''))),
       BackendSays (BackendMsg.ReadyForQuery ready_for_query_idle),
       FrontendSays (FrontendMsg.Query (query_new ''select 2+3 as sum'')),
       BackendSays (BackendMsg.RowDescription (row_description_fields [''sum''])),
       BackendSays (BackendMsg.DataRow (data_row_columns [Some ''5''])),
       BackendSays (BackendMsg.CommandComplete (command_complete_new ''SELECT 1'')),
       BackendSays (BackendMsg.ReadyForQuery ready_for_query_idle),
       FrontendSays (FrontendMsg.Terminate terminate_new)], AssertOk)"

definition test_ext_query_parse_error :: ProtocolTest where
  "test_ext_query_parse_error =
     ([FrontendSays (FrontendMsg.Initial (initial_startup 11 12 [])),
       BackendSays (BackendMsg.Authentication authentication_ok),
       BackendSays (BackendMsg.BackendKeyData (backend_key_data_new 21 22)),
       BackendSays (BackendMsg.ReadyForQuery ready_for_query_idle),
       FrontendSays (FrontendMsg.Parse parse_new),
       BackendSays (BackendMsg.ErrorResponse (error_response_new '''')),
       BackendSays (BackendMsg.ReadyForQuery ready_for_query_idle),
       FrontendSays (FrontendMsg.Terminate terminate_new)], AssertOk)"

definition test_ext_query_bind_error :: ProtocolTest where
  "test_ext_query_bind_error =
     ([FrontendSays (FrontendMsg.Initial (initial_startup 11 12 [])),
       BackendSays (BackendMsg.Authentication authentication_ok),
       BackendSays (BackendMsg.BackendKeyData (backend_key_data_new 21 22)),
       BackendSays (BackendMsg.ReadyForQuery ready_for_query_idle),
       FrontendSays (FrontendMsg.Parse parse_new),
       BackendSays (BackendMsg.ParseComplete parse_complete_new),
       FrontendSays (FrontendMsg.Bind bind_new),
       BackendSays (BackendMsg.ErrorResponse (error_response_new '''')),
       BackendSays (BackendMsg.ReadyForQuery ready_for_query_idle),
       FrontendSays (FrontendMsg.Terminate terminate_new)], AssertOk)"

definition test_ext_query_execute_error :: ProtocolTest where
  "test_ext_query_execute_error =
     ([FrontendSays (FrontendMsg.Initial (initial_startup 11 12 [])),
       BackendSays (BackendMsg.Authentication authentication_ok),
       BackendSays (BackendMsg.BackendKeyData (backend_key_data_new 21 22)),
       BackendSays (BackendMsg.ReadyForQuery ready_for_query_idle),
       FrontendSays (FrontendMsg.Parse parse_new),
       BackendSays (BackendMsg.ParseComplete parse_complete_new),
       FrontendSays (FrontendMsg.Bind bind_new),
       BackendSays (BackendMsg.BindComplete bind_complete_new),
       FrontendSays (FrontendMsg.Execute execute_new),
       BackendSays (BackendMsg.ErrorResponse (error_response_new '''')),
       FrontendSays (FrontendMsg.Sync sync_new),
       BackendSays (BackendMsg.ReadyForQuery ready_for_query_idle),
       FrontendSays (FrontendMsg.Terminate terminate_new)], AssertOk)"

definition test_ext_query_execute_empty :: ProtocolTest where
  "test_ext_query_execute_empty =
     ([FrontendSays (FrontendMsg.Initial (initial_startup 11 12 [])),
       BackendSays (BackendMsg.Authentication authentication_ok),
       BackendSays (BackendMsg.BackendKeyData (backend_key_data_new 21 22)),
       BackendSays (BackendMsg.ReadyForQuery ready_for_query_idle),
       FrontendSays (FrontendMsg.Parse parse_new),
       BackendSays (BackendMsg.ParseComplete parse_complete_new),
       FrontendSays (FrontendMsg.Bind bind_new),
       BackendSays (BackendMsg.BindComplete bind_complete_new),
       FrontendSays (FrontendMsg.Execute execute_new),
       BackendSays (BackendMsg.EmptyQueryResponse empty_query_response_new),
       FrontendSays (FrontendMsg.Sync sync_new),
       BackendSays (BackendMsg.ReadyForQuery ready_for_query_idle),
       FrontendSays (FrontendMsg.Terminate terminate_new)], AssertOk)"

definition test_ext_query_execute_no_rows :: ProtocolTest where
  "test_ext_query_execute_no_rows =
     ([FrontendSays (FrontendMsg.Initial (initial_startup 11 12 [])),
       BackendSays (BackendMsg.Authentication authentication_ok),
       BackendSays (BackendMsg.BackendKeyData (backend_key_data_new 21 22)),
       BackendSays (BackendMsg.ReadyForQuery ready_for_query_idle),
       FrontendSays (FrontendMsg.Parse parse_new),
       BackendSays (BackendMsg.ParseComplete parse_complete_new),
       FrontendSays (FrontendMsg.Bind bind_new),
       BackendSays (BackendMsg.BindComplete bind_complete_new),
       FrontendSays (FrontendMsg.Execute execute_new),
       BackendSays (BackendMsg.CommandComplete (command_complete_new '''')),
       FrontendSays (FrontendMsg.Sync sync_new),
       BackendSays (BackendMsg.ReadyForQuery ready_for_query_idle),
       FrontendSays (FrontendMsg.Terminate terminate_new)], AssertOk)"

definition test_ext_query_execute_few_rows :: ProtocolTest where
  "test_ext_query_execute_few_rows =
     ([FrontendSays (FrontendMsg.Initial (initial_startup 11 12 [])),
       BackendSays (BackendMsg.Authentication authentication_ok),
       BackendSays (BackendMsg.BackendKeyData (backend_key_data_new 21 22)),
       BackendSays (BackendMsg.ReadyForQuery ready_for_query_idle),
       FrontendSays (FrontendMsg.Parse parse_new),
       BackendSays (BackendMsg.ParseComplete parse_complete_new),
       FrontendSays (FrontendMsg.Bind bind_new),
       BackendSays (BackendMsg.BindComplete bind_complete_new),
       FrontendSays (FrontendMsg.Execute execute_new),
       BackendSays (BackendMsg.DataRow (data_row_columns [])),
       BackendSays (BackendMsg.DataRow (data_row_columns [])),
       BackendSays (BackendMsg.DataRow (data_row_columns [])),
       BackendSays (BackendMsg.CommandComplete (command_complete_new '''')),
       FrontendSays (FrontendMsg.Sync sync_new),
       BackendSays (BackendMsg.ReadyForQuery ready_for_query_idle),
       FrontendSays (FrontendMsg.Terminate terminate_new)], AssertOk)"

definition test_ext_query_execute_many_rows :: ProtocolTest where
  "test_ext_query_execute_many_rows =
     ([FrontendSays (FrontendMsg.Initial (initial_startup 11 12 [])),
       BackendSays (BackendMsg.Authentication authentication_ok),
       BackendSays (BackendMsg.BackendKeyData (backend_key_data_new 21 22)),
       BackendSays (BackendMsg.ReadyForQuery ready_for_query_idle),
       FrontendSays (FrontendMsg.Parse parse_new),
       BackendSays (BackendMsg.ParseComplete parse_complete_new),
       FrontendSays (FrontendMsg.Bind bind_new),
       BackendSays (BackendMsg.BindComplete bind_complete_new),
       FrontendSays (FrontendMsg.Execute execute_new),
       BackendSays (BackendMsg.DataRow (data_row_columns [])),
       BackendSays (BackendMsg.DataRow (data_row_columns [])),
       BackendSays (BackendMsg.DataRow (data_row_columns [])),
       BackendSays (BackendMsg.PortalSuspended portal_suspended_new),
       FrontendSays (FrontendMsg.Execute execute_new),
       BackendSays (BackendMsg.DataRow (data_row_columns [])),
       BackendSays (BackendMsg.DataRow (data_row_columns [])),
       BackendSays (BackendMsg.CommandComplete (command_complete_new '''')),
       FrontendSays (FrontendMsg.Sync sync_new),
       BackendSays (BackendMsg.ReadyForQuery ready_for_query_idle),
       FrontendSays (FrontendMsg.Terminate terminate_new)], AssertOk)"

text \<open>All tests, in the order of the file.\<close>

definition protocol_tests :: "ProtocolTest list" where
  "protocol_tests =
     [test_cancel,
      test_cancel_when_backend_accepts_tls,
      test_cancel_when_backend_rejects_tls,
      test_backend_does_not_know_tls,
      test_error_after_startup,
      test_negotiate_and_error_after_startup,
      test_error_after_startup_when_backend_accepts_tls,
      test_error_after_startup_when_backend_rejects_tls,
      test_auth_ok_and_error,
      test_auth_cleartext_with_correct_password,
      test_auth_cleartext_with_wrong_password,
      test_auth_md5_with_correct_password,
      test_auth_md5_with_wrong_password,
      test_auth_gss_single_ok,
      test_auth_gss_single_error,
      test_auth_gss_double_ok,
      test_auth_gss_double_error,
      test_auth_gss_quadruple_ok,
      test_auth_gss_quadruple_error,
      test_auth_sspi_single_ok,
      test_auth_sspi_single_error,
      test_auth_sspi_double_ok,
      test_auth_sspi_double_error,
      test_auth_sspi_quadruple_ok,
      test_auth_sspi_quadruple_error,
      test_auth_sasl_single_ok,
      test_auth_sasl_single_error_after_final,
      test_auth_sasl_single_error,
      test_auth_sasl_double_ok,
      test_auth_sasl_double_error_after_final,
      test_auth_sasl_double_error,
      test_auth_sasl_quadriple_ok,
      test_auth_sasl_quadriple_error_after_final,
      test_auth_sasl_quadriple_error,
      test_auth_kerberos_unsupported,
      test_auth_scm_credential_unsupported,
      test_negotiate_and_error_after_auth_ok,
      test_negotiate_before_and_after_auth_ok,
      test_error_after_param_status,
      test_error_after_backend_key,
      test_error_after_ready,
      test_ready_and_terminate,
      test_ready_and_terminate_with_notices,
      test_empty_query,
      test_simple_select_query,
      test_simple_select_query_with_notices,
      test_single_changing_query,
      test_multiple_statements_in_query,
      test_multiple_statements_in_query_with_error_between,
      test_multiple_queries_with_error_between,
      test_ext_query_parse_error,
      test_ext_query_bind_error,
      test_ext_query_execute_error,
      test_ext_query_execute_empty,
      test_ext_query_execute_no_rows,
      test_ext_query_execute_few_rows,
      test_ext_query_execute_many_rows]"

section \<open>What the items are on byte streams\<close>

text \<open>\<open>W\<close> gives each message its wire form. The bytes that a side sends before TLS (\<open>e = False\<close>)
  and inside TLS (\<open>e = True\<close>).\<close>

definition data_bytes :: "(Message \<Rightarrow> u8 list) \<Rightarrow> FakeData \<Rightarrow> u8 list" where
  "data_bytes W dat =
     (case dat of
        FakeData.TypeByte b \<Rightarrow> [b]
      | FakeData.Body m \<Rightarrow> (case message_type m of None \<Rightarrow> W m | Some _ \<Rightarrow> tl (W m)))"

definition sent_data :: "FakeStreamSide \<Rightarrow> bool \<Rightarrow> TwoFakeStreamsItem \<Rightarrow> FakeData list" where
  "sent_data side e item =
     (if item_side item = side
      then (case data_form item of
              Encrypted dat \<Rightarrow> if e then [dat] else []
            | NotEncrypted dat \<Rightarrow> if e then [] else [dat])
      else [])"

definition sent_bytes :: "(Message \<Rightarrow> u8 list) \<Rightarrow> FakeStreamSide \<Rightarrow> bool \<Rightarrow> TwoFakeStreams \<Rightarrow> u8 list" where
  "sent_bytes W side e s = concat (map (data_bytes W) (concat (map (sent_data side e) (items s))))"

text \<open>The bytes that arrive from a side are what the script queues for it: plain bytes and, if the
  side starts TLS, a handshake that leads to the bytes inside; and nothing else.\<close>

definition side_arrives ::
  "('p \<Rightarrow> (string, 't) outcome) \<Rightarrow> (('p, 't) StreamWrap \<Rightarrow> u8 list) \<Rightarrow> bool \<Rightarrow> u8 list \<Rightarrow> u8 list \<Rightarrow> u8 list \<Rightarrow> bool" where
  "side_arrives handshake incoming tls plain inside bytes \<longleftrightarrow>
     (\<exists>x. bytes = plain @ x \<and> (if tls then handshakes handshake incoming x inside else x = []))"

definition script_arrives where
  "script_arrives env fi bi W s fbytes bbytes \<longleftrightarrow>
     side_arrives (frontend_tls_server env) fi (frontend_tls_started s)
       (sent_bytes W Side.Frontend False s) (sent_bytes W Side.Frontend True s) fbytes
     \<and> side_arrives (backend_tls_client env) bi (backend_tls_started s)
       (sent_bytes W Side.Backend False s) (sent_bytes W Side.Backend True s) bbytes"

section \<open>Scripts of complete connections\<close>

primrec says :: "Message \<Rightarrow> Step" where
  "says (Message.Backend m) = BackendSays m"
| "says (Message.Frontend m) = FrontendSays m"

abbreviation tls_request :: Message where
  "tls_request \<equiv> Message.Frontend (FrontendMsg.Initial Initial.TLS)"

inductive complete_script :: "Step list \<Rightarrow> bool" where
  script_plain: "plain_connection ms \<Longrightarrow> complete_script (map says ms)"
| script_refused: "complete_script (map says [tls_request, Message.Backend (BackendMsg.ErrorResponse e)])"
| script_accepted:
    "plain_connection ms \<Longrightarrow>
     complete_script (says tls_request # BackendAcceptsTls # FrontendStartsTls # map says ms)"
| script_rejected:
    "plain_connection ms \<Longrightarrow>
     complete_script (says tls_request # BackendRejectsTls # FrontendStartsTls # map says ms)"

text \<open>What a sequence of messages does to the queue.\<close>

definition queued :: "TwoFakeStreams \<Rightarrow> Message \<Rightarrow> TwoFakeStreamsItem list" where
  "queued s m = map (item_of (message_side m) (encrypting (message_side m) s)) (data_of m)"

lemma perform_says:
  "perform (says m) st =
     st\<lparr>streams := (streams st)\<lparr>items := items (streams st) @ queued (streams st) m\<rparr>,
        expected_conveyed := expected_conveyed st @ [m]\<rparr>"
  by (cases m) (simp_all add: backend_macro_def frontend_macro_def push_backend_def push_frontend_def
      push_items queued_def)

lemma queued_items [simp]: "queued (s\<lparr>items := q\<rparr>) = queued s"
  by (simp add: queued_def fun_eq_iff)

lemma fold_says:
  "fold perform (map says ms) st =
     st\<lparr>streams := (streams st)\<lparr>items := items (streams st) @ concat (map (queued (streams st)) ms)\<rparr>,
        expected_conveyed := expected_conveyed st @ ms\<rparr>"
  by (induction ms arbitrary: st) (simp_all add: perform_says)

lemma sent_queued:
  "concat (map (sent_data side e) (queued s m)) =
     (if message_side m = side \<and> encrypting side s = e then data_of m else [])"
  by (auto simp: queued_def data_of_def sent_data_def item_of_def split: option.splits)

lemma data_of_bytes: "message_wire m (W m) \<Longrightarrow> concat (map (data_bytes W) (data_of m)) = W m"
  by (auto simp: data_of_def data_bytes_def message_wire_def split: option.splits)

text \<open>So they are the wire forms of the messages of the side.\<close>

lemma sent_messages:
  assumes "list_all (\<lambda>m. message_wire m (W m)) ms"
  shows "concat (map (data_bytes W) (concat (map (sent_data side e) (concat (map (queued s) ms))))) =
     (if encrypting side s = e then wires side (map (\<lambda>m. (m, W m)) ms) else [])"
  using assms by (induction ms) (auto simp: sent_queued data_of_bytes)

lemma sent_bytes_queued:
  assumes "list_all (\<lambda>m. message_wire m (W m)) ms"
  shows "sent_bytes W side e (s\<lparr>items := q @ concat (map (queued s) ms)\<rparr>) =
     concat (map (data_bytes W) (concat (map (sent_data side e) q)))
     @ (if encrypting side s = e then wires side (map (\<lambda>m. (m, W m)) ms) else [])"
proof -
  have "items (s\<lparr>items := q @ concat (map (queued s) ms)\<rparr>) = q @ concat (map (queued s) ms)" by simp
  then show ?thesis
    by (simp only: sent_bytes_def map_append concat_append sent_messages [OF assms])
qed

text \<open>Without a step of TLS everything is sent in plain.\<close>

lemma run_says:
  "run_script (map says ms) =
     \<lparr>streams = TwoFakeStreams_new\<lparr>items := concat (map (queued TwoFakeStreams_new) ms)\<rparr>, expected_conveyed = ms\<rparr>"
  by (simp add: run_script_def fold_says TwoFakeStreams_new_def)

lemma says_arrives:
  assumes "script_arrives env fi bi W (streams (run_script (map says ms))) fbytes bbytes"
    and "list_all (\<lambda>m. message_wire m (W m)) ms"
  shows "fbytes = wires Side.Frontend (map (\<lambda>m. (m, W m)) ms)"
    and "bbytes = wires Side.Backend (map (\<lambda>m. (m, W m)) ms)"
proof -
  have "sent_bytes W side False (streams (run_script (map says ms))) = wires side (map (\<lambda>m. (m, W m)) ms)" for side
    using sent_messages [OF assms(2), of side False TwoFakeStreams_new]
    by (cases side) (simp_all add: sent_bytes_def run_says encrypting_def TwoFakeStreams_new_def)
  moreover have "\<not> frontend_tls_started (streams (run_script (map says ms)))"
    "\<not> backend_tls_started (streams (run_script (map says ms)))"
    by (simp_all add: run_says TwoFakeStreams_new_def)
  ultimately show "fbytes = wires Side.Frontend (map (\<lambda>m. (m, W m)) ms)"
    "bbytes = wires Side.Backend (map (\<lambda>m. (m, W m)) ms)"
    using assms(1) unfolding script_arrives_def side_arrives_def by auto
qed

text \<open>A script of a complete connection brings its messages to the conveyor, and nothing else.\<close>

lemma complete_script_brings:
  assumes "complete_script steps"
    and "script_arrives env fi bi W (streams (run_script steps)) fbytes bbytes"
    and "list_all (\<lambda>m. message_wire m (W m)) (expected_conveyed (run_script steps))"
  shows "brings env fi bi (\<lambda>_. []) fbytes bbytes (map (\<lambda>m. (m, W m)) (expected_conveyed (run_script steps)))"
  using assms
proof cases
  case (script_plain ms)
  with assms(3) have "list_all (\<lambda>m. message_wire m (W m)) ms" by (simp add: run_says)
  from says_arrives [OF assms(2) [unfolded script_plain(1)] this] show ?thesis
    using brings_plain [of "map (\<lambda>m. (m, W m)) ms" env fi bi "\<lambda>_. []"] script_plain
    by (simp add: run_says comp_def)
next
  case (script_refused e)
  let ?ms = "[tls_request, Message.Backend (BackendMsg.ErrorResponse e)]"
  have "list_all (\<lambda>m. message_wire m (W m)) ?ms"
    using assms(3) unfolding script_refused run_says by simp
  from says_arrives [OF assms(2) [unfolded script_refused] this] show ?thesis
    using brings_refused [of env fi bi "\<lambda>_. []" "W tls_request" _ e] unfolding script_refused run_says by simp
next
  case (script_accepted ms)
  let ?opened = "\<lparr>items = [item_of Side.Frontend False (FakeData.Body tls_request),
      item_of Side.Backend False (FakeData.TypeByte TLS_SUPPORTED)], backend_tls_started = True, frontend_tls_started = True\<rparr>"
  define s where "s = ?opened\<lparr>items := items ?opened @ concat (map (queued ?opened) ms)\<rparr>"
  have steps: "steps = [says tls_request, BackendAcceptsTls, FrontendStartsTls] @ map says ms"
    using script_accepted(1) by simp
  have start: "fold perform [says tls_request, BackendAcceptsTls, FrontendStartsTls]
      \<lparr>streams = TwoFakeStreams_new, expected_conveyed = []\<rparr> = \<lparr>streams = ?opened, expected_conveyed = [tls_request]\<rparr>"
    by (simp add: frontend_macro_def push_frontend_def push_items data_of_def TwoFakeStreams_new_def
          encrypting_def item_of_def backend_accepts_tls_def frontend_starts_tls_def push_type_byte_def push_data_def)
  have run: "run_script steps = \<lparr>streams = s, expected_conveyed = tls_request # ms\<rparr>"
    unfolding run_script_def steps fold_append comp_apply start fold_says by (simp add: s_def)
  have tls: "frontend_tls_started s" "backend_tls_started s" by (simp_all add: s_def)
  have wire: "list_all (\<lambda>m. message_wire m (W m)) ms" using assms(3) by (simp add: run)
  have sent: "sent_bytes W Side.Frontend False s = W tls_request" "sent_bytes W Side.Backend False s = [TLS_SUPPORTED]"
    "sent_bytes W side True s = wires side (map (\<lambda>m. (m, W m)) ms)" for side
    unfolding s_def sent_bytes_queued [OF wire]
    by (simp_all add: encrypting_def sent_data_def item_of_def data_bytes_def split: Side.split)
  from assms(2) obtain x y where "fbytes = W tls_request @ x" "bbytes = TLS_SUPPORTED # y"
    "handshakes (frontend_tls_server env) fi x (wires Side.Frontend (map (\<lambda>m. (m, W m)) ms))"
    "handshakes (backend_tls_client env) bi y (wires Side.Backend (map (\<lambda>m. (m, W m)) ms))"
    unfolding script_arrives_def side_arrives_def run by (auto simp: sent tls)
  then show ?thesis
    using brings_tls [of "map (\<lambda>m. (m, W m)) ms" env fi x "\<lambda>_. []" bi bbytes "W tls_request"] script_accepted(2)
    by (simp add: run comp_def answers_def)
next
  case (script_rejected ms)
  let ?opened = "\<lparr>items = [item_of Side.Frontend False (FakeData.Body tls_request),
      item_of Side.Backend False (FakeData.TypeByte TLS_NOT_SUPPORTED)], backend_tls_started = False, frontend_tls_started = True\<rparr>"
  define s where "s = ?opened\<lparr>items := items ?opened @ concat (map (queued ?opened) ms)\<rparr>"
  have steps: "steps = [says tls_request, BackendRejectsTls, FrontendStartsTls] @ map says ms"
    using script_rejected(1) by simp
  have start: "fold perform [says tls_request, BackendRejectsTls, FrontendStartsTls]
      \<lparr>streams = TwoFakeStreams_new, expected_conveyed = []\<rparr> = \<lparr>streams = ?opened, expected_conveyed = [tls_request]\<rparr>"
    by (simp add: frontend_macro_def push_frontend_def push_items data_of_def TwoFakeStreams_new_def
          encrypting_def item_of_def backend_rejects_tls_def frontend_starts_tls_def push_type_byte_def push_data_def)
  have run: "run_script steps = \<lparr>streams = s, expected_conveyed = tls_request # ms\<rparr>"
    unfolding run_script_def steps fold_append comp_apply start fold_says by (simp add: s_def)
  have tls: "frontend_tls_started s" "\<not> backend_tls_started s" by (simp_all add: s_def)
  have wire: "list_all (\<lambda>m. message_wire m (W m)) ms" using assms(3) by (simp add: run)
  have sent: "sent_bytes W Side.Frontend False s = W tls_request"
    "sent_bytes W Side.Backend False s = TLS_NOT_SUPPORTED # wires Side.Backend (map (\<lambda>m. (m, W m)) ms)"
    "sent_bytes W Side.Frontend True s = wires Side.Frontend (map (\<lambda>m. (m, W m)) ms)"
    unfolding s_def sent_bytes_queued [OF wire]
    by (simp_all add: encrypting_def sent_data_def item_of_def data_bytes_def)
  from assms(2) obtain x where "fbytes = W tls_request @ x"
    "bbytes = TLS_NOT_SUPPORTED # wires Side.Backend (map (\<lambda>m. (m, W m)) ms)"
    "handshakes (frontend_tls_server env) fi x (wires Side.Frontend (map (\<lambda>m. (m, W m)) ms))"
    unfolding script_arrives_def side_arrives_def run by (auto simp: sent tls)
  then show ?thesis
    using brings_tls [of "map (\<lambda>m. (m, W m)) ms" env fi x "\<lambda>_. []" bi bbytes "W tls_request"] script_rejected(2)
    by (simp add: run comp_def answers_def)
qed

section \<open>The tests pass\<close>

text \<open>The checks are evaluated: a session of the protocol, a connection without TLS, and the form
  of a script.\<close>

fun session_ends :: "Message list \<Rightarrow> State \<Rightarrow> bool" where
  "session_ends [] st = False"
| "session_ends (m # ms) st =
     (case next_state st m of
        None \<Rightarrow> False
      | Some Stop \<Rightarrow> ms = []
      | Some (Next st') \<Rightarrow> session_ends ms st')"

lemma session_ends_session: "session_ends ms st \<Longrightarrow> session st ms Stop"
  by (induction ms arbitrary: st) (auto simp: session_Cons split: option.splits flow.splits)

definition opening_checks :: "Message list \<Rightarrow> bool" where
  "opening_checks ms =
     (case ms of
        Message.Frontend (FrontendMsg.Initial i) # ms' \<Rightarrow>
          (case initial_flow i of
             None \<Rightarrow> False
           | Some Stop \<Rightarrow> ms' = []
           | Some (Next st) \<Rightarrow> session_ends ms' st)
      | _ \<Rightarrow> False)"

lemma opening_checks_plain: "opening_checks ms \<Longrightarrow> plain_connection ms"
  by (auto simp: opening_checks_def plain_connection_def continues_def session_ends_session
        split: list.splits Message.splits FrontendMsg.splits option.splits flow.splits)

primrec said :: "Step list \<Rightarrow> Message list option" where
  "said [] = Some []"
| "said (s # ss) =
     (case s of
        BackendSays m \<Rightarrow> map_option (Cons (Message.Backend m)) (said ss)
      | FrontendSays m \<Rightarrow> map_option (Cons (Message.Frontend m)) (said ss)
      | _ \<Rightarrow> None)"

lemma said_says: "said ss = Some ms \<Longrightarrow> ss = map says ms"
  by (induction ss arbitrary: ms) (auto split: Step.splits)

definition says_plain :: "Step list \<Rightarrow> bool" where
  "says_plain ss = (case said ss of None \<Rightarrow> False | Some ms \<Rightarrow> opening_checks ms)"

lemma says_plain_connection:
  assumes "says_plain ss"
  obtains ms where "ss = map says ms" "plain_connection ms"
  using assms by (auto simp: says_plain_def dest!: said_says opening_checks_plain split: option.splits)

definition script_checks :: "Step list \<Rightarrow> bool" where
  "script_checks steps =
     (case steps of
        s1 # s2 # s3 # ss \<Rightarrow>
          (if s1 = FrontendSays (FrontendMsg.Initial Initial.TLS) \<and> s2 \<in> {BackendAcceptsTls, BackendRejectsTls}
              \<and> s3 = FrontendStartsTls
           then says_plain ss else says_plain steps)
      | [s1, BackendSays (BackendMsg.ErrorResponse e)] \<Rightarrow>
          s1 = FrontendSays (FrontendMsg.Initial Initial.TLS) \<or> says_plain steps
      | _ \<Rightarrow> says_plain steps)"

lemma script_checks_complete:
  assumes "script_checks steps"
  shows "complete_script steps"
proof -
  have plain: "complete_script ss" if "says_plain ss" for ss
    using that by (auto elim!: says_plain_connection intro: script_plain)
  have tls: "complete_script (FrontendSays (FrontendMsg.Initial Initial.TLS) # s # FrontendStartsTls # ss)"
    if "s \<in> {BackendAcceptsTls, BackendRejectsTls}" "says_plain ss" for s ss
    using that script_accepted script_rejected by (auto elim!: says_plain_connection)
  have refused: "complete_script [FrontendSays (FrontendMsg.Initial Initial.TLS), BackendSays (BackendMsg.ErrorResponse e)]" for e
    using script_refused [of e] by simp
  from assms show ?thesis
    unfolding script_checks_def
    by (auto intro: plain tls refused split: list.splits Step.splits BackendMsg.splits if_splits)
qed

text \<open>The scripts with an unsupported kind of authentication.\<close>

definition unsupported_checks :: "Step list \<Rightarrow> bool" where
  "unsupported_checks steps =
     (case steps of
        [FrontendSays (FrontendMsg.Initial (Initial.Startup s)), BackendSays (BackendMsg.Authentication a)] \<Rightarrow>
          a = KerberosV5 \<or> a = ScmCredential
      | _ \<Rightarrow> False)"

lemma unsupported_checks_cases:
  assumes "unsupported_checks steps"
  obtains s a where "steps = map says [Message.Frontend (FrontendMsg.Initial (Initial.Startup s)),
      Message.Backend (BackendMsg.Authentication a)]" "a = KerberosV5 \<or> a = ScmCredential"
  using assms
  by (auto simp: unsupported_checks_def
        split: list.split_asm Step.split_asm FrontendMsg.split_asm Initial.split_asm BackendMsg.split_asm)
    (meson list.exhaust)+

definition test_checks :: "ProtocolTest \<Rightarrow> bool" where
  "test_checks t =
     (case t of (steps, assertion) \<Rightarrow>
        (case assertion of AssertOk \<Rightarrow> script_checks steps | AssertUnsupported \<Rightarrow> unsupported_checks steps))"

lemma protocol_tests_check: "list_all test_checks protocol_tests"
  by code_simp

text \<open>\<open>assert_ok!\<close> and \<open>assert_matches!\<close> on the result of a script.\<close>

definition assertion_holds :: "Assertion \<Rightarrow> (ConveyError, unit) outcome \<Rightarrow> bool" where
  "assertion_holds assertion result =
     (case assertion of
        AssertOk \<Rightarrow> (case result of Return _ \<Rightarrow> True | _ \<Rightarrow> False)
      | AssertUnsupported \<Rightarrow> (case result of Throw (ConveyError.Unsupported _) \<Rightarrow> True | _ \<Rightarrow> False))"

text \<open>The conveyor over byte streams, with the sides served in the order in which the script queues
  their messages. As in \<open>test_convey\<close>, it is asserted that the callback is given the expected
  messages and no others and that both streams have been taken to their ends.\<close>

definition script_result ::
  "('fp, 'ft, 'bp, 'bt) ConveyEnv \<Rightarrow> (('fp, 'ft) StreamWrap \<Rightarrow> u8 list) \<Rightarrow> (('bp, 'bt) StreamWrap \<Rightarrow> u8 list)
    \<Rightarrow> Step list \<Rightarrow> 'fp \<Rightarrow> 'bp \<Rightarrow> (ConveyError, unit) outcome option" where
  "script_result env fi bi steps front back =
     (let expect = expected_conveyed (run_script steps)
      in case convey env (loop_sides expect) front back of
        (result, conveyor) \<Rightarrow>
          if conveyed conveyor \<noteq> expect then None
          else if observe fi bi Side.Frontend conveyor @ observe fi bi Side.Backend conveyor \<noteq> [] then None
          else Some result)"

context conveyor_reliable
begin

lemma unsupported_authentication:
  fixes s :: Startup and a :: Authentication and w w' :: "u8 list"
  defines "tr \<equiv> [(Message.Frontend (FrontendMsg.Initial (Initial.Startup s)), w),
      (Message.Backend (BackendMsg.Authentication a), w')]"
  assumes "a = KerberosV5 \<or> a = ScmCredential" and "fitting tr" and "kinds c = (0, 0)"
    and "arriving Side.Frontend c = wires Side.Frontend tr @ r" and "arriving Side.Backend c = wires Side.Backend tr @ r'"
  shows "\<exists>t c'. go env [Side.Backend] c = (Throw (ConveyError.Unsupported t), c') \<and> conveys fi fo bi bo tr c c'"
proof -
  have w: "message_wire (Initial_message (Initial.Startup s)) w" "length w < 2 ^ 32 - 1"
    and w': "message_wire (Message.Backend (BackendMsg.Authentication a)) w'" "length w' < 2 ^ 32"
    using assms(3) by (simp_all add: tr_def)
  have c: "live c" "arriving Side.Frontend c = w @ r" "arriving Side.Backend c = w' @ r'"
    using assms(4-6) by (simp_all add: live_kinds tr_def)
  from initial_relayed [OF c(1) w c(2)] obtain c1 where
    c1: "read_frontend_through env Initial_msg FrontendMsg.Initial c = (Return (Initial.Startup s), c1)"
    "conveys fi fo bi bo [(Initial_message (Initial.Startup s), w)] c c1" "kinds c1 = kinds c"
    "arriving Side.Backend c1 = arriving Side.Backend c" by blast
  then have "live c1" "arriving Side.Backend c1 = w' @ r'" using assms(4) c(3) by (simp_all add: live_kinds)
  moreover have "auth_next State.GotStartup a = None" using assms(2) by (auto simp: auth_next_def)
  ultimately obtain c2 where
    c2: "go_loop env [Side.Backend] State.GotStartup c1 =
      (Throw (auth_rejection State.GotStartup (Message.Backend (BackendMsg.Authentication a))), c2)"
    "conveys fi fo bi bo [(Message.Backend (BackendMsg.Authentication a), w')] c1 c2"
    using go_loop_authentication_refused [OF _ _ w', of c1 State.GotStartup r' "[]"] by blast
  obtain t where "auth_rejection State.GotStartup (Message.Backend (BackendMsg.Authentication a)) = ConveyError.Unsupported t"
    using assms(2) by (auto simp: auth_rejection_def)
  then have "go env [Side.Backend] c = (Throw (ConveyError.Unsupported t), c2)"
    using c1(1) c2(1) by (simp add: go_split bind_prog_def proceed_def del: go_loop.simps)
  with conveys_append [OF c1(2) c2(2)] show ?thesis by (auto simp: tr_def)
qed

text \<open>Every script is carried out over every pair of reliable streams that deliver what it queues.\<close>

lemma script_carried_out:
  assumes "(steps, assertion) \<in> set protocol_tests"
    and "script_arrives env fi bi W (streams (run_script steps))
      (fi (StreamWrap.Plain front)) (bi (StreamWrap.Plain back))"
    and "list_all (\<lambda>m. message_wire m (W m) \<and> length (W m) < 2 ^ 32 - 1) (expected_conveyed (run_script steps))"
  shows "\<exists>result. script_result env fi bi steps front back = Some result
    \<and> assertion_holds assertion result"
proof -
  let ?c = "Conveyor_new front back :: ('a, 'b, 'c, 'd) Conveyor"
  let ?ms = "expected_conveyed (run_script steps)"
  have c: "kinds ?c = (0, 0)" "arriving Side.Frontend ?c = fi (StreamWrap.Plain front)"
    "arriving Side.Backend ?c = bi (StreamWrap.Plain back)" "conveyed ?c = []"
    by (simp_all add: kinds_def Conveyor_new_def observe_def)
  have fits: "fitting (map (\<lambda>m. (m, W m)) ?ms)" and wire: "list_all (\<lambda>m. message_wire m (W m)) ?ms"
    using assms(3) by (simp_all add: list_all_iff)
  from assms(1) protocol_tests_check have checks: "test_checks (steps, assertion)"
    by (auto simp: list_all_iff)
  have passes: ?thesis if "go env (loop_sides ?ms) ?c = (r, c')" "conveyed c' = ?ms" "\<And>side. arriving side c' = []"
    "assertion_holds assertion r" for r c'
    using that by (intro exI [of _ r]) (simp add: script_result_def convey_def)
  show ?thesis
  proof (cases assertion)
    case AssertOk
    with checks have "complete_script steps" by (simp add: test_checks_def script_checks_complete)
    from complete_script_brings [OF this assms(2) wire] obtain c' where
      "go env (loop_sides ?ms) ?c = (Return (), c')" "carries env fi fo bi bo (map (\<lambda>m. (m, W m)) ?ms) ?c c'"
      "\<forall>side. arriving side c' = []"
      using go_brought [where unread = "\<lambda>_. []", OF _ c(1) fits] unfolding c(2,3) by (auto simp: comp_def)
    with carries_conveyed [OF this(2)] AssertOk c(4) show ?thesis
      by (intro passes [of _ c']) (auto simp: assertion_holds_def comp_def)
  next
    case AssertUnsupported
    with checks obtain s a where sa: "steps = map says [Initial_message (Initial.Startup s),
        Message.Backend (BackendMsg.Authentication a)]" "a = KerberosV5 \<or> a = ScmCredential"
      by (auto simp: test_checks_def elim!: unsupported_checks_cases)
    have ms: "?ms = [Initial_message (Initial.Startup s), Message.Backend (BackendMsg.Authentication a)]"
      unfolding sa(1) run_says by simp
    have arr: "arriving Side.Frontend ?c = wires Side.Frontend (map (\<lambda>m. (m, W m)) ?ms)"
      "arriving Side.Backend ?c = wires Side.Backend (map (\<lambda>m. (m, W m)) ?ms)"
      unfolding c(2,3) ms by (rule says_arrives [OF assms(2) [unfolded sa(1)] wire [unfolded ms]])+
    with unsupported_authentication [OF sa(2) _ c(1), of s "W (Initial_message (Initial.Startup s))"
        "W (Message.Backend (BackendMsg.Authentication a))" "[]" "[]"] fits obtain t c' where
      "go env [Side.Backend] ?c = (Throw (ConveyError.Unsupported t), c')"
      "conveys fi fo bi bo (map (\<lambda>m. (m, W m)) ?ms) ?c c'" unfolding ms by auto
    moreover have "arriving side ?c = wires side (map (\<lambda>m. (m, W m)) ?ms) @ []" for side
      using arr by (cases side) simp_all
    from conveys_unread [OF calculation(2) this] have "\<forall>side. arriving side c' = []" .
    ultimately show ?thesis using AssertUnsupported c(4)
      by (intro passes [of _ c']) (auto simp: ms loop_sides_def assertion_holds_def conveys_def comp_def)
  qed
qed

end

end
