(* ===== verification/Util_Tests.thy ===== *)
theory Util_Tests
  imports Decode Encode
begin

text \<open>
  The tests of \<open>src/src/msg/util/decode.rs\<close> and \<open>encode.rs\<close>: sequences of calls on one source or
  target, each followed by assertions, on sources that run short and targets that fill up. A test
  is the conjunction of its assertions.
\<close>

text \<open>\<open>assert_eq!\<close> on the result of a call, and what follows with the cursor it leaves.\<close>

definition expecting :: "('s \<Rightarrow> 'r \<times> 's) \<Rightarrow> 'r \<Rightarrow> ('s \<Rightarrow> bool) \<Rightarrow> 's \<Rightarrow> bool" where
  "expecting call r k s = (case call s of (r', s') \<Rightarrow> r = r' \<and> k s')"

definition finished :: "'s \<Rightarrow> bool" where
  "finished s \<longleftrightarrow> True"

section \<open>Tests of BytesSource\<close>

definition decode_tests_left :: bool where
  "decode_tests_left \<longleftrightarrow>
     0 = left (BytesSource_new [])
     \<and> (let bs = BytesSource_new [10, 11] in 2 = left bs \<and> 2 = left bs
       \<and> (let bs = bs\<lparr>bs_pos := bs_pos bs + 1\<rparr> in 1 = left bs \<and> 1 = left bs
         \<and> (let bs = bs\<lparr>bs_pos := bs_pos bs + 1\<rparr> in 0 = left bs)))"

definition decode_tests_take_u8 :: bool where
  "decode_tests_take_u8 \<longleftrightarrow>
     expecting take_u8 (Inl (NeedMoreBytes 1)) finished (BytesSource_new [])
     \<and> expecting take_u8 (Inr 10)
        (expecting take_u8 (Inr 11)
        (expecting take_u8 (Inl (NeedMoreBytes 1))
        (expecting take_u8 (Inl (NeedMoreBytes 1)) finished))) (BytesSource_new [10, 11])"

definition decode_tests_take_u16 :: bool where
  "decode_tests_take_u16 \<longleftrightarrow>
     expecting take_u16 (Inl (NeedMoreBytes 2)) finished (BytesSource_new [])
     \<and> expecting take_u16 (Inr 0xa1b2)
        (expecting take_u16 (Inr 0xc3d4)
        (expecting take_u16 (Inl (NeedMoreBytes 1))
        (expecting take_u16 (Inl (NeedMoreBytes 2)) finished)))
        (BytesSource_new [0xa1, 0xb2, 0xc3, 0xd4, 0xe5])"

definition decode_tests_take_u32 :: bool where
  "decode_tests_take_u32 \<longleftrightarrow>
     expecting take_u32 (Inl (NeedMoreBytes 4)) finished (BytesSource_new [])
     \<and> expecting take_u32 (Inr 0xa1b2c3d4)
        (expecting take_u32 (Inl (NeedMoreBytes 2))
        (expecting take_u32 (Inl (NeedMoreBytes 4)) finished))
        (BytesSource_new [0xa1, 0xb2, 0xc3, 0xd4, 0xe5, 0xf6])"

text \<open>\<open>res\<close> is the buffer of three bytes that \<open>take_slice\<close> fills; the model returns it filled.\<close>

definition decode_tests_take_slice :: bool where
  "decode_tests_take_slice \<longleftrightarrow>
     (let res = [0, 0, 0] in
      expecting (take_slice res) (Inl (NeedMoreBytes 3)) finished (BytesSource_new [])
      \<and> expecting (take_slice res) (Inr [0xa1, 0xb2, 0xc3])
         (expecting (take_slice [0xa1, 0xb2, 0xc3]) (Inl (NeedMoreBytes 1))
         (expecting (take_vec 3) (Inl (NeedMoreBytes 3)) finished))
         (BytesSource_new [0xa1, 0xb2, 0xc3, 0xd4, 0xe5]))"

definition decode_tests_take_vec :: bool where
  "decode_tests_take_vec \<longleftrightarrow>
     expecting (take_vec 3) (Inl (NeedMoreBytes 3)) finished (BytesSource_new [])
     \<and> expecting (take_vec 3) (Inr [0xa1, 0xb2, 0xc3])
        (expecting (take_vec 3) (Inl (NeedMoreBytes 1))
        (expecting (take_vec 3) (Inl (NeedMoreBytes 3)) finished))
        (BytesSource_new [0xa1, 0xb2, 0xc3, 0xd4, 0xe5])"

definition decode_tests_take_null_terminated :: bool where
  "decode_tests_take_null_terminated \<longleftrightarrow>
     expecting take_until_null (Inl NoNullByte) finished (BytesSource_new [])
     \<and> expecting take_until_null (Inr [10, 11, 12])
        (expecting take_until_null (Inr [20, 21])
        (\<lambda>bs. 1 = left bs
          \<and> expecting take_until_null (Inl NoNullByte) (\<lambda>bs. 0 = left bs) bs))
        (BytesSource_new [10, 11, 12, 0, 20, 21, 0, 30])"

section \<open>Tests of BytesTarget\<close>

definition encode_tests_left :: bool where
  "encode_tests_left \<longleftrightarrow>
     0 = BytesTarget_left (BytesTarget_new [])
     \<and> (let bt = BytesTarget_new [0, 0] in 2 = BytesTarget_left bt \<and> 2 = BytesTarget_left bt
       \<and> (let bt = bt\<lparr>bt_pos := bt_pos bt + 1\<rparr> in 1 = BytesTarget_left bt \<and> 1 = BytesTarget_left bt
         \<and> (let bt = bt\<lparr>bt_pos := bt_pos bt + 1\<rparr> in 0 = BytesTarget_left bt)))"

definition encode_tests_put_u8 :: bool where
  "encode_tests_put_u8 \<longleftrightarrow>
     expecting (put_u8 0xa1) (Inl (OutOfSpace 1)) finished (BytesTarget_new [])
     \<and> expecting (put_u8 0xa1) (Inr ())
        (\<lambda>bs. [0xa1, 0] = bt_slice bs
          \<and> expecting (put_u8 0xb2) (Inr ())
             (\<lambda>bs. [0xa1, 0xb2] = bt_slice bs
               \<and> expecting (put_u8 0xc3) (Inl (OutOfSpace 1))
                  (expecting (put_u8 0xd4) (Inl (OutOfSpace 1)) finished) bs) bs)
        (BytesTarget_new [0, 0])"

definition encode_tests_put_u32 :: bool where
  "encode_tests_put_u32 \<longleftrightarrow>
     expecting (put_u32 0xa1b2c3d4) (Inl (OutOfSpace 4)) finished (BytesTarget_new [])
     \<and> expecting (put_u32 0xa1b2c3d4) (Inr ())
        (\<lambda>bs. [0xa1, 0xb2, 0xc3, 0xd4, 0, 0] = bt_slice bs
          \<and> expecting (put_u32 0xe5f6a7b8) (Inl (OutOfSpace 2))
             (expecting (put_u32 0xc9d0e1f2) (Inl (OutOfSpace 4)) finished) bs)
        (BytesTarget_new [0, 0, 0, 0, 0, 0])"

definition util_tests :: "bool list" where
  "util_tests =
     [decode_tests_left, decode_tests_take_u8, decode_tests_take_u16, decode_tests_take_u32,
      decode_tests_take_slice, decode_tests_take_vec, decode_tests_take_null_terminated,
      encode_tests_left, encode_tests_put_u8, encode_tests_put_u32]"

lemma all_util_tests: "list_all id util_tests"
  by code_simp

end
