(* ===== verification/Read_Tests.thy ===== *)
theory Read_Tests
  imports Read
begin

text \<open>
  The tests of \<open>src/src/msg/util/read.rs\<close>: \<open>read_msg\<close> on messages of five sizes, with and without
  a type byte, with complete, missing, cut, wrong and superfluous bytes. A test is the conjunction
  of its assertions; \<open>&[u8]\<close> as a reader is the in-memory stream. The tests are shown to pass from
  what \<open>read_msg\<close> does for every body and every type, not by evaluating them: the largest body
  has 16 million bytes.
\<close>

section \<open>Test messages\<close>

text \<open>The traits \<open>Type\<close> (its constant) and \<open>Body\<close>, and their implementations.\<close>

type_synonym Type = "TypeByte option"

record Body =
  LEN_BYTES :: "u8 list"
  EXPECTED_BYTES :: "u8 list"

definition WithoutType :: Type where
  "WithoutType = None"

definition HavingType :: Type where
  "HavingType = Some TypeByte.RowDescription"

definition EmptyBody :: Body where
  "EmptyBody = \<lparr>LEN_BYTES = [0, 0, 0, 0 + 4], EXPECTED_BYTES = []\<rparr>"

definition SmallBody :: Body where
  "SmallBody = \<lparr>LEN_BYTES = [0, 0, 0, 5 + 4], EXPECTED_BYTES = map byte_char ''small''\<rparr>"

definition MediumBody :: Body where
  "MediumBody = \<lparr>LEN_BYTES = [0, 0, 1, 3 + 4], EXPECTED_BYTES = replicate 0x103 (byte_char CHR ''M'')\<rparr>"

definition LargeBody :: Body where
  "LargeBody = \<lparr>LEN_BYTES = [0, 1, 3, 5 + 4], EXPECTED_BYTES = replicate 0x10305 (byte_char CHR ''L'')\<rparr>"

definition HugeBody :: Body where
  "HugeBody = \<lparr>LEN_BYTES = [1, 3, 5, 7 + 4], EXPECTED_BYTES = replicate 0x1030507 (byte_char CHR ''H'')\<rparr>"

text \<open>\<open>String::from_utf8_unchecked\<close> of ASCII bytes.\<close>

definition from_utf8_unchecked :: "u8 list \<Rightarrow> string" where
  "from_utf8_unchecked = map (\<lambda>b. char_of (unat b))"

definition TestMsg_decode_body :: "Body \<Rightarrow> unit decode" where
  "TestMsg_decode_body B =
     bind_dec (take_vec (length (EXPECTED_BYTES B))) (\<lambda>taken.
     if taken \<noteq> EXPECTED_BYTES B
     then err_dec (Incorrect (''taken '' @ from_utf8_unchecked taken @ '' but expected '' @ from_utf8_unchecked (EXPECTED_BYTES B)))
     else ok_dec ())"

definition TestMsg :: "Type \<Rightarrow> Body \<Rightarrow> unit MsgDecode" where
  "TestMsg T B = \<lparr>TYPE_BYTE_OPT = T, decode_body = TestMsg_decode_body B\<rparr>"

text \<open>The default method of \<open>Body\<close>, the same decoder byte by byte.\<close>

primrec Body_decode_from :: "u8 list \<Rightarrow> nat \<Rightarrow> unit decode" where
  "Body_decode_from [] i = ok_dec ()"
| "Body_decode_from (expected # bytes) i =
     bind_dec take_u8 (\<lambda>found.
     if found \<noteq> expected
     then err_dec (Incorrect (''found '' @ show_nat (unat found) @ '' at index '' @ show_nat i
            @ '' but expected '' @ show_nat (unat expected)))
     else Body_decode_from bytes (Suc i))"

definition Body_decode_body :: "Body \<Rightarrow> unit decode" where
  "Body_decode_body B = Body_decode_from (EXPECTED_BYTES B) 0"

definition read_test_msg :: "bool \<Rightarrow> Type \<Rightarrow> Body \<Rightarrow> u8 list \<Rightarrow> (ReadError, unit ReadData) outcome" where
  "read_test_msg ovf T B bytes = fst (read_msg ovf pipe_ops (TestMsg T B) \<lparr>pipe_in = bytes, pipe_out = []\<rparr>)"

section \<open>Assertions\<close>

definition assert_io_err_eof :: "(ReadError, unit ReadData) outcome \<Rightarrow> bool" where
  "assert_io_err_eof read_result =
     (case read_result of
        Throw (ReadError.IoError io_error) \<Rightarrow> UnexpectedEof = error_kind io_error
      | _ \<Rightarrow> False)"

definition assert_ok_test_msg :: "MsgError + unit \<Rightarrow> bool" where
  "assert_ok_test_msg decoded \<longleftrightarrow> Inr () = decoded"

text \<open>Slicing a string panics inside a character.\<close>

definition is_char_boundary :: "u8 list \<Rightarrow> nat \<Rightarrow> bool" where
  "is_char_boundary s i \<longleftrightarrow>
     i = 0 \<or> i = length s \<or> i < length s \<and> \<not> (0x80 \<le> s ! i \<and> s ! i < 0xC0)"

definition assert_eq_bytes :: "Type \<Rightarrow> u8 list \<Rightarrow> u8 list \<Rightarrow> bool" where
  "assert_eq_bytes T expected actual =
     (case T of
        Some type_byte \<Rightarrow>
          actual \<noteq> [] \<and> TypeByte_into type_byte = actual ! 0
          \<and> is_char_boundary actual 1 \<and> expected = drop 1 actual
      | None \<Rightarrow> expected = actual)"

definition unwrap_and :: "('e, 'a) outcome \<Rightarrow> ('a \<Rightarrow> bool) \<Rightarrow> bool" where
  "unwrap_and r P = (case r of Return x \<Rightarrow> P x | _ \<Rightarrow> False)"

section \<open>Tests\<close>

definition test_no_len :: "bool \<Rightarrow> Type \<Rightarrow> Body \<Rightarrow> bool" where
  "test_no_len ovf T B \<longleftrightarrow>
     assert_io_err_eof (read_test_msg ovf T B [])
     \<and> assert_io_err_eof (read_test_msg ovf T B [0])
     \<and> assert_io_err_eof (read_test_msg ovf T B [0, 0])
     \<and> assert_io_err_eof (read_test_msg ovf T B [0, 0, 0])"

definition test_cut :: "bool \<Rightarrow> Type \<Rightarrow> Body \<Rightarrow> bool" where
  "test_cut ovf T B \<longleftrightarrow>
     EXPECTED_BYTES B \<noteq> []
     \<and> assert_io_err_eof (read_test_msg ovf T B
         (LEN_BYTES B @ take (length (EXPECTED_BYTES B) - 1) (EXPECTED_BYTES B)))"

definition test_valid :: "bool \<Rightarrow> Type \<Rightarrow> Body \<Rightarrow> bool" where
  "test_valid ovf T B =
     (let origin_bytes = LEN_BYTES B @ EXPECTED_BYTES B
      in unwrap_and (read_test_msg ovf T B origin_bytes) (\<lambda>dat.
           assert_eq_bytes T origin_bytes (rd_bytes dat) \<and> assert_ok_test_msg (rd_msg_result dat)))"

definition test_extra :: "bool \<Rightarrow> Type \<Rightarrow> Body \<Rightarrow> bool" where
  "test_extra ovf T B =
     (let valid_bytes = LEN_BYTES B @ EXPECTED_BYTES B; extra_bytes = valid_bytes @ map byte_char ''+''
      in unwrap_and (read_test_msg ovf T B extra_bytes) (\<lambda>dat.
           assert_eq_bytes T valid_bytes (rd_bytes dat) \<and> assert_ok_test_msg (rd_msg_result dat)))"

definition test_len_is_less :: "bool \<Rightarrow> Type \<Rightarrow> Body \<Rightarrow> bool" where
  "test_len_is_less ovf T B =
     (let patched_bytes = take 3 (LEN_BYTES B) @ [LEN_BYTES B ! 3 - 1] @ EXPECTED_BYTES B
      in LEN_BYTES B ! 3 \<noteq> 0
        \<and> unwrap_and (read_test_msg ovf T B patched_bytes) (\<lambda>dat.
             assert_eq_bytes T (butlast patched_bytes) (rd_bytes dat)
             \<and> rd_msg_result dat = Inl (MsgError.DecodeError (NeedMoreBytes 1))))"

definition test_len_is_more :: "bool \<Rightarrow> Type \<Rightarrow> Body \<Rightarrow> bool" where
  "test_len_is_more ovf T B =
     (let longer_bytes = take 3 (LEN_BYTES B) @ [LEN_BYTES B ! 3 + 1] @ EXPECTED_BYTES B @ map byte_char ''+''
      in LEN_BYTES B ! 3 \<noteq> 255
        \<and> unwrap_and (read_test_msg ovf T B longer_bytes) (\<lambda>dat.
             assert_eq_bytes T longer_bytes (rd_bytes dat)
             \<and> rd_msg_result dat = Inl (MsgError.LeftUndecoded 1)))"

definition test_different :: "bool \<Rightarrow> Type \<Rightarrow> Body \<Rightarrow> bool" where
  "test_different ovf T B =
     (let diff_bytes = LEN_BYTES B @ take (length (EXPECTED_BYTES B) - 1) (EXPECTED_BYTES B) @ map byte_char ''*''
      in EXPECTED_BYTES B \<noteq> []
        \<and> unwrap_and (read_test_msg ovf T B diff_bytes) (\<lambda>dat.
             assert_eq_bytes T diff_bytes (rd_bytes dat)
             \<and> (case rd_msg_result dat of Inl (MsgError.DecodeError (Incorrect _)) \<Rightarrow> True | _ \<Rightarrow> False)))"

definition test_all_types :: "(Type \<Rightarrow> Body \<Rightarrow> bool) \<Rightarrow> Body \<Rightarrow> bool" where
  "test_all_types test_fn B \<longleftrightarrow> test_fn WithoutType B \<and> test_fn HavingType B"

definition test_any_body :: "bool \<Rightarrow> Body \<Rightarrow> bool" where
  "test_any_body ovf B \<longleftrightarrow>
     test_all_types (test_no_len ovf) B \<and> test_all_types (test_valid ovf) B
     \<and> test_all_types (test_extra ovf) B"

definition test_non_empty_body :: "bool \<Rightarrow> Body \<Rightarrow> bool" where
  "test_non_empty_body ovf B \<longleftrightarrow>
     test_all_types (test_different ovf) B \<and> test_all_types (test_cut ovf) B
     \<and> test_all_types (test_len_is_less ovf) B \<and> test_all_types (test_len_is_more ovf) B"

definition read_tests :: "bool \<Rightarrow> bool" where
  "read_tests ovf \<longleftrightarrow>
     test_any_body ovf EmptyBody
     \<and> (test_any_body ovf SmallBody \<and> test_non_empty_body ovf SmallBody)
     \<and> (test_any_body ovf MediumBody \<and> test_non_empty_body ovf MediumBody)
     \<and> (test_any_body ovf LargeBody \<and> test_non_empty_body ovf LargeBody)
     \<and> (test_any_body ovf HugeBody \<and> test_non_empty_body ovf HugeBody)"

section \<open>Why they pass\<close>

lemma take_vec_new:
  "take_vec n (BytesSource_new body) =
     (if n \<le> length body then (Inr (take n body), \<lparr>bs_slice = body, bs_pos = n\<rparr>)
      else (Inl (NeedMoreBytes (n - length body)), \<lparr>bs_slice = body, bs_pos = length body\<rparr>))"
  by (simp add: take_vec_def take_bounded_def BytesSource_new_def)

lemma decode_TestMsg:
  "length body < length (EXPECTED_BYTES B) \<Longrightarrow>
     decode_whole (TestMsg T B) body =
       Inl (MsgError.DecodeError (NeedMoreBytes (length (EXPECTED_BYTES B) - length body)))"
  "decode_whole (TestMsg T B) (EXPECTED_BYTES B) = Inr ()"
  "x \<noteq> [] \<Longrightarrow> decode_whole (TestMsg T B) (EXPECTED_BYTES B @ x) = Inl (MsgError.LeftUndecoded (length x))"
  "length body = length (EXPECTED_BYTES B) \<Longrightarrow> body \<noteq> EXPECTED_BYTES B \<Longrightarrow>
     \<exists>t. decode_whole (TestMsg T B) body = Inl (MsgError.DecodeError (Incorrect t))"
  by (auto simp: decode_whole_def TestMsg_def TestMsg_decode_body_def bind_dec_def ok_dec_def err_dec_def
        take_vec_new left_def split: nat.split)

text \<open>Both decoders accept the same bodies.\<close>

lemma Body_decode_from_ok:
  "fst (Body_decode_from bytes i \<lparr>bs_slice = sl, bs_pos = p\<rparr>) = Inr () \<longleftrightarrow> prefix bytes (drop p sl)"
proof (induction bytes arbitrary: i p)
  case Nil
  then show ?case by (simp add: ok_dec_def)
next
  case (Cons b bytes)
  show ?case
  proof (cases "p < length sl")
    case True
    then have "drop p sl = sl ! p # drop (Suc p) sl" by (simp add: Cons_nth_drop_Suc)
    with Cons True show ?thesis
      by (auto simp: bind_dec_def take_u8_def take_bounded_def err_dec_def)
  qed (simp add: bind_dec_def take_u8_def take_bounded_def)
qed

lemma Body_decoders_agree:
  "fst (Body_decode_body B (BytesSource_new body)) = Inr () \<longleftrightarrow>
     fst (TestMsg_decode_body B (BytesSource_new body)) = Inr ()"
  unfolding Body_decode_body_def BytesSource_new_def Body_decode_from_ok
  by (auto simp: TestMsg_decode_body_def bind_dec_def take_vec_def take_bounded_def err_dec_def ok_dec_def
        prefix_def) (metis append_take_drop_id)

text \<open>A body whose length field is right and can be patched by one.\<close>

definition body_wf :: "Body \<Rightarrow> bool" where
  "body_wf B \<longleftrightarrow> length (EXPECTED_BYTES B) < 2 ^ 31
     \<and> LEN_BYTES B = u32_to_be_bytes (word_of_nat (4 + length (EXPECTED_BYTES B)))
     \<and> \<not> (0x80 \<le> LEN_BYTES B ! 0 \<and> LEN_BYTES B ! 0 < 0xC0)"

definition patchable :: "Body \<Rightarrow> bool" where
  "patchable B \<longleftrightarrow> EXPECTED_BYTES B \<noteq> [] \<and> last (EXPECTED_BYTES B) \<noteq> byte_char CHR ''*''
     \<and> LEN_BYTES B ! 3 \<noteq> 0 \<and> LEN_BYTES B ! 3 \<noteq> 255
     \<and> take 3 (LEN_BYTES B) @ [LEN_BYTES B ! 3 - 1] = u32_to_be_bytes (word_of_nat (3 + length (EXPECTED_BYTES B)))
     \<and> take 3 (LEN_BYTES B) @ [LEN_BYTES B ! 3 + 1] = u32_to_be_bytes (word_of_nat (5 + length (EXPECTED_BYTES B)))"

lemma read_test_frame:
  assumes "4 + length body < 2 ^ 32 - 1"
  shows "read_test_msg ovf T B (frame body @ r) =
    Return \<lparr>rd_bytes = type_prefix (TestMsg T B) @ frame body, rd_msg_result = decode_whole (TestMsg T B) body\<rparr>"
proof -
  have "pipe_in \<lparr>pipe_in = frame body @ r, pipe_out = []\<rparr> = frame body @ r" by simp
  from pipe.read_msg_complete [OF this, of "TestMsg T B" ovf] assms show ?thesis
    unfolding read_test_msg_def by fastforce
qed

lemma eq_bytes_frame:
  assumes "\<not> (0x80 \<le> frame body ! 0 \<and> frame body ! 0 < 0xC0)"
  shows "assert_eq_bytes T (frame body) (type_prefix (TestMsg T B) @ frame body)"
  using assms
  by (auto simp: assert_eq_bytes_def type_prefix_def TestMsg_def is_char_boundary_def frame_def
        split: option.splits)

text \<open>Every assertion about a complete frame follows from these two.\<close>

lemma unwrap_frame:
  assumes "length body < 2 ^ 31" and "\<not> (0x80 \<le> frame body ! 0 \<and> frame body ! 0 < 0xC0)"
  shows "unwrap_and (read_test_msg ovf T B (frame body @ r)) (\<lambda>dat.
      assert_eq_bytes T (frame body) (rd_bytes dat) \<and> P (rd_msg_result dat))
    \<longleftrightarrow> P (decode_whole (TestMsg T B) body)"
  using assms(1) eq_bytes_frame [OF assms(2)] by (simp add: read_test_frame unwrap_and_def)

lemma no_len_passes: "test_no_len ovf T B"
proof -
  have "assert_io_err_eof (read_test_msg ovf T B bytes)" if "length bytes < 4" for bytes
    using that
    by (simp add: read_test_msg_def read_msg_cases read_u32_def bind_prog_def map_err_def pipe_ops_def
          assert_io_err_eof_def)
  then show ?thesis by (simp add: test_no_len_def)
qed

lemma len_bytes_frame:
  "body_wf B \<Longrightarrow> length body = length (EXPECTED_BYTES B) \<Longrightarrow> LEN_BYTES B @ body = frame body"
  by (simp add: body_wf_def frame_def)

lemma len_bytes_first: "body_wf B \<Longrightarrow> \<not> (0x80 \<le> frame (EXPECTED_BYTES B) ! 0 \<and> frame (EXPECTED_BYTES B) ! 0 < 0xC0)"
  using len_bytes_frame [of B "EXPECTED_BYTES B"] by (auto simp: body_wf_def nth_append simp flip: len_bytes_frame)

lemma valid_passes:
  assumes "body_wf B"
  shows "test_valid ovf T B" and "test_extra ovf T B"
  using unwrap_frame [of "EXPECTED_BYTES B" ovf T B "[]" assert_ok_test_msg]
    unwrap_frame [of "EXPECTED_BYTES B" ovf T B "map byte_char ''+''" assert_ok_test_msg]
    len_bytes_first [OF assms] len_bytes_frame [OF assms refl] assms
  by (simp_all add: test_valid_def test_extra_def Let_def assert_ok_test_msg_def decode_TestMsg body_wf_def)

lemma cut_passes:
  assumes "body_wf B" and "patchable B"
  shows "test_cut ovf T B"
proof -
  let ?r = "take (length (EXPECTED_BYTES B) - 1) (EXPECTED_BYTES B)"
  let ?len = "word_of_nat (4 + length (EXPECTED_BYTES B)) :: u32"
  have len: "unat ?len = 4 + length (EXPECTED_BYTES B)"
    using assms(1) by (simp add: unat_of_nat body_wf_def del: of_nat_add)
  have "\<not> len_overflows (TestMsg T B) ?len"
    using assms(1) arg_cong [of ?len "- 1" unat] unfolding len_overflows_def len by (auto simp: body_wf_def)
  moreover have "EXPECTED_BYTES B \<noteq> []" using assms(2) by (simp add: patchable_def)
  moreover from this have "length ?r < unat ?len - 4" using len by (cases "EXPECTED_BYTES B") simp_all
  moreover have "pipe_in \<lparr>pipe_in = LEN_BYTES B @ ?r, pipe_out = []\<rparr> = u32_to_be_bytes ?len @ ?r"
    using assms(1) by (simp add: body_wf_def)
  ultimately show ?thesis
    using pipe.read_msg_eof [of "\<lparr>pipe_in = LEN_BYTES B @ ?r, pipe_out = []\<rparr>" ?len ?r "TestMsg T B" ovf] len
    by (auto simp: test_cut_def read_test_msg_def assert_io_err_eof_def)
qed

lemma different_passes:
  assumes "body_wf B" and "patchable B"
  shows "test_different ovf T B"
proof -
  let ?body = "take (length (EXPECTED_BYTES B) - 1) (EXPECTED_BYTES B) @ map byte_char ''*''"
  have ne: "EXPECTED_BYTES B \<noteq> []" using assms(2) by (simp add: patchable_def)
  then have len: "length ?body = length (EXPECTED_BYTES B)" by (cases "EXPECTED_BYTES B") simp_all
  have "last ?body \<noteq> last (EXPECTED_BYTES B)" using assms(2) by (auto simp: patchable_def)
  then have "?body \<noteq> EXPECTED_BYTES B" by metis
  from decode_TestMsg(4) [OF len this] obtain t where
    t: "decode_whole (TestMsg T B) ?body = Inl (MsgError.DecodeError (Incorrect t))" by blast
  have "frame ?body ! 0 = frame (EXPECTED_BYTES B) ! 0" unfolding frame_def len by (simp add: nth_append)
  with len_bytes_first [OF assms(1)] have first: "\<not> (0x80 \<le> frame ?body ! 0 \<and> frame ?body ! 0 < 0xC0)" by simp
  have "length ?body < 2 ^ 31" using assms(1) unfolding len by (simp add: body_wf_def)
  from unwrap_frame [OF this first, of ovf T B "[]"
      "\<lambda>r. case r of Inl (MsgError.DecodeError (Incorrect _)) \<Rightarrow> True | _ \<Rightarrow> False"] t
  show ?thesis using ne len_bytes_frame [OF assms(1) len] by (simp add: test_different_def Let_def)
qed

lemma patched_first:
  assumes "body_wf B" and "take 3 (LEN_BYTES B) @ [x] = u32_to_be_bytes w"
  shows "\<not> (0x80 \<le> u32_to_be_bytes w ! 0 \<and> u32_to_be_bytes w ! 0 < 0xC0)"
proof -
  have "LEN_BYTES B ! 0 = u32_to_be_bytes w ! 0"
    using assms unfolding assms(2) [symmetric] by (auto simp: body_wf_def nth_append u32_to_be_bytes_def)
  then show ?thesis using assms(1) by (auto simp: body_wf_def)
qed

lemma len_is_less_passes:
  assumes "body_wf B" and "patchable B"
  shows "test_len_is_less ovf T B"
proof -
  let ?body = "butlast (EXPECTED_BYTES B)"
  have ne: "EXPECTED_BYTES B \<noteq> []" and patch: "take 3 (LEN_BYTES B) @ [LEN_BYTES B ! 3 - 1] =
      u32_to_be_bytes (word_of_nat (3 + length (EXPECTED_BYTES B)))"
    using assms(2) by (simp_all add: patchable_def)
  have len: "4 + length ?body = 3 + length (EXPECTED_BYTES B)" using ne by (cases "EXPECTED_BYTES B") simp_all
  have bytes: "take 3 (LEN_BYTES B) @ [LEN_BYTES B ! 3 - 1] @ EXPECTED_BYTES B =
      frame ?body @ [last (EXPECTED_BYTES B)]"
    using patch ne unfolding frame_def len append_assoc [symmetric] by simp
  have first: "\<not> (0x80 \<le> frame ?body ! 0 \<and> frame ?body ! 0 < 0xC0)"
    using patched_first [OF assms(1) patch] unfolding frame_def len by (simp add: nth_append)
  have short: "length ?body < 2 ^ 31" "length ?body < length (EXPECTED_BYTES B)"
    "length (EXPECTED_BYTES B) - length ?body = 1"
    using assms(1) ne by (auto simp: body_wf_def Suc_leI)
  from unwrap_frame [OF short(1) first, of ovf T B "[last (EXPECTED_BYTES B)]"
      "\<lambda>r. r = Inl (MsgError.DecodeError (NeedMoreBytes 1))"] decode_TestMsg(1) [OF short(2)]
  show ?thesis
    using assms(2) short(3) unfolding test_len_is_less_def bytes Let_def patchable_def by (simp add: butlast_append)
qed

lemma len_is_more_passes:
  assumes "body_wf B" and "patchable B"
  shows "test_len_is_more ovf T B"
proof -
  let ?body = "EXPECTED_BYTES B @ map byte_char ''+''"
  have patch: "take 3 (LEN_BYTES B) @ [LEN_BYTES B ! 3 + 1] =
      u32_to_be_bytes (word_of_nat (5 + length (EXPECTED_BYTES B)))"
    using assms(2) by (simp add: patchable_def)
  have len: "4 + length ?body = 5 + length (EXPECTED_BYTES B)" by simp
  have bytes: "take 3 (LEN_BYTES B) @ [LEN_BYTES B ! 3 + 1] @ EXPECTED_BYTES B @ map byte_char ''+'' = frame ?body"
    using patch unfolding frame_def len append_assoc [symmetric] by simp
  have first: "\<not> (0x80 \<le> frame ?body ! 0 \<and> frame ?body ! 0 < 0xC0)"
    using patched_first [OF assms(1) patch] unfolding frame_def len by (simp add: nth_append)
  have "length ?body < 2 ^ 31 + 1" using assms(1) by (simp add: body_wf_def)
  from read_test_frame [of ?body ovf T B "[]"] this eq_bytes_frame [OF first, of T B]
  show ?thesis
    using assms(2) unfolding test_len_is_more_def bytes Let_def patchable_def
    by (simp add: unwrap_and_def decode_TestMsg(3))
qed

lemma any_body_passes: "body_wf B \<Longrightarrow> test_any_body ovf B"
  by (simp add: test_any_body_def test_all_types_def no_len_passes valid_passes)

lemma non_empty_body_passes: "body_wf B \<Longrightarrow> patchable B \<Longrightarrow> test_non_empty_body ovf B"
  by (simp add: test_non_empty_body_def test_all_types_def different_passes cut_passes
        len_is_less_passes len_is_more_passes)

text \<open>The bodies of the tests; only their lengths are computed.\<close>

lemma body_wfI:
  assumes "LEN_BYTES B = u32_to_be_bytes w" and "4 + length (EXPECTED_BYTES B) = n"
    and "n < 2 ^ 31" and "word_of_nat n = w" and "LEN_BYTES B ! 0 < 0x80"
  shows "body_wf B"
  using assms by (auto simp: body_wf_def)

lemma test_bodies_wf:
  "body_wf EmptyBody" "body_wf SmallBody" "body_wf MediumBody" "body_wf LargeBody" "body_wf HugeBody"
proof -
  show "body_wf EmptyBody"
    by (rule body_wfI [of _ 4 4]) (simp_all add: EmptyBody_def u32_to_be_bytes_def)
  show "body_wf SmallBody"
    by (rule body_wfI [of _ 9 9]) (simp_all add: SmallBody_def u32_to_be_bytes_def byte_char_def of_char_def)
  show "body_wf MediumBody"
    by (rule body_wfI [of _ "0x107" "0x107"])
       (simp_all add: MediumBody_def u32_to_be_bytes_def byte_char_def of_char_def)
  show "body_wf LargeBody"
    by (rule body_wfI [of _ "0x10309" "0x10309"])
       (simp_all add: LargeBody_def u32_to_be_bytes_def byte_char_def of_char_def)
  show "body_wf HugeBody"
    by (rule body_wfI [of _ "0x103050B" "0x103050B"])
       (simp_all add: HugeBody_def u32_to_be_bytes_def byte_char_def of_char_def)
qed

lemma patchableI:
  assumes "EXPECTED_BYTES B \<noteq> []" and "set (EXPECTED_BYTES B) \<subseteq> {x. x \<noteq> byte_char CHR ''*''}"
    and "LEN_BYTES B ! 3 \<noteq> 0" and "LEN_BYTES B ! 3 \<noteq> 255" and "3 + length (EXPECTED_BYTES B) = n"
    and "take 3 (LEN_BYTES B) @ [LEN_BYTES B ! 3 - 1] = u32_to_be_bytes (word_of_nat n)"
    and "take 3 (LEN_BYTES B) @ [LEN_BYTES B ! 3 + 1] = u32_to_be_bytes (word_of_nat n + 2)"
  shows "patchable B"
proof -
  have "word_of_nat (5 + length (EXPECTED_BYTES B)) = (word_of_nat n + 2 :: u32)"
    using assms(5) by (simp flip: assms(5))
  moreover have "last (EXPECTED_BYTES B) \<noteq> byte_char CHR ''*''"
    using assms(2) last_in_set [OF assms(1)] by blast
  ultimately show ?thesis using assms by (simp add: patchable_def)
qed

lemma test_bodies_patchable:
  "patchable SmallBody" "patchable MediumBody" "patchable LargeBody" "patchable HugeBody"
proof -
  show "patchable SmallBody"
    by (rule patchableI [of _ 8]) (simp_all add: SmallBody_def u32_to_be_bytes_def byte_char_def of_char_def)
  show "patchable MediumBody"
    by (rule patchableI [of _ "0x106"]) (simp_all add: MediumBody_def u32_to_be_bytes_def byte_char_def of_char_def)
  show "patchable LargeBody"
    by (rule patchableI [of _ "0x10308"]) (simp_all add: LargeBody_def u32_to_be_bytes_def byte_char_def of_char_def)
  show "patchable HugeBody"
    by (rule patchableI [of _ "0x103050A"]) (simp_all add: HugeBody_def u32_to_be_bytes_def byte_char_def of_char_def)
qed

lemma all_read_tests: "read_tests ovf"
  by (simp add: read_tests_def any_body_passes non_empty_body_passes test_bodies_wf test_bodies_patchable)

end
