(* ===== verification/Loop_States.thy ===== *)
theory Loop_States
  imports Relay Automaton
begin

text \<open>
  The states of the loop of the conveyor: \<open>loop_state\<close> runs whole rounds of the loop of \<open>go\<close> and
  tells the state it is in then. Which states it comes to, over any streams, and what it takes to
  bring every one of them to a regular end.
\<close>

section \<open>Rounds of the loop\<close>

text \<open>The loop of \<open>Convey.go_loop\<close>, stopped before it chooses a side again. \<open>None\<close>: the loop
  does not come to that point, because it has ended or waits for input.\<close>

fun loop_state ::
  "('fp, 'ft, 'bp, 'bt) ConveyEnv \<Rightarrow> Side list \<Rightarrow> State \<Rightarrow> ('fp, 'ft, 'bp, 'bt) Conveyor
    \<Rightarrow> (State \<times> ('fp, 'ft, 'bp, 'bt) Conveyor) option" where
  "loop_state env [] state self = Some (state, self)"
| "loop_state env (chosen # choices) state self =
     (case bind_prog (read_type_byte_from_both env chosen)
             (\<lambda>(side, type_byte). dispatch env side type_byte state) self of
        (Return (Next state'), self') \<Rightarrow> loop_state env choices state' self'
      | _ \<Rightarrow> None)"

lemma loop_round:
  "bind_prog (read_type_byte_from_both env side) (\<lambda>(side, type_byte). dispatch env side type_byte st) =
     round env side st"
  by (simp only: round_def read_type_byte_from_both_side bind_prog_assoc bind_option_case bind_return
        dispatch_settles [symmetric] prod.case)

lemma loop_state_Cons:
  "loop_state env (side # choices) st c = Some (st', c') \<longleftrightarrow>
     (\<exists>st1 c1. round env side st c = (Return (Next st1), c1) \<and> loop_state env choices st1 c1 = Some (st', c'))"
  by (auto simp: loop_round split: prod.splits outcome.splits flow.splits)

lemma go_loop_from:
  "loop_state env choices st c = Some (st', c') \<Longrightarrow>
    go_loop env (choices @ later) st c = go_loop env later st' c'"
  by (induction choices arbitrary: st c)
     (auto simp: loop_state_Cons go_loop_round bind_prog_def simp del: loop_state.simps(2) go_loop.simps(2))

context conveyor_streams
begin

lemma loop_state_session:
  "loop_state env choices st c = Some (st', c') \<Longrightarrow> \<exists>ms. session st ms (Next st')"
proof (induction choices arbitrary: st c)
  case Nil
  then show ?case by (auto intro: session_here)
next
  case (Cons side choices)
  then obtain st1 c1 where r: "round env side st c = (Return (Next st1), c1)"
    and "loop_state env choices st1 c1 = Some (st', c')" by (auto simp only: loop_state_Cons)
  with Cons.IH obtain ms where "session st1 ms (Next st')" by blast
  moreover from round_returns [OF r] obtain m where "next_state st m = Some (Next st1)" by metis
  ultimately show ?case by (blast intro: session_step)
qed

end

context conveyor_reliable
begin

lemma loop_state_complete:
  assumes "session st (map fst tr) (Next st')" and "live c"
    and "list_all (\<lambda>(m, w). message_wire m w \<and> length w < 2 ^ 32) tr"
    and "\<And>side. arriving side c = wires side tr @ r side"
  shows "\<exists>c'. loop_state env (map (\<lambda>x. message_side (fst x)) tr) st c = Some (st', c') \<and> live c'
    \<and> conveys fi fo bi bo tr c c'"
  using assms
proof (induction tr arbitrary: st c)
  case Nil
  then show ?case by (simp add: session_Nil)
next
  case (Cons x tr)
  obtain m w where x: "x = (m, w)" by fastforce
  from Cons.prems(1) x obtain st1 where st1: "next_state st m = Some (Next st1)"
    "session st1 (map fst tr) (Next st')" by (auto simp: session_Cons)
  from round_ok [OF Cons.prems(2) st1(1), of w] Cons.prems(3,4) x obtain c1 where
    r: "round env (message_side m) st c = (Return (Next st1), c1)" "live c1"
    and c1: "conveys fi fo bi bo [(m, w)] c c1" by force
  have "arriving side c1 = wires side tr @ r side" for side
    using c1 Cons.prems(4) [of side] x by (auto simp: conveys_def split: if_splits)
  from Cons.IH [OF st1(2) r(2) _ this] Cons.prems(3) obtain c' where
    c': "loop_state env (map (\<lambda>x. message_side (fst x)) tr) st1 c1 = Some (st', c')" "live c'"
      "conveys fi fo bi bo tr c1 c'" by auto
  from c1 c'(3) have "conveys fi fo bi bo (x # tr) c c'"
    unfolding x conveys_def by (auto split: if_splits)
  with c' r(1) x show ?case by (auto simp: loop_state_Cons simp del: loop_state.simps)
qed

end

section \<open>Messages that exist on the wire\<close>

text \<open>Every message can be replaced by one with the same effect on the state that has a short wire
  form: its texts, values and fields are empty.\<close>

definition is_error :: "Message \<Rightarrow> bool" where
  "is_error m \<longleftrightarrow> (\<exists>e. m = Message.Backend (BackendMsg.ErrorResponse e))"

fun plain_auth :: "Authentication \<Rightarrow> Authentication" where
  "plain_auth (Md5Password x) = Md5Password [0, 0, 0, 0]"
| "plain_auth (GssContinue x) = GssContinue []"
| "plain_auth (Sasl x) = Sasl []"
| "plain_auth (SaslContinue x) = SaslContinue []"
| "plain_auth (SaslFinal x) = SaslFinal []"
| "plain_auth a = a"

fun plain_message :: "Message \<Rightarrow> Message" where
  "plain_message (Message.Backend (BackendMsg.Authentication a)) =
     Message.Backend (BackendMsg.Authentication (plain_auth a))"
| "plain_message (Message.Backend (BackendMsg.CommandComplete x)) =
     Message.Backend (BackendMsg.CommandComplete \<lparr>tag = []\<rparr>)"
| "plain_message (Message.Backend (BackendMsg.DataRow x)) =
     Message.Backend (BackendMsg.DataRow \<lparr>columns = []\<rparr>)"
| "plain_message (Message.Backend (BackendMsg.ErrorResponse x)) =
     Message.Backend (BackendMsg.ErrorResponse (ErrorResponse.ErrorResponse ErrorOrNoticeFields_default))"
| "plain_message (Message.Backend (BackendMsg.NoticeResponse x)) =
     Message.Backend (BackendMsg.NoticeResponse (NoticeResponse.NoticeResponse ErrorOrNoticeFields_default))"
| "plain_message (Message.Backend (BackendMsg.NegotiateProtocolVersion x)) =
     Message.Backend (BackendMsg.NegotiateProtocolVersion \<lparr>newest_backend_minor = 0, unrecognized_options = []\<rparr>)"
| "plain_message (Message.Backend (BackendMsg.ParameterStatus x)) =
     Message.Backend (BackendMsg.ParameterStatus \<lparr>status_name = [], status_value = []\<rparr>)"
| "plain_message (Message.Backend (BackendMsg.RowDescription x)) =
     Message.Backend (BackendMsg.RowDescription \<lparr>row_fields = []\<rparr>)"
| "plain_message (Message.Frontend (FrontendMsg.Bind x)) =
     Message.Frontend (FrontendMsg.Bind
       \<lparr>bind_prepared_statement_name = Text.Text [], bind_portal_name = Text.Text [],
        parameters_formats = [], parameters_values = [], results_formats = []\<rparr>)"
| "plain_message (Message.Frontend (FrontendMsg.Execute x)) =
     Message.Frontend (FrontendMsg.Execute \<lparr>execute_portal_name = Text.Text [], rows_limit = 0\<rparr>)"
| "plain_message (Message.Frontend (FrontendMsg.Password x)) =
     Message.Frontend (FrontendMsg.Password (Password.Password []))"
| "plain_message (Message.Frontend (FrontendMsg.GssResponse x)) =
     Message.Frontend (FrontendMsg.GssResponse (GssResponse.GssResponse []))"
| "plain_message (Message.Frontend (FrontendMsg.SaslInitialResponse x)) =
     Message.Frontend (FrontendMsg.SaslInitialResponse
       \<lparr>selected_mechanism = [], initial_mechanism_data = None\<rparr>)"
| "plain_message (Message.Frontend (FrontendMsg.SaslResponse x)) =
     Message.Frontend (FrontendMsg.SaslResponse \<lparr>mechanism_data = []\<rparr>)"
| "plain_message (Message.Frontend (FrontendMsg.Parse x)) =
     Message.Frontend (FrontendMsg.Parse
       \<lparr>parse_prepared_statement_name = Text.Text [], parse_query = Text.Text [],
        parse_parameters_types = []\<rparr>)"
| "plain_message (Message.Frontend (FrontendMsg.Query x)) = Message.Frontend (FrontendMsg.Query (Query.Query []))"
| "plain_message m = m"

lemma plain_auth_next: "auth_next st (plain_auth a) = auth_next st a"
  by (cases a) (simp_all add: auth_next_def)

lemma plain_next: "next_state st (plain_message m) = next_state st m"
  by (cases m rule: plain_message.cases) (simp_all add: plain_auth_next)

lemma plain_is_error: "is_error (plain_message m) \<longleftrightarrow> is_error m"
  by (cases m rule: plain_message.cases) (simp_all add: is_error_def)

lemma be_bytes_length [simp]: "length (u32_to_be_bytes x) = 4" "length (u16_to_be_bytes y) = 2"
  by (simp_all add: u32_to_be_bytes_def u16_to_be_bytes_def)

lemma plain_auth_body: "Authentication_valid (plain_auth a)" "length (Authentication_wire (plain_auth a)) \<le> 9"
  by (cases a; simp)+

lemma empty_fields: "fields_wire ErrorOrNoticeFields_default [0]"
  unfolding fields_wire_def by (rule exI [of _ "[]"]) simp

lemmas plain_bodies =
  BackendKeyData_wire_def BindComplete_wire_def CommandComplete_valid_def CommandComplete_wire_def
  DataRow_valid_def DataRow_wire_def EmptyQueryResponse_wire_def NegotiateProtocolVersion_valid_def
  NegotiateProtocolVersion_wire_def ParameterStatus_valid_def ParameterStatus_wire_def
  ParseComplete_wire_def PortalSuspended_wire_def ReadyForQuery_wire_def RowDescription_valid_def
  RowDescription_wire_def Bind_valid_def Bind_wire_def Execute_valid_def Execute_wire_def
  SaslInitialResponse_valid_def SaslInitialResponse_wire_def SaslResponse_wire_def Sync_wire_def
  Parse_valid_def Parse_wire_def Terminate_wire_def opt_bytes_valid_def opt_bytes_wire_def
  vec16_valid_def vec16_wire_def vec32_valid_def vec32_wire_def

lemma plain_body:
  assumes "next_state st m \<noteq> None"
  shows "\<exists>body. message_body (plain_message m) body \<and> length body \<le> 100"
proof (cases m rule: plain_message.cases)
  case (1 a)
  with plain_auth_body [of a] show ?thesis by (auto intro: exI [of _ "Authentication_wire (plain_auth a)"])
qed (use assms empty_fields in \<open>auto simp: plain_bodies\<close>)

lemma plain_wire:
  assumes "next_state st m \<noteq> None"
  obtains w where "message_wire (plain_message m) w" "length w < 2 ^ 32 - 1"
proof -
  from plain_body [OF assms] obtain body where "message_body (plain_message m) body" "length body \<le> 100"
    by blast
  then show thesis
    by (intro that [of "(case message_type (plain_message m) of None \<Rightarrow> [] | Some t \<Rightarrow> [TypeByte_into t]) @ frame body"])
       (auto simp: message_wire_def frame_def split: option.splits)
qed

text \<open>Every session has one with the same states that exists on the wire.\<close>

lemma session_on_wire:
  assumes "session st ms f"
  obtains tr where "session st (map fst tr) f"
    "list_all (\<lambda>(m, w). message_wire m w \<and> length w < 2 ^ 32 - 1) tr"
    "map fst tr = map plain_message ms"
  using assms
proof (induction arbitrary: thesis rule: session.induct)
  case (session_here st)
  show ?case by (rule session_here.prems [of "[]"]) (simp_all add: session_Nil)
next
  case (session_step st m st' ms f)
  from session_step.hyps(1) have "next_state st m \<noteq> None" by simp
  from plain_wire [OF this] obtain w where w: "message_wire (plain_message m) w" "length w < 2 ^ 32 - 1" .
  obtain tr where "session st' (map fst tr) f"
    "list_all (\<lambda>(m, w). message_wire m w \<and> length w < 2 ^ 32 - 1) tr"
    "map fst tr = map plain_message ms" by (rule session_step.IH)
  with w session_step.hyps(1) show ?case
    by (intro session_step.prems [of "(plain_message m, w) # tr"])
       (auto simp: plain_next intro: session.session_step)
next
  case (session_stop st m)
  from session_stop.hyps(1) have "next_state st m \<noteq> None" by simp
  from plain_wire [OF this] obtain w where "message_wire (plain_message m) w" "length w < 2 ^ 32 - 1" .
  with session_stop.hyps(1) show ?case
    by (intro session_stop.prems [of "[(plain_message m, w)]"])
       (auto simp: plain_next intro: session.session_stop)
qed

section \<open>The states of the loop\<close>

abbreviation sides_of :: "(Message \<times> u8 list) list \<Rightarrow> Side list" where
  "sides_of \<equiv> map (\<lambda>x. message_side (fst x))"

context conveyor_reliable
begin

text \<open>\<open>Bound\<close> is never reached; every other state is, by messages that only have to arrive.\<close>

lemma loop_never_bound:
  "loop_state env choices State.GotStartup c = Some (st, c') \<Longrightarrow> st \<noteq> State.Bound"
  using loop_state_session [of choices State.GotStartup c st c'] reached_not_bound by blast

lemma loop_comes_to:
  assumes "st \<noteq> State.Bound"
  obtains tr where "list_all (\<lambda>(m, w). message_wire m w) tr"
    "\<And>c r. live c \<Longrightarrow> (\<And>side. arriving side c = wires side tr @ r side) \<Longrightarrow>
      \<exists>c'. loop_state env (sides_of tr) State.GotStartup c = Some (st, c') \<and> conveys fi fo bi bo tr c c'"
proof -
  from reached_all [OF assms] obtain ms where "session State.GotStartup ms (Next st)"
    by (auto simp: reached_def)
  then obtain tr where "session State.GotStartup (map fst tr) (Next st)"
    and wire: "list_all (\<lambda>(m, w). message_wire m w \<and> length w < 2 ^ 32 - 1) tr"
    by (rule session_on_wire)
  moreover have "list_all (\<lambda>(m, w). message_wire m w \<and> length w < 2 ^ 32) tr"
    "list_all (\<lambda>(m, w). message_wire m w) tr"
    using wire by (auto simp: list_all_iff)
  ultimately show thesis
    using that [of tr] loop_state_complete [of State.GotStartup tr st] by blast
qed

lemma loop_reaches:
  "st \<noteq> State.Bound \<Longrightarrow> \<exists>tr. list_all (\<lambda>(m, w). message_wire m w) tr
    \<and> (\<forall>c r. live c \<longrightarrow> (\<forall>side. arriving side c = wires side tr @ r side) \<longrightarrow>
         (\<exists>c'. loop_state env (sides_of tr) State.GotStartup c = Some (st, c') \<and> conveys fi fo bi bo tr c c'))"
  by (erule loop_comes_to) blast

text \<open>From wherever the loop is, messages without an error of the backend, that only have to
  arrive, end it with success.\<close>

lemma loop_way_out:
  assumes "loop_state env choices State.GotStartup c0 = Some (st, c1)"
  obtains tr where "\<forall>m\<in>set (map fst tr). \<not> is_error m"
    "fst (last tr) = Message.Frontend (FrontendMsg.Terminate Terminate.Terminate)" "tr \<noteq> []"
    "\<And>c r. live c \<Longrightarrow> (\<And>side. arriving side c = wires side tr @ r side) \<Longrightarrow>
      \<exists>c'. go_loop env (sides_of tr) st c = (Return (), c') \<and> conveys fi fo bi bo tr c c'"
proof -
  let ?bye = "Message.Frontend (FrontendMsg.Terminate Terminate.Terminate)"
  from recovers_all [OF loop_never_bound [OF assms]] obtain ms where
    ready: "session st ms (Next State.ReadyForQuery)" and ok: "\<forall>m\<in>set ms. \<not> is_error m"
    by (auto simp: recovers_def is_error_def)
  have "session State.ReadyForQuery [?bye] Stop" by (simp add: session_Cons)
  from session_append [OF ready this] have "session st (ms @ [?bye]) Stop" .
  then obtain tr where s: "session st (map fst tr) Stop"
    and wire: "list_all (\<lambda>(m, w). message_wire m w \<and> length w < 2 ^ 32 - 1) tr"
    and same: "map fst tr = map plain_message ms @ [?bye]"
    by (rule session_on_wire) simp
  have "list_all (\<lambda>(m, w). message_wire m w \<and> length w < 2 ^ 32) tr"
    using wire by (auto simp: list_all_iff)
  from go_loop_complete [OF s _ this] have run: "\<exists>c'. go_loop env (sides_of tr) st c = (Return (), c')
      \<and> conveys fi fo bi bo tr c c'"
    if "live c" "\<And>side. arriving side c = wires side tr @ r side" for c r
    using that by blast
  have "tr \<noteq> []" using same by auto
  moreover from this same have "fst (last tr) = ?bye" using last_map [of tr fst] by simp
  moreover have "\<forall>m\<in>set (map fst tr). \<not> is_error m"
    unfolding same using ok by (auto simp: plain_is_error) (simp add: is_error_def)
  ultimately show thesis using that run by blast
qed

end

end
