(* ===== verification/Error_Fields.thy ===== *)
theory Error_Fields
  imports Protocol
begin

text \<open>
  The fields of ErrorResponse and NoticeResponse, by a table of their own: which type, a letter,
  announces which field. The bodies that \<open>Backend_Bodies\<close> decodes are described through it,
  without the table of setters of the program.
\<close>

definition field_table :: "(char \<times> (ErrorOrNoticeFields \<Rightarrow> u8 list option)) list" where
  "field_table =
     [(CHR ''S'', localized_severity), (CHR ''V'', severity), (CHR ''C'', code), (CHR ''M'', message),
      (CHR ''D'', detail), (CHR ''H'', hint), (CHR ''P'', position), (CHR ''p'', internal_position),
      (CHR ''q'', internal_query), (CHR ''W'', where_field), (CHR ''s'', schema), (CHR ''t'', table),
      (CHR ''c'', column), (CHR ''d'', data_type), (CHR ''n'', constraint), (CHR ''F'', file_field),
      (CHR ''L'', line), (CHR ''R'', routine)]"

definition known_types :: "u8 set" where
  "known_types = (\<lambda>(c, _). byte_char c) ` set field_table"

text \<open>The value of the last field of a type.\<close>

definition last_field :: "(u8 \<times> u8 list) list \<Rightarrow> u8 \<Rightarrow> u8 list option" where
  "last_field fs t = map_of (rev fs) t"

text \<open>Fields on the wire that make up the struct.\<close>

definition fields_give :: "(u8 \<times> u8 list) list \<Rightarrow> ErrorOrNoticeFields \<Rightarrow> bool" where
  "fields_give fs r \<longleftrightarrow>
     list_all (\<lambda>(t, v). t \<in> known_types \<and> 0 \<notin> set v) fs
     \<and> list_all (\<lambda>(c, field). field r = last_field fs (byte_char c)) field_table"

lemma known_setter: "t \<in> known_types \<longleftrightarrow> t \<noteq> 0 \<and> field_setter t \<noteq> None"
  by (auto simp: known_types_def field_table_def field_setter_def byte_char_def)

lemma field_valid_known: "field_valid f \<longleftrightarrow> (case f of (t, v) \<Rightarrow> t \<in> known_types \<and> 0 \<notin> set v)"
  by (cases f) (auto simp: field_valid_def known_setter)

lemma field_set:
  assumes "field_setter t = Some g"
  shows "list_all (\<lambda>(c, field). field (g v r) = (if byte_char c = t then Some v else field r)) field_table"
  using assms
  by (auto simp: field_setter_def field_table_def byte_char_def split: if_splits)

lemma fields_set:
  "list_all field_valid fs \<Longrightarrow>
    list_all (\<lambda>(c, field). field (foldl set_field ErrorOrNoticeFields_default fs) = last_field fs (byte_char c))
      field_table"
proof (induction fs rule: rev_induct)
  case Nil
  then show ?case by (simp add: field_table_def last_field_def ErrorOrNoticeFields_default_def)
next
  case (snoc f fs)
  obtain t v where f: "f = (t, v)" by fastforce
  with snoc.prems obtain g where g: "field_setter t = Some g" by (auto simp: field_valid_def)
  have "field (foldl set_field ErrorOrNoticeFields_default (fs @ [f])) = last_field (fs @ [f]) (byte_char c)"
    if "(c, field) \<in> set field_table" for c field
  proof -
    have "field (foldl set_field ErrorOrNoticeFields_default fs) = last_field fs (byte_char c)"
      using snoc that by (fastforce simp: list_all_iff)
    moreover have "field (g v (foldl set_field ErrorOrNoticeFields_default fs)) =
        (if byte_char c = t then Some v else field (foldl set_field ErrorOrNoticeFields_default fs))"
      using field_set [OF g] that by (fastforce simp: list_all_iff)
    ultimately show ?thesis using f g by (simp add: last_field_def set_field_def)
  qed
  then show ?case by (auto simp: list_all_iff)
qed

lemma fields_determined:
  "list_all (\<lambda>(c, field). field r = field r') field_table \<Longrightarrow> r = r'"
  by (rule ErrorOrNoticeFields.equality) (simp_all add: field_table_def)

lemma fields_wire_table:
  "fields_wire r body \<longleftrightarrow>
     (\<exists>fs. fields_give fs r \<and> body = concat (map (\<lambda>(t, v). t # v @ [0]) fs) @ [0])"
proof -
  have "list_all field_valid fs \<and> r = foldl set_field ErrorOrNoticeFields_default fs \<longleftrightarrow> fields_give fs r" for fs
  proof
    assume "list_all field_valid fs \<and> r = foldl set_field ErrorOrNoticeFields_default fs"
    with fields_set [of fs] show "fields_give fs r"
      by (simp add: fields_give_def field_valid_known [abs_def])
  next
    assume give: "fields_give fs r"
    then have valid: "list_all field_valid fs" by (simp add: fields_give_def field_valid_known [abs_def])
    have "r = foldl set_field ErrorOrNoticeFields_default fs"
      by (rule fields_determined) (use give fields_set [OF valid] in \<open>fastforce simp: fields_give_def list_all_iff\<close>)
    with valid show "list_all field_valid fs \<and> r = foldl set_field ErrorOrNoticeFields_default fs" by simp
  qed
  moreover have "map field_wire fs = map (\<lambda>(t, v). t # v @ [0]) fs" for fs
    by (simp add: field_wire_def case_prod_unfold)
  ultimately show ?thesis unfolding fields_wire_def by metis
qed

lemma ErrorResponse_decodes:
  "decode_whole ErrorResponse_msg body = Inr (ErrorResponse.ErrorResponse r) \<longleftrightarrow> fields_wire r body"
  by (simp add: whole_iffs msg_defs)

end
