(* ===== verification/Dump_Text.thy ===== *)
theory Dump_Text
  imports Dump
begin

text \<open>
  The text the program prints: \<open>{:?}\<close> of the standard library lays out the trees of \<open>Dump\<close>, and
  \<open>println!\<close> in \<open>dump_msg\<close> of \<open>src/src/main.rs\<close> puts a prefix before it and a line feed behind it.
  Text is a list of Unicode scalar values. Which characters are printable is left open
  (\<open>printable\<close>): the tables of Unicode are not modelled. It is shown which trees can be read off
  their text; the names of fields matter, because the formatter prints them as they are.
\<close>

section \<open>Layout\<close>

definition digit_char :: "nat \<Rightarrow> nat" where
  "digit_char d = (if d < 10 then 48 + d else 87 + d)"

fun digits :: "nat \<Rightarrow> nat \<Rightarrow> nat list" where
  "digits base n =
     (if base \<le> 1 \<or> n < base then [digit_char n] else digits base (n div base) @ [digit_char (n mod base)])"

declare digits.simps [simp del]

definition number_text :: "int \<Rightarrow> nat list" where
  "number_text i = (if i < 0 then 45 # digits 10 (nat (- i)) else digits 10 (nat i))"

text \<open>\<open>char::escape_debug\<close>, as \<open>str\<close> uses it.\<close>

definition char_text :: "(nat \<Rightarrow> bool) \<Rightarrow> nat \<Rightarrow> nat list" where
  "char_text printable c =
     (if c = 0 then lit [CHR 92, CHR ''0'']
      else if c = 9 then lit [CHR 92, CHR ''t'']
      else if c = 10 then lit [CHR 92, CHR ''n'']
      else if c = 13 then lit [CHR 92, CHR ''r'']
      else if c = 34 then lit [CHR 92, CHR 34]
      else if c = 92 then lit [CHR 92, CHR 92]
      else if printable c then [c]
      else lit [CHR 92, CHR ''u'', CHR ''{''] @ digits 16 c @ lit ''}'')"

definition str_text :: "(nat \<Rightarrow> bool) \<Rightarrow> nat list \<Rightarrow> nat list" where
  "str_text printable s = 34 # concat (map (char_text printable) s) @ [34]"

primrec commas :: "nat list list \<Rightarrow> nat list" where
  "commas [] = []"
| "commas (x # xs) = x @ (if xs = [] then [] else lit '', '' @ commas xs)"

definition field_text :: "nat list \<times> nat list \<Rightarrow> nat list" where
  "field_text f = fst f @ lit '': '' @ snd f"

primrec debug_text :: "(nat \<Rightarrow> bool) \<Rightarrow> debug \<Rightarrow> nat list" where
  "debug_text printable (Number i) = number_text i"
| "debug_text printable (Str s) = str_text printable s"
| "debug_text printable (DebugStruct n fs) =
     lit n @ (if fs = [] then []
              else lit '' { '' @ commas (map field_text (map (map_prod id (debug_text printable)) fs)) @ lit '' }'')"
| "debug_text printable (DebugTuple n ds) =
     lit n @ (if ds = [] then [] else lit ''('' @ commas (map (debug_text printable) ds) @ lit '')'')"
| "debug_text printable (DebugList ds) = lit ''['' @ commas (map (debug_text printable) ds) @ lit '']''"

primrec line_text :: "(nat \<Rightarrow> bool) \<Rightarrow> dump_line \<Rightarrow> nat list" where
  "line_text printable (GotFromServer t) = lit ''postgread got from server '' @ debug_text printable t @ [10]"
| "line_text printable (GotFromClient t) = lit ''postgread got from client '' @ debug_text printable t @ [10]"

text \<open>What is on the standard output after some messages.\<close>

definition dumped :: "(nat \<Rightarrow> bool) \<Rightarrow> hex \<Rightarrow> Message list \<Rightarrow> nat list" where
  "dumped printable hx ms = concat (map (\<lambda>m. line_text printable (dump_msg hx m)) ms)"

section \<open>Reading tokens\<close>

definition stops :: "(nat \<Rightarrow> bool) \<Rightarrow> nat list \<Rightarrow> bool" where
  "stops P x \<longleftrightarrow> (case x of [] \<Rightarrow> True | c # _ \<Rightarrow> \<not> P c)"

lemma stops_simps [simp]: "stops P []" "stops P (c # x) \<longleftrightarrow> \<not> P c"
  by (simp_all add: stops_def)

lemma token:
  "list_all P a \<Longrightarrow> list_all P b \<Longrightarrow> stops P x \<Longrightarrow> stops P y \<Longrightarrow> a @ x = b @ y \<Longrightarrow> a = b \<and> x = y"
proof (induction a arbitrary: b)
  case Nil
  then show ?case by (cases b) auto
next
  case (Cons c a)
  then show ?case by (cases b) auto
qed

definition alnum :: "nat \<Rightarrow> bool" where
  "alnum c \<longleftrightarrow> 48 \<le> c \<and> c \<le> 57 \<or> 65 \<le> c \<and> c \<le> 90 \<or> 97 \<le> c \<and> c \<le> 122"

definition char_digit :: "nat \<Rightarrow> nat" where
  "char_digit c = (if c < 58 then c - 48 else c - 87)"

lemma char_digit_char [simp]: "char_digit (digit_char d) = d"
  by (simp add: char_digit_def digit_char_def)

lemma digits_value:
  "1 < base \<Longrightarrow> foldl (\<lambda>v c. v * base + char_digit c) 0 (digits base n) = n"
proof (induction base n rule: digits.induct)
  case (1 base n)
  show ?case
  proof (cases "n < base")
    case True
    then show ?thesis by (simp add: digits.simps [of base n])
  next
    case False
    with 1 show ?thesis by (simp add: digits.simps [of base n])
  qed
qed

lemma digits_inject: "1 < base \<Longrightarrow> digits base n = digits base m \<longleftrightarrow> n = m"
  by (metis digits_value)

lemma digits_alnum: "1 < base \<Longrightarrow> base \<le> 16 \<Longrightarrow> list_all alnum (digits base n)"
proof (induction base n rule: digits.induct)
  case (1 base n)
  have d: "alnum (digit_char d)" if "d < 16" for d
    using that by (simp add: alnum_def digit_char_def)
  show ?case
  proof (cases "n < base")
    case True
    with 1 d [of n] show ?thesis by (simp add: digits.simps [of base n])
  next
    case False
    have "n mod base < 16" using 1 by (meson less_le_trans mod_less_divisor order.strict_trans zero_less_one)
    with 1 False d [of "n mod base"] show ?thesis by (simp add: digits.simps [of base n])
  qed
qed

lemma digits_head: "\<exists>c r. digits 10 n = c # r \<and> 48 \<le> c \<and> c \<le> 57"
proof (induction "10 :: nat" n rule: digits.induct)
  case (1 n)
  then show ?case
    by (cases "n < 10") (auto simp: digits.simps [of 10 n] digit_char_def)
qed

lemma number_read:
  assumes "number_text i @ x = number_text j @ y" and "stops alnum x" and "stops alnum y"
  shows "i = j \<and> x = y"
proof -
  have read: "a = b \<and> x = y" if "digits 10 a @ x = digits 10 b @ y" for a b
    using token [OF digits_alnum digits_alnum assms(2,3) that] by (simp add: digits_inject)
  obtain c r d s where head: "digits 10 (nat i) = c # r" "48 \<le> c" "digits 10 (nat j) = d # s" "48 \<le> d"
    using digits_head [of "nat i"] digits_head [of "nat j"] by blast
  show ?thesis
  proof (cases "i < 0 \<longleftrightarrow> j < 0")
    case True
    show ?thesis
    proof (cases "i < 0")
      case neg: True
      with True assms(1) have "digits 10 (nat (- i)) @ x = digits 10 (nat (- j)) @ y"
        by (simp add: number_text_def)
      from read [OF this] neg True show ?thesis by (simp add: nat_eq_iff2)
    next
      case pos: False
      with True assms(1) have "digits 10 (nat i) @ x = digits 10 (nat j) @ y"
        by (simp add: number_text_def)
      from read [OF this] have "nat i = nat j" "x = y" by simp_all
      with pos True show ?thesis by (simp add: nat_eq_iff)
    qed
  next
    case False
    then show ?thesis using assms(1) head by (cases "i < 0") (simp_all add: number_text_def)
  qed
qed

lemma char_text_head: "\<exists>c r. char_text printable a = c # r \<and> c \<noteq> 34"
  by (simp add: char_text_def lit_def)

text \<open>The characters that have an escape of two characters.\<close>

definition short_escapes :: "(nat \<times> nat) list" where
  "short_escapes = [(0, 48), (9, 116), (10, 110), (13, 114), (34, 34), (92, 92)]"

lemma short_escapes_inject:
  "(a, k) \<in> set short_escapes \<Longrightarrow> (b, k) \<in> set short_escapes \<Longrightarrow> a = b"
  "(a, k) \<in> set short_escapes \<Longrightarrow> k \<noteq> 117"
  by (auto simp: short_escapes_def)

lemma char_text_kinds:
  obtains (raw) "char_text printable a = [a]" "a \<noteq> 92"
  | (short) k where "char_text printable a = [92, k]" "(a, k) \<in> set short_escapes"
  | (hex) "char_text printable a = 92 # 117 # 123 # digits 16 a @ [125]"
proof -
  have "char_text printable a = [a] \<and> a \<noteq> 92
      \<or> (\<exists>k. char_text printable a = [92, k] \<and> (a, k) \<in> set short_escapes)
      \<or> char_text printable a = 92 # 117 # 123 # digits 16 a @ [125]"
    by (simp add: char_text_def lit_def short_escapes_def)
  with raw short hex show thesis by blast
qed

lemma hex_read:
  assumes "digits 16 a @ 125 # x = digits 16 b @ 125 # y" shows "a = b \<and> x = y"
  using token [OF digits_alnum digits_alnum _ _ assms] by (simp add: digits_inject alnum_def)

lemma char_read:
  assumes eq: "char_text printable a @ x = char_text printable b @ y"
  shows "a = b \<and> x = y"
proof (cases rule: char_text_kinds [of printable a])
  case raw
  with eq show ?thesis by (cases rule: char_text_kinds [of printable b]) auto
next
  case short
  with eq show ?thesis
    by (cases rule: char_text_kinds [of printable b]) (auto dest: short_escapes_inject)
next
  case hex
  with eq show ?thesis
    by (cases rule: char_text_kinds [of printable b]) (auto dest: short_escapes_inject hex_read)
qed

lemma str_read:
  assumes "str_text printable s @ x = str_text printable t @ y"
  shows "s = t \<and> x = y"
proof -
  have "concat (map (char_text printable) s) @ 34 # x = concat (map (char_text printable) t) @ 34 # y
      \<Longrightarrow> s = t \<and> x = y"
  proof (induction s arbitrary: t)
    case Nil
    show ?case
    proof (cases t)
      case (Cons b t')
      with Nil char_text_head [of printable b] show ?thesis by auto
    qed (use Nil in simp)
  next
    case (Cons a s)
    show ?case
    proof (cases t)
      case Nil
      with Cons.prems char_text_head [of printable a] show ?thesis by auto
    next
      case (Cons b t')
      with Cons.prems char_read [of printable a _ b] have "a = b"
        "concat (map (char_text printable) s) @ 34 # x = concat (map (char_text printable) t') @ 34 # y"
        by force+
      with Cons Cons.IH [of t'] show ?thesis by simp
    qed
  qed
  with assms show ?thesis by (simp add: str_text_def)
qed

section \<open>Reading trees\<close>

text \<open>Names of types are identifiers; the names of fields may be anything without a colon. The two
  ways to show a value without fields give the same text, a name, and must be used for different
  names.\<close>

definition type_name :: "string \<Rightarrow> bool" where
  "type_name n \<longleftrightarrow> (case lit n of [] \<Rightarrow> False | c # _ \<Rightarrow> 65 \<le> c \<and> c \<le> 90) \<and> list_all alnum (lit n)"

definition unit_structs :: "string list" where
  "unit_structs = [''ErrorOrNoticeFields'', ''EmptyQueryResponse'', ''Terminate'']"

primrec readable :: "debug \<Rightarrow> bool" where
  "readable (Number i) \<longleftrightarrow> True"
| "readable (Str s) \<longleftrightarrow> True"
| "readable (DebugStruct n fs) \<longleftrightarrow> type_name n \<and> (fs = [] \<longrightarrow> n \<in> set unit_structs)
     \<and> list_all (\<lambda>f. 58 \<notin> set (fst f) \<and> snd f) (map (map_prod id readable) fs)"
| "readable (DebugTuple n ds) \<longleftrightarrow> type_name n \<and> (ds = [] \<longrightarrow> n \<notin> set unit_structs)
     \<and> list_all id (map readable ds)"
| "readable (DebugList ds) \<longleftrightarrow> list_all id (map readable ds)"

text \<open>What can follow the text of a tree: the end, a line feed, a comma, a closing bracket or a
  space and a brace.\<close>

definition ends :: "nat list \<Rightarrow> bool" where
  "ends x \<longleftrightarrow> (case x of [] \<Rightarrow> True | c # r \<Rightarrow> c \<in> {10, 44, 41, 93} \<or> c = 32 \<and> (\<exists>s. r = 125 # s))"

lemma ends_stops: "ends x \<Longrightarrow> stops alnum x"
  by (auto simp: ends_def stops_def alnum_def split: list.splits)

lemma commas_read:
  assumes "\<And>a b x y. a \<in> set as \<Longrightarrow> b \<in> set bs \<Longrightarrow> ends x \<Longrightarrow> ends y \<Longrightarrow> g a @ x = g b @ y
      \<Longrightarrow> a = b \<and> x = y"
    and "\<And>x. ends (z @ x)" and "z \<noteq> []" and "hd z \<noteq> 44" and "as \<noteq> []" and "bs \<noteq> []"
    and "commas (map g as) @ z @ x = commas (map g bs) @ z @ y"
  shows "as = bs \<and> x = y"
  using assms(1,5-7)
proof (induction as arbitrary: bs)
  case Nil
  then show ?case by simp
next
  case (Cons a as)
  obtain b bs' where bs: "bs = b # bs'" using Cons.prems(3) by (cases bs) auto
  let ?later = "\<lambda>cs x. (if cs = [] then [] else 44 # 32 # commas (map g cs)) @ z @ x"
  have shape: "commas (map g (c # cs)) @ z @ x = g c @ ?later cs x" for c cs x
    by (simp add: lit_def)
  have "ends (?later cs x)" for cs x
    using assms(2) [of x] by (simp add: ends_def)
  with Cons.prems(1) [of a b "?later as x" "?later bs' y"] Cons.prems(4) [unfolded bs shape] bs
  have same: "a = b" "?later as x = ?later bs' y" by simp_all
  obtain c z' where z: "z = c # z'" "c \<noteq> 44" using assms(3,4) by (cases z) auto
  show ?case
  proof (cases "as = [] \<or> bs' = []")
    case True
    with same z bs show ?thesis by (auto split: if_splits)
  next
    case False
    with same(2) have "commas (map g as) @ z @ x = commas (map g bs') @ z @ y" by simp
    moreover have "c \<in> set as \<Longrightarrow> d \<in> set bs' \<Longrightarrow> ends x \<Longrightarrow> ends y \<Longrightarrow> g c @ x = g d @ y \<Longrightarrow> c = d \<and> x = y"
      for c d x y using Cons.prems(1) [of c d x y] bs by simp
    ultimately have "as = bs' \<and> x = y" using False by (intro Cons.IH) auto
    with same(1) bs show ?thesis by simp
  qed
qed

lemma field_read:
  assumes "58 \<notin> set f" and "58 \<notin> set g" and "field_text (f, s) @ x = field_text (g, t) @ y"
  shows "f = g \<and> s @ x = t @ y"
proof -
  from assms(3) have "f @ 58 # 32 # s @ x = g @ 58 # 32 # t @ y" by (simp add: field_text_def lit_def)
  from token [OF _ _ _ _ this, of "\<lambda>c. c \<noteq> 58"] assms(1,2) show ?thesis
    by (auto simp: list_all_iff)
qed

text \<open>The first character tells numbers, strings, named values and lists apart.\<close>

definition char_class :: "nat \<Rightarrow> nat" where
  "char_class c = (if c = 34 then 1 else if c = 91 then 2 else if 65 \<le> c \<and> c \<le> 90 then 3
     else if c = 45 \<or> 48 \<le> c \<and> c \<le> 57 then 0 else 4)"

primrec tree_class :: "debug \<Rightarrow> nat" where
  "tree_class (Number i) = 0"
| "tree_class (Str s) = 1"
| "tree_class (DebugList ds) = 2"
| "tree_class (DebugStruct n fs) = 3"
| "tree_class (DebugTuple n ds) = 3"

lemma char_class_values [simp]: "char_class 34 = 1" "char_class 91 = 2" "char_class 45 = 0"
  "48 \<le> c \<Longrightarrow> c \<le> 57 \<Longrightarrow> char_class c = 0" "65 \<le> c \<Longrightarrow> c \<le> 90 \<Longrightarrow> char_class c = 3"
  by (simp_all add: char_class_def)

lemma number_head: "\<exists>c r. number_text i = c # r \<and> char_class c = 0"
proof (cases "i < 0")
  case True
  then show ?thesis by (simp add: number_text_def)
next
  case False
  obtain c r where "digits 10 (nat i) = c # r" "48 \<le> c" "c \<le> 57" using digits_head by blast
  with False show ?thesis by (simp add: number_text_def)
qed

lemma name_head: "type_name n \<Longrightarrow> \<exists>c r. lit n = c # r \<and> char_class c = 3"
  by (auto simp: type_name_def split: list.splits)

lemma text_head:
  "readable t \<Longrightarrow> \<exists>c r. debug_text printable t = c # r \<and> char_class c = tree_class t"
proof (cases t)
  case (Number i)
  then show ?thesis using number_head [of i] by simp
next
  case (DebugStruct n fs)
  assume "readable t"
  with DebugStruct name_head [of n] show ?thesis by auto
next
  case (DebugTuple n ds)
  assume "readable t"
  with DebugTuple name_head [of n] show ?thesis by auto
qed (simp_all add: str_text_def lit_def)

lemma text_class:
  assumes "readable s" and "readable t" and "debug_text printable s @ x = debug_text printable t @ y"
  shows "tree_class s = tree_class t"
  using text_head [OF assms(1), of printable] text_head [OF assms(2), of printable] assms(3) by auto

text \<open>What follows the name of a value.\<close>

definition struct_tail :: "(nat \<Rightarrow> bool) \<Rightarrow> (nat list \<times> debug) list \<Rightarrow> nat list" where
  "struct_tail printable fs =
     (if fs = [] then []
      else lit '' { '' @ commas (map (\<lambda>f. field_text (fst f, debug_text printable (snd f))) fs) @ lit '' }'')"

definition tuple_tail :: "(nat \<Rightarrow> bool) \<Rightarrow> debug list \<Rightarrow> nat list" where
  "tuple_tail printable ds =
     (if ds = [] then [] else lit ''('' @ commas (map (debug_text printable) ds) @ lit '')'')"

lemma named_text:
  "debug_text printable (DebugStruct n fs) = lit n @ struct_tail printable fs"
  "debug_text printable (DebugTuple n ds) = lit n @ tuple_tail printable ds"
  by (simp_all add: struct_tail_def tuple_tail_def map_prod_def case_prod_unfold comp_def)

lemma tail_stops: "ends x \<Longrightarrow> stops alnum (struct_tail printable fs @ x)" "ends x \<Longrightarrow> stops alnum (tuple_tail printable ds @ x)"
  by (simp_all add: struct_tail_def tuple_tail_def lit_def alnum_def ends_stops)

lemma name_read:
  assumes "type_name n" and "type_name m" and "stops alnum x" and "stops alnum y" and "lit n @ x = lit m @ y"
  shows "n = m \<and> x = y"
  using token [OF _ _ assms(3,4,5)] assms(1,2) by (simp add: type_name_def)

text \<open>A tree is read off its text, whatever tree the text is compared with.\<close>

definition read_back :: "(nat \<Rightarrow> bool) \<Rightarrow> debug \<Rightarrow> bool" where
  "read_back printable t \<longleftrightarrow>
     (\<forall>t' x y. readable t' \<longrightarrow> ends x \<longrightarrow> ends y \<longrightarrow>
        debug_text printable t @ x = debug_text printable t' @ y \<longrightarrow> t = t' \<and> x = y)"

lemma trees_read:
  assumes "\<And>t. t \<in> set ds \<Longrightarrow> read_back printable t" and "list_all readable ds'"
    and "z = 93 \<or> z = 41" and "ds \<noteq> []" and "ds' \<noteq> []"
    and "commas (map (debug_text printable) ds) @ z # x = commas (map (debug_text printable) ds') @ z # y"
  shows "ds = ds' \<and> x = y"
proof (rule commas_read [of ds ds' "debug_text printable" "[z]"])
  show "a = b \<and> x = y"
    if "a \<in> set ds" "b \<in> set ds'" "ends x" "ends y" "debug_text printable a @ x = debug_text printable b @ y"
    for a b x y
    using assms(1) [OF that(1)] assms(2) that unfolding read_back_def list_all_iff by blast
qed (use assms(3-6) in \<open>auto simp: ends_def\<close>)

lemma fields_read:
  assumes "\<And>f. f \<in> set fs \<Longrightarrow> read_back printable (snd f) \<and> 58 \<notin> set (fst f)"
    and "list_all (\<lambda>f. 58 \<notin> set (fst f) \<and> readable (snd f)) gs" and "fs \<noteq> []" and "gs \<noteq> []"
    and "commas (map (\<lambda>f. field_text (fst f, debug_text printable (snd f))) fs) @ 32 # 125 # x
       = commas (map (\<lambda>f. field_text (fst f, debug_text printable (snd f))) gs) @ 32 # 125 # y"
  shows "fs = gs \<and> x = y"
proof (rule commas_read [of fs gs "\<lambda>f. field_text (fst f, debug_text printable (snd f))" "[32, 125]"])
  show "f = g \<and> x = y"
    if "f \<in> set fs" "g \<in> set gs" "ends x" "ends y"
      "field_text (fst f, debug_text printable (snd f)) @ x = field_text (fst g, debug_text printable (snd g)) @ y"
    for f g x y
  proof -
    have "58 \<notin> set (fst f)" "58 \<notin> set (fst g)" "readable (snd g)" "read_back printable (snd f)"
      using assms(1) [OF that(1)] assms(2) that(2) by (auto simp: list_all_iff)
    with field_read [OF _ _ that(5)] that(3,4) show ?thesis
      unfolding read_back_def by (metis prod.expand)
  qed
qed (use assms(3-5) in \<open>auto simp: ends_def\<close>)

lemma struct_read:
  assumes "\<And>f. f \<in> set fs \<Longrightarrow> read_back printable (snd f)"
    and "readable (DebugStruct n fs)" and "readable t" and "ends x" and "ends y"
    and "debug_text printable (DebugStruct n fs) @ x = debug_text printable t @ y"
  shows "DebugStruct n fs = t \<and> x = y"
proof -
  have "tree_class t = 3" using text_class [OF assms(2,3,6)] by simp
  then consider (struct) m gs where "t = DebugStruct m gs" | (tuple) m ds where "t = DebugTuple m ds"
    by (cases t) simp_all
  then show ?thesis
  proof cases
    case struct
    with name_read [of n m "struct_tail printable fs @ x" "struct_tail printable gs @ y"] assms(2-6)
    have "n = m" and tail: "struct_tail printable fs @ x = struct_tail printable gs @ y"
      by (simp_all only: named_text readable.simps append_assoc tail_stops)
    have "fs = gs \<and> x = y"
    proof (cases "fs = [] \<or> gs = []")
      case True
      with tail assms(4,5) show ?thesis by (auto simp: struct_tail_def ends_def lit_def split: if_splits)
    next
      case False
      show ?thesis
      proof (rule fields_read)
        show "read_back printable (snd f) \<and> 58 \<notin> set (fst f)" if "f \<in> set fs" for f
          using assms(1) [OF that] assms(2) that by (auto simp: list_all_iff)
        show "list_all (\<lambda>f. 58 \<notin> set (fst f) \<and> readable (snd f)) gs"
          using assms(3) struct by (auto simp: list_all_iff)
      qed (use False tail in \<open>simp_all add: struct_tail_def lit_def\<close>)
    qed
    with struct \<open>n = m\<close> show ?thesis by simp
  next
    case tuple
    with name_read [of n m "struct_tail printable fs @ x" "tuple_tail printable ds @ y"] assms(2-6)
    have "n = m" and tail: "struct_tail printable fs @ x = tuple_tail printable ds @ y"
      by (simp_all only: named_text readable.simps append_assoc tail_stops)
    with assms(2-5) tuple have False
      by (auto simp: struct_tail_def tuple_tail_def ends_def lit_def split: if_splits)
    then show ?thesis ..
  qed
qed

lemma tuple_read:
  assumes "\<And>d. d \<in> set ds \<Longrightarrow> read_back printable d"
    and "readable (DebugTuple n ds)" and "readable t" and "ends x" and "ends y"
    and "debug_text printable (DebugTuple n ds) @ x = debug_text printable t @ y"
  shows "DebugTuple n ds = t \<and> x = y"
proof -
  have "tree_class t = 3" using text_class [OF assms(2,3,6)] by simp
  then consider (struct) m gs where "t = DebugStruct m gs" | (tuple) m es where "t = DebugTuple m es"
    by (cases t) simp_all
  then show ?thesis
  proof cases
    case tuple
    with name_read [of n m "tuple_tail printable ds @ x" "tuple_tail printable es @ y"] assms(2-6)
    have "n = m" and tail: "tuple_tail printable ds @ x = tuple_tail printable es @ y"
      by (simp_all only: named_text readable.simps append_assoc tail_stops)
    have "ds = es \<and> x = y"
    proof (cases "ds = [] \<or> es = []")
      case True
      with tail assms(4,5) show ?thesis by (auto simp: tuple_tail_def ends_def lit_def split: if_splits)
    next
      case False
      show ?thesis
      proof (rule trees_read [OF assms(1), where z = 41])
        show "list_all readable es" using assms(3) tuple by (auto simp: list_all_iff)
      qed (use False tail in \<open>simp_all add: tuple_tail_def lit_def\<close>)
    qed
    with tuple \<open>n = m\<close> show ?thesis by simp
  next
    case struct
    with name_read [of n m "tuple_tail printable ds @ x" "struct_tail printable gs @ y"] assms(2-6)
    have "n = m" and tail: "tuple_tail printable ds @ x = struct_tail printable gs @ y"
      by (simp_all only: named_text readable.simps append_assoc tail_stops)
    with assms(2-5) struct have False
      by (auto simp: struct_tail_def tuple_tail_def ends_def lit_def split: if_splits)
    then show ?thesis ..
  qed
qed

lemma list_read:
  assumes "\<And>d. d \<in> set ds \<Longrightarrow> read_back printable d"
    and "readable (DebugList ds)" and "readable t"
    and "debug_text printable (DebugList ds) @ x = debug_text printable t @ y"
  shows "DebugList ds = t \<and> x = y"
proof -
  have "tree_class t = 2" using text_class [OF assms(2,3,4)] by simp
  then obtain es where t: "t = DebugList es" by (cases t) simp_all
  have body: "commas (map (debug_text printable) ds) @ 93 # x = commas (map (debug_text printable) es) @ 93 # y"
    using assms(4) t by (simp add: lit_def)
  have empty: "us = []" if "93 # x = commas (map (debug_text printable) us) @ 93 # y" "list_all readable us" for us x y
  proof (cases us)
    case (Cons u us')
    with that(2) text_head [of u printable] obtain c r where "debug_text printable u = c # r"
      and c: "char_class c = tree_class u" by auto
    with that(1) Cons have "c = 93" by simp
    moreover have "tree_class u < 4" by (cases u) simp_all
    ultimately show ?thesis using c by (simp add: char_class_def)
  qed simp
  have "ds = es \<and> x = y"
  proof (cases "ds = [] \<or> es = []")
    case True
    with body empty [of x es y] empty [of y ds x] assms(2,3) t show ?thesis
      by (auto simp: list_all_iff)
  next
    case False
    show ?thesis
    proof (rule trees_read [OF assms(1), where z = 93])
      show "list_all readable es" using assms(3) t by (auto simp: list_all_iff)
    qed (use False body in simp_all)
  qed
  with t show ?thesis by simp
qed

lemma readable_read_back: "readable t \<Longrightarrow> read_back printable t"
proof (induction t)
  case (Number i)
  have "Number i = t \<and> x = y"
    if "readable t" "ends x" "ends y" "debug_text printable (Number i) @ x = debug_text printable t @ y" for t x y
  proof -
    from text_class [OF _ that(1,4)] obtain j where t: "t = Number j" by (cases t) simp_all
    with number_read [of i x j y] that ends_stops show ?thesis by simp
  qed
  then show ?case unfolding read_back_def by blast
next
  case (Str s)
  have "Str s = t \<and> x = y"
    if "readable t" "debug_text printable (Str s) @ x = debug_text printable t @ y" for t x y
  proof -
    from text_class [OF _ that] obtain s' where t: "t = Str s'" by (cases t) simp_all
    with str_read [of printable s x s' y] that show ?thesis by simp
  qed
  then show ?case unfolding read_back_def by blast
next
  case (DebugStruct n fs)
  have "read_back printable (snd f)" if "f \<in> set fs" for f
    using DebugStruct.IH [OF that, of "snd f"] DebugStruct.prems that by (cases f) (auto simp: list_all_iff)
  from struct_read [OF this DebugStruct.prems] show ?case unfolding read_back_def by blast
next
  case (DebugTuple n ds)
  have "read_back printable d" if "d \<in> set ds" for d
    using DebugTuple.IH [OF that] DebugTuple.prems that by (auto simp: list_all_iff)
  from tuple_read [OF this DebugTuple.prems] show ?case unfolding read_back_def by blast
next
  case (DebugList ds)
  have "read_back printable d" if "d \<in> set ds" for d
    using DebugList.IH [OF that] DebugList.prems that by (auto simp: list_all_iff)
  from list_read [OF this DebugList.prems] show ?case unfolding read_back_def by blast
qed

lemma debug_text_inject:
  "readable s \<Longrightarrow> readable t \<Longrightarrow> ends x \<Longrightarrow> ends y \<Longrightarrow> debug_text printable s @ x = debug_text printable t @ y
    \<Longrightarrow> s = t \<and> x = y"
  using readable_read_back [of s printable] unfolding read_back_def by blast

section \<open>Reading messages\<close>

text \<open>The names of parameters are shown as names of fields: these are without a colon.\<close>

fun plain_names :: "Message \<Rightarrow> bool" where
  "plain_names (Message.Backend (BackendMsg.ParameterStatus m)) \<longleftrightarrow> 58 \<notin> set (from_utf8_lossy (status_name m))"
| "plain_names (Message.Frontend (FrontendMsg.Initial (Initial.Startup s))) \<longleftrightarrow>
     list_all (\<lambda>p. 58 \<notin> set (from_utf8_lossy (param_name p))) (startup_params s)"
| "plain_names _ \<longleftrightarrow> True"

lemma readable_numbers [simp]: "readable (unsigned_fmt x)" "readable (signed_fmt y)"
  by (simp_all add: unsigned_fmt_def signed_fmt_def)

lemma readable_bytes [simp]: "readable (bytes_fmt b)"
  by (simp add: bytes_fmt_def list_all_iff)

lemma readable_str [simp]: "readable (lossy_str b)"
  by (simp add: lossy_str_def)

lemma type_names [simp]:
  "list_all type_name
     [''None'', ''Some'', ''Bytes'', ''Text'', ''Binary'', ''Null'', ''CleartextPassword'', ''Gss'', ''GssContinue'',
      ''KerberosV5'', ''Md5Password'', ''Ok'', ''Sasl'', ''SaslContinue'', ''SaslFinal'', ''ScmCredential'', ''Sspi'',
      ''BackendKeyData'', ''CommandComplete'', ''DataRow'', ''ErrorOrNoticeFields'', ''ErrorResponse'',
      ''NoticeResponse'', ''NegotiateProtocolVersion'', ''ParameterStatus'', ''Idle'', ''Transaction'', ''Error'',
      ''ReadyForQuery'', ''Field'', ''RowDescription'', ''Authentication'', ''BindComplete'', ''EmptyQueryResponse'',
      ''ParseComplete'', ''PortalSuspended'', ''Bind'', ''Execute'', ''GssResponse'', ''Version'', ''StartupParam'',
      ''Cancel'', ''Startup'', ''TLS'', ''Parse'', ''Password'', ''Query'', ''SaslInitialResponse'', ''SaslResponse'',
      ''Initial'', ''Sync'', ''Terminate'']"
  by (simp add: type_name_def lit_def alnum_def)

declare type_names [simplified list.pred_inject, simp]

lemma field_names [simp]: "58 \<in> set (lit n) \<longleftrightarrow> CHR '':'' \<in> set n"
proof -
  have "58 \<in> set (lit n) \<longleftrightarrow> of_char CHR '':'' \<in> (of_char :: char \<Rightarrow> nat) ` set n" by (simp add: lit_def)
  also have "\<dots> \<longleftrightarrow> CHR '':'' \<in> set n" by (auto simp only: image_iff of_char_eq_iff)
  finally show ?thesis by simp
qed

lemma readable_parts [simp]:
  "readable (Bytes_fmt hx b)" "readable (Text_fmt t)" "readable (Format_fmt f)" "readable (Value_fmt hx v)"
  "readable (Status_fmt s)" "readable (Field_fmt d)" "readable (Version_fmt r)"
proof -
  show b: "readable (Bytes_fmt hx b)" for b by (cases b) (simp add: unit_structs_def)
  show "readable (Text_fmt t)" by (cases t) (simp add: unit_structs_def)
  show f: "readable (Format_fmt f)" for f by (cases f) (simp_all add: unit_structs_def)
  show "readable (Value_fmt hx v)" using b by (cases v) (simp_all add: unit_structs_def)
  show "readable (Status_fmt s)" by (cases s) (simp_all add: unit_structs_def)
  show "readable (Field_fmt d)" using f by (simp add: Field_fmt_def)
  show "readable (Version_fmt r)" by (simp add: Version_fmt_def)
qed

lemma collected_readable:
  "list_all (\<lambda>(n, sel). CHR '':'' \<notin> set n) fs \<Longrightarrow>
    list_all (\<lambda>f. 58 \<notin> set (fst f) \<and> readable (snd f))
      (List.map_filter (\<lambda>(n, sel). map_option (\<lambda>v. (lit n, lossy_str v)) (sel r)) fs)"
  by (induction fs) (auto simp: map_filter_simps split: option.splits)

lemma readable_error_fields [simp]: "readable (ErrorOrNoticeFields_fmt r)"
proof -
  have "list_all (\<lambda>(n, sel). CHR '':'' \<notin> set n) error_fields" by (simp add: error_fields_def)
  from collected_readable [OF this] show ?thesis
    by (simp add: ErrorOrNoticeFields_fmt_def fmt_struct_of_opt_fields_def fmt_opt_fields_collect
          unit_structs_def list.pred_map comp_def)
qed

lemma readable_backend:
  "plain_names (Message.Backend m) \<Longrightarrow> readable (BackendMsg_fmt hx m)"
proof (cases m)
  case (Authentication a)
  then show ?thesis by (cases a) (simp_all add: unit_structs_def list_all_iff)
next
  case (ErrorResponse e)
  then show ?thesis by (cases e) (simp add: unit_structs_def)
next
  case (NoticeResponse e)
  then show ?thesis by (cases e) (simp add: unit_structs_def)
qed (simp_all add: unit_structs_def BackendKeyData_fmt_def CommandComplete_fmt_def DataRow_fmt_def
      NegotiateProtocolVersion_fmt_def ParameterStatus_fmt_def ReadyForQuery_fmt_def RowDescription_fmt_def
      list_all_iff)

lemma readable_initial:
  "plain_names (Message.Frontend (FrontendMsg.Initial i)) \<Longrightarrow> readable (Initial_fmt i)"
  by (cases i) (auto simp: unit_structs_def Cancel_fmt_def Startup_fmt_def StartupParam_fmt_def list_all_iff)

lemma readable_frontend:
  "plain_names (Message.Frontend m) \<Longrightarrow> readable (FrontendMsg_fmt hx m)"
proof (cases m)
  case (GssResponse e)
  then show ?thesis by (cases e) (simp add: unit_structs_def)
next
  case (Password e)
  then show ?thesis by (cases e) (simp add: unit_structs_def)
next
  case (Query e)
  then show ?thesis by (cases e) (simp add: unit_structs_def)
next
  case (Initial i)
  assume "plain_names (Message.Frontend m)"
  with Initial readable_initial [of i] show ?thesis by (simp add: unit_structs_def)
next
  case (SaslInitialResponse e)
  then show ?thesis
    by (cases "initial_mechanism_data e") (simp_all add: unit_structs_def SaslInitialResponse_fmt_def option_fmt_def)
qed (simp_all add: unit_structs_def Bind_fmt_def Execute_fmt_def Parse_fmt_def SaslResponse_fmt_def list_all_iff)

primrec line_tree :: "dump_line \<Rightarrow> debug" where
  "line_tree (GotFromServer t) = t"
| "line_tree (GotFromClient t) = t"

lemma readable_dump: "plain_names m \<Longrightarrow> readable (line_tree (dump_msg hx m))"
  by (cases m) (simp_all add: readable_backend readable_frontend)

lemma line_read:
  assumes "readable (line_tree l)" and "readable (line_tree k)"
    and "line_text printable l @ x = line_text printable k @ y"
  shows "l = k \<and> x = y"
proof -
  have read: "t = u \<and> x = y"
    if "readable t" "readable u" "debug_text printable t @ 10 # x = debug_text printable u @ 10 # y" for t u
    using debug_text_inject [OF that(1,2) _ _ that(3)] by (simp add: ends_def)
  show ?thesis
  proof (cases l)
    case l: (GotFromServer t)
    with assms(3) obtain u where k: "k = GotFromServer u" by (cases k) (simp_all add: lit_def)
    with read [of t u] l assms show ?thesis by simp
  next
    case l: (GotFromClient t)
    with assms(3) obtain u where k: "k = GotFromClient u" by (cases k) (simp_all add: lit_def)
    with read [of t u] l assms show ?thesis by simp
  qed
qed

text \<open>The messages can be read off what was printed.\<close>

lemma dumped_inject:
  assumes "inj hx"
  shows "list_all (\<lambda>m. Message_utf8 m \<and> plain_names m) ms \<Longrightarrow> list_all (\<lambda>m. Message_utf8 m \<and> plain_names m) ms'
    \<Longrightarrow> dumped printable hx ms = dumped printable hx ms' \<Longrightarrow> ms = ms'"
proof (induction ms arbitrary: ms')
  case Nil
  then show ?case by (cases ms'; cases "dump_msg hx (hd ms')") (simp_all add: dumped_def lit_def)
next
  case (Cons m ms)
  show ?case
  proof (cases ms')
    case Nil
    with Cons.prems(3) show ?thesis by (cases "dump_msg hx m") (simp_all add: dumped_def lit_def)
  next
    case (Cons n ns)
    with Cons.prems have "line_text printable (dump_msg hx m) @ dumped printable hx ms
        = line_text printable (dump_msg hx n) @ dumped printable hx ns" by (simp add: dumped_def)
    with Cons Cons.prems have "dump_msg hx m = dump_msg hx n" "dumped printable hx ms = dumped printable hx ns"
      using line_read [OF readable_dump readable_dump] by (metis list.pred_inject(2))+
    with Cons Cons.prems Cons.IH [of ns] dump_msg_inject [OF assms] show ?thesis by simp
  qed
qed

section \<open>A text of two messages\<close>

text \<open>One parameter whose name looks like the end of a parameter and the beginning of another.\<close>

definition joined_name :: "(nat \<Rightarrow> bool) \<Rightarrow> nat list \<Rightarrow> nat list \<Rightarrow> nat list \<Rightarrow> nat list" where
  "joined_name printable n1 v1 n2 = n1 @ lit '': '' @ str_text printable v1 @ lit '' }, StartupParam { '' @ n2"

definition text_param :: "nat list \<Rightarrow> nat list \<Rightarrow> StartupParam" where
  "text_param n v = StartupParam_new (utf8_encode n) (utf8_encode v)"

lemma param_text:
  assumes "list_all scalar n" and "list_all scalar v"
  shows "debug_text printable (StartupParam_fmt (text_param n v)) =
    lit ''StartupParam { '' @ n @ lit '': '' @ str_text printable v @ lit '' }''"
  using assms
  by (simp add: StartupParam_fmt_def text_param_def StartupParam_new_def from_utf8_lossy_encode lossy_str_def
        field_text_def lit_def)

lemma commas_append:
  "commas (xs @ ys) = commas xs @ (if xs = [] \<or> ys = [] then [] else lit '', '') @ commas ys"
  by (induction xs) auto

lemma commas_same:
  "u = v1 @ lit '', '' @ v2 \<Longrightarrow> commas (xs @ [v1, v2] @ ys) = commas (xs @ [u] @ ys)"
  by (simp add: commas_append)

lemma scalar_ascii: "c < 128 \<Longrightarrow> scalar c"
  by (simp add: scalar_def)

lemma char_text_scalar: "scalar c \<Longrightarrow> list_all scalar (char_text printable c)"
proof (cases rule: char_text_kinds [of printable c])
  case hex
  have "list_all scalar (digits 16 c)"
    using digits_alnum [of 16 c] by (auto simp: list_all_iff alnum_def intro!: scalar_ascii)
  with hex show ?thesis by (simp add: scalar_ascii)
qed (auto simp: short_escapes_def scalar_ascii)

lemma char_text_nonzero: "0 \<notin> set (char_text printable c)"
proof (cases rule: char_text_kinds [of printable c])
  case hex
  with digits_alnum [of 16 c] show ?thesis by (auto simp: list_all_iff alnum_def)
qed (auto simp: short_escapes_def char_text_def lit_def split: if_splits)

lemma str_text_chars:
  "list_all scalar v \<Longrightarrow> list_all scalar (str_text printable v)" "0 \<notin> set (str_text printable v)"
  using char_text_scalar [of _ printable] char_text_nonzero [of printable]
  by (auto simp: str_text_def list_all_iff scalar_ascii)

lemma joined_name_chars:
  assumes "list_all scalar n1" and "list_all scalar v1" and "list_all scalar n2"
  shows "list_all scalar (joined_name printable n1 v1 n2)"
    and "0 \<notin> set n1 \<Longrightarrow> 0 \<notin> set n2 \<Longrightarrow> 0 \<notin> set (joined_name printable n1 v1 n2)"
    and "joined_name printable n1 v1 n2 \<noteq> []"
  using assms str_text_chars(1) [of v1 printable] str_text_chars(2) [of printable v1]
  by (simp_all add: joined_name_def lit_def scalar_ascii)

lemma utf8_encode_nul: "list_all scalar cs \<Longrightarrow> 0 \<in> set (utf8_encode cs) \<longleftrightarrow> 0 \<in> set cs"
proof -
  assume cs: "list_all scalar cs"
  have "0 \<in> set bs \<longleftrightarrow> 0 \<in> set (map unat bs)" for bs :: "u8 list"
    by (induction bs) (auto simp: unat_eq_0)
  then have "0 \<in> set (utf8_encode cs) \<longleftrightarrow> 0 \<in> set (map unat (utf8_encode cs))" .
  also have "\<dots> \<longleftrightarrow> (\<exists>c\<in>set cs. 0 \<in> set (utf8_char c))" by (simp only: unat_utf8 [OF cs]) simp
  also have "\<dots> \<longleftrightarrow> 0 \<in> set cs"
  proof -
    have "0 \<in> set (utf8_char c) \<longleftrightarrow> c = 0" for c by (simp add: utf8_char_def)
    then show ?thesis by metis
  qed
  finally show ?thesis .
qed

lemma utf8_encode_Nil: "utf8_encode cs = [] \<longleftrightarrow> cs = []"
  by (cases cs) (auto simp: utf8_encode_def utf8_char_def)

lemma text_param_valid:
  "list_all scalar n \<Longrightarrow> list_all scalar v \<Longrightarrow>
    StartupParam_valid (text_param n v) \<longleftrightarrow> n \<noteq> [] \<and> 0 \<notin> set n \<and> 0 \<notin> set v"
  by (simp add: StartupParam_valid_def text_param_def StartupParam_new_def utf8_encode_nul utf8_encode_Nil)

lemma joined_param_text:
  assumes "list_all scalar n1" and "list_all scalar v1" and "list_all scalar n2" and "list_all scalar v2"
  shows "debug_text printable (StartupParam_fmt (text_param (joined_name printable n1 v1 n2) v2)) =
    debug_text printable (StartupParam_fmt (text_param n1 v1)) @ lit '', ''
      @ debug_text printable (StartupParam_fmt (text_param n2 v2))"
  using assms joined_name_chars(1) [OF assms(1-3), of printable]
  by (simp add: param_text) (simp add: joined_name_def lit_def)

definition startup_message :: "Startup \<Rightarrow> Message" where
  "startup_message s = Message.Frontend (FrontendMsg.Initial (Initial.Startup s))"

text \<open>The two startup messages are both well-formed and are shown alike.\<close>

lemma joined_startup:
  fixes printable :: "nat \<Rightarrow> bool"
  assumes "startup_params s = ps @ [text_param n1 v1, text_param n2 v2] @ qs"
    and "list_all (list_all scalar) [n1, v1, n2, v2]" and "Initial_valid (Initial.Startup s)"
  defines "s' \<equiv> s\<lparr>startup_params := ps @ [text_param (joined_name printable n1 v1 n2) v2] @ qs\<rparr>"
  shows "Initial_valid (Initial.Startup s')"
    and "dumped printable hx [startup_message s'] = dumped printable hx [startup_message s]"
proof -
  have valid: "list_all StartupParam_valid (startup_params s)" using assms(3) by simp
  with assms(1,2) joined_name_chars [of n1 v1 n2 printable]
  have "StartupParam_valid (text_param (joined_name printable n1 v1 n2) v2)"
    by (simp add: text_param_valid)
  with assms(1,3) valid show "Initial_valid (Initial.Startup s')" by (simp add: s'_def)
  have "commas (map (debug_text printable) (map StartupParam_fmt (startup_params s'))) =
      commas (map (debug_text printable) (map StartupParam_fmt (startup_params s)))"
    using commas_same [OF joined_param_text [of n1 v1 n2 v2 printable],
        of "map (debug_text printable \<circ> StartupParam_fmt) ps" "map (debug_text printable \<circ> StartupParam_fmt) qs"]
      assms(1,2) by (simp add: s'_def)
  then show "dumped printable hx [startup_message s'] = dumped printable hx [startup_message s]"
    by (simp add: dumped_def startup_message_def Startup_fmt_def s'_def field_text_def del: map_map)
qed

end
