(* ===== verification/Spec2Isabelle.thy ===== *)
theory Spec2Isabelle
  imports Session Convey_Util Postgread Complete Protocol_Tests Body_Tests Util_Tests Read_Tests
    Loop_States Error_Fields Dump_Text
begin

text \<open>
  A verification of postgread, a proxy for the PostgreSQL frontend/backend protocol 3.0. For
  every client connection the program opens a connection to the database server and conveys
  messages in both directions: it reads a message from one side, decodes it, reports it to a
  callback and writes its original bytes to the other side. A session automaton decides which
  message may come next. At the start of a connection the client may ask for TLS, and then
  both connections are upgraded.

  \<^bold>\<open>Parts and theories.\<close>
  \<^item> \<open>Prelude\<close>: machine integers, their big-endian bytes, decimal rendering, and outcomes of
    effectful code (a value, an error, a panic, or a future that stays pending).
  \<^item> \<open>Type_Byte\<close> (\<open>msg/type_byte.rs\<close>): message type bytes.
  \<^item> \<open>Decode\<close>, \<open>Encode\<close> (\<open>msg/util/decode.rs\<close>, \<open>encode.rs\<close>): cursors over byte slices. The
    locales \<open>decoder\<close>, \<open>exact_decoder\<close>, \<open>body_decoder\<close> and \<open>terminated_loop\<close> are the contracts
    of decoders; each decoder of the program is an interpretation.
  \<^item> \<open>Parts\<close> (\<open>msg/parts.rs\<close>), \<open>Frontend_Bodies\<close>, \<open>Backend_Bodies\<close> (\<open>msg/body/*.rs\<close>): the
    decoders of the 25 message bodies, each with the wire format it is exact for. A struct or
    enum of the program is a record or datatype; \<open>decode_body\<close> of a message type \<open>X\<close> is
    \<open>X_decode_body\<close>, its \<open>MsgDecode\<close> implementation the dictionary \<open>X_msg\<close>.
  \<^item> \<open>Async_IO\<close>, \<open>Read\<close> (\<open>msg/util/async_io.rs\<close>, \<open>read.rs\<close>): byte streams and reading one message.
    Sockets and TLS sessions are foreign code: their two operations are arguments, and the
    locales \<open>byte_stream\<close> and \<open>reliable_stream\<close> state what the program relies on.
  \<^item> \<open>Convey\<close> (\<open>convey.rs\<close>): the conveyor. A \<open>Conveyor\<close> holds the two wrapped streams and the
    messages the callback was given; \<open>dispatch\<close> is the \<open>match\<close> of the loop, \<open>go_loop\<close> the loop,
    \<open>go_tls\<close> the TLS arm (\<open>go_tls_answer\<close>, \<open>go_tls_frontend\<close> its parts), \<open>go\<close> and \<open>convey\<close> the functions of these names. The TLS handshakes are
    arguments. The side that \<open>future::select\<close> completes with in each round is given by a list:
    a run of the endless loop that makes \<open>n\<close> rounds is the run for the list of its \<open>n\<close> choices,
    and a list that is exhausted means that the conveyor waits. No theorem fixes the length.
  \<^item> \<open>Convey_Util\<close> (\<open>convey/util.rs\<close>): owned copies of messages.
  \<^item> \<open>Protocol\<close>: the abstract specification, a table of expected messages and next states and the
    sessions it admits, and the proof that \<open>dispatch\<close> implements it. \<open>Automaton\<close>: the order of
    messages in sessions. \<open>Relay\<close>: what relaying does to the bytes, up to the whole loop.
    \<open>Loop_States\<close>: the states the loop is in after whole rounds (\<open>loop_state\<close>), which of them it
    comes to and how it gets to an end from there. \<open>Session\<close>: how connections open, TLS included.
    \<open>Error_Fields\<close>: the fields of errors and notices by a table of their own.

  \<^item> \<open>Tls_Native\<close> (\<open>tls/interface.rs\<close>, \<open>tls/native.rs\<close>): the TLS traits as dictionaries and their
    implementation; the operations of the native TLS library are a record, an argument.
  \<^item> \<open>Ip_Addr\<close>: IP addresses and the standard library's parser for them (Rust 1.57, the
    toolchain of the repository), which the server applies to the target host.
  \<^item> \<open>Server\<close> (\<open>server.rs\<close>): \<open>listen\<close> with its helpers, and the tasks. \<open>client_task\<close> is what
    \<open>loop_accepting\<close> spawns for a stream, \<open>handle_client\<close> the function of this name, \<open>serve_client\<close>
    what it spawns. A \<open>Task\<close> is the tree of effects in program order; \<open>Running\<close> is the state of a
    server, \<open>accept_round\<close> a round of the accept loop, \<open>task_step\<close> one effect of a task, and \<open>move\<close>
    lets either of them take its turn, so that \<open>moves\<close> and \<open>reachable\<close> cover every interleaving.
    \<open>aborts_on_panic\<close> says whether the runtime ends the process when a task panics. Tasks and
    effects carry the index of their accepted stream; the program does not have this index,
    it is there to state which effects belong together.
  \<^item> \<open>Serving\<close>, \<open>Served\<close>: what the server does, the record of a connection on its own
    (\<open>client_record\<close>), isolation of connections, client numbers, the end of the accept loop, and
    the sessions it serves. The locale \<open>server_streams\<close> gives the contract of the conveyor from
    that of the server's streams. \<open>own_turns\<close> says that only the tasks of one client take turns, and
    \<open>inputs\<close> what they get from outside. \<open>Complete\<close>: complete connections are carried out, by
    \<open>convey\<close> and by the whole server.
  \<^item> \<open>Utf8\<close>, \<open>Dump\<close> (\<open>Debug\<close> implementations under \<open>msg\<close>, \<open>dump_msg\<close> of \<open>main.rs\<close>): how messages are
    shown, as trees of formatter calls; \<open>String::from_utf8_lossy\<close> is modelled, \<open>hex::encode\<close> is an
    argument. \<open>Dump_Text\<close>: the characters that are printed for a tree (\<open>debug_text\<close>, the layout of
    \<open>{:?}\<close>, with the tables of printable characters as an argument) and for messages (\<open>dumped\<close>), and
    what can be read off them. \<open>Postgread\<close> (\<open>main.rs\<close>): the program.
  \<^item> \<open>Read_Tests\<close>, \<open>Body_Tests\<close>, \<open>Util_Tests\<close>: the unit tests of \<open>msg/util/read.rs\<close>, of
    \<open>msg/body/*.rs\<close>, and of \<open>msg/util/decode.rs\<close> and \<open>encode.rs\<close>. \<open>New_Msg\<close>, \<open>Fakes\<close>, \<open>Protocol_Tests\<close>
    (\<open>convey/tests\<close>): the constructors of test messages, the fake streams and the scripts of the
    conveyor. The tests themselves run the conveyor over fake streams that hand over whole messages
    and share one queue, which decides which side is next; \<open>Protocol_Tests\<close> does not run that. It
    carries out the conversations of the scripts over byte streams that deliver the bytes of the
    queued items (\<open>script_arrives\<close>), with the sides served in the order of the queue
    (\<open>script_result\<close>).

  \<^bold>\<open>What is shown.\<close> The loop is sound and complete for the session protocol and byte-transparent
  in every outcome; commands are relayed only after the login; malformed and unknown messages
  are never forwarded; \<open>read_msg\<close> takes exactly one frame, with its behaviour for every length
  field; each body decoder succeeds exactly on the wire forms of its message; the errors and
  panics of the TLS negotiation are characterised; the loop comes to every state but one and from
  each of them can be brought to a regular end. In a running server every connection behaves
  as if it were alone, can be served by turns of its own tasks whatever the others do, gets a number of its own and dials
  only the target; a connection reported as stopped with success was a complete session, and a
  client and a target that send the bytes of a complete connection, with or without TLS, can be
  served to that report, with nothing behind them taken; one failed accept ends the server. A
  refused authentication message reaches the client, unlike every other refused message. All unit
  tests of the repository hold, and the conversations of its protocol tests are carried out over
  every reliable byte stream. Messages with UTF-8 texts can be read off what is printed, provided
  that no parameter has a colon in its name; without this there are startup messages that are
  printed alike. Where a contract of the streams is assumed, it is a premise named by its locale.

  \<^bold>\<open>Bounds.\<close> A length field is 32 bits wide. Messages with a type byte and the length \<open>u32::MAX\<close>
  are treated separately, because the program's buffer size overflows there. \<open>overflow_checks\<close>
  says whether the build traps arithmetic overflow. The client counter is a 64-bit word that
  wraps around.

  \<^bold>\<open>Not modelled.\<close> Parsing of the command line, derived by \<open>structopt\<close>; the text of the lines
  that the server prints about its clients (they are events with their arguments); a \<open>println!\<close>
  that panics because the console is closed; memory exhaustion by \<open>Vec::with_capacity\<close>; the mutex
  and the wakers of the fake streams and the \<open>Debug\<close> implementations of their items; \<open>test_convey\<close>,
  which runs the conveyor over the fake streams; the integration tests under \<open>tests\<close>, which
  start database servers in containers.
\<close>

section \<open>Example conversations\<close>

text \<open>A conveyor between two in-memory endpoints, with the bytes each peer is going to send.\<close>

definition sockets :: "u8 list \<Rightarrow> u8 list \<Rightarrow> (Pipe, Pipe, Pipe, Pipe) Conveyor" where
  "sockets from_frontend from_backend =
     Conveyor_new \<lparr>pipe_in = from_frontend, pipe_out = []\<rparr> \<lparr>pipe_in = from_backend, pipe_out = []\<rparr>"

text \<open>No TLS handshake is expected to be attempted.\<close>

definition quiet_env :: "(Pipe, Pipe, Pipe, Pipe) ConveyEnv" where
  "quiet_env = pipe_env False Blocked Blocked"

abbreviation terminate_bytes :: "u8 list" where
  "terminate_bytes \<equiv> [88, 0, 0, 0, 4]"

abbreviation terminate_message :: Message where
  "terminate_message \<equiv> Message.Frontend (FrontendMsg.Terminate Terminate.Terminate)"

lemma quiet_streams: "conveyor_streams quiet_env wrap_in wrap_out wrap_in wrap_out"
  unfolding quiet_env_def by (rule pipe_conveyor.conveyor_streams_axioms)

lemma quiet_reliable: "conveyor_reliable quiet_env wrap_in wrap_out wrap_in wrap_out"
  unfolding quiet_env_def by (rule pipe_conveyor.conveyor_reliable_axioms)

lemma observe_sockets [simp]:
  "observe wrap_in wrap_in Side.Frontend (sockets f b) = f"
  "observe wrap_in wrap_in Side.Backend (sockets f b) = b"
  "observe wrap_out wrap_out side (sockets f b) = []"
  by (cases side; simp add: observe_def sockets_def Conveyor_new_def wrap_in_def wrap_out_def)+

lemma conveyed_sockets [simp]: "conveyed (sockets f b) = []"
  by (simp add: sockets_def Conveyor_new_def)

lemma live_sockets [simp]: "live (sockets f b)"
  by (simp add: live_def sockets_def Conveyor_new_def)

lemma kinds_sockets [simp]: "kinds (sockets f b) = (0, 0)"
  by (simp add: kinds_def sockets_def Conveyor_new_def)

lemma terminate_run:
  "go_loop quiet_env [Side.Frontend] State.ReadyForQuery (sockets terminate_bytes []) =
     (Return (), \<lparr>frontend = StreamWrap.Plain \<lparr>pipe_in = [], pipe_out = []\<rparr>,
        backend = StreamWrap.Plain \<lparr>pipe_in = [], pipe_out = terminate_bytes\<rparr>,
        conveyed = [terminate_message]\<rparr>)"
  by code_simp

lemma terminate_wire: "message_wire terminate_message terminate_bytes"
proof -
  have "terminate_bytes = [TypeByte_into TypeByte.Terminate] @ frame []" by code_simp
  then show ?thesis by (auto simp: message_wire_def Terminate_wire_def intro!: exI [of _ "[]"])
qed

section \<open>The relay loop\<close>

text \<open>C1. The loop of the conveyor implements the session protocol and relays faithfully:
  for every way \<open>select\<close> chooses and however the loop ends, there is a run of the protocol
  automaton from the current state over well-formed messages such that exactly these messages
  were taken from their side, reported to the callback in order, and written unchanged to the
  other side. The loop returns \<open>Ok\<close> exactly when this run reached the end of the session;
  otherwise at most one further message was reported, of which a prefix was written.\<close>

theorem go_loop_faithful:
  assumes "conveyor_streams env fi fo bi bo"
    and "go_loop env choices st c = (r, c')"
  shows "\<exists>tr f c1. session st (map fst tr) f \<and> conveys fi fo bi bo tr c c1
    \<and> (case f of
         Stop \<Rightarrow> r = Return () \<and> c' = c1
       | Next st' \<Rightarrow> r \<noteq> Return () \<and> breaks fi fo bi bo st' c1 c')"
  using assms by (rule conveyor_streams.go_loop_conveys)

theorem go_loop_faithful_witness:
  "\<exists>tr f c1. session State.ReadyForQuery (map fst tr) f
    \<and> conveys wrap_in wrap_out wrap_in wrap_out tr (sockets terminate_bytes []) c1
    \<and> (case f of
         Stop \<Rightarrow> c1 = \<lparr>frontend = StreamWrap.Plain \<lparr>pipe_in = [], pipe_out = []\<rparr>,
                     backend = StreamWrap.Plain \<lparr>pipe_in = [], pipe_out = terminate_bytes\<rparr>,
                     conveyed = [terminate_message]\<rparr>
       | Next _ \<Rightarrow> False)"
  using go_loop_faithful [OF quiet_streams terminate_run]
  by (auto split: flow.splits)

text \<open>C2. Conversely, every session of the protocol is carried out: when the streams deliver
  the bytes of its messages (each below 4 GiB) and \<open>select\<close> serves the sides in the order of
  the messages, the loop returns \<open>Ok\<close> and has relayed exactly these messages, whatever else
  would arrive afterwards.\<close>

theorem go_loop_carries_out:
  assumes "conveyor_reliable env fi fo bi bo"
    and "session st (map fst tr) Stop" and "live c"
    and "list_all (\<lambda>(m, w). message_wire m w \<and> length w < 2 ^ 32) tr"
    and "\<And>side. observe fi bi side c = wires side tr @ r side"
  shows "\<exists>c'. go_loop env (map (\<lambda>x. message_side (fst x)) tr) st c = (Return (), c')
    \<and> conveys fi fo bi bo tr c c'"
  using assms by (rule conveyor_reliable.go_loop_complete)

theorem go_loop_carries_out_witness:
  "\<exists>c'. go_loop quiet_env [Side.Frontend] State.ReadyForQuery (sockets (terminate_bytes @ [1, 2]) []) = (Return (), c')
    \<and> conveys wrap_in wrap_out wrap_in wrap_out [(terminate_message, terminate_bytes)]
        (sockets (terminate_bytes @ [1, 2]) []) c'"
proof -
  have "session State.ReadyForQuery [terminate_message] Stop" by (rule session_stop) simp
  moreover have "observe wrap_in wrap_in side (sockets (terminate_bytes @ [1, 2]) [])
      = wires side [(terminate_message, terminate_bytes)]
        @ (case side of Side.Frontend \<Rightarrow> [1, 2] | Side.Backend \<Rightarrow> [])" for side
    by (cases side) simp_all
  ultimately show ?thesis
    using go_loop_carries_out [OF quiet_reliable, where tr = "[(terminate_message, terminate_bytes)]"
        and r = "\<lambda>side. case side of Side.Frontend \<Rightarrow> [1, 2] | Side.Backend \<Rightarrow> []"]
      terminate_wire by simp
qed

text \<open>C3. Transparency in every outcome, failures and panics included: what the loop wrote to
  one side is an initial part of what the other side sent. No byte is invented, altered,
  reordered or dropped from the middle.\<close>

theorem go_loop_never_injects:
  assumes "conveyor_streams env fi fo bi bo"
    and "go_loop env choices st c = (r, c')"
  shows "\<exists>p. prefix p (observe fi bi side c)
    \<and> observe fo bo (other side) c' = observe fo bo (other side) c @ p"
  using assms by (rule conveyor_streams.go_loop_no_injection)

lemma malformed_run:
  "go_loop quiet_env [Side.Frontend] State.ReadyForQuery (sockets [88, 0, 0, 0, 5, 9] []) =
     (Throw (ConveyError.LeftUndecoded 1),
      \<lparr>frontend = StreamWrap.Plain \<lparr>pipe_in = [], pipe_out = []\<rparr>,
       backend = StreamWrap.Plain \<lparr>pipe_in = [], pipe_out = []\<rparr>, conveyed = []\<rparr>)"
  by code_simp

theorem go_loop_never_injects_witness:
  "\<exists>p. prefix p [88, 0, 0, 0, 5, 9]
    \<and> observe wrap_out wrap_out Side.Backend
        \<lparr>frontend = StreamWrap.Plain \<lparr>pipe_in = [], pipe_out = []\<rparr>,
         backend = StreamWrap.Plain \<lparr>pipe_in = [], pipe_out = []\<rparr>, conveyed = []\<rparr> = p"
  using go_loop_never_injects [OF quiet_streams malformed_run, of Side.Frontend] by simp

text \<open>C5. One round of the automaton is the protocol table: the match of the loop and
  \<open>process_backend_authentication\<close> together relay exactly the message kind the table expects
  for the side, type byte and state, take the table's next state, and refuse everything else
  before reading it.\<close>

theorem dispatch_implements_table:
  "dispatch env side type_byte state =
     (case expected side type_byte state of
        None \<Rightarrow> throw (ConveyError.UnexpectedType state side type_byte)
      | Some D \<Rightarrow> bind_prog (relay env side D) (settle state))"
  by (rule dispatch_settles)

text \<open>C14. A message whose body does not decode, or decodes with bytes left over, ends the
  session with the corresponding error before it is reported or forwarded: neither side
  receives anything of it.\<close>

theorem malformed_not_forwarded:
  assumes "conveyor_reliable env fi fo bi bo"
    and "live c" and "expected side tb st = Some D"
    and "observe fi bi side c = TypeByte_into tb # frame body @ r" and "4 + length body < 2 ^ 32 - 1"
    and "decode_whole D body = Inl e"
  shows "\<exists>c'. go_loop env (side # choices) st c = (Throw (MsgError_to_ConveyError e), c')
    \<and> conveyed c' = conveyed c \<and> (\<forall>s. observe fo bo s c' = observe fo bo s c)"
  using assms by (rule conveyor_reliable.go_loop_malformed)

theorem malformed_not_forwarded_witness:
  "\<exists>c'. go_loop quiet_env [Side.Frontend] State.ReadyForQuery (sockets [88, 0, 0, 0, 5, 9] [])
      = (Throw (ConveyError.LeftUndecoded 1), c')
    \<and> conveyed c' = [] \<and> (\<forall>s. observe wrap_out wrap_out s c' = [])"
proof -
  let ?D = "as_message (\<lambda>x. Message.Frontend (FrontendMsg.Terminate x)) Terminate_msg"
  have "expected Side.Frontend TypeByte.Terminate State.ReadyForQuery = Some ?D"
    by (simp add: expected_def expected_frontend_def)
  moreover have "decode_whole ?D [9] = Inl (MsgError.LeftUndecoded 1)" by code_simp
  moreover have "observe wrap_in wrap_in Side.Frontend (sockets [88, 0, 0, 0, 5, 9] [])
      = TypeByte_into TypeByte.Terminate # frame [9] @ []" by code_simp
  ultimately show ?thesis
    using malformed_not_forwarded [OF quiet_reliable, of "sockets [88, 0, 0, 0, 5, 9] []" Side.Frontend
        TypeByte.Terminate State.ReadyForQuery ?D "[9]" "[]" "MsgError.LeftUndecoded 1" "[]"]
    by (simp del: go_loop.simps TypeByte_into.simps)
qed

text \<open>C15. A byte that is no type byte of the protocol ends the session with \<open>UnknownType\<close>;
  nothing is forwarded.\<close>

theorem unknown_type_not_forwarded:
  assumes "conveyor_reliable env fi fo bi bo"
    and "live c" and "observe fi bi side c = b # r" and "TypeByte_try_from b = None"
  shows "\<exists>c'. go_loop env (side # choices) st c = (Throw (ConveyError.UnknownType side b), c')
    \<and> conveyed c' = conveyed c \<and> (\<forall>s. observe fo bo s c' = observe fo bo s c)"
  using assms by (rule conveyor_reliable.go_loop_unknown)

theorem unknown_type_not_forwarded_witness:
  "\<exists>c'. go_loop quiet_env [Side.Backend] State.GotStartup (sockets [] [65]) =
      (Throw (ConveyError.UnknownType Side.Backend 65), c')
    \<and> conveyed c' = [] \<and> (\<forall>s. observe wrap_out wrap_out s c' = [])"
proof -
  have "TypeByte_try_from 65 = None" by code_simp
  then show ?thesis
    using unknown_type_not_forwarded [OF quiet_reliable, of "sockets [] [65]" Side.Backend 65 "[]" "[]" State.GotStartup]
    by (simp del: go_loop.simps)
qed

text \<open>C16. While the backend works on a statement, a binding or a query, and while it
  authenticates, every message of the frontend is refused without being read: the proxy does
  not support pipelined messages.\<close>

theorem busy_backend_refuses_frontend:
  assumes "state \<in> {State.GotStartup, State.GotCleartextPassword, State.GotMd5Password, State.GotGssResponse,
      State.GotAnySaslResponse, State.FinishedSasl, State.Authenticated, State.SentAllBackendParams,
      State.GotSimpleQuery, State.AnsweringToSimpleQuery, State.CompletedSimpleCommand,
      State.AbortedSimpleQuery, State.SeenEmptySimpleQuery, State.GotPreparedStatement,
      State.GotBinding, State.AbortedParsingOrBinding, State.ExecutingExtendedQuery,
      State.AnsweringToExtendedQuery, State.GotSync}"
  shows "dispatch env Side.Frontend type_byte state c =
    (Throw (ConveyError.UnexpectedType state Side.Frontend type_byte), c)"
proof -
  have "expected Side.Frontend type_byte state = None"
    using assms by (cases type_byte) (auto simp: expected_def expected_frontend_def)
  then show ?thesis by (simp add: dispatch_settles)
qed

theorem busy_backend_refuses_frontend_witness:
  "dispatch quiet_env Side.Frontend TypeByte.ParameterStatus_or_Sync State.AbortedParsingOrBinding (sockets [] []) =
    (Throw (ConveyError.UnexpectedType State.AbortedParsingOrBinding Side.Frontend
       TypeByte.ParameterStatus_or_Sync), sockets [] [])"
  by (rule busy_backend_refuses_frontend) simp

section \<open>Whole sessions\<close>

text \<open>C4. A connection that ends with \<open>Ok\<close> opened in one of three ways: with a plain startup
  or cancel request; with a TLS request, a negotiation (the frontend always upgraded and told
  yes, the backend upgraded exactly if it agreed) and then a startup or cancel request; or with
  a TLS request answered by an error. After a startup the loop carried out a complete session
  of the protocol, relaying exactly its messages.\<close>

theorem convey_session:
  assumes "conveyor_streams env fi fo bi bo"
    and "convey env choices front_stream back_stream = (Return u, c')"
  shows "\<exists>f c1. opens env fi fo bi bo (Conveyor_new front_stream back_stream) f c1
    \<and> (case f of
         Stop \<Rightarrow> c' = c1
       | Next st \<Rightarrow> \<exists>tr. session st (map fst tr) Stop \<and> conveys fi fo bi bo tr c1 c')"
  using conveyor_streams.go_Return [OF assms(1) assms(2) [unfolded convey_def]]
  by (simp add: kinds_def Conveyor_new_def)

text \<open>A whole conversation: startup of version 3.0 without parameters, login without a
  password, termination.\<close>

abbreviation startup_bytes :: "u8 list" where
  "startup_bytes \<equiv> [0, 0, 0, 9, 0, 3, 0, 0, 0]"

abbreviation login_bytes :: "u8 list" where
  "login_bytes \<equiv> [82, 0, 0, 0, 8, 0, 0, 0, 0, 75, 0, 0, 0, 12, 0, 0, 0, 1, 0, 0, 0, 2, 90, 0, 0, 0, 5, 73]"

abbreviation login :: "Message list" where
  "login \<equiv> [Message.Backend (BackendMsg.Authentication Authentication.Ok),
     Message.Backend (BackendMsg.BackendKeyData \<lparr>process_id = 1, secret_key = 2\<rparr>),
     Message.Backend (BackendMsg.ReadyForQuery \<lparr>status = Status.Idle\<rparr>)]"

abbreviation conversation_end :: "(Pipe, Pipe, Pipe, Pipe) Conveyor" where
  "conversation_end \<equiv>
     \<lparr>frontend = StreamWrap.Plain \<lparr>pipe_in = [], pipe_out = login_bytes\<rparr>,
      backend = StreamWrap.Plain \<lparr>pipe_in = [], pipe_out = startup_bytes @ terminate_bytes\<rparr>,
      conveyed = [Initial_message (Initial.Startup
          \<lparr>startup_version = \<lparr>major = 3, minor = 0\<rparr>, startup_params = []\<rparr>)] @ login @ [terminate_message]\<rparr>"

lemma conversation_run:
  "convey quiet_env [Side.Backend, Side.Backend, Side.Backend, Side.Frontend]
       \<lparr>pipe_in = startup_bytes @ terminate_bytes, pipe_out = []\<rparr> \<lparr>pipe_in = login_bytes, pipe_out = []\<rparr> =
     (Return (), conversation_end)"
  by code_simp

theorem convey_session_witness:
  "\<exists>f c1. opens quiet_env wrap_in wrap_out wrap_in wrap_out
      (sockets (startup_bytes @ terminate_bytes) login_bytes) f c1
    \<and> (case f of
         Stop \<Rightarrow> conversation_end = c1
       | Next st \<Rightarrow> \<exists>tr. session st (map fst tr) Stop
           \<and> conveys wrap_in wrap_out wrap_in wrap_out tr c1 conversation_end)"
  unfolding sockets_def by (rule convey_session [OF quiet_streams conversation_run])

text \<open>C13. The only TLS error a connection can end with is \<open>TlsRequestedInsideTls\<close>, and then the
  frontend has asked for TLS twice; both requests have already been reported and forwarded.\<close>

theorem convey_tls_error:
  assumes "conveyor_streams env fi fo bi bo"
    and "convey env choices front_stream back_stream = (Throw (ConveyError.TlsError t), c')"
  shows "t = TlsRequestedInsideTls
    \<and> conveyed c' = [Initial_message Initial.TLS, Initial_message Initial.TLS]"
  using conveyor_streams.go_tls_errors [OF assms(1) assms(2) [unfolded convey_def]]
  by (simp add: kinds_def Conveyor_new_def)

abbreviation tls_request_bytes :: "u8 list" where
  "tls_request_bytes \<equiv> [0, 0, 0, 8, 4, 210, 22, 47]"

definition tls_env :: "(Pipe, Pipe, Pipe, Pipe) ConveyEnv" where
  "tls_env = pipe_env False (Return \<lparr>pipe_in = tls_request_bytes, pipe_out = []\<rparr>) (Throw ''refused'')"

lemma tls_streams: "conveyor_streams tls_env wrap_in wrap_out wrap_in wrap_out"
  "conveyor_reliable tls_env wrap_in wrap_out wrap_in wrap_out"
  unfolding tls_env_def by (rule pipe_conveyor.conveyor_streams_axioms pipe_conveyor.conveyor_reliable_axioms)+

lemma tls_twice_run:
  "convey tls_env [] \<lparr>pipe_in = tls_request_bytes, pipe_out = []\<rparr> \<lparr>pipe_in = [78], pipe_out = []\<rparr> =
     (Throw (ConveyError.TlsError TlsRequestedInsideTls),
      \<lparr>frontend = StreamWrap.Tls \<lparr>pipe_in = [], pipe_out = []\<rparr>,
       backend = StreamWrap.Plain \<lparr>pipe_in = [], pipe_out = tls_request_bytes @ tls_request_bytes\<rparr>,
       conveyed = [Initial_message Initial.TLS, Initial_message Initial.TLS]\<rparr>)"
  by code_simp

theorem convey_tls_error_witness:
  "conveyed (snd (convey tls_env [] \<lparr>pipe_in = tls_request_bytes, pipe_out = []\<rparr> \<lparr>pipe_in = [78], pipe_out = []\<rparr>))
    = [Initial_message Initial.TLS, Initial_message Initial.TLS]"
  using convey_tls_error [OF tls_streams(1) tls_twice_run] unfolding tls_twice_run by simp

text \<open>C17. No connection ever finds a stream in the middle of a handshake: \<open>HandshakeDisrupted\<close>
  is unreachable, whatever the streams and the TLS provider do.\<close>

theorem handshake_never_disrupted:
  "fst (convey env choices front_stream back_stream) \<noteq> Throw (ConveyError.TlsError HandshakeDisrupted)"
  by (rule convey_never_disrupted)

text \<open>C18. When the frontend asks for TLS, the backend agrees and the handshake with it fails,
  the connection does not end with an error value: the task panics.\<close>

theorem failed_handshake_panics:
  assumes "conveyor_reliable env fi fo bi bo"
    and "fi (StreamWrap.Plain front_stream) = frame (Initial_wire Initial.TLS) @ r"
    and "bi (StreamWrap.Plain back_stream) = TLS_SUPPORTED # r'"
    and "\<And>q. backend_tls_client env q = Throw e"
  shows "\<exists>c'. convey env choices front_stream back_stream = (Panic (unwrap_panic e), c')"
  unfolding convey_def
  by (rule conveyor_reliable.connect_failure [OF assms(1)])
     (use assms(2-4) in \<open>simp_all add: kinds_def Conveyor_new_def observe_def\<close>)

theorem failed_handshake_panics_witness:
  "\<exists>c'. convey tls_env [] \<lparr>pipe_in = tls_request_bytes, pipe_out = []\<rparr> \<lparr>pipe_in = [83], pipe_out = []\<rparr>
    = (Panic (unwrap_panic ''refused''), c')"
proof -
  have "tls_request_bytes = frame (Initial_wire Initial.TLS) @ []" by code_simp
  moreover have "TLS_SUPPORTED = 83" by code_simp
  ultimately show ?thesis
    using failed_handshake_panics [OF tls_streams(2), of "\<lparr>pipe_in = tls_request_bytes, pipe_out = []\<rparr>" "[]"
        "\<lparr>pipe_in = [83], pipe_out = []\<rparr>" "[]" "''refused''" "[]"]
    by (simp add: wrap_in_def tls_env_def pipe_env_def)
qed

section \<open>The order of messages\<close>

text \<open>C7. However a connection goes on after the startup message, no command of the frontend
  (Query, Parse, Bind, Execute, Sync, Terminate) is reported and relayed before the backend has,
  in this order, accepted the login, sent its key data and reported that it is ready.\<close>

theorem commands_only_after_login:
  assumes "conveyor_streams env fi fo bi bo"
    and "go_loop env choices State.GotStartup c = (r, c')"
    and "conveyed c' = conveyed c @ a @ m # b" and "is_command m"
  shows "\<exists>k z. subseq [Message.Backend (BackendMsg.Authentication Authentication.Ok),
    Message.Backend (BackendMsg.BackendKeyData k), Message.Backend (BackendMsg.ReadyForQuery z)] a"
proof -
  from conveyor_streams.go_loop_log [OF assms(1-3)] obtain st where
    "session State.GotStartup a (Next st)" and "admits st m" by blast
  moreover from this assms(4) have "next_state st m \<noteq> None" by (auto simp: admits_def)
  ultimately show ?thesis using commands_after_login assms(4) by blast
qed

abbreviation login_end :: "u8 list \<Rightarrow> Message list \<Rightarrow> (Pipe, Pipe, Pipe, Pipe) Conveyor" where
  "login_end bytes ms \<equiv>
     \<lparr>frontend = StreamWrap.Plain \<lparr>pipe_in = [], pipe_out = login_bytes\<rparr>,
      backend = StreamWrap.Plain \<lparr>pipe_in = [], pipe_out = bytes\<rparr>, conveyed = login @ ms\<rparr>"

lemma login_run:
  "go_loop quiet_env [Side.Backend, Side.Backend, Side.Backend, Side.Frontend] State.GotStartup
       (sockets terminate_bytes login_bytes) = (Return (), login_end terminate_bytes [terminate_message])"
  by code_simp

theorem commands_only_after_login_witness:
  "\<exists>k z. subseq [Message.Backend (BackendMsg.Authentication Authentication.Ok),
    Message.Backend (BackendMsg.BackendKeyData k), Message.Backend (BackendMsg.ReadyForQuery z)] login"
  by (rule commands_only_after_login [OF quiet_streams login_run, of login terminate_message "[]"]) simp_all

text \<open>C12. Between two simple queries that are relayed the backend has reported that it is ready
  again, and this report was relayed too.\<close>

theorem one_query_at_a_time:
  assumes "conveyor_streams env fi fo bi bo"
    and "go_loop env choices st c = (r, c')"
    and "conveyed c' = conveyed c @ a @ Message.Frontend (FrontendMsg.Query q) # b
      @ Message.Frontend (FrontendMsg.Query q') # d"
  shows "\<exists>z. Message.Backend (BackendMsg.ReadyForQuery z) \<in> set b"
proof -
  let ?Q = "Message.Frontend (FrontendMsg.Query q)" and ?Q' = "Message.Frontend (FrontendMsg.Query q')"
  from conveyor_streams.go_loop_log [OF assms(1,2), of "a @ ?Q # b" ?Q' d] assms(3) obtain st' where
    "session st (a @ ?Q # b) (Next st')" and "admits st' ?Q'" by auto
  then show ?thesis using queries_separated by (auto simp: admits_def)
qed

abbreviation two_queries :: "u8 list" where
  "two_queries \<equiv> [81, 0, 0, 0, 5, 0, 81, 0, 0, 0, 5, 0]"

abbreviation empty_answer :: "Message list" where
  "empty_answer \<equiv> [Message.Backend (BackendMsg.EmptyQueryResponse EmptyQueryResponse.EmptyQueryResponse),
     Message.Backend (BackendMsg.ReadyForQuery \<lparr>status = Status.Idle\<rparr>)]"

abbreviation empty_query :: Message where
  "empty_query \<equiv> Message.Frontend (FrontendMsg.Query (Query.Query []))"

lemma two_queries_run:
  "go_loop quiet_env [Side.Frontend, Side.Backend, Side.Backend, Side.Frontend] State.ReadyForQuery
       (sockets two_queries [73, 0, 0, 0, 4, 90, 0, 0, 0, 5, 73]) =
     (Blocked, \<lparr>frontend = StreamWrap.Plain \<lparr>pipe_in = [], pipe_out = [73, 0, 0, 0, 4, 90, 0, 0, 0, 5, 73]\<rparr>,
        backend = StreamWrap.Plain \<lparr>pipe_in = [], pipe_out = two_queries\<rparr>,
        conveyed = [empty_query] @ empty_answer @ [empty_query]\<rparr>)"
  by code_simp

theorem one_query_at_a_time_witness:
  "\<exists>z. Message.Backend (BackendMsg.ReadyForQuery z) \<in> set empty_answer"
  by (rule one_query_at_a_time [OF quiet_streams two_queries_run, of "[]" "Query.Query []" empty_answer "Query.Query []" "[]"])
     simp

text \<open>C22. The states of the loop. Whatever the streams deliver and in whatever order the sides are
  chosen, after whole rounds from the startup on it is never in \<open>Bound\<close>, and goes on as from where it
  is. To every other state there are messages that bring it there on every reliable pair of
  streams on which they arrive.\<close>

theorem reachable_states:
  assumes "conveyor_reliable env fi fo bi bo"
  shows "(\<forall>choices c st c'. loop_state env choices State.GotStartup c = Some (st, c') \<longrightarrow>
      st \<noteq> State.Bound
      \<and> (\<forall>later. go_loop env (choices @ later) State.GotStartup c = go_loop env later st c'))
    \<and> (\<forall>st. st \<noteq> State.Bound \<longrightarrow>
      (\<exists>tr. list_all (\<lambda>(m, w). message_wire m w) tr
        \<and> (\<forall>c r. live c \<longrightarrow> (\<forall>side. observe fi bi side c = wires side tr @ r side) \<longrightarrow>
             (\<exists>c'. loop_state env (sides_of tr) State.GotStartup c = Some (st, c')
                \<and> conveys fi fo bi bo tr c c'))))"
  using conveyor_reliable.loop_never_bound [OF assms] go_loop_from
    conveyor_reliable.loop_reaches [OF assms] by blast

theorem reachable_states_witness:
  "\<exists>tr. list_all (\<lambda>(m, w). message_wire m w) tr
    \<and> (\<exists>choices c'. loop_state quiet_env choices State.GotStartup
          (sockets (wires Side.Frontend tr) (wires Side.Backend tr)) = Some (State.SuspendedExtendedQuery, c')
        \<and> State.SuspendedExtendedQuery \<noteq> State.Bound)"
proof -
  from reachable_states [OF quiet_reliable] obtain tr where
    tr: "list_all (\<lambda>(m, w). message_wire m w) tr"
    and run: "\<And>c r. live c \<Longrightarrow> (\<forall>side. observe wrap_in wrap_in side c = wires side tr @ r side) \<Longrightarrow>
      \<exists>c'. loop_state quiet_env (sides_of tr) State.GotStartup c = Some (State.SuspendedExtendedQuery, c')"
    by fastforce
  have "observe wrap_in wrap_in side (sockets (wires Side.Frontend tr) (wires Side.Backend tr)) =
      wires side tr @ (\<lambda>_. []) side" for side
    by (cases side) simp_all
  with run [of "sockets (wires Side.Frontend tr) (wires Side.Backend tr)" "\<lambda>_. []"] obtain c' where
    c': "loop_state quiet_env (sides_of tr) State.GotStartup
      (sockets (wires Side.Frontend tr) (wires Side.Backend tr)) = Some (State.SuspendedExtendedQuery, c')"
    by auto
  with reachable_states [OF quiet_reliable] tr show ?thesis by blast
qed

text \<open>C36. The loop is never in a dead end: from wherever whole rounds have brought it, there are
  messages, none of them an error of the backend and the last one a Terminate of the frontend, that
  end it with \<open>Ok\<close> on every reliable pair of streams on which they arrive, relayed unchanged.\<close>

theorem no_dead_end:
  assumes "conveyor_reliable env fi fo bi bo"
    and "loop_state env choices State.GotStartup c0 = Some (st, c1)"
  shows "\<exists>tr. tr \<noteq> [] \<and> fst (last tr) = terminate_message
    \<and> (\<forall>e. Message.Backend (BackendMsg.ErrorResponse e) \<notin> set (map fst tr))
    \<and> (\<forall>c r. live c \<longrightarrow> (\<forall>side. observe fi bi side c = wires side tr @ r side) \<longrightarrow>
         (\<exists>c'. go_loop env (sides_of tr) st c = (Return (), c') \<and> conveys fi fo bi bo tr c c'))"
  using conveyor_reliable.loop_way_out [OF assms] unfolding is_error_def by metis

lemma asked_gss_run:
  "loop_state quiet_env [Side.Backend] State.GotStartup (sockets [] [82, 0, 0, 0, 8, 0, 0, 0, 7]) =
    Some (State.AskedGssResponse,
      \<lparr>frontend = StreamWrap.Plain \<lparr>pipe_in = [], pipe_out = [82, 0, 0, 0, 8, 0, 0, 0, 7]\<rparr>,
       backend = StreamWrap.Plain \<lparr>pipe_in = [], pipe_out = []\<rparr>,
       conveyed = [Message.Backend (BackendMsg.Authentication Gss)]\<rparr>)"
  by code_simp

theorem no_dead_end_witness:
  "\<exists>tr. fst (last tr) = terminate_message
    \<and> (\<exists>c'. go_loop quiet_env (sides_of tr) State.AskedGssResponse
         (sockets (wires Side.Frontend tr) (wires Side.Backend tr)) = (Return (), c'))"
proof -
  from no_dead_end [OF quiet_reliable asked_gss_run] obtain tr where
    tr: "fst (last tr) = terminate_message"
    and run: "\<And>c r. live c \<Longrightarrow> (\<forall>side. observe wrap_in wrap_in side c = wires side tr @ r side) \<Longrightarrow>
      \<exists>c'. go_loop quiet_env (sides_of tr) State.AskedGssResponse c = (Return (), c')"
    by fastforce
  have "observe wrap_in wrap_in side (sockets (wires Side.Frontend tr) (wires Side.Backend tr)) =
      wires side tr @ (\<lambda>_. []) side" for side
    by (cases side) simp_all
  with tr run [of "sockets (wires Side.Frontend tr) (wires Side.Backend tr)" "\<lambda>_. []"] show ?thesis by auto
qed

section \<open>Reading messages\<close>

text \<open>C23. When \<open>read_msg\<close> returns, it has taken exactly one frame (a length field and as many
  bytes as it announces) from the stream and nothing more; the bytes it hands on are the type
  byte followed by that frame, and the decoding result is that of the frame's body. It never
  writes.\<close>

theorem read_msg_takes_one_frame:
  assumes "byte_stream ops incoming sent" and "read_msg ovf ops D s = (Return d, s')"
  shows "\<exists>body. 4 + length body < 2 ^ 32 \<and> incoming s = frame body @ incoming s'
    \<and> rd_bytes d = type_prefix D @ frame body \<and> rd_msg_result d = decode_whole D body
    \<and> sent s' = sent s"
  using assms by (auto elim!: byte_stream.read_msg_returns)

lemma query_run:
  "read_msg True pipe_ops Query_msg \<lparr>pipe_in = [0, 0, 0, 6, 65, 0, 88], pipe_out = []\<rparr> =
     (Return \<lparr>rd_bytes = [81, 0, 0, 0, 6, 65, 0], rd_msg_result = Inr (Query.Query [65])\<rparr>,
      \<lparr>pipe_in = [88], pipe_out = []\<rparr>)"
  by code_simp

theorem read_msg_takes_one_frame_witness:
  "\<exists>body. [0, 0, 0, 6, 65, 0, 88] = frame body @ [88]
    \<and> [81, 0, 0, 0, 6, 65, 0] = type_prefix Query_msg @ frame body
    \<and> Inr (Query.Query [65]) = decode_whole Query_msg body"
  using read_msg_takes_one_frame [OF pipe.byte_stream_axioms query_run] by auto

text \<open>C24. Every frame is read, whatever follows it, provided its length field does not exceed
  \<open>u32::MAX\<close>, or \<open>u32::MAX - 1\<close> for messages with a type byte; debug and release builds
  agree.\<close>

theorem read_msg_reads_every_frame:
  assumes "reliable_stream ops incoming sent" and "incoming s = frame body @ r"
    and "4 + length body < 2 ^ 32" and "TYPE_BYTE_OPT D \<noteq> None \<longrightarrow> 4 + length body < 2 ^ 32 - 1"
  shows "\<exists>s'. read_msg ovf ops D s =
      (Return \<lparr>rd_bytes = type_prefix D @ frame body, rd_msg_result = decode_whole D body\<rparr>, s')
    \<and> incoming s' = r \<and> sent s' = sent s"
  using assms by (auto elim!: reliable_stream.read_msg_complete)

theorem read_msg_reads_every_frame_witness:
  "\<exists>s'. read_msg True pipe_ops Sync_msg \<lparr>pipe_in = [0, 0, 0, 4, 88], pipe_out = []\<rparr> =
      (Return \<lparr>rd_bytes = type_prefix Sync_msg @ frame [], rd_msg_result = decode_whole Sync_msg []\<rparr>, s')
    \<and> pipe_in s' = [88] \<and> pipe_out s' = []"
proof -
  have "[0, 0, 0, 4, 88] = frame [] @ [88]" by code_simp
  then show ?thesis
    using read_msg_reads_every_frame [OF pipe.reliable_stream_axioms,
        of "\<lparr>pipe_in = [0, 0, 0, 4, 88], pipe_out = []\<rparr>" "[]" "[88]" Sync_msg True] by simp
qed

text \<open>C25. A length field below four, which would not even count itself, is refused with
  \<open>OutOfSpace\<close> and the number of missing bytes; no byte of the body is consumed.\<close>

theorem read_msg_refuses_short_length:
  assumes "reliable_stream ops incoming sent"
    and "incoming s = u32_to_be_bytes len @ r" and "unat len < 4"
  shows "\<exists>s'. read_msg ovf ops D s = (Throw (ReadError.EncodeError (OutOfSpace (4 - unat len))), s')
    \<and> incoming s' = r \<and> sent s' = sent s"
  using assms by (rule reliable_stream.read_msg_bad_len)

theorem read_msg_refuses_short_length_witness:
  "\<exists>s'. read_msg True pipe_ops Sync_msg \<lparr>pipe_in = [0, 0, 0, 3, 88], pipe_out = []\<rparr> =
      (Throw (ReadError.EncodeError (OutOfSpace 1)), s') \<and> pipe_in s' = [88] \<and> pipe_out s' = []"
proof -
  have "[0, 0, 0, 3, 88] = u32_to_be_bytes 3 @ [88]" by code_simp
  then show ?thesis
    using read_msg_refuses_short_length [OF pipe.reliable_stream_axioms,
        of "\<lparr>pipe_in = [0, 0, 0, 3, 88], pipe_out = []\<rparr>" 3 "[88]" True Sync_msg] by simp
qed

text \<open>C26. The length \<open>u32::MAX\<close> of a message with a type byte overflows the addition that
  sizes the buffer: a build with overflow checks panics, a release build wraps to an empty
  buffer and reports \<open>OutOfSpace(1)\<close>.\<close>

theorem read_msg_length_overflow:
  assumes "reliable_stream ops incoming sent"
    and "incoming s = u32_to_be_bytes (- 1) @ r" and "TYPE_BYTE_OPT D \<noteq> None"
  shows "\<exists>s'. read_msg ovf ops D s =
    (if ovf then Panic ''attempt to add with overflow''
     else Throw (ReadError.EncodeError (OutOfSpace 1)), s') \<and> incoming s' = r \<and> sent s' = sent s"
  using assms by (rule reliable_stream.read_msg_overflow)

theorem read_msg_length_overflow_witness:
  "\<exists>s'. read_msg True pipe_ops Sync_msg \<lparr>pipe_in = [255, 255, 255, 255], pipe_out = []\<rparr> =
      (Panic ''attempt to add with overflow'', s')"
proof -
  have "[255, 255, 255, 255] = u32_to_be_bytes (- 1) @ []" by code_simp
  then show ?thesis
    using read_msg_length_overflow [OF pipe.reliable_stream_axioms,
        of "\<lparr>pipe_in = [255, 255, 255, 255], pipe_out = []\<rparr>" "[]" Sync_msg True]
    by (auto simp: Sync_msg_def)
qed

text \<open>C38. A stream that ends inside the body that the length field announces gives an \<open>UnexpectedEof\<close>
  I/O error, in debug and release builds alike; the message is not decoded and nothing is written.\<close>

theorem read_msg_eof_in_body:
  assumes "reliable_stream ops incoming sent"
    and "incoming s = u32_to_be_bytes len @ r" and "4 \<le> unat len" and "\<not> len_overflows D len"
    and "length r < unat len - 4"
  shows "\<exists>t s'. read_msg ovf ops D s =
    (Throw (ReadError.IoError (Async_IO.IoError UnexpectedEof t)), s') \<and> sent s' = sent s"
  using assms by (rule reliable_stream.read_msg_eof)

theorem read_msg_eof_in_body_witness:
  "\<exists>t s'. read_msg True pipe_ops Query_msg \<lparr>pipe_in = [0, 0, 0, 6, 65], pipe_out = []\<rparr> =
    (Throw (ReadError.IoError (Async_IO.IoError UnexpectedEof t)), s')"
proof -
  have "[0, 0, 0, 6, 65] = u32_to_be_bytes 6 @ [65]" by code_simp
  moreover have "\<not> len_overflows Query_msg 6" by (simp add: len_overflows_def)
  ultimately show ?thesis
    using read_msg_eof_in_body [OF pipe.reliable_stream_axioms,
        of "\<lparr>pipe_in = [0, 0, 0, 6, 65], pipe_out = []\<rparr>" 6 "[65]" Query_msg True] by auto
qed

text \<open>The largest length field.\<close>

lemma frame_max:
  assumes "length body = 2 ^ 32 - 5"
  shows "frame body = u32_to_be_bytes (- 1) @ body"
proof -
  have "word_of_nat (4 + length body) = (- 1 :: u32)" using assms by simp
  then show ?thesis by (simp add: frame_def)
qed

text \<open>C27. What \<open>read_msg\<close> hands on for forwarding can be read again: a second \<open>read_msg\<close> of the same
  message type, on any reliable stream that brings those bytes (behind the type byte, which is read
  before) and anything after them, returns the same bytes and the same decoding result, and takes
  nothing more; in debug and release builds alike.\<close>

theorem forwarded_bytes_read_back:
  assumes "reliable_stream ops incoming sent" and "read_msg ovf ops D s = (Return d, s')"
    and "reliable_stream ops2 incoming2 sent2" and "type_prefix D @ incoming2 t = rd_bytes d @ r"
  shows "\<exists>t'. read_msg ovf2 ops2 D t = (Return d, t') \<and> incoming2 t' = r \<and> sent2 t' = sent2 t"
proof -
  from byte_stream.read_msg_returns [OF reliable_stream.axioms(1) [OF assms(1)] assms(2)] obtain body where
    body: "4 + length body < 2 ^ 32" "incoming s = frame body @ incoming s'"
    "d = \<lparr>rd_bytes = type_prefix D @ frame body, rd_msg_result = decode_whole D body\<rparr>" by metis
  have "4 + length body < 2 ^ 32 - 1" if "TYPE_BYTE_OPT D \<noteq> None"
  proof (rule ccontr)
    assume "\<not> 4 + length body < 2 ^ 32 - 1"
    with body(1) have "frame body = u32_to_be_bytes (- 1) @ body" by (intro frame_max) simp
    with body(2) have "incoming s = u32_to_be_bytes (- 1) @ body @ incoming s'" by simp
    from reliable_stream.read_msg_overflow [OF assms(1) this that, of ovf] assms(2) show False
      by (auto split: if_splits)
  qed
  then show ?thesis
    using reliable_stream.read_msg_complete [OF assms(3), of t body r D ovf2] body assms(4) by auto
qed

theorem forwarded_bytes_read_back_witness:
  "\<exists>t'. read_msg False pipe_ops Query_msg \<lparr>pipe_in = [0, 0, 0, 6, 65, 0, 7, 7], pipe_out = [1]\<rparr> =
      (Return \<lparr>rd_bytes = [81, 0, 0, 0, 6, 65, 0], rd_msg_result = Inr (Query.Query [65])\<rparr>, t')
    \<and> pipe_in t' = [7, 7] \<and> pipe_out t' = [1]"
proof -
  have "type_prefix Query_msg = [81]" by code_simp
  then show ?thesis
    using forwarded_bytes_read_back [OF pipe.reliable_stream_axioms query_run pipe.reliable_stream_axioms,
        of "\<lparr>pipe_in = [0, 0, 0, 6, 65, 0, 7, 7], pipe_out = [1]\<rparr>" "[7, 7]" False] by simp
qed

section \<open>Decoding message bodies\<close>

lemma as_message_source: "snd (decode_body (as_message W D) bs) = snd (decode_body D bs)"
  by (simp add: as_message_def split: prod.splits sum.splits)

lemmas body_advances =
  Authentication.advances BackendKeyData.advances BindComplete.advances CommandComplete.advances
  DataRow.advances EmptyQueryResponse.advances ErrorResponse.advances NegotiateProtocolVersion.advances
  NoticeResponse.advances ParameterStatus.advances ParseComplete.advances PortalSuspended.advances
  ReadyForQuery.advances RowDescription.advances Bind.advances Execute.advances
  GssResponse.advances Parse.advances Password.advances Query.advances
  SaslInitialResponse.advances SaslResponse.advances Sync.advances Terminate.advances

text \<open>C28. Decoding any message the protocol expects, on any input, stays inside the body: the
  slice is untouched and the position only moves forward, up to the end at most.\<close>

theorem expected_decoders_stay_inside:
  assumes "expected side tb st = Some D" and "source_wf bs"
  shows "advanced bs (snd (decode_body D bs))"
  using assms
  by (cases side; cases tb)
     (auto simp: expected_def expected_backend_def expected_frontend_def as_message_source msg_defs
        split: if_splits intro: body_advances)

theorem expected_decoders_stay_inside_witness:
  "advanced (BytesSource_new [1, 2])
     (snd (decode_body (as_message (\<lambda>x. Message.Frontend (FrontendMsg.Query x)) Query_msg) (BytesSource_new [1, 2])))"
  by (rule expected_decoders_stay_inside [of Side.Frontend TypeByte.Query State.ReadyForQuery])
     (simp_all add: expected_def expected_frontend_def)

text \<open>C31. The first message of a connection: a body decodes to the end with a given result exactly when it is
  the wire form of that result, a cancel request, a TLS request, or a protocol version other than
  the two request codes with a list of named parameters and a terminating zero.\<close>

theorem Initial_body_exact:
  "decode_whole Initial_msg body = Inr m \<longleftrightarrow> Initial_valid m \<and> body = Initial_wire m"
  by (simp add: whole_iffs msg_defs)

text \<open>C32. A Bind body decodes to the end with a given result exactly when it is that message's wire
  form: two names, the formats and the values of the parameters, and the formats of the results,
  each list with a 16-bit count, each value null or up to 2 GiB of bytes.\<close>

theorem Bind_body_exact:
  "decode_whole Bind_msg body = Inr m \<longleftrightarrow> Bind_valid m \<and> body = Bind_wire m"
  by (simp add: whole_iffs msg_defs)

text \<open>A Parse body decodes to the end with a given result exactly when it is that message's wire
  form: a statement name, a query and a counted list of parameter types.\<close>

theorem Parse_body_exact:
  "decode_whole Parse_msg body = Inr m \<longleftrightarrow> Parse_valid m \<and> body = Parse_wire m"
  by (simp add: whole_iffs msg_defs)

text \<open>A SASLInitialResponse body decodes to the end with a given result exactly when it is that
  message's wire form: a mechanism name and optional data with a signed length, where -1 says
  that there is none.\<close>

theorem SaslInitialResponse_body_exact:
  "decode_whole SaslInitialResponse_msg body = Inr m \<longleftrightarrow> SaslInitialResponse_valid m \<and> body = SaslInitialResponse_wire m"
  by (simp add: whole_iffs msg_defs)

text \<open>C33. An Authentication body decodes to the end with a given result exactly when it is that
  request's wire form: a code and what belongs to it, a 4-byte salt, a zero-terminated list of
  SASL mechanisms or the rest of the body.\<close>

theorem Authentication_body_exact:
  "decode_whole Authentication_msg body = Inr m \<longleftrightarrow> Authentication_valid m \<and> body = Authentication_wire m"
  by (simp add: whole_iffs msg_defs)

text \<open>C34. An ErrorResponse body decodes to the end with a given result exactly when it is a sequence
  of fields, each a type, a value without zero and a zero, and then a zero; the types are those of
  the table \<open>field_table\<close> of letters and struct fields, and each field of the struct holds the value
  of the last one with its letter, or nothing.\<close>

theorem ErrorResponse_body_exact:
  "decode_whole ErrorResponse_msg body = Inr (ErrorResponse.ErrorResponse r) \<longleftrightarrow>
     (\<exists>fs. list_all (\<lambda>(t, v). t \<in> known_types \<and> 0 \<notin> set v) fs
        \<and> list_all (\<lambda>(c, field). field r = last_field fs (byte_char c)) field_table
        \<and> body = concat (map (\<lambda>(t, v). t # v @ [0]) fs) @ [0])"
  by (simp add: ErrorResponse_decodes fields_wire_table fields_give_def conj_assoc)

text \<open>C35. A RowDescription body decodes to the end with a given result exactly when it is that
  message's wire form, a counted list of field descriptions.\<close>

theorem RowDescription_body_exact:
  "decode_whole RowDescription_msg body = Inr m \<longleftrightarrow> RowDescription_valid m \<and> body = RowDescription_wire m"
  by (simp add: whole_iffs msg_defs)

text \<open>A DataRow body decodes to the end with a given result exactly when it is that message's wire
  form, a counted list of column values.\<close>

theorem DataRow_body_exact:
  "decode_whole DataRow_msg body = Inr m \<longleftrightarrow> DataRow_valid m \<and> body = DataRow_wire m"
  by (simp add: whole_iffs msg_defs)

text \<open>A NegotiateProtocolVersion body decodes to the end with a given result exactly when it is
  that message's wire form, a minor version and a list of options with a 32-bit count.\<close>

theorem NegotiateProtocolVersion_body_exact:
  "decode_whole NegotiateProtocolVersion_msg body = Inr m \<longleftrightarrow> NegotiateProtocolVersion_valid m \<and> body = NegotiateProtocolVersion_wire m"
  by (simp add: whole_iffs msg_defs)

section \<open>Bytes\<close>

text \<open>\<open>take_until_null\<close> on any well-formed source: without a zero ahead it fails with
  \<open>NoNullByte\<close> and consumes everything; otherwise it returns the bytes before the first zero
  and stands right behind that zero.\<close>

theorem take_until_null_spec:
  assumes "source_wf bs"
  shows "take_until_null bs =
    (if 0 \<in> set (rest bs)
     then (Inr (takeWhile (\<lambda>b. b \<noteq> 0) (rest bs)),
           bs\<lparr>bs_pos := bs_pos bs + length (takeWhile (\<lambda>b. b \<noteq> 0) (rest bs)) + 1\<rparr>)
     else (Inl NoNullByte, bs\<lparr>bs_pos := length (bs_slice bs)\<rparr>))"
proof (cases "0 \<in> set (rest bs)")
  case True
  from split_list_first [OF True] obtain x r where xr: "rest bs = x @ 0 # r" "0 \<notin> set x" by blast
  have "takeWhile (\<lambda>b. b \<noteq> 0) (rest bs) = x"
    using xr(2) unfolding xr(1) by (subst takeWhile_append2) auto
  with take_until_null.decodes [of x "x @ [0]" bs r] assms xr True show ?thesis by simp
next
  case False
  then have "find_null (bs_slice bs) (bs_pos bs) = None" by (simp add: find_null_None rest_def)
  with False show ?thesis by (simp add: take_until_null_def)
qed

theorem take_until_null_spec_witness:
  "take_until_null \<lparr>bs_slice = [7, 65, 66, 0, 9], bs_pos = 1\<rparr> =
    (Inr [65, 66], \<lparr>bs_slice = [7, 65, 66, 0, 9], bs_pos = 4\<rparr>)"
  using take_until_null_spec [of "\<lparr>bs_slice = [7, 65, 66, 0, 9], bs_pos = 1\<rparr>"]
  by (simp add: source_wf_def rest_def)

text \<open>\<open>take_bounded\<close>, under every fixed-size \<open>take_\<close> method: with enough bytes left it
  converts exactly the next ones and moves behind them; otherwise it reports how many are
  missing and consumes the rest. The conversion never sees a shorter slice.\<close>

theorem take_bounded_spec:
  assumes "source_wf bs"
  shows "take_bounded needed decode bs =
    (if needed \<le> left bs
     then (Inr (decode (take needed (rest bs))), bs\<lparr>bs_pos := bs_pos bs + needed\<rparr>)
     else (Inl (NeedMoreBytes (needed - left bs)), bs\<lparr>bs_pos := length (bs_slice bs)\<rparr>))"
  using assms by (auto simp: take_bounded_def source_wf_def left_def rest_def Let_def)

theorem take_bounded_spec_witness:
  "take_bounded 3 length \<lparr>bs_slice = [1, 2], bs_pos = 1\<rparr> =
    (Inl (NeedMoreBytes 2), \<lparr>bs_slice = [1, 2], bs_pos = 2\<rparr>)"
  using take_bounded_spec [of "\<lparr>bs_slice = [1, 2], bs_pos = 1\<rparr>" 3 length]
  by (simp add: source_wf_def left_def)

text \<open>A write through \<open>BytesTarget\<close> either fits, replaces exactly the window at the
  cursor and moves behind it, or fails with the number of missing bytes and leaves the slice
  as it was; it never changes the length of the slice.\<close>

theorem put_bounded_spec:
  assumes "target_wf bt"
  shows "put_bounded bytes bt =
    (if length bytes \<le> BytesTarget_left bt
     then (Inr (), \<lparr>bt_slice = take (bt_pos bt) (bt_slice bt) @ bytes
                     @ drop (bt_pos bt + length bytes) (bt_slice bt),
                   bt_pos = bt_pos bt + length bytes\<rparr>)
     else (Inl (OutOfSpace (length bytes - BytesTarget_left bt)),
           bt\<lparr>bt_pos := length (bt_slice bt)\<rparr>))"
  using assms put_bounded_fits [of bt bytes]
  by (auto simp: put_bounded_def BytesTarget_left_def target_wf_def Let_def)

theorem put_bounded_spec_witness:
  "put_bounded [8, 9] \<lparr>bt_slice = [0, 0, 0, 0], bt_pos = 1\<rparr> =
    (Inr (), \<lparr>bt_slice = [0, 8, 9, 0], bt_pos = 3\<rparr>)"
  using put_bounded_spec [of "\<lparr>bt_slice = [0, 0, 0, 0], bt_pos = 1\<rparr>" "[8, 9]"]
  by (simp add: target_wf_def BytesTarget_left_def)

text \<open>The type bytes: \<open>try_from\<close> accepts exactly the bytes that \<open>into\<close> produces and
  inverts it, so no two message types share a byte.\<close>

theorem type_byte_round_trip:
  "TypeByte_try_from b = Some t \<longleftrightarrow> b = TypeByte_into t"
  by simp

text \<open>C39. \<open>read_and_drop\<close> skips exactly the requested number of bytes, in batches of 64 KiB,
  and returns when the stream has them.\<close>

theorem read_and_drop_skips:
  assumes "reliable_stream ops incoming sent" and "unat num \<le> length (incoming s)"
  shows "\<exists>s'. read_and_drop ops num s = (Return (), s') \<and> incoming s' = drop (unat num) (incoming s)"
  using assms unfolding read_and_drop_def by (rule reliable_stream.read_and_drop_loop_skips)

theorem read_and_drop_skips_witness:
  "\<exists>s'. read_and_drop pipe_ops 2 \<lparr>pipe_in = [1, 2, 3], pipe_out = []\<rparr> = (Return (), s') \<and> pipe_in s' = [3]"
  using read_and_drop_skips [OF pipe.reliable_stream_axioms, of 2 "\<lparr>pipe_in = [1, 2, 3], pipe_out = []\<rparr>"]
  by simp

section \<open>The server\<close>

text \<open>A server over in-memory streams for the target \<open>127.0.0.1:5432\<close>, and a run in which two
  clients arrive, the second one is numbered first and is served to the end while the first one
  has only been announced.\<close>

abbreviation localhost :: SocketAddr where
  "localhost \<equiv> \<lparr>ip = V4 127 0 0 1, port = 5432\<rparr>"

definition demo_env :: "(Pipe, Pipe, string, unit, unit, unit, unit, unit) ServerEnv" where
  "demo_env = pipe_server False (\<lambda>_. Inr localhost)"

definition demo_server :: "string \<Rightarrow> (unit, unit) Server" where
  "demo_server host =
     \<lparr>tls_acceptor = (), tcp_listener = (),
      config = \<lparr>listen_addr = V4 127 0 0 1, listen_port = 5432, target_host = host,
                target_port = 5432, cert_p12_file = '''', cert_p12_password = ''''\<rparr>\<rparr>"

definition demo_client :: Pipe where
  "demo_client = \<lparr>pipe_in = startup_bytes @ terminate_bytes, pipe_out = []\<rparr>"

definition demo_target :: Pipe where
  "demo_target = \<lparr>pipe_in = login_bytes, pipe_out = []\<rparr>"

abbreviation demo_choices :: "Side list" where
  "demo_choices \<equiv> [Side.Backend, Side.Backend, Side.Backend, Side.Frontend]"

abbreviation startup :: Message where
  "startup \<equiv> Message.Frontend (FrontendMsg.Initial (Initial.Startup
     \<lparr>startup_version = \<lparr>major = 3, minor = 0\<rparr>, startup_params = []\<rparr>))"

lemma demo_convey:
  "convey (client_env demo_env ()) demo_choices demo_client demo_target = (Return (), conversation_end)"
  by code_simp

lemma demo_address: "IpAddr_from_str ''127.0.0.1'' = Some (V4 127 0 0 1)"
  by code_simp

definition demo_moves :: "Pipe move list" where
  "demo_moves =
     [Arrival (Some (Inr demo_client)), Arrival (Some (Inr demo_client)),
      Turn 1 NoAnswer, Turn 0 NoAnswer, Turn 1 NoAnswer, Turn 1 NoAnswer,
      Turn 2 (Connection (Return demo_target)), Turn 0 NoAnswer,
      Turn 2 (Clock ''t1''), Turn 2 NoAnswer, Turn 2 (Served demo_choices),
      Turn 2 NoAnswer, Turn 2 NoAnswer, Turn 2 NoAnswer, Turn 2 NoAnswer, Turn 2 NoAnswer,
      Turn 2 (Clock ''t2''), Turn 2 NoAnswer]"

abbreviation demo_effects :: "(nat \<times> event) list" where
  "demo_effects \<equiv>
     [(1, TookNumber 1), (0, TookNumber 2), (1, Output (NewConnection 5432 1 localhost)),
      (1, Dialled localhost), (0, Output (NewConnection 5432 2 localhost)),
      (1, Output (ConnectedToTarget ''t1'' 5432 1 localhost)),
      (1, Output (Callback startup)), (1, Output (Callback (login ! 0))),
      (1, Output (Callback (login ! 1))), (1, Output (Callback (login ! 2))),
      (1, Output (Callback terminate_message)),
      (1, Output (StoppedConveying ''t2'' 5432 1 (Inr ())))]"

lemma demo_run:
  "\<exists>c. moves demo_env (demo_server ''127.0.0.1'') demo_moves loop_accepting = Some c
    \<and> accepted c = [demo_client, demo_client] \<and> effects c = demo_effects \<and> loop_result c = None
    \<and> \<not> aborted c"
proof -
  have addrs: "local_addr demo_env s = Inr localhost" "peer_addr demo_env s = Inr localhost" for s
    by (simp_all add: demo_env_def pipe_server_def)
  show ?thesis
    by (simp add: demo_moves_def move_def accept_round_def task_turn_def loop_accepting_def client_task_def
        handle_client_def serve_client_def convey_task_def unwrap_io_def local_port_or_0_def addrs
        format_now_def demo_server_def demo_address demo_convey Let_def)
qed

lemma demo_reachable:
  obtains c where "moves demo_env (demo_server ''127.0.0.1'') demo_moves loop_accepting = Some c"
    "reachable demo_env (demo_server ''127.0.0.1'') c" "accepted c = [demo_client, demo_client]"
    "effects c = demo_effects" "loop_result c = None" "\<not> aborted c"
  using demo_run moves_reachable reachable.start by metis

text \<open>C6. In every interleaving of the accept loop and the tasks, what a client's connection has
  done (numbers taken, addresses dialled, lines printed, callback calls) is an initial part of
  the record of that connection on its own: its number, the announcement with the port and the
  peer of its own stream, then either the failure to parse the target, or dialling it, the
  failure to connect, or the conveying of that very stream and its end. No other client shows
  up in it.\<close>

theorem clients_isolated:
  assumes "reachable env server c" and "k < length (accepted c)"
  shows "\<exists>n now1 now2 connected choices.
    prefix (entries_of k (effects c))
      (client_record env server (accepted c ! k) n now1 now2 connected choices)"
  using assms by (rule reachable_record)

theorem clients_isolated_witness:
  "\<exists>n now1 now2 connected choices.
    prefix [TookNumber 2, Output (NewConnection 5432 2 localhost)]
      (client_record demo_env (demo_server ''127.0.0.1'') demo_client n now1 now2 connected choices)"
proof (rule demo_reachable)
  fix c
  assume c: "reachable demo_env (demo_server ''127.0.0.1'') c"
    "accepted c = [demo_client, demo_client]" "effects c = demo_effects"
  show ?thesis using clients_isolated [OF c(1), of 0] c(2,3) by simp
qed

text \<open>C9. Whatever the other clients are doing, stuck, failing or panicking, as long as the accept
  loop runs a new client is accepted and can be served to the end of its record, for every
  clock, outcome of connecting and order of the sides. After the arrival only the tasks of this
  client take turns (\<open>own_turns\<close>), and what they get from outside is just those clocks, that
  outcome and that order; the tasks and the effects of every other client stay as they are.\<close>

theorem new_client_can_be_served:
  assumes "reachable env server c" and "\<not> aborted c" and "loop_result c = None"
  shows "\<exists>ms c'. moves env server (Arrival (Some (Inr stream)) # ms) c = Some c'
    \<and> own_turns env (length (accepted c)) ms (accept_round env server (Some (Inr stream)) c)
    \<and> inputs ms = client_inputs env server stream now1 now2 connected choices
    \<and> entries_of (length (accepted c)) (effects c') =
        client_record env server stream (next_client_id c) now1 now2 connected choices
    \<and> (\<forall>j < length (accepted c). entries_of j (tasks c') = entries_of j (tasks c)
         \<and> entries_of j (effects c') = entries_of j (effects c))"
  using assms by (rule new_client_served)

theorem new_client_can_be_served_witness:
  "\<exists>c ms c'. effects c = demo_effects
    \<and> moves demo_env (demo_server ''127.0.0.1'') (Arrival (Some (Inr demo_client)) # ms) c = Some c'
    \<and> own_turns demo_env 2 ms (accept_round demo_env (demo_server ''127.0.0.1'') (Some (Inr demo_client)) c)
    \<and> entries_of 2 (effects c') =
        client_record demo_env (demo_server ''127.0.0.1'') demo_client (next_client_id c) ''t3'' ''t4''
          (Throw (error_other ''refused'')) []"
proof (rule demo_reachable)
  fix c
  assume c: "reachable demo_env (demo_server ''127.0.0.1'') c" "\<not> aborted c" "loop_result c = None"
    "accepted c = [demo_client, demo_client]" "effects c = demo_effects"
  from new_client_can_be_served [OF c(1-3), of demo_client "''t3''" "''t4''"
      "Throw (error_other ''refused'')" "[]"] c(4)
  obtain ms c' where
    "moves demo_env (demo_server ''127.0.0.1'') (Arrival (Some (Inr demo_client)) # ms) c = Some c'"
    "own_turns demo_env 2 ms (accept_round demo_env (demo_server ''127.0.0.1'') (Some (Inr demo_client)) c)"
    "entries_of 2 (effects c') =
        client_record demo_env (demo_server ''127.0.0.1'') demo_client (next_client_id c) ''t3'' ''t4''
          (Throw (error_other ''refused'')) []"
    by (auto simp: numeral_2_eq_2 simp del: moves.simps)
  with c(5) show ?thesis by blast
qed

text \<open>The example connection with its wire forms.\<close>

abbreviation demo_trace :: "(Message \<times> u8 list) list" where
  "demo_trace \<equiv>
     [(startup, startup_bytes), (login ! 0, [82, 0, 0, 0, 8, 0, 0, 0, 0]),
      (login ! 1, [75, 0, 0, 0, 12, 0, 0, 0, 1, 0, 0, 0, 2]),
      (login ! 2, [90, 0, 0, 0, 5, 73]), (terminate_message, terminate_bytes)]"

lemma demo_wires: "list_all (\<lambda>(m, w). message_wire m w \<and> length w < 2 ^ 32 - 1) demo_trace"
proof -
  have bodies: "Initial_wire (Initial.Startup \<lparr>startup_version = \<lparr>major = 3, minor = 0\<rparr>, startup_params = []\<rparr>) = [0, 3, 0, 0, 0]"
    "Authentication_wire Authentication.Ok = [0, 0, 0, 0]"
    "BackendKeyData_wire \<lparr>process_id = 1, secret_key = 2\<rparr> = [0, 0, 0, 1, 0, 0, 0, 2]"
    "ReadyForQuery_wire \<lparr>status = Status.Idle\<rparr> = [73]" "Terminate_wire Terminate.Terminate = []"
    "[TypeByte_into TypeByte.Terminate] @ frame [] = terminate_bytes"
    "frame [0, 3, 0, 0, 0] = startup_bytes"
    "[TypeByte_into TypeByte.Authentication] @ frame [0, 0, 0, 0] = [82, 0, 0, 0, 8, 0, 0, 0, 0]"
    "[TypeByte_into TypeByte.BackendKeyData] @ frame [0, 0, 0, 1, 0, 0, 0, 2] = [75, 0, 0, 0, 12, 0, 0, 0, 1, 0, 0, 0, 2]"
    "[TypeByte_into TypeByte.ReadyForQuery] @ frame [73] = [90, 0, 0, 0, 5, 73]"
    by code_simp+
  have "Initial_valid (Initial.Startup \<lparr>startup_version = \<lparr>major = 3, minor = 0\<rparr>, startup_params = []\<rparr>)"
    by code_simp
  then show ?thesis using bodies by (simp add: message_wire_def)
qed

lemma demo_plain: "plain_connection (map fst demo_trace)"
proof -
  have "session State.GotStartup (login @ [terminate_message]) Stop"
    by (auto simp: session_Cons auth_next_def)
  then show ?thesis by (simp add: plain_connection_def continues_def)
qed

text \<open>C19. A refused request for authentication reaches the client: in every state that does not admit it,
  an authentication message of the target is reported and relayed unchanged before the loop ends
  with the error for its state. Every other message that a state does not admit is refused
  by its type byte and never relayed.\<close>

theorem refused_authentication_is_relayed:
  assumes "conveyor_reliable env fi fo bi bo" and "live c" and "auth_next st a = None"
    and "message_wire (Message.Backend (BackendMsg.Authentication a)) w" and "length w < 2 ^ 32"
    and "observe fi bi Side.Backend c = w @ r"
  shows "\<exists>c'. go_loop env (Side.Backend # choices) st c =
      (Throw (auth_rejection st (Message.Backend (BackendMsg.Authentication a))), c')
    \<and> conveys fi fo bi bo [(Message.Backend (BackendMsg.Authentication a), w)] c c'"
  using assms by (rule conveyor_reliable.go_loop_authentication_refused)

theorem refused_authentication_is_relayed_witness:
  "\<exists>c'. go_loop quiet_env [Side.Backend] State.ReadyForQuery (sockets [] [82, 0, 0, 0, 8, 0, 0, 0, 0]) =
      (Throw (auth_rejection State.ReadyForQuery (login ! 0)), c')
    \<and> conveys wrap_in wrap_out wrap_in wrap_out [(login ! 0, [82, 0, 0, 0, 8, 0, 0, 0, 0])]
        (sockets [] [82, 0, 0, 0, 8, 0, 0, 0, 0]) c'"
  using refused_authentication_is_relayed [OF quiet_reliable, of "sockets [] [82, 0, 0, 0, 8, 0, 0, 0, 0]"
      State.ReadyForQuery Authentication.Ok "[82, 0, 0, 0, 8, 0, 0, 0, 0]" "[]" "[]"] demo_wires
  by (simp add: auth_next_def)

text \<open>C10. The whole way: as long as the accept loop runs, whatever the other clients are doing, a new
  client whose stream and whose target bring the bytes of a complete connection (a cancel request
  or a startup and a session up to its end, with or without TLS, or a TLS request that the target
  refuses by an error) can be served to the report of success, by turns of its own tasks only. Its
  record is the number, the announcement, the dialling of the target, exactly the messages of the
  connection in order, and the success. What its task asks for is the connection to the target,
  two clocks and the order in which the sides are served; and \<open>convey\<close> on that stream, that target
  and that order, which is what the task runs, leaves the conveyor in \<open>cv\<close>: each message was written
  unchanged to the other side, around the negotiation of TLS if there was one, and nothing that
  either side sent after the connection was taken.\<close>

theorem connection_served_to_the_end:
  assumes "wrapped_reliable (tcp_ops env) (tls_ops env) win wout"
    and "reachable env server c" and "\<not> aborted c" and "loop_result c = None"
    and "brings (client_env env (tls_acceptor server)) win win unread
      (win (StreamWrap.Plain client)) (win (StreamWrap.Plain target)) tr"
    and "list_all (\<lambda>(m, w). message_wire m w \<and> length w < 2 ^ 32 - 1) tr"
    and "peer_addr env client = Inr peer" and "local_addr env target = Inr addr"
    and "IpAddr_from_str (target_host (config server)) = Some target_ip"
  shows "\<exists>ms c' cv. moves env server (Arrival (Some (Inr client)) # ms) c = Some c'
    \<and> own_turns env (length (accepted c)) ms (accept_round env server (Some (Inr client)) c)
    \<and> inputs ms = [Connection (Return target), Clock now1, Served (loop_sides (map fst tr)), Clock now2]
    \<and> convey (client_env env (tls_acceptor server)) (loop_sides (map fst tr)) client target = (Return (), cv)
    \<and> entries_of (length (accepted c)) (effects c') =
        [TookNumber (next_client_id c),
         Output (NewConnection (local_port_or_0 env client) (next_client_id c) peer),
         Dialled \<lparr>ip = target_ip, port = target_port (config server)\<rparr>,
         Output (ConnectedToTarget now1 (local_port_or_0 env client) (next_client_id c) addr)]
        @ map (\<lambda>(m, w). Output (Callback m)) tr
        @ [Output (StoppedConveying now2 (local_port_or_0 env client) (next_client_id c) (Inr ()))]
    \<and> carries (client_env env (tls_acceptor server)) win wout win wout tr (Conveyor_new client target) cv
    \<and> (\<forall>side. observe win win side cv = unread side)
    \<and> (\<forall>j < length (accepted c). entries_of j (effects c') = entries_of j (effects c))"
  by (rule server_reliable.session_served [OF server_reliable.intro [OF assms(1)] assms(2-)])

text \<open>The demonstration server's TLS is the identity, so that what follows a handshake arrives
  below it in the same bytes.\<close>

lemma demo_handshakes:
  "handshakes (frontend_tls_server (client_env demo_env ())) wrap_in x x"
  "handshakes (backend_tls_client (client_env demo_env ())) wrap_in x x"
  by (simp_all add: handshakes_def client_env_def demo_env_def pipe_server_def wrap_in_def Let_def
        NativeTlsServer_accept_def NativeTlsClient_connect_def)

lemma tls_request_wire: "message_wire (Initial_message Initial.TLS) tls_request_bytes"
proof -
  have "frame (Initial_wire Initial.TLS) = tls_request_bytes" "length (Initial_wire Initial.TLS) = 4"
    by code_simp+
  then show ?thesis by (simp add: Initial_message_wire)
qed

theorem connection_served_to_the_end_witness:
  "\<exists>c ms c'. effects c = demo_effects
    \<and> moves demo_env (demo_server ''127.0.0.1'')
        (Arrival (Some (Inr \<lparr>pipe_in = tls_request_bytes @ startup_bytes @ terminate_bytes, pipe_out = []\<rparr>)) # ms) c
      = Some c'
    \<and> callbacks (entries_of 2 (effects c')) = Initial_message Initial.TLS # map fst demo_trace
    \<and> inputs ms = [Connection (Return \<lparr>pipe_in = TLS_SUPPORTED # login_bytes, pipe_out = []\<rparr>), Clock ''t3'',
         Served (loop_sides (Initial_message Initial.TLS # map fst demo_trace)), Clock ''t4'']"
proof (rule demo_reachable)
  let ?client = "\<lparr>pipe_in = tls_request_bytes @ startup_bytes @ terminate_bytes, pipe_out = []\<rparr> :: Pipe"
  let ?target = "\<lparr>pipe_in = TLS_SUPPORTED # login_bytes, pipe_out = []\<rparr> :: Pipe"
  fix c
  assume c: "reachable demo_env (demo_server ''127.0.0.1'') c" "\<not> aborted c" "loop_result c = None"
    "accepted c = [demo_client, demo_client]" "effects c = demo_effects"
  have reliable: "wrapped_reliable (tcp_ops demo_env) (tls_ops demo_env) wrap_in wrap_out"
    using pipe_wrap.wrapped_reliable_axioms by (simp add: demo_env_def pipe_server_def)
  have addrs: "peer_addr demo_env ?client = Inr localhost" "local_addr demo_env s = Inr localhost" for s
    by (simp_all add: demo_env_def pipe_server_def)
  have "answers (backend_tls_client (client_env demo_env ())) wrap_in (wrap_in (StreamWrap.Plain ?target))
      (wires Side.Backend demo_trace @ (\<lambda>_. []) Side.Backend)"
    using demo_handshakes by (simp add: answers_def wrap_in_def)
  from brings_tls [where unread = "\<lambda>_. []", OF demo_plain demo_handshakes(1) this, of tls_request_bytes]
  have brought: "brings (client_env demo_env (tls_acceptor (demo_server ''127.0.0.1''))) wrap_in wrap_in (\<lambda>_. [])
      (wrap_in (StreamWrap.Plain ?client)) (wrap_in (StreamWrap.Plain ?target))
      ((Initial_message Initial.TLS, tls_request_bytes) # demo_trace)"
    by (simp add: demo_server_def wrap_in_def)
  have fits: "list_all (\<lambda>(m, w). message_wire m w \<and> length w < 2 ^ 32 - 1)
      ((Initial_message Initial.TLS, tls_request_bytes) # demo_trace)"
    using demo_wires tls_request_wire by simp
  have host: "IpAddr_from_str (target_host (config (demo_server ''127.0.0.1''))) = Some (V4 127 0 0 1)"
    by (simp add: demo_server_def demo_address)
  from connection_served_to_the_end [OF reliable c(1-3) brought fits addrs(1) addrs(2) host,
      of "''t3''" "''t4''"] c(4)
  obtain ms c' where
    "moves demo_env (demo_server ''127.0.0.1'') (Arrival (Some (Inr ?client)) # ms) c = Some c'"
    "callbacks (entries_of 2 (effects c')) = Initial_message Initial.TLS # map fst demo_trace"
    "inputs ms = [Connection (Return ?target), Clock ''t3'',
       Served (loop_sides (Initial_message Initial.TLS # map fst demo_trace)), Clock ''t4'']"
    by (auto simp: numeral_2_eq_2 simp del: moves.simps)
  with c(5) show ?thesis by blast
qed

text \<open>C8. A connection that reports that it stopped conveying with success has given the callback a
  complete connection: an opening (a startup or cancel request, possibly after a TLS request,
  or a TLS request and its refusal) and, after a startup, a session of the protocol up to its
  end.\<close>

theorem stopped_with_success_is_complete:
  assumes "wrapped_stream (tcp_ops env) (tls_ops env) win wout" and "reachable env server c"
    and "(k, Output (StoppedConveying now lport n (Inr u))) \<in> set (effects c)"
  shows "complete_connection (callbacks (entries_of k (effects c)))"
  using assms by (rule stopped_ok_complete)

theorem stopped_with_success_is_complete_witness:
  "complete_connection ([startup] @ login @ [terminate_message])"
proof (rule demo_reachable)
  fix c
  assume c: "reachable demo_env (demo_server ''127.0.0.1'') c" "effects c = demo_effects"
  have streams: "wrapped_stream (tcp_ops demo_env) (tls_ops demo_env) wrap_in wrap_out"
    using pipe_wrap.wrapped_stream_axioms by (simp add: demo_env_def pipe_server_def)
  show ?thesis
    using stopped_with_success_is_complete [OF streams c(1), of 1 "''t2''" 5432 1 "()"] c(2) by simp
qed

text \<open>C20. The client numbers: they are given out in order from 1 on, wrapping at \<open>2 ^ 64\<close>, and no two
  clients get the same one unless \<open>2 ^ 64\<close> clients have been accepted.\<close>

theorem client_numbers:
  assumes "reachable env server c"
  shows "numbers c = map (\<lambda>i. word_of_nat (Suc i)) [0..<length (numbers c)]
    \<and> (length (accepted c) < 2 ^ 64 \<longrightarrow>
        (\<forall>j k n. (j, TookNumber n) \<in> set (effects c) \<and> (k, TookNumber n) \<in> set (effects c) \<longrightarrow> j = k))"
  using numbers_in_order [OF assms] same_number_same_client [OF assms] by blast

theorem client_numbers_witness:
  "\<exists>c :: Pipe Running. effects c = demo_effects \<and> numbers c = map (\<lambda>i. word_of_nat (Suc i)) [0..<2]"
proof (rule demo_reachable)
  fix c
  assume c: "reachable demo_env (demo_server ''127.0.0.1'') c" "effects c = demo_effects"
  then have two: "length (numbers c) = 2" by (simp add: numbers_def map_filter_simps)
  from client_numbers [OF c(1), THEN conjunct1]
  have "numbers c = map (\<lambda>i. word_of_nat (Suc i)) [0..<2]" unfolding two .
  with c(2) show ?thesis by blast
qed

text \<open>C21. The accept loop takes the incoming streams in order, up to the first error or the end of
  the listener. It returns \<open>Ok\<close> only at that end, and a single failed accept ends it with that
  error, after which no client is accepted any more.\<close>

theorem accept_loop_end:
  assumes "moves env server ms loop_accepting = Some c"
  shows "arrivals ms = map (\<lambda>s. Some (Inr s)) (accepted c)
    @ (case loop_result c of None \<Rightarrow> [] | Some (Inl e) \<Rightarrow> [Some (Inl e)] | Some (Inr _) \<Rightarrow> [None])"
  using moves_arrivals [OF assms] by (auto simp: loop_accepting_def last_item_def)

theorem accept_loop_end_witness:
  "arrivals [Arrival (Some (Inr demo_client)), Arrival (Some (Inl (error_other ''too many files'')))] =
    [Some (Inr demo_client), Some (Inl (error_other ''too many files''))]"
proof -
  have "\<exists>c. moves demo_env (demo_server []) [Arrival (Some (Inr demo_client)),
        Arrival (Some (Inl (error_other ''too many files'')))] loop_accepting = Some c
      \<and> accepted c = [demo_client] \<and> loop_result c = Some (Inl (error_other ''too many files''))"
    by (simp add: move_def accept_round_def loop_accepting_def)
  then show ?thesis using accept_loop_end by fastforce
qed

text \<open>Only the configured target is dialled: its address is what the target host parses to, and
  its port the target port.\<close>

theorem dials_only_the_target:
  assumes "reachable env server c" and "(k, Dialled addr) \<in> set (effects c)"
  shows "IpAddr_from_str (target_host (config server)) = Some (ip addr)
    \<and> port addr = target_port (config server)"
  using reachable_dials [OF assms] by auto

theorem dials_only_the_target_witness:
  "IpAddr_from_str ''127.0.0.1'' = Some (V4 127 0 0 1)"
proof (rule demo_reachable)
  fix c
  assume c: "reachable demo_env (demo_server ''127.0.0.1'') c" "effects c = demo_effects"
  show ?thesis using dials_only_the_target [OF c(1), of 1 localhost] c(2) by (simp add: demo_server_def)
qed

text \<open>C30. A target host that is a name and no address (\<open>host_name\<close>: it has a character that no address
  has, or no colon and something else than decimal digits and dots) is never resolved. Nothing is
  dialled for any client; and for every client whose peer's address can be told, what is done is an
  initial part of its number, its announcement and the report that it could not be handled, and
  turns of its own tasks lead to the whole of it as long as the process runs.\<close>

theorem host_name_not_resolved:
  assumes "reachable env server c" and "host_name (target_host (config server))"
    and "k < length (accepted c)" and "peer_addr env (accepted c ! k) = Inr peer"
  shows "(\<forall>j addr. (j, Dialled addr) \<notin> set (effects c))
    \<and> (\<exists>n now. prefix (entries_of k (effects c))
        [TookNumber n, Output (NewConnection (local_port_or_0 env (accepted c ! k)) n peer),
         Output (CouldNotBeHandled now (local_port_or_0 env (accepted c ! k)) n addr_parse_error)])
    \<and> (\<not> aborted c \<longrightarrow>
        (\<exists>ms c' n now. moves env server ms c = Some c' \<and> own_turns env k ms c
          \<and> entries_of k (effects c') =
            [TookNumber n, Output (NewConnection (local_port_or_0 env (accepted c ! k)) n peer),
             Output (CouldNotBeHandled now (local_port_or_0 env (accepted c ! k)) n addr_parse_error)]))"
proof -
  note unknown = host_name_not_an_address [OF assms(2)]
  have "(j, Dialled addr) \<notin> set (effects c)" for j addr
    using reachable_dials [OF assms(1), of j addr] unknown by auto
  with unresolved_served [OF assms(1) unknown assms(3,4)] show ?thesis
    unfolding unresolved_record_def by blast
qed

definition unresolved_moves :: "Pipe move list" where
  "unresolved_moves = [Arrival (Some (Inr demo_client)), Turn 0 NoAnswer]"

theorem host_name_not_resolved_witness:
  "\<exists>c. reachable demo_env (demo_server ''db'') c \<and> accepted c = [demo_client]
    \<and> (\<exists>ms c' n now. moves demo_env (demo_server ''db'') ms c = Some c'
        \<and> entries_of 0 (effects c') = [TookNumber n, Output (NewConnection 5432 n localhost),
            Output (CouldNotBeHandled now 5432 n addr_parse_error)])"
proof -
  have addrs: "local_addr demo_env s = Inr localhost" "peer_addr demo_env s = Inr localhost" for s
    by (simp_all add: demo_env_def pipe_server_def)
  have name: "host_name ''db''" by code_simp
  have "\<exists>c. moves demo_env (demo_server ''db'') unresolved_moves loop_accepting = Some c
    \<and> accepted c = [demo_client] \<and> \<not> aborted c"
    by (simp add: unresolved_moves_def move_def accept_round_def task_turn_def loop_accepting_def client_task_def
        unwrap_io_def local_port_or_0_def addrs Let_def)
  then obtain c where c: "reachable demo_env (demo_server ''db'') c" "accepted c = [demo_client]" "\<not> aborted c"
    using moves_reachable reachable.start by metis
  with host_name_not_resolved [OF c(1), of 0 localhost] name show ?thesis
    by (intro exI [of _ c]) (auto simp: addrs demo_server_def local_port_or_0_def simp del: moves.simps)
qed

section \<open>What is shown of messages\<close>

text \<open>C29. What is printed identifies the messages: if \<open>hex::encode\<close> tells byte strings apart, two
  sequences of messages whose texts are UTF-8, in which no parameter has a colon in its name, and
  that leave the same characters on the standard output, are the same sequence.\<close>

theorem dump_identifies_messages:
  assumes "inj hx"
    and "list_all (\<lambda>m. Message_utf8 m \<and> plain_names m) ms"
    and "list_all (\<lambda>m. Message_utf8 m \<and> plain_names m) ms'"
    and "dumped printable hx ms = dumped printable hx ms'"
  shows "ms = ms'"
  using assms by (rule dumped_inject)

text \<open>Two lower-case hexadecimal digits per byte.\<close>

definition hex_digit :: "u8 \<Rightarrow> nat" where
  "hex_digit d = (if unat d < 10 then 48 + unat d else 87 + unat d)"

definition hex_encode :: hex where
  "hex_encode bs = concat (map (\<lambda>b. [hex_digit (b div 16), hex_digit (b mod 16)]) bs)"

lemma inj_hex_encode: "inj hex_encode"
proof (rule injI)
  have digit: "hex_digit d = hex_digit e \<longleftrightarrow> d = e" for d e
    by (auto simp: hex_digit_def word_unat_eq_iff split: if_splits)
  fix x y
  assume "hex_encode x = hex_encode y"
  then show "x = y"
  proof (induction x arbitrary: y)
    case (Cons b x)
    then obtain c y' where y: "y = c # y'" by (cases y) (auto simp: hex_encode_def)
    with Cons.prems have "b div 16 = c div 16" "b mod 16 = c mod 16" "hex_encode x = hex_encode y'"
      by (simp_all add: hex_encode_def digit)
    with Cons.IH y show ?case using word_mod_div_equality [of b 16] word_mod_div_equality [of c 16] by metis
  qed (simp add: hex_encode_def split: list.splits)
qed

theorem dump_identifies_messages_witness:
  "[Message.Frontend (FrontendMsg.Query (Query.Query (utf8_encode [233])))] =
   [Message.Frontend (FrontendMsg.Query (Query.Query [195, 169]))]"
proof (rule dump_identifies_messages [OF inj_hex_encode])
  have "utf8_encode [233] = [195, 169]" by (simp add: utf8_encode_def utf8_char_def)
  moreover have "valid_utf8 (utf8_encode [233])" by (rule valid_utf8_encode) (simp add: scalar_def)
  ultimately show
    "list_all (\<lambda>m. Message_utf8 m \<and> plain_names m)
       [Message.Frontend (FrontendMsg.Query (Query.Query (utf8_encode [233])))]"
    "list_all (\<lambda>m. Message_utf8 m \<and> plain_names m) [Message.Frontend (FrontendMsg.Query (Query.Query [195, 169]))]"
    "dumped (\<lambda>c. 32 \<le> c) hex_encode [Message.Frontend (FrontendMsg.Query (Query.Query (utf8_encode [233])))] =
     dumped (\<lambda>c. 32 \<le> c) hex_encode [Message.Frontend (FrontendMsg.Query (Query.Query [195, 169]))]"
    by simp_all
qed



section \<open>The tests of the repository\<close>

text \<open>C11. The conversations of the repository's protocol tests: over every pair of reliable streams
  that deliver the bytes of what the script of a test queues, before TLS and inside it, and nothing
  else, the conveyor that serves the sides in the order in which the script queues their messages
  gives the callback exactly the messages the test expects, takes both streams to their ends, and
  returns what the test asserts: success, or \<open>Unsupported\<close> for the two kinds of authentication that
  are not supported.\<close>

theorem protocol_scripts_carried_out:
  assumes "conveyor_reliable env fi fo bi bo" and "(steps, assertion) \<in> set protocol_tests"
    and "script_arrives env fi bi W (streams (run_script steps))
      (fi (StreamWrap.Plain front)) (bi (StreamWrap.Plain back))"
    and "list_all (\<lambda>m. message_wire m (W m) \<and> length (W m) < 2 ^ 32 - 1) (expected_conveyed (run_script steps))"
  shows "\<exists>result. script_result env fi bi steps front back = Some result
    \<and> assertion_holds assertion result"
  using assms by (rule conveyor_reliable.script_carried_out)

abbreviation cancel_bytes :: "u8 list" where
  "cancel_bytes \<equiv> [0, 0, 0, 16, 4, 210, 22, 46, 0, 0, 0, 11, 0, 0, 0, 12]"

lemma cancel_wire: "message_wire (Initial_message (initial_cancel 11 12)) cancel_bytes"
proof -
  have "frame (Initial_wire (initial_cancel 11 12)) = cancel_bytes"
    "length (Initial_wire (initial_cancel 11 12)) = 12" "Initial_valid (initial_cancel 11 12)"
    by code_simp+
  then show ?thesis by (simp add: Initial_message_wire)
qed

theorem protocol_scripts_carried_out_witness:
  "\<exists>result. script_result (client_env demo_env ()) wrap_in wrap_in (fst test_cancel_when_backend_accepts_tls)
      \<lparr>pipe_in = tls_request_bytes @ cancel_bytes, pipe_out = []\<rparr> \<lparr>pipe_in = [TLS_SUPPORTED], pipe_out = []\<rparr> = Some result
    \<and> assertion_holds AssertOk result"
proof -
  let ?client = "\<lparr>pipe_in = tls_request_bytes @ cancel_bytes, pipe_out = []\<rparr> :: Pipe"
  let ?target = "\<lparr>pipe_in = [TLS_SUPPORTED], pipe_out = []\<rparr> :: Pipe"
  let ?W = "\<lambda>m. if m = Initial_message Initial.TLS then tls_request_bytes else cancel_bytes"
  let ?steps = "fst test_cancel_when_backend_accepts_tls"
  have test: "(?steps, AssertOk) \<in> set protocol_tests"
    by (simp add: protocol_tests_def test_cancel_when_backend_accepts_tls_def)
  have expect: "expected_conveyed (run_script ?steps) =
      [Initial_message Initial.TLS, Initial_message (initial_cancel 11 12)]"
    by (simp add: test_cancel_when_backend_accepts_tls_def run_script_def frontend_macro_def initial_tls_def)
  have sent: "frontend_tls_started (streams (run_script ?steps))" "backend_tls_started (streams (run_script ?steps))"
    "sent_bytes ?W Side.Frontend False (streams (run_script ?steps)) = tls_request_bytes"
    "sent_bytes ?W Side.Backend False (streams (run_script ?steps)) = [TLS_SUPPORTED]"
    "sent_bytes ?W Side.Frontend True (streams (run_script ?steps)) = cancel_bytes"
    "sent_bytes ?W Side.Backend True (streams (run_script ?steps)) = []"
    by code_simp+
  have reliable: "conveyor_reliable (client_env demo_env ()) wrap_in wrap_out wrap_in wrap_out"
    unfolding demo_env_def by (rule pipe_server_reliable.client_reliable)
  have arrives: "script_arrives (client_env demo_env ()) wrap_in wrap_in ?W (streams (run_script ?steps))
      (wrap_in (StreamWrap.Plain ?client)) (wrap_in (StreamWrap.Plain ?target))"
    unfolding script_arrives_def side_arrives_def sent
    by (auto simp: sent(1,2) wrap_in_def demo_handshakes intro!: exI)
  have wires: "list_all (\<lambda>m. message_wire m (?W m) \<and> length (?W m) < 2 ^ 32 - 1) (expected_conveyed (run_script ?steps))"
    using cancel_wire tls_request_wire by (simp add: expect initial_cancel_def)
  from protocol_scripts_carried_out [OF reliable test arrives wires] show ?thesis .
qed

text \<open>C37. Every unit test of \<open>read_msg\<close> holds, in builds with and without overflow checks.\<close>

theorem read_tests_pass: "read_tests ovf"
  by (rule all_read_tests)

end
